(* ===== verification/Slan_Prelude.thy ===== *)
theory Slan_Prelude
  imports Main "HOL-Library.Word" "HOL-Library.Char_ord" "HOL-Library.List_Lexorder"
    "HOL-Library.Finite_Map"
begin

text \<open>
  What the components share of Rust and of its standard library: results, locks, strings as
  their UTF-8 bytes (\<open>trim\<close>, \<open>split_once\<close>, \<open>str::get\<close>, \<open>parse::<iN>\<close>, \<open>to_string\<close>), the saturating
  operations on unsigned words, and the generic lemmas on them.  \<open>result_simps\<close> and
  \<open>lock_simps\<close> collect the rewrite rules the component proofs use.
\<close>

named_theorems result_simps \<open>inversion of results and of the question-mark operator\<close>
named_theorems lock_simps \<open>locks that are not poisoned\<close>
named_theorems map_simps \<open>lookups in hash maps as updates of functions\<close>
named_theorems str_simps \<open>string functions on literals\<close>

text \<open>
  A \<open>HashMap\<close> is a finite map; the order of its entries is not observable in the code modelled
  here unless a definition says so.  A socket address is only compared and copied.
\<close>

type_synonym ('k, 'v) HashMap = "('k, 'v) fmap"

type_synonym u8 = "8 word"
type_synonym u16 = "16 word"
type_synonym u32 = "32 word"
type_synonym u64 = "64 word"

datatype SocketAddr = V4 u32 u16 | V6 "128 word" u16 u32 u32

section \<open>Results and locks\<close>

text \<open>\<open>std::result::Result\<close>: the \<open>?\<close> operator is written as a \<open>case\<close>.\<close>

datatype ('a, 'e) result = Ok 'a | Err 'e

fun is_ok :: "('a, 'e) result \<Rightarrow> bool" where
  "is_ok (Ok _) = True"
| "is_ok (Err _) = False"

fun map_err :: "('e \<Rightarrow> 'f) \<Rightarrow> ('a, 'e) result \<Rightarrow> ('a, 'f) result" where
  "map_err f (Ok x) = Ok x"
| "map_err f (Err e) = Err (f e)"

fun ok_or :: "'a option \<Rightarrow> 'e \<Rightarrow> ('a, 'e) result" where
  "ok_or None e = Err e"
| "ok_or (Some x) e = Ok x"

lemma map_err_Ok_iff [simp, result_simps]: "map_err f r = Ok x \<longleftrightarrow> r = Ok x"
  by (cases r) auto

lemma map_err_Err_iff [simp, result_simps]: "map_err f r = Err e \<longleftrightarrow> (\<exists>e'. r = Err e' \<and> e = f e')"
  by (cases r) auto

lemma ok_or_Ok_iff [simp, result_simps]: "ok_or x e = Ok y \<longleftrightarrow> x = Some y"
  by (cases x) auto

lemma ok_or_Err_iff [simp, result_simps]: "ok_or x e = Err e' \<longleftrightarrow> x = None \<and> e' = e"
  by (cases x) auto

lemma is_ok_iff [result_simps]: "is_ok r \<longleftrightarrow> (\<exists>x. r = Ok x)"
  by (cases r) auto

text \<open>
  \<open>std::sync::Mutex\<close> and \<open>RwLock\<close>: the protected value, and whether a thread panicked while it
  held the lock.  Taking a poisoned lock is an error; writing back through a guard keeps the lock
  healthy.
\<close>

datatype 'a mutex = Healthy (protected: 'a) | Poisoned (protected: 'a)

fun lock :: "'a mutex \<Rightarrow> 'a option" where
  "lock (Healthy x) = Some x"
| "lock (Poisoned x) = None"

lemma lock_eq_Some [simp, lock_simps]: "lock m = Some x \<longleftrightarrow> m = Healthy x"
  by (cases m) auto

lemma lock_eq_None [lock_simps]: "lock m = None \<longleftrightarrow> (\<exists>x. m = Poisoned x)"
  by (cases m) auto

section \<open>Hash maps\<close>

lemma fmlookup_fmupd_fun [map_simps]: "fmlookup (fmupd k v m) = (fmlookup m)(k \<mapsto> v)"
  by (rule ext) simp

lemma fmlookup_fmdrop_fun [map_simps]: "fmlookup (fmdrop k m) = (fmlookup m)(k := None)"
  by (rule ext) simp

lemma fmap_eq_empty_iff [map_simps]: "m = fmempty \<longleftrightarrow> (\<forall>k. fmlookup m k = None)"
  by (auto intro: fmap_ext)

section \<open>Lists\<close>

lemma in_set_enumerate: "(j, x) \<in> set (enumerate 0 xs) \<longleftrightarrow> j < length xs \<and> x = xs ! j"
  by (auto simp: enumerate_eq_zip set_zip) (rule exI [of _ j], simp)

section \<open>Unsigned machine integers\<close>

definition saturating_add :: "'l::len word \<Rightarrow> 'l word \<Rightarrow> 'l word" where
  "saturating_add a b = (if uint a + uint b < 2 ^ LENGTH('l) then a + b else - 1)"

definition saturating_mul :: "'l::len word \<Rightarrow> 'l word \<Rightarrow> 'l word" where
  "saturating_mul a b = (if uint a * uint b < 2 ^ LENGTH('l) then a * b else - 1)"

definition saturating_sub :: "'l::len word \<Rightarrow> 'l word \<Rightarrow> 'l word" where
  "saturating_sub a b = (if b \<le> a then a - b else 0)"

lemma uint_unat_less:
  "uint a + uint b < 2 ^ LENGTH('l) \<longleftrightarrow> unat a + unat b < 2 ^ LENGTH('l)"
  "uint a * uint b < 2 ^ LENGTH('l) \<longleftrightarrow> unat a * unat b < 2 ^ LENGTH('l)" for a b :: "'l::len word"
  by (simp_all only: uint_nat of_nat_add [symmetric] of_nat_mult [symmetric]
      of_nat_less_numeral_power_cancel_iff)

lemma unat_saturating_add:
  "unat (saturating_add a b) = min (unat a + unat b) (2 ^ LENGTH('l) - 1)" for a b :: "'l::len word"
proof (cases "unat a + unat b < 2 ^ LENGTH('l)")
  case True
  then show ?thesis
    by (simp add: saturating_add_def uint_unat_less unat_word_ariths)
next
  case False
  then show ?thesis
    by (simp add: saturating_add_def uint_unat_less unsigned_minus_1_eq_mask mask_eq_exp_minus_1)
qed

lemma unat_saturating_mul:
  "unat (saturating_mul a b) = min (unat a * unat b) (2 ^ LENGTH('l) - 1)" for a b :: "'l::len word"
proof (cases "unat a * unat b < 2 ^ LENGTH('l)")
  case True
  then show ?thesis
    by (simp add: saturating_mul_def uint_unat_less unat_word_ariths)
next
  case False
  then show ?thesis
    by (simp add: saturating_mul_def uint_unat_less unsigned_minus_1_eq_mask mask_eq_exp_minus_1)
qed

lemma unat_saturating_sub: "unat (saturating_sub a b) = unat a - unat b"
  by (auto simp: saturating_sub_def unat_sub word_le_nat_alt)

section \<open>Strings\<close>

text \<open>
  A Rust \<open>str\<close> is its sequence of UTF-8 bytes, a \<open>string\<close> here (a \<open>char\<close> of HOL is a byte).
  On valid UTF-8 a match of an encoded character at the byte level is a match of the character.
\<close>

definition starts_with :: "string \<Rightarrow> string \<Rightarrow> bool" where
  "starts_with s p \<longleftrightarrow> take (length p) s = p"

definition strip_prefix :: "string \<Rightarrow> string \<Rightarrow> string option" where
  "strip_prefix s p = (if starts_with s p then Some (drop (length p) s) else None)"

lemma starts_with_append [simp]: "starts_with (p @ s) p"
  by (simp add: starts_with_def)

lemma starts_with_iff: "starts_with s p \<longleftrightarrow> (\<exists>t. s = p @ t)"
  by (auto simp: starts_with_def) (metis append_take_drop_id)

lemma strip_prefix_append [simp]: "strip_prefix (p @ s) p = Some s"
  by (simp add: strip_prefix_def)

lemma strip_prefix_Some_iff: "strip_prefix s p = Some t \<longleftrightarrow> s = p @ t"
  by (auto simp: strip_prefix_def starts_with_iff)

text \<open>The UTF-8 encodings of the characters with the Unicode property \<open>White_Space\<close>.\<close>

definition white_space :: "string list" where
  "white_space =
     [[CHR 0x20], [CHR 0x09], [CHR 0x0A], [CHR 0x0B], [CHR 0x0C], [CHR 0x0D],
      [CHR 0xC2, CHR 0x85], [CHR 0xC2, CHR 0xA0], [CHR 0xE1, CHR 0x9A, CHR 0x80],
      [CHR 0xE2, CHR 0x80, CHR 0x80], [CHR 0xE2, CHR 0x80, CHR 0x81],
      [CHR 0xE2, CHR 0x80, CHR 0x82], [CHR 0xE2, CHR 0x80, CHR 0x83],
      [CHR 0xE2, CHR 0x80, CHR 0x84], [CHR 0xE2, CHR 0x80, CHR 0x85],
      [CHR 0xE2, CHR 0x80, CHR 0x86], [CHR 0xE2, CHR 0x80, CHR 0x87],
      [CHR 0xE2, CHR 0x80, CHR 0x88], [CHR 0xE2, CHR 0x80, CHR 0x89],
      [CHR 0xE2, CHR 0x80, CHR 0x8A], [CHR 0xE2, CHR 0x80, CHR 0xA8],
      [CHR 0xE2, CHR 0x80, CHR 0xA9], [CHR 0xE2, CHR 0x80, CHR 0xAF],
      [CHR 0xE2, CHR 0x81, CHR 0x9F], [CHR 0xE3, CHR 0x80, CHR 0x80]]"

function trim_front :: "string list \<Rightarrow> string \<Rightarrow> string" where
  "trim_front ws s =
     (case find (\<lambda>w. w \<noteq> [] \<and> starts_with s w) ws of
        None \<Rightarrow> s
      | Some w \<Rightarrow> trim_front ws (drop (length w) s))"
  by pat_completeness auto
termination
proof (relation "measure (\<lambda>(ws, s). length s)")
  fix ws s w
  assume "find (\<lambda>w. w \<noteq> [] \<and> starts_with s w) ws = Some w"
  then have w: "w \<noteq> []" and "starts_with s w"
    by (auto simp: find_Some_iff)
  then have "s \<noteq> []"
    by (auto simp: starts_with_iff)
  with w show "((ws, drop (length w) s), ws, s) \<in> measure (\<lambda>(ws, s). length s)"
    by simp
qed simp

declare trim_front.simps [simp del]

definition trim :: "string \<Rightarrow> string" where
  "trim s = rev (trim_front (map rev white_space) (rev (trim_front white_space s)))"

text \<open>\<open>value.trim().is_empty()\<close>, the check that most validators use.\<close>

definition blank :: "string \<Rightarrow> bool" where
  "blank s \<longleftrightarrow> trim s = []"

lemma trim_front_id:
  assumes "\<And>w. w \<in> set ws \<Longrightarrow> w \<noteq> [] \<Longrightarrow> \<not> starts_with s w"
  shows "trim_front ws s = s"
proof -
  have "find (\<lambda>w. w \<noteq> [] \<and> starts_with s w) ws = None"
    using assms by (auto simp: find_None_iff)
  then show ?thesis
    by (simp add: trim_front.simps)
qed

lemma trim_front_Nil [simp]: "trim_front ws [] = []"
proof -
  have "find (\<lambda>w. w \<noteq> [] \<and> starts_with [] w) ws = None"
    by (auto simp: find_None_iff starts_with_iff)
  then show ?thesis
    by (simp add: trim_front.simps)
qed

lemma trim_front_suffix: "\<exists>p. s = p @ trim_front ws s"
proof (induction ws s rule: trim_front.induct)
  case (1 ws s)
  show ?case
  proof (cases "find (\<lambda>w. w \<noteq> [] \<and> starts_with s w) ws")
    case None
    then show ?thesis
      by (simp add: trim_front.simps)
  next
    case (Some w)
    with 1 obtain p where p: "drop (length w) s = p @ trim_front ws (drop (length w) s)"
      by blast
    have "s = (take (length w) s @ p) @ trim_front ws (drop (length w) s)"
      using p by (metis append.assoc append_take_drop_id)
    moreover have "trim_front ws s = trim_front ws (drop (length w) s)"
      by (subst trim_front.simps) (simp add: Some)
    ultimately show ?thesis
      by metis
  qed
qed

lemma trim_Nil [simp]: "trim [] = []"
  by (simp add: trim_def)

lemma blank_Nil [simp]: "blank []"
  by (simp add: blank_def)

lemma length_trim_le: "length (trim s) \<le> length s"
proof -
  obtain p where "s = p @ trim_front white_space s"
    using trim_front_suffix by blast
  then have 1: "length (trim_front white_space s) \<le> length s"
    by (metis length_append le_add2)
  obtain q where "rev (trim_front white_space s) = q @ trim_front (map rev white_space) (rev (trim_front white_space s))"
    using trim_front_suffix by blast
  then have "length (trim_front (map rev white_space) (rev (trim_front white_space s)))
      \<le> length (rev (trim_front white_space s))"
    by (metis length_append le_add2)
  with 1 show ?thesis
    by (simp add: trim_def)
qed

text \<open>
  A string whose first and last bytes are printable ASCII other than the space is its own
  trimming: the bytes that can start or end an encoded white-space character are control
  characters, the space, or not ASCII.
\<close>

definition visible :: "char \<Rightarrow> bool" where
  "visible c \<longleftrightarrow> 0x20 < (of_char c :: nat) \<and> (of_char c :: nat) < 0x7F"

lemma trim_id [str_simps]:
  assumes "s \<noteq> []" and "visible (hd s)" and "visible (last s)"
  shows "trim s = s"
proof -
  have ws: "\<forall>w \<in> set white_space. \<not> visible (hd w) \<and> \<not> visible (last w)"
    by (simp add: white_space_def visible_def)
  have 1: "trim_front white_space s = s"
  proof (rule trim_front_id)
    fix w assume "w \<in> set white_space" "w \<noteq> []"
    then show "\<not> starts_with s w"
      using ws assms(2) by (auto simp: starts_with_iff)
  qed
  have 2: "trim_front (map rev white_space) (rev s) = rev s"
  proof (rule trim_front_id)
    fix w assume w: "w \<in> set (map rev white_space)" "w \<noteq> []"
    show "\<not> starts_with (rev s) w"
    proof
      assume "starts_with (rev s) w"
      then obtain t where "rev s = w @ t"
        by (auto simp: starts_with_iff)
      then have "hd w = last s"
        using w(2) by (metis hd_append2 hd_rev)
      moreover obtain v where "v \<in> set white_space" "w = rev v"
        using w(1) by auto
      ultimately have "last v = last s"
        by (simp add: hd_rev)
      with ws assms(3) \<open>v \<in> set white_space\<close> show False
        by auto
    qed
  qed
  show ?thesis
    by (simp add: trim_def 1 2)
qed

lemma not_blank [str_simps]: "s \<noteq> [] \<Longrightarrow> visible (hd s) \<Longrightarrow> visible (last s) \<Longrightarrow> \<not> blank s"
  by (simp add: blank_def trim_id)


subsection \<open>Searching and splitting\<close>

fun split_once :: "string \<Rightarrow> string \<Rightarrow> (string \<times> string) option" where
  "split_once p [] = (if p = [] then Some ([], []) else None)"
| "split_once p (c # cs) =
     (if starts_with (c # cs) p then Some ([], drop (length p) (c # cs))
      else map_option (\<lambda>(a, b). (c # a, b)) (split_once p cs))"

fun contains :: "string \<Rightarrow> string \<Rightarrow> bool" where
  "contains [] p \<longleftrightarrow> p = []"
| "contains (c # cs) p \<longleftrightarrow> starts_with (c # cs) p \<or> contains cs p"

fun join :: "string \<Rightarrow> string list \<Rightarrow> string" where
  "join sep [] = []"
| "join sep [x] = x"
| "join sep (x # y # zs) = x @ sep @ join sep (y # zs)"

definition to_ascii_lowercase :: "string \<Rightarrow> string" where
  "to_ascii_lowercase s =
     map (\<lambda>c. if 65 \<le> (of_char c :: nat) \<and> (of_char c :: nat) \<le> 90
              then char_of ((of_char c :: nat) + 32) else c) s"

lemma split_once_Some:
  "split_once p s = Some (a, b) \<Longrightarrow> s = a @ p @ b"
proof (induction p s arbitrary: a b rule: split_once.induct)
  case (1 p)
  then show ?case by (simp split: if_splits)
next
  case (2 p c cs)
  then show ?case
    by (auto simp: starts_with_iff split: if_splits)
qed

lemma split_once_char:
  "c \<notin> set a \<Longrightarrow> split_once [c] (a @ c # b) = Some (a, b)"
  by (induction a) (auto simp: starts_with_def)

lemma split_once_char_None [simp]: "split_once [c] s = None \<longleftrightarrow> c \<notin> set s"
  by (induction s) (auto simp: starts_with_def)

lemma contains_iff: "contains s p \<longleftrightarrow> (\<exists>a b. s = a @ p @ b)"
proof (induction s)
  case Nil
  then show ?case by auto
next
  case (Cons c cs)
  show ?case
  proof
    assume "contains (c # cs) p"
    then consider "starts_with (c # cs) p" | "contains cs p"
      by auto
    then show "\<exists>a b. c # cs = a @ p @ b"
    proof cases
      case 1
      then show ?thesis
        by (metis append_Nil starts_with_iff)
    next
      case 2
      with Cons show ?thesis
        by (metis append_Cons)
    qed
  next
    assume "\<exists>a b. c # cs = a @ p @ b"
    then obtain a b where ab: "c # cs = a @ p @ b"
      by blast
    show "contains (c # cs) p"
    proof (cases a)
      case Nil
      with ab have "starts_with (c # cs) p"
        by (auto simp: starts_with_iff)
      then show ?thesis by simp
    next
      case (Cons d a')
      with ab have "cs = a' @ p @ b" by simp
      with Cons.IH show ?thesis by auto
    qed
  qed
qed

lemma join_Cons: "xs \<noteq> [] \<Longrightarrow> join sep (x # xs) = x @ sep @ join sep xs"
  by (cases xs) auto

lemma set_join: "set (join sep xs) \<subseteq> set sep \<union> (\<Union>x \<in> set xs. set x)"
  by (induction sep xs rule: join.induct) auto

text \<open>
  A separated list determines its elements when the separator is one byte that no element
  contains and the two lists have the same length, or are both non-empty.
\<close>

lemma append_sep_inject:
  assumes "c \<notin> set x" and "c \<notin> set y" and "x @ c # xs = y @ c # ys"
  shows "x = y \<and> xs = ys"
  using assms
proof (induction x arbitrary: y)
  case Nil
  then show ?case by (cases y) auto
next
  case (Cons a x)
  then show ?case by (cases y) auto
qed

lemma join_inject:
  assumes "xs \<noteq> []" and "ys \<noteq> []"
    and "\<And>x. x \<in> set xs \<Longrightarrow> c \<notin> set x" and "\<And>y. y \<in> set ys \<Longrightarrow> c \<notin> set y"
    and "join [c] xs = join [c] ys"
  shows "xs = ys"
  using assms
proof (induction xs arbitrary: ys)
  case Nil
  then show ?case by simp
next
  case (Cons x xs)
  obtain y ys' where ys: "ys = y # ys'"
    using Cons.prems(2) by (cases ys) auto
  have x: "c \<notin> set x" and y: "c \<notin> set y"
    using Cons.prems(3,4) ys by auto
  show ?case
  proof (cases "xs = []")
    case True
    then have "c \<notin> set (join [c] ys)"
      using Cons.prems(5) x by simp
    then have "ys' = []"
      unfolding ys by (cases ys') auto
    then show ?thesis
      using Cons.prems(5) True ys by simp
  next
    case False
    then have eq: "x @ c # join [c] xs = join [c] ys"
      using Cons.prems(5) by (simp add: join_Cons)
    have ys': "ys' \<noteq> []"
    proof
      assume "ys' = []"
      then have "c \<in> set y"
        using eq ys by (metis in_set_conv_decomp join.simps(2))
      with y show False by simp
    qed
    have "x @ c # join [c] xs = y @ c # join [c] ys'"
      using eq ys ys' by (simp add: join_Cons)
    then have "x = y" and "join [c] xs = join [c] ys'"
      using append_sep_inject [OF x y] by auto
    moreover have "xs = ys'"
      using Cons.IH [OF False ys'] Cons.prems(3,4) ys calculation(2) by simp
    ultimately show ?thesis
      using ys by simp
  qed
qed

subsection \<open>Slices\<close>

text \<open>
  \<open>str::get(a..b)\<close> is \<open>None\<close> out of range and inside an encoded character: a byte
  \<open>0x80\<close> to \<open>0xBF\<close> continues one.
\<close>

definition is_char_boundary :: "string \<Rightarrow> nat \<Rightarrow> bool" where
  "is_char_boundary s i \<longleftrightarrow>
     i = 0 \<or> i = length s \<or> (i < length s \<and> \<not> (0x80 \<le> (of_char (s ! i) :: nat) \<and> (of_char (s ! i) :: nat) < 0xC0))"

definition str_get :: "string \<Rightarrow> nat \<Rightarrow> nat \<Rightarrow> string option" where
  "str_get s a b =
     (if a \<le> b \<and> is_char_boundary s a \<and> is_char_boundary s b
      then Some (take (b - a) (drop a s)) else None)"

definition str_get_from :: "string \<Rightarrow> nat \<Rightarrow> string option" where
  "str_get_from s a = (if is_char_boundary s a then Some (drop a s) else None)"

subsection \<open>Decimal numbers\<close>

text \<open>\<open>str::parse\<close> at an integer type with the bounds \<open>lo\<close> and \<open>hi\<close>, and its error kinds.\<close>

datatype IntErrorKind = Empty | InvalidDigit | PosOverflow | NegOverflow

fun display_int_error :: "IntErrorKind \<Rightarrow> string" where
  "display_int_error Empty = ''cannot parse integer from empty string''"
| "display_int_error InvalidDigit = ''invalid digit found in string''"
| "display_int_error PosOverflow = ''number too large to fit in target type''"
| "display_int_error NegOverflow = ''number too small to fit in target type''"

definition digit_val :: "char \<Rightarrow> int option" where
  "digit_val c =
     (if 48 \<le> (of_char c :: nat) \<and> (of_char c :: nat) \<le> 57 then Some (int (of_char c) - 48) else None)"

fun parse_pos :: "int \<Rightarrow> int \<Rightarrow> string \<Rightarrow> (int, IntErrorKind) result" where
  "parse_pos hi acc [] = Ok acc"
| "parse_pos hi acc (c # cs) =
     (case digit_val c of
        None \<Rightarrow> Err InvalidDigit
      | Some d \<Rightarrow> if 10 * acc + d \<le> hi then parse_pos hi (10 * acc + d) cs else Err PosOverflow)"

fun parse_neg :: "int \<Rightarrow> int \<Rightarrow> string \<Rightarrow> (int, IntErrorKind) result" where
  "parse_neg lo acc [] = Ok acc"
| "parse_neg lo acc (c # cs) =
     (case digit_val c of
        None \<Rightarrow> Err InvalidDigit
      | Some d \<Rightarrow> if lo \<le> 10 * acc - d then parse_neg lo (10 * acc - d) cs else Err NegOverflow)"

definition parse_int :: "int \<Rightarrow> int \<Rightarrow> string \<Rightarrow> (int, IntErrorKind) result" where
  "parse_int lo hi s =
     (case s of
        [] \<Rightarrow> Err Empty
      | c # cs \<Rightarrow>
          if cs = [] \<and> (c = CHR ''+'' \<or> c = CHR ''-'') then Err InvalidDigit
          else if c = CHR ''+'' then parse_pos hi 0 cs
          else if c = CHR ''-'' \<and> lo < 0 then parse_neg lo 0 cs
          else parse_pos hi 0 s)"

definition parse_i32 :: "string \<Rightarrow> (int, IntErrorKind) result" where
  "parse_i32 = parse_int (- (2 ^ 31)) (2 ^ 31 - 1)"

definition parse_i64 :: "string \<Rightarrow> (int, IntErrorKind) result" where
  "parse_i64 = parse_int (- (2 ^ 63)) (2 ^ 63 - 1)"

definition parse_u8 :: "string \<Rightarrow> (int, IntErrorKind) result" where
  "parse_u8 = parse_int 0 (2 ^ 8 - 1)"

definition parse_u16 :: "string \<Rightarrow> (int, IntErrorKind) result" where
  "parse_u16 = parse_int 0 (2 ^ 16 - 1)"

definition parse_u32 :: "string \<Rightarrow> (int, IntErrorKind) result" where
  "parse_u32 = parse_int 0 (2 ^ 32 - 1)"

lemma digit_val_bounds: "digit_val c = Some d \<Longrightarrow> 0 \<le> d \<and> d \<le> 9"
  by (auto simp: digit_val_def split: if_splits)

lemma parse_pos_bounds:
  "parse_pos hi acc s = Ok n \<Longrightarrow> 0 \<le> acc \<Longrightarrow> acc \<le> hi \<Longrightarrow> 0 \<le> n \<and> n \<le> hi"
proof (induction hi acc s rule: parse_pos.induct)
  case (2 hi acc c cs)
  then show ?case
    by (auto split: option.splits if_splits dest: digit_val_bounds)
qed simp

lemma parse_neg_bounds:
  "parse_neg lo acc s = Ok n \<Longrightarrow> acc \<le> 0 \<Longrightarrow> lo \<le> acc \<Longrightarrow> n \<le> 0 \<and> lo \<le> n"
proof (induction lo acc s rule: parse_neg.induct)
  case (2 lo acc c cs)
  then show ?case
    by (auto split: option.splits if_splits dest: digit_val_bounds)
qed simp

lemma parse_int_bounds:
  assumes "parse_int lo hi s = Ok n" and "lo \<le> 0" and "0 \<le> hi"
  shows "lo \<le> n \<and> n \<le> hi"
proof (cases s)
  case Nil
  with assms show ?thesis by (simp add: parse_int_def)
next
  case (Cons c cs)
  with assms show ?thesis
    using parse_pos_bounds [of hi 0 cs n] parse_pos_bounds [of hi 0 s n] parse_neg_bounds [of lo 0 cs n]
    by (auto simp: parse_int_def split: if_splits)
qed

text \<open>\<open>to_string\<close> of an unsigned integer.\<close>

fun show_nat :: "nat \<Rightarrow> string" where
  "show_nat n = (if n < 10 then [char_of (48 + n)] else show_nat (n div 10) @ [char_of (48 + n mod 10)])"

declare show_nat.simps [simp del]

lemma digit_val_char_of: "n < 10 \<Longrightarrow> digit_val (char_of (48 + n)) = Some (int n)"
  by (simp add: digit_val_def)

lemma show_nat_not_Nil [simp]: "show_nat n \<noteq> []"
  by (subst show_nat.simps) simp

lemma parse_pos_append:
  "parse_pos hi acc (s @ t) =
     (case parse_pos hi acc s of Err e \<Rightarrow> Err e | Ok n \<Rightarrow> parse_pos hi n t)"
  by (induction hi acc s rule: parse_pos.induct) (auto split: option.splits)

lemma parse_pos_show_nat: "int n \<le> hi \<Longrightarrow> parse_pos hi 0 (show_nat n) = Ok (int n)"
proof (induction n rule: show_nat.induct)
  case (1 n)
  show ?case
  proof (cases "n < 10")
    case True
    with 1 show ?thesis
      by (simp add: show_nat.simps [of n] digit_val_char_of)
  next
    case False
    have "int (n div 10) \<le> hi"
      using 1(2) by linarith
    with 1(1) False have "parse_pos hi 0 (show_nat (n div 10)) = Ok (int (n div 10))"
      by blast
    moreover have "10 * int (n div 10) + int (n mod 10) = int n"
      by presburger
    ultimately show ?thesis
      using False 1(2) by (simp add: show_nat.simps [of n] parse_pos_append digit_val_char_of del: of_nat_div of_nat_mod)
  qed
qed

lemma show_nat_digits: "c \<in> set (show_nat n) \<Longrightarrow> digit_val c \<noteq> None"
proof (induction n rule: show_nat.induct)
  case (1 n)
  then show ?case
    by (auto simp: show_nat.simps [of n] digit_val_char_of split: if_splits)
qed

text \<open>Printing and then parsing an unsigned integer gives it back, at any type it fits.\<close>

lemma parse_int_show_nat:
  assumes "int n \<le> hi"
  shows "parse_int lo hi (show_nat n) = Ok (int n)"
proof -
  obtain c cs where s: "show_nat n = c # cs"
    by (cases "show_nat n") auto
  then have "digit_val c \<noteq> None"
    using show_nat_digits by (metis list.set_intros(1))
  then have "c \<noteq> CHR ''+''" and "c \<noteq> CHR ''-''"
    by (auto simp: digit_val_def)
  then have "parse_int lo hi (show_nat n) = parse_pos hi 0 (show_nat n)"
    by (simp add: parse_int_def s)
  with parse_pos_show_nat [OF assms] show ?thesis by simp
qed

end
