(* ===== verification/Relay_Core.thy ===== *)
theory Relay_Core
  imports Slan_Prelude "HOL-Library.Signed_Division" "HOL-Library.Multiset"
begin

text \<open>
  The domain layer of the relay server, crate \<open>relay-core\<close>: its error type, the relay session and
  its participants, the ticket signed by the control plane with its signing payload and expiry
  check, and the parser of unix and RFC 3339 timestamps.  Integers of the time code are \<open>int\<close>: a year
  has four characters, so the \<open>i32\<close> arithmetic of \<open>days_from_civil\<close> stays within its type
  (\<open>days_from_civil_bounds\<close>), and \<open>parse_rfc3339_fits\<close> bounds the \<open>i64\<close> result.
\<close>

section \<open>Errors\<close>

datatype RelayError =
    InvalidTicket
  | InvalidSignature
  | InvalidTimestamp
  | TicketExpired
  | SessionNotFound
  | SessionAlreadyExists
  | UnauthorizedPeer
  | EmptyPayload
  | ClockSkew
  | Store string

fun display_relay_error :: "RelayError \<Rightarrow> string" where
  "display_relay_error InvalidTicket = ''invalid relay ticket''"
| "display_relay_error InvalidSignature = ''invalid relay ticket signature''"
| "display_relay_error InvalidTimestamp = ''invalid timestamp''"
| "display_relay_error TicketExpired = ''relay ticket expired''"
| "display_relay_error SessionNotFound = ''relay session not found''"
| "display_relay_error SessionAlreadyExists = ''relay session already exists''"
| "display_relay_error UnauthorizedPeer = ''device is not a participant of the relay session''"
| "display_relay_error EmptyPayload = ''relay payload is empty''"
| "display_relay_error ClockSkew = ''system clock is before unix epoch''"
| "display_relay_error (Store message) = ''session store error: '' @ message"

section \<open>Sessions\<close>

record RelaySession =
  session_id :: string
  source_device_id :: string
  target_device_id :: string
  network_id :: string

definition participants :: "RelaySession \<Rightarrow> string list" where
  "participants s = [source_device_id s, target_device_id s]"

definition involves :: "RelaySession \<Rightarrow> string \<Rightarrow> bool" where
  "involves s device_id \<longleftrightarrow> source_device_id s = device_id \<or> target_device_id s = device_id"

definition peer_of :: "RelaySession \<Rightarrow> string \<Rightarrow> (string, RelayError) result" where
  "peer_of s device_id =
     (if source_device_id s = device_id then Ok (target_device_id s)
      else if target_device_id s = device_id then Ok (source_device_id s)
      else Err UnauthorizedPeer)"

section \<open>Timestamps\<close>

definition days_from_civil :: "int \<Rightarrow> int \<Rightarrow> int \<Rightarrow> int option" where
  "days_from_civil year month day =
     (if \<not> (1 \<le> month \<and> month \<le> 12) \<or> \<not> (1 \<le> day \<and> day \<le> 31) then None
      else
        let year = year - (if month \<le> 2 then 1 else 0);
            era = (if year \<ge> 0 then year else year - 399) sdiv 400;
            yoe = year - era * 400;
            doy = (153 * (month + (if month > 2 then - 3 else 9)) + 2) sdiv 5 + day - 1;
            doe = yoe * 365 + yoe sdiv 4 - yoe sdiv 100 + doy
        in Some (era * 146097 + doe - 719468))"

definition parse_field :: "(string \<Rightarrow> (int, IntErrorKind) result) \<Rightarrow> string option \<Rightarrow> int option" where
  "parse_field parser s =
     (case s of None \<Rightarrow> None | Some t \<Rightarrow> (case parser t of Ok n \<Rightarrow> Some n | Err _ \<Rightarrow> None))"

definition parse_offset :: "string \<Rightarrow> int option" where
  "parse_offset rest =
     (case rest of
        [] \<Rightarrow> None
      | c # _ \<Rightarrow>
          if c = CHR ''Z'' then Some 0
          else if c = CHR ''+'' \<or> c = CHR ''-'' then
            (if length rest \<noteq> 6 then None
             else
               let sign = (if c = CHR ''+'' then 1 else - 1)
               in case parse_field parse_i64 (str_get rest 1 3) of
                    None \<Rightarrow> None
                  | Some offset_hour \<Rightarrow>
                      (case parse_field parse_i64 (str_get rest 4 6) of
                         None \<Rightarrow> None
                       | Some offset_minute \<Rightarrow> Some (sign * (offset_hour * 3600 + offset_minute * 60))))
          else None)"

definition parse_rfc3339 :: "string \<Rightarrow> int option" where
  "parse_rfc3339 raw =
     (if length raw < 20 then None
      else case parse_field parse_i32 (str_get raw 0 4) of None \<Rightarrow> None
      | Some year \<Rightarrow> (case parse_field parse_u32 (str_get raw 5 7) of None \<Rightarrow> None
      | Some month \<Rightarrow> (case parse_field parse_u32 (str_get raw 8 10) of None \<Rightarrow> None
      | Some day \<Rightarrow> (case parse_field parse_u32 (str_get raw 11 13) of None \<Rightarrow> None
      | Some hour \<Rightarrow> (case parse_field parse_u32 (str_get raw 14 16) of None \<Rightarrow> None
      | Some minute \<Rightarrow> (case parse_field parse_u32 (str_get raw 17 19) of None \<Rightarrow> None
      | Some second \<Rightarrow> (case str_get_from raw 19 of None \<Rightarrow> None
      | Some rest \<Rightarrow> (case parse_offset rest of None \<Rightarrow> None
      | Some offset_seconds \<Rightarrow> (case days_from_civil year month day of None \<Rightarrow> None
      | Some days \<Rightarrow>
          Some (days * 86400 + hour * 3600 + minute * 60 + second - offset_seconds))))))))))"

definition parse_timestamp :: "string \<Rightarrow> (int, RelayError) result" where
  "parse_timestamp raw =
     (let raw = trim raw
      in if raw = [] then Err InvalidTimestamp
         else case parse_i64 raw of
                Ok seconds \<Rightarrow> Ok seconds
              | Err _ \<Rightarrow> ok_or (parse_rfc3339 raw) InvalidTimestamp)"

section \<open>Tickets\<close>

record RelayTicket =
  ticket_id :: string
  network_id :: string
  session_id :: string
  src_node_id :: string
  dst_node_id :: string
  derp_cluster_id :: "string option"
  country_code :: "string option"
  city_code :: "string option"
  allowed_derp_node_ids :: "string list"
  relay_url :: string
  expires_at :: string
  session_key :: string
  signature :: string

definition is_expired_at :: "RelayTicket \<Rightarrow> int \<Rightarrow> (bool, RelayError) result" where
  "is_expired_at t now_epoch_seconds =
     (case parse_timestamp (expires_at t) of
        Err e \<Rightarrow> Err e
      | Ok expires \<Rightarrow> Ok (now_epoch_seconds \<ge> expires))"

text \<open>
  The system clock is a parameter: whole seconds since the unix epoch, negative before it.
  \<open>as i64\<close> reinterprets the unsigned count of seconds.
\<close>

definition as_i64 :: "int \<Rightarrow> int" where
  "as_i64 n = (n + 2 ^ 63) mod 2 ^ 64 - 2 ^ 63"

definition is_expired :: "int \<Rightarrow> RelayTicket \<Rightarrow> (bool, RelayError) result" where
  "is_expired clock t = (if clock < 0 then Err ClockSkew else is_expired_at t (as_i64 clock))"

definition signing_payload :: "RelayTicket \<Rightarrow> string" where
  "signing_payload t =
     join ''|''
       [ticket_id t, RelayTicket.network_id t, RelayTicket.session_id t, src_node_id t, dst_node_id t,
        case_option [] id (derp_cluster_id t), case_option [] id (country_code t),
        case_option [] id (city_code t), join '','' (sort (allowed_derp_node_ids t)),
        relay_url t, expires_at t, session_key t]"

section \<open>Reference notions\<close>

text \<open>The proleptic Gregorian calendar, the reference for \<open>days_from_civil\<close>.\<close>

definition leap_year :: "int \<Rightarrow> bool" where
  "leap_year y \<longleftrightarrow> (4 dvd y \<and> \<not> 100 dvd y) \<or> 400 dvd y"

definition days_in_month :: "int \<Rightarrow> int \<Rightarrow> int" where
  "days_in_month y m =
     (if m = 2 then (if leap_year y then 29 else 28)
      else if m = 4 \<or> m = 6 \<or> m = 9 \<or> m = 11 then 30 else 31)"

definition valid_date :: "int \<Rightarrow> int \<Rightarrow> int \<Rightarrow> bool" where
  "valid_date y m d \<longleftrightarrow> 1 \<le> m \<and> m \<le> 12 \<and> 1 \<le> d \<and> d \<le> days_in_month y m"

definition next_day :: "int \<Rightarrow> int \<Rightarrow> int \<Rightarrow> int \<times> int \<times> int" where
  "next_day y m d =
     (if d < days_in_month y m then (y, m, d + 1)
      else if m < 12 then (y, m + 1, 1) else (y + 1, 1, 1))"

definition days_in_year :: "int \<Rightarrow> int" where
  "days_in_year y = (if leap_year y then 366 else 365)"

text \<open>The days from 1970-01-01 to a date, counted by years, months and days.\<close>

definition civil_days :: "int \<Rightarrow> int \<Rightarrow> int \<Rightarrow> int" where
  "civil_days y m d =
     (\<Sum>k \<in> {1970..<y}. days_in_year k) - (\<Sum>k \<in> {y..<1970}. days_in_year k)
     + (\<Sum>k \<in> {1..<m}. days_in_month y k) + d - 1"

definition year_days :: "int \<Rightarrow> int" where
  "year_days y = 365 * y + y div 4 - y div 100 + y div 400"

text \<open>The printer that \<open>parse_timestamp\<close> is checked against.\<close>

definition two_digits :: "nat \<Rightarrow> string" where
  "two_digits n = [char_of (48 + n div 10), char_of (48 + n mod 10)]"

definition four_digits :: "nat \<Rightarrow> string" where
  "four_digits n = two_digits (n div 100) @ two_digits (n mod 100)"

datatype zone = Utc | Ahead nat nat | Behind nat nat

fun zone_text :: "zone \<Rightarrow> string" where
  "zone_text Utc = ''Z''"
| "zone_text (Ahead h m) = ''+'' @ two_digits h @ '':'' @ two_digits m"
| "zone_text (Behind h m) = ''-'' @ two_digits h @ '':'' @ two_digits m"

fun zone_seconds :: "zone \<Rightarrow> int" where
  "zone_seconds Utc = 0"
| "zone_seconds (Ahead h m) = int h * 3600 + int m * 60"
| "zone_seconds (Behind h m) = - (int h * 3600 + int m * 60)"

fun valid_zone :: "zone \<Rightarrow> bool" where
  "valid_zone Utc \<longleftrightarrow> True"
| "valid_zone (Ahead h m) \<longleftrightarrow> h < 24 \<and> m < 60"
| "valid_zone (Behind h m) \<longleftrightarrow> h < 24 \<and> m < 60"

definition format_rfc3339 :: "nat \<Rightarrow> nat \<Rightarrow> nat \<Rightarrow> nat \<Rightarrow> nat \<Rightarrow> nat \<Rightarrow> zone \<Rightarrow> string" where
  "format_rfc3339 y mo d h mi s z =
     four_digits y @ ''-'' @ two_digits mo @ ''-'' @ two_digits d @ ''T'' @
     two_digits h @ '':'' @ two_digits mi @ '':'' @ two_digits s @ zone_text z"

text \<open>The twelve signed fields, and the tickets whose fields keep clear of the separators.\<close>

definition signed_fields :: "RelayTicket \<Rightarrow> string list" where
  "signed_fields t =
     [ticket_id t, RelayTicket.network_id t, RelayTicket.session_id t, src_node_id t, dst_node_id t,
      case_option [] id (derp_cluster_id t), case_option [] id (country_code t),
      case_option [] id (city_code t), join '','' (sort (allowed_derp_node_ids t)),
      relay_url t, expires_at t, session_key t]"

definition bar_free :: "RelayTicket \<Rightarrow> bool" where
  "bar_free t \<longleftrightarrow> (\<forall>f \<in> set (signed_fields t). CHR ''|'' \<notin> set f)"

definition separator_free :: "RelayTicket \<Rightarrow> bool" where
  "separator_free t \<longleftrightarrow>
     bar_free t \<and>
     (\<forall>i \<in> set (allowed_derp_node_ids t). i \<noteq> [] \<and> CHR '','' \<notin> set i)"

text \<open>A ticket for the witnesses.\<close>

definition demo_ticket :: RelayTicket where
  "demo_ticket = \<lparr>ticket_id = ''t1'', network_id = ''n1'', session_id = ''s1'', src_node_id = ''a'',
     dst_node_id = ''b'', derp_cluster_id = None, country_code = None, city_code = None,
     allowed_derp_node_ids = [''d2'', ''d1''], relay_url = ''udp://relay'', expires_at = ''100'',
     session_key = ''k'', signature = ''''\<rparr>"

section \<open>Sessions and their participants\<close>

lemma involves_iff: "involves s d \<longleftrightarrow> d \<in> set (participants s)"
  by (auto simp: involves_def participants_def)

lemma peer_of_Ok_iff: "(\<exists>p. peer_of s d = Ok p) \<longleftrightarrow> involves s d"
  by (auto simp: peer_of_def involves_def)

lemma peer_of_involves: "peer_of s d = Ok p \<Longrightarrow> involves s d \<and> involves s p"
  by (auto simp: peer_of_def involves_def split: if_splits)

lemma peer_of_Err: "peer_of s d = Err e \<Longrightarrow> e = UnauthorizedPeer \<and> \<not> involves s d"
  by (auto simp: peer_of_def involves_def split: if_splits)

text \<open>The peer relation is symmetric as long as the two devices of the session differ.\<close>

lemma peer_of_peer:
  "peer_of s d = Ok p \<Longrightarrow> source_device_id s \<noteq> target_device_id s \<Longrightarrow> p \<noteq> d \<and> peer_of s p = Ok d"
  by (auto simp: peer_of_def split: if_splits)

section \<open>Calendar arithmetic\<close>

lemma era_floor: "(if y \<ge> 0 then y else y - 399) sdiv 400 = y div 400" for y :: int
  by (auto simp: signed_divide_int_def sgn_if)

lemma sdiv_nonneg: "0 \<le> (a::int) \<Longrightarrow> 0 < b \<Longrightarrow> a sdiv b = a div b"
  by (auto simp: signed_divide_int_def sgn_if)

lemma year_days_era:
  "y div 400 * 146097 + (y mod 400 * 365 + y mod 400 div 4 - y mod 400 div 100) = year_days y"
proof -
  define e where "e = y div 400"
  define r where "r = y mod 400"
  have y: "y = 400 * e + r" and r: "0 \<le> r" "r < 400"
    by (simp_all add: e_def r_def)
  have "(400 * e + r) div 4 = 100 * e + r div 4"
    by (rule int_div_pos_eq [where r = "r mod 4"]) simp_all
  moreover have "(400 * e + r) div 100 = 4 * e + r div 100"
    by (rule int_div_pos_eq [where r = "r mod 100"]) simp_all
  ultimately show ?thesis
    by (simp add: year_days_def flip: e_def r_def) (simp add: y)
qed

lemma days_from_civil_closed:
  assumes "1 \<le> month" "month \<le> 12" "1 \<le> day" "day \<le> 31"
  shows "days_from_civil year month day =
    Some (year_days (if month \<le> 2 then year - 1 else year)
      + (153 * (if month \<le> 2 then month + 9 else month - 3) + 2) div 5 + day - 719469)"
proof -
  define y where "y = year - (if month \<le> 2 then 1 else 0)"
  have y_mod: "y - y div 400 * 400 = y mod 400"
    by (simp add: minus_div_mult_eq_mod)
  have mp: "month + (if month > 2 then - 3 else 9) = (if month \<le> 2 then month + 9 else month - 3)"
    by simp
  have "0 \<le> 153 * (if month \<le> 2 then month + 9 else month - 3) + 2"
    using assms by simp
  then have "days_from_civil year month day =
      Some (y div 400 * 146097 + (y mod 400 * 365 + y mod 400 div 4 - y mod 400 div 100
        + ((153 * (if month \<le> 2 then month + 9 else month - 3) + 2) div 5 + day - 1)) - 719468)"
    using assms
    unfolding days_from_civil_def Let_def y_def [symmetric] era_floor y_mod mp
    by (simp add: sdiv_nonneg)
  moreover have "y = (if month \<le> 2 then year - 1 else year)"
    by (simp add: y_def)
  moreover have "a + (b + (c + day - 1)) - 719468 = Y + c + day - 719469" if "a + b = Y" for a b c Y
    using that by simp
  ultimately show ?thesis
    by (simp only: year_days_era)
qed

lemma div_step:
  fixes y n :: int
  assumes "0 < n"
  shows "y div n = (y - 1) div n + (if n dvd y then 1 else 0)"
proof (cases "n dvd y")
  case True
  then obtain k where k: "y = n * k" by blast
  have "(y - 1) div n = k - 1"
    by (rule int_div_pos_eq [where r = "n - 1"]) (use assms k in \<open>auto simp: algebra_simps\<close>)
  then show ?thesis
    using assms k by simp
next
  case False
  have "(y - 1) div n = y div n"
  proof (rule int_div_pos_eq [where r = "y mod n - 1"])
    show "y - 1 = n * (y div n) + (y mod n - 1)" by simp
    show "0 \<le> y mod n - 1"
      using False assms by (simp add: dvd_eq_mod_eq_0 order.strict_iff_order)
    show "y mod n - 1 < n"
      using assms by (smt (verit) pos_mod_bound)
  qed
  with False show ?thesis by simp
qed

lemma leap_sum:
  fixes a b c a' b' c' y :: int
  assumes "a = a' + (if A then 1 else 0)" "b = b' + (if B then 1 else 0)" "c = c' + (if C then 1 else 0)"
    and "C \<Longrightarrow> B" "B \<Longrightarrow> A"
  shows "365 * y + a - b + c = 365 * (y - 1) + a' - b' + c' + (if (A \<and> \<not> B) \<or> C then 366 else 365)"
  using assms by auto

lemma year_days_step: "year_days y = year_days (y - 1) + (if leap_year y then 366 else 365)"
proof -
  have "400 dvd y \<Longrightarrow> 100 dvd y" "100 dvd y \<Longrightarrow> 4 dvd y"
    using dvd_trans [of 100 400 y] dvd_trans [of 4 100 y] by simp_all
  then show ?thesis
    unfolding year_days_def leap_year_def
    by (intro leap_sum div_step) simp_all
qed

lemma month_cases:
  fixes m :: int
  assumes "1 \<le> m" "m \<le> 12"
  obtains "m = 1" | "m = 2" | "m = 3" | "m = 4" | "m = 5" | "m = 6"
    | "m = 7" | "m = 8" | "m = 9" | "m = 10" | "m = 11" | "m = 12"
  using assms by (smt (verit))

lemma days_in_month_le: "days_in_month y m \<le> 31"
  by (simp add: days_in_month_def)

text \<open>
  C10: on the proleptic Gregorian calendar, \<open>days_from_civil\<close> of the day after a valid date is one
  more than \<open>days_from_civil\<close> of the date: month lengths, leap years, centuries and eras are
  counted right.
\<close>

theorem days_from_civil_next_day:
  assumes "valid_date y m d" and "next_day y m d = (y', m', d')"
  shows "days_from_civil y' m' d' = map_option (\<lambda>n. n + 1) (days_from_civil y m d)"
proof -
  have m: "1 \<le> m" "m \<le> 12" and d: "1 \<le> d" "d \<le> 31"
    using assms(1) days_in_month_le [of y m] by (auto simp: valid_date_def)
  show ?thesis
  proof (cases "d < days_in_month y m")
    case True
    then have "y' = y" "m' = m" "d' = d + 1"
      using assms(2) by (auto simp: next_day_def)
    moreover have "d + 1 \<le> 31"
      using True days_in_month_le [of y m] by simp
    ultimately show ?thesis
      using m d by (simp add: days_from_civil_closed)
  next
    case False
    then have last: "d = days_in_month y m"
      using assms(1) by (simp add: valid_date_def)
    from m show ?thesis
      using assms(2) last year_days_step [of y] d
      by (cases rule: month_cases)
        (auto simp: next_day_def days_from_civil_closed days_in_month_def split: if_splits)
  qed
qed

theorem days_from_civil_next_day_witness:
  "valid_date 2024 2 29 \<and> days_from_civil 2024 3 1 = map_option (\<lambda>n. n + 1) (days_from_civil 2024 2 29)"
proof -
  have 1: "valid_date 2024 2 29" and 2: "next_day 2024 2 29 = (2024, 3, 1)"
    by code_simp+
  show ?thesis
    using days_from_civil_next_day [OF 1 2] 1 by simp
qed

lemma days_from_civil_epoch: "days_from_civil 1970 1 1 = Some 0"
  by (simp add: days_from_civil_def signed_divide_int_def Let_def)

lemma digit_char_neq:
  fixes n :: nat
  assumes "n < 10"
  shows "char_of (48 + n) \<noteq> CHR ''+''" and "char_of (48 + n) \<noteq> CHR ''-''"
proof -
  have "digit_val (char_of (48 + n)) \<noteq> None"
    using digit_val_char_of [OF assms] by simp
  moreover have "digit_val (CHR ''+'') = None" "digit_val (CHR ''-'') = None"
    by (simp_all add: digit_val_def)
  ultimately show "char_of (48 + n) \<noteq> CHR ''+''" "char_of (48 + n) \<noteq> CHR ''-''"
    by metis+
qed

lemma parse_pos_two_digits:
  assumes "n < 100" and "0 \<le> acc" and "100 * acc + 99 \<le> hi"
  shows "parse_pos hi acc (two_digits n) = Ok (100 * acc + int n)"
proof -
  define a b where "a = n div 10" and "b = n mod 10"
  have ab: "n = 10 * a + b" "a < 10" "b < 10"
    using assms(1) by (auto simp: a_def b_def)
  have "digit_val (char_of (48 + a)) = Some (int a)" "digit_val (char_of (48 + b)) = Some (int b)"
    using ab(2,3) by (blast intro: digit_val_char_of)+
  moreover have "10 * (10 * acc + int a) + int b \<le> 100 * acc + 99"
    using ab by simp
  then have "10 * acc + int a \<le> hi" "10 * (10 * acc + int a) + int b \<le> hi"
    using assms ab by linarith+
  ultimately show ?thesis
    by (simp add: two_digits_def flip: a_def b_def) (simp add: ab(1))
qed

lemma parse_int_digit:
  fixes n :: nat
  assumes "n < 10"
  shows "parse_int lo hi (char_of (48 + n) # c # s) = parse_pos hi 0 (char_of (48 + n) # c # s)"
  using digit_char_neq [OF assms] by (simp add: parse_int_def)

lemma parse_int_two_digits:
  assumes "n < 100" and "99 \<le> hi"
  shows "parse_int lo hi (two_digits n) = Ok (int n)"
  using parse_pos_two_digits [OF assms(1), of 0 hi] assms parse_int_digit [of "n div 10"]
  by (simp add: two_digits_def del: parse_pos.simps)

lemma parse_int_four_digits_append:
  assumes "n < 10000" and "9999 \<le> hi"
  shows "parse_int lo hi (four_digits n @ t) = parse_pos hi (int n) t"
proof -
  define a b where "a = n div 100" and "b = n mod 100"
  have ab: "n = 100 * a + b" "a < 100" "b < 100"
    using assms(1) by (auto simp: a_def b_def)
  have a_le: "100 * int a + 99 \<le> hi"
    using ab(2) assms(2) by linarith
  have "parse_pos hi 0 (two_digits a @ two_digits b) = Ok (int n)"
    using ab assms parse_pos_two_digits [of a 0 hi] parse_pos_two_digits [of b "int a" hi] a_le
    by (simp add: parse_pos_append del: parse_pos.simps)
  moreover have "a div 10 < 10"
    using ab by simp
  ultimately show ?thesis
    using parse_int_digit [of "a div 10"] parse_pos_append [of hi 0 "four_digits n" t]
    by (simp add: four_digits_def two_digits_def [of a] del: parse_pos.simps flip: a_def b_def)
qed

lemma parse_int_four_digits:
  assumes "n < 10000" and "9999 \<le> hi"
  shows "parse_int lo hi (four_digits n) = Ok (int n)"
  using parse_int_four_digits_append [OF assms, of lo "[]"] by simp

text \<open>The closed form agrees with counting years and months.\<close>

lemma years_counted:
  "(\<Sum>k \<in> {1970..<y}. days_in_year k) - (\<Sum>k \<in> {y..<1970}. days_in_year k) = year_days (y - 1) - year_days 1969"
proof (cases "1970 \<le> y")
  case True
  then show ?thesis
  proof (induction y rule: int_ge_induct)
    case (step i)
    then have "{1970..<i + 1} = insert i {1970..<i}" by auto
    with step show ?case
      using year_days_step [of i] by (simp add: days_in_year_def)
  qed simp
next
  case False
  then have "y \<le> 1970" by simp
  then show ?thesis
  proof (induction y rule: int_le_induct)
    case (step i)
    then have "{i - 1..<1970} = insert (i - 1) {i..<1970}" by auto
    with step show ?case
      using year_days_step [of "i - 1"] by (simp add: days_in_year_def)
  qed simp
qed

lemma sum_int_from: "(\<Sum>k \<in> {a..<b}. f k) = (if a < b then f a + (\<Sum>k \<in> {a + 1..<b}. f k) else 0)"
  for a b :: int and f :: "int \<Rightarrow> int"
proof (cases "a < b")
  case True
  then have "{a..<b} = insert a {a + 1..<b}" by auto
  with True show ?thesis by simp
qed simp

lemma days_from_civil_counts:
  assumes "valid_date y m d"
  shows "days_from_civil y m d = Some (civil_days y m d)"
proof -
  have m: "1 \<le> m" "m \<le> 12" and d: "1 \<le> d" "d \<le> 31"
    using assms days_in_month_le [of y m] by (auto simp: valid_date_def)
  have "year_days 1969 = 719162"
    by (simp add: year_days_def)
  with m show ?thesis
    unfolding days_from_civil_closed [OF m d] civil_days_def years_counted
    using year_days_step [of y]
    by (cases rule: month_cases) (simp_all add: sum_int_from days_in_month_def)
qed

lemma parse_offset_text:
  assumes "h < 24" "m < 60" "c = CHR ''+'' \<or> c = CHR ''-''"
  shows "parse_offset (c # two_digits h @ '':'' @ two_digits m) =
    Some ((if c = CHR ''+'' then 1 else - 1) * (int h * 3600 + int m * 60))"
proof -
  let ?t = "c # two_digits h @ '':'' @ two_digits m"
  have get: "str_get ?t 1 3 = Some (two_digits h)" "str_get ?t 4 6 = Some (two_digits m)"
    using assms by (auto simp: str_get_def is_char_boundary_def two_digits_def)
  have "parse_i64 (two_digits h) = Ok (int h)" "parse_i64 (two_digits m) = Ok (int m)"
    using assms by (simp_all add: parse_i64_def parse_int_two_digits)
  moreover have "length ?t = 6"
    by (simp add: two_digits_def)
  ultimately show ?thesis
    using assms(3) get by (auto simp: parse_offset_def parse_field_def)
qed

lemma parse_offset_zone: "valid_zone z \<Longrightarrow> parse_offset (zone_text z) = Some (zone_seconds z)"
  using parse_offset_text [of _ _ "CHR ''+''"] parse_offset_text [of _ _ "CHR ''-''"]
  by (cases z) (simp_all add: parse_offset_def)

text \<open>
  C11: the text of a date of the Gregorian calendar and a time of day, in UTC or with an offset from it, is
  read by \<open>parse_timestamp\<close> as the seconds since 1970-01-01T00:00:00Z, counted on the calendar.
\<close>

theorem parse_timestamp_rfc3339:
  assumes "valid_date (int y) (int mo) (int d)" "y < 10000" "h < 24" "mi < 60" "s < 60" "valid_zone z"
  shows "parse_timestamp (format_rfc3339 y mo d h mi s z) =
    Ok (civil_days (int y) (int mo) (int d) * 86400 + int h * 3600 + int mi * 60 + int s - zone_seconds z)"
proof -
  let ?f = "format_rfc3339 y mo d h mi s z"
  have md: "mo < 100" "d < 100"
    using assms(1) days_in_month_le [of "int y" "int mo"] by (auto simp: valid_date_def)
  have len: "20 \<le> length ?f"
    by (cases z) (simp_all add: format_rfc3339_def four_digits_def two_digits_def)
  have get: "str_get ?f 0 4 = Some (four_digits y)" "str_get ?f 5 7 = Some (two_digits mo)"
      "str_get ?f 8 10 = Some (two_digits d)" "str_get ?f 11 13 = Some (two_digits h)"
      "str_get ?f 14 16 = Some (two_digits mi)" "str_get ?f 17 19 = Some (two_digits s)"
      "str_get_from ?f 19 = Some (zone_text z)"
    using assms md len
    by (cases z; simp add: str_get_def str_get_from_def is_char_boundary_def format_rfc3339_def
        four_digits_def two_digits_def)+
  have "trim ?f = ?f"
  proof (rule trim_id)
    show "?f \<noteq> []" using len by auto
    show "visible (hd ?f)"
      using assms(2) by (simp add: format_rfc3339_def four_digits_def two_digits_def visible_def)
    show "visible (last ?f)"
      using assms(6) by (cases z) (simp_all add: format_rfc3339_def two_digits_def visible_def)
  qed
  moreover have "parse_i64 ?f = Err InvalidDigit"
    using assms(2)
    by (simp add: format_rfc3339_def parse_i64_def parse_int_four_digits_append digit_val_def)
  moreover have "parse_rfc3339 ?f =
      Some (civil_days (int y) (int mo) (int d) * 86400 + int h * 3600 + int mi * 60 + int s - zone_seconds z)"
    using assms md len by (simp add: parse_rfc3339_def get parse_field_def parse_i32_def parse_u32_def parse_int_two_digits
      parse_int_four_digits parse_offset_zone days_from_civil_counts)
  ultimately show ?thesis
    using len by (auto simp: parse_timestamp_def Let_def)
qed

theorem parse_timestamp_rfc3339_witness:
  "parse_timestamp ''1972-03-01T08:05:09+02:30'' = Ok (790 * 86400 + 8 * 3600 + 5 * 60 + 9 - 9000)"
proof -
  have "format_rfc3339 1972 3 1 8 5 9 (Ahead 2 30) = ''1972-03-01T08:05:09+02:30''"
    by code_simp
  moreover have "civil_days 1972 3 1 = 790"
    by (simp add: civil_days_def sum_int_from days_in_year_def days_in_month_def leap_year_def)
  moreover have "valid_date 1972 3 1"
    by (simp add: valid_date_def days_in_month_def)
  ultimately show ?thesis
    using parse_timestamp_rfc3339 [of 1972 3 1 8 5 9 "Ahead 2 30"] by simp
qed

text \<open>
  Nothing checks that the day exists or that the time is one of a day, and a time with a fraction of a second is
  refused.
\<close>

lemma impossible_time_accepted: "parse_timestamp ''2026-02-31T99:99:99Z'' = Ok 1772858439"
  by code_simp

lemma fraction_refused: "parse_timestamp ''2026-03-01T08:05:09.5Z'' = Err InvalidTimestamp"
  by code_simp

section \<open>Ranges of the parsed numbers\<close>

lemma parse_pos_size:
  "parse_pos hi acc s = Ok n \<Longrightarrow> 0 \<le> acc \<Longrightarrow> 0 \<le> n \<and> n < (acc + 1) * 10 ^ length s"
proof (induction hi acc s arbitrary: n rule: parse_pos.induct)
  case (2 hi acc c cs)
  then obtain d where d: "digit_val c = Some d" "0 \<le> d" "d \<le> 9"
    and n: "0 \<le> n" "n < (10 * acc + d + 1) * 10 ^ length cs"
    by (auto split: option.splits if_splits dest: digit_val_bounds)
  have "(10 * acc + d + 1) * 10 ^ length cs \<le> (10 * acc + 10) * 10 ^ length cs"
    using d by (intro mult_right_mono) auto
  also have "\<dots> = (acc + 1) * 10 ^ length (c # cs)"
    by (simp add: algebra_simps)
  finally show ?case
    using n by (meson order.strict_trans2)
qed simp

lemma parse_neg_size:
  "parse_neg lo acc s = Ok n \<Longrightarrow> acc \<le> 0 \<Longrightarrow> n \<le> 0 \<and> - n < (1 - acc) * 10 ^ length s"
proof (induction lo acc s arbitrary: n rule: parse_neg.induct)
  case (2 lo acc c cs)
  then obtain d where d: "digit_val c = Some d" "0 \<le> d" "d \<le> 9"
    and n: "n \<le> 0" "- n < (1 - (10 * acc - d)) * 10 ^ length cs"
    by (auto split: option.splits if_splits dest: digit_val_bounds)
  have "(1 - (10 * acc - d)) * 10 ^ length cs \<le> (10 - 10 * acc) * 10 ^ length cs"
    using d by (intro mult_right_mono) auto
  also have "\<dots> = (1 - acc) * 10 ^ length (c # cs)"
    by (simp add: algebra_simps)
  finally show ?case
    using n by (meson order.strict_trans2)
qed simp

lemma parse_int_size:
  assumes "parse_int lo hi s = Ok n" and "length s \<le> k"
  shows "\<bar>n\<bar> < 10 ^ k" and "0 \<le> lo \<Longrightarrow> 0 \<le> n"
proof -
  obtain c cs where s: "s = c # cs"
    using assms by (cases s) (auto simp: parse_int_def)
  have le: "m < 10 ^ k" if "m < 10 ^ j" "j \<le> k" for m :: int and j
    using that power_increasing [of j k "10 :: int"] by (meson order.strict_trans2 one_le_numeral)
  have len: "length cs \<le> k"
    using s assms(2) by simp
  consider "parse_pos hi 0 cs = Ok n" | "lo < 0" "parse_neg lo 0 cs = Ok n" | "parse_pos hi 0 s = Ok n"
    using assms(1) s by (auto simp: parse_int_def split: if_splits simp del: parse_pos.simps)
  then have "\<bar>n\<bar> < 10 ^ k \<and> (0 \<le> lo \<longrightarrow> 0 \<le> n)"
    using le [of n] le [of "- n"] len assms(2)
    by cases (fastforce dest!: parse_pos_size parse_neg_size simp del: power_Suc power_increasing_iff)+
  then show "\<bar>n\<bar> < 10 ^ k" and "0 \<le> lo \<Longrightarrow> 0 \<le> n"
    by auto
qed

lemma str_get_length: "str_get s a b = Some t \<Longrightarrow> length t \<le> b - a"
  by (auto simp: str_get_def split: if_splits)

lemma parse_field_i32: "parse_field parse_i32 (str_get s a b) = Some n \<Longrightarrow> \<bar>n\<bar> < 10 ^ (b - a)"
  by (auto simp: parse_field_def parse_i32_def split: option.splits result.splits
      dest!: str_get_length parse_int_size(1))

lemma parse_field_i64: "parse_field parse_i64 (str_get s a b) = Some n \<Longrightarrow> \<bar>n\<bar> < 10 ^ (b - a)"
  by (auto simp: parse_field_def parse_i64_def split: option.splits result.splits
      dest!: str_get_length parse_int_size(1))

lemma parse_field_u32:
  "parse_field parse_u32 (str_get s a b) = Some n \<Longrightarrow> 0 \<le> n \<and> n < 10 ^ (b - a)"
  by (auto simp: parse_field_def parse_u32_def split: option.splits result.splits
      dest!: str_get_length dest: parse_int_size)

lemma parse_offset_bounds: "parse_offset rest = Some n \<Longrightarrow> \<bar>n\<bar> \<le> 362340"
  by (auto simp: parse_offset_def Let_def split: list.splits if_splits option.splits
      dest!: parse_field_i64)

lemma year_days_mono: "y \<le> y' \<Longrightarrow> year_days y \<le> year_days y'"
proof (induction y' rule: int_ge_induct)
  case (step i)
  then show ?case
    using year_days_step [of "i + 1"] by (simp split: if_splits)
qed simp

lemma days_from_civil_bounds:
  assumes "days_from_civil y m d = Some n" and "\<bar>y\<bar> < 10 ^ 4"
  shows "- 4400000 \<le> n \<and> n \<le> 3000000"
proof -
  have md: "1 \<le> m" "m \<le> 12" "1 \<le> d" "d \<le> 31"
    using assms(1) by (auto simp: days_from_civil_def split: if_splits)
  define y' where "y' = (if m \<le> 2 then y - 1 else y)"
  have y': "- 10000 \<le> y'" "y' \<le> 9999"
    using assms(2) by (auto simp: y'_def)
  have "year_days (- 10000) = - 3652425" "year_days 9999 = 3652059"
    by (simp_all add: year_days_def)
  then have "- 3652425 \<le> year_days y'" "year_days y' \<le> 3652059"
    using year_days_mono [OF y'(1)] year_days_mono [OF y'(2)] by simp_all
  moreover define q where "q = (153 * (if m \<le> 2 then m + 9 else m - 3) + 2) div 5"
  have "0 \<le> 153 * (if m \<le> 2 then m + 9 else m - 3) + 2" "153 * (if m \<le> 2 then m + 9 else m - 3) + 2 \<le> 1685"
    using md by auto
  then have "0 div 5 \<le> q" "q \<le> 1685 div 5"
    unfolding q_def by (intro zdiv_mono1; simp)+
  ultimately show ?thesis
    using assms(1) md unfolding days_from_civil_closed [OF md] q_def [symmetric] y'_def [symmetric]
    by simp
qed

text \<open>
  C12: every number \<open>parse_rfc3339\<close> returns is far inside the range of \<open>i64\<close>, whatever the input,
  so the expiry comparison never sees a value that wrapped around.
\<close>

theorem parse_rfc3339_fits:
  assumes "parse_rfc3339 raw = Some n"
  shows "\<bar>n\<bar> < 2 ^ 39"
proof -
  obtain year month day hour minute second offset days where
    f: "parse_field parse_i32 (str_get raw 0 4) = Some year"
       "parse_field parse_u32 (str_get raw 11 13) = Some hour"
       "parse_field parse_u32 (str_get raw 14 16) = Some minute"
       "parse_field parse_u32 (str_get raw 17 19) = Some second"
    and o: "parse_offset (drop 19 raw) = Some offset"
    and d: "days_from_civil year month day = Some days"
    and n: "n = days * 86400 + hour * 3600 + minute * 60 + second - offset"
    using assms by (auto simp: parse_rfc3339_def str_get_from_def split: if_splits option.splits)
  have "\<bar>year\<bar> < 10 ^ 4"
    using parse_field_i32 [OF f(1)] by simp
  then show ?thesis
    using n days_from_civil_bounds [OF d] parse_offset_bounds [OF o]
      parse_field_u32 [OF f(2)] parse_field_u32 [OF f(3)] parse_field_u32 [OF f(4)]
    by (simp add: abs_le_iff abs_less_iff)
qed

theorem parse_rfc3339_fits_witness:
  "parse_rfc3339 ''9999-12-31T99:99:99-99:99'' = Some 253402939179 \<and> \<bar>253402939179\<bar> < (2 ^ 39 :: int)"
proof -
  have 1: "parse_rfc3339 ''9999-12-31T99:99:99-99:99'' = Some 253402939179"
    by code_simp
  show ?thesis
    using parse_rfc3339_fits [OF 1] 1 by simp
qed

section \<open>The signing payload\<close>

lemma as_i64_id: "0 \<le> n \<Longrightarrow> n < 2 ^ 63 \<Longrightarrow> as_i64 n = n"
  by (simp add: as_i64_def)

lemma signing_payload_fields: "signing_payload t = join ''|'' (signed_fields t)"
  by (simp only: signing_payload_def signed_fields_def)

lemma sort_eq_mset: "sort xs = sort ys \<longleftrightarrow> mset xs = mset ys"
  by (metis mset_sort properties_for_sort sorted_sort)

lemma join_Nil_iff: "(\<And>x. x \<in> set xs \<Longrightarrow> x \<noteq> []) \<Longrightarrow> join sep xs = [] \<longleftrightarrow> xs = []"
  by (cases "(sep, xs)" rule: join.cases) auto

lemma join_sorted_ids:
  fixes xs ys :: "string list"
  assumes "join '','' (sort xs) = join '','' (sort ys)"
    and "\<forall>i \<in> set xs. i \<noteq> [] \<and> CHR '','' \<notin> set i" and "\<forall>i \<in> set ys. i \<noteq> [] \<and> CHR '','' \<notin> set i"
  shows "mset xs = mset ys"
proof (cases "xs = [] \<or> ys = []")
  case True
  then show ?thesis
    using assms join_Nil_iff [of "sort xs" "'',''"] join_Nil_iff [of "sort ys" "'',''"]
    by (metis set_sort mset_sort mset_zero_iff)
next
  case False
  then have "sort xs \<noteq> []" "sort ys \<noteq> []"
    by (metis mset_sort mset_zero_iff)+
  then have "sort xs = sort ys"
    using assms by (intro join_inject [where c = "CHR '',''"]) auto
  then show ?thesis
    by (simp add: sort_eq_mset)
qed

lemma count_list_join:
  "count_list (join [c] xs) c = (length xs - 1) + sum_list (map (\<lambda>x. count_list x c) xs)"
proof (induction "[c]" xs rule: join.induct)
  case (3 x y zs)
  then show ?case by simp
qed simp_all

text \<open>When one of two lists of as many parts is free of the separator, equal joins have equal parts.\<close>

lemma join_inject_same_length:
  assumes "length xs = length ys" and "\<And>x. x \<in> set xs \<Longrightarrow> c \<notin> set x" and "join [c] xs = join [c] ys"
  shows "xs = ys"
proof (cases "xs = []")
  case False
  have "sum_list (map (\<lambda>x. count_list x c) xs) = 0"
    using assms(2) by (simp add: count_list_0_iff)
  then have "sum_list (map (\<lambda>y. count_list y c) ys) = 0"
    using count_list_join [of c xs] count_list_join [of c ys] assms(1,3) by simp
  then have "\<And>y. y \<in> set ys \<Longrightarrow> c \<notin> set y"
    by (auto simp: count_list_0_iff)
  with False assms show ?thesis
    by (intro join_inject [where c = c]) auto
qed (use assms(1) in simp)

lemma signed_fields_determined:
  assumes "bar_free t" and "signing_payload t = signing_payload t'"
  shows "signed_fields t = signed_fields t'"
proof (rule join_inject_same_length [where c = "CHR ''|''"])
  show "join ''|'' (signed_fields t) = join ''|'' (signed_fields t')"
    using assms(2) by (simp only: signing_payload_fields)
qed (use assms(1) in \<open>auto simp: bar_free_def signed_fields_def\<close>)

text \<open>
  Two tickets with the same signing payload agree on every mandatory signed field, up to the
  order of the allowed nodes, provided that no field contains a separator: a signature then
  covers exactly one set of claims.
\<close>

theorem signing_payload_injective:
  assumes "separator_free t" and "separator_free t'" and "signing_payload t = signing_payload t'"
  shows "ticket_id t = ticket_id t' \<and> RelayTicket.network_id t = RelayTicket.network_id t'
    \<and> RelayTicket.session_id t = RelayTicket.session_id t' \<and> src_node_id t = src_node_id t'
    \<and> dst_node_id t = dst_node_id t' \<and> mset (allowed_derp_node_ids t) = mset (allowed_derp_node_ids t')
    \<and> relay_url t = relay_url t' \<and> expires_at t = expires_at t' \<and> session_key t = session_key t'"
proof -
  have fields: "signed_fields t = signed_fields t'"
    using assms by (auto simp: separator_free_def intro: signed_fields_determined)
  then have "mset (allowed_derp_node_ids t) = mset (allowed_derp_node_ids t')"
    using assms(1,2) by (intro join_sorted_ids) (auto simp: signed_fields_def separator_free_def)
  with fields show ?thesis
    by (simp add: signed_fields_def)
qed

lemma signing_payload_order:
  "mset ids = mset (allowed_derp_node_ids t) \<Longrightarrow>
   signing_payload (t\<lparr>allowed_derp_node_ids := ids\<rparr>) = signing_payload t"
  using sort_eq_mset [of ids "allowed_derp_node_ids t"] by (simp add: signing_payload_def)

theorem signing_payload_injective_witness:
  "separator_free demo_ticket \<and> mset (allowed_derp_node_ids demo_ticket) = mset [''d1'', ''d2'']"
proof -
  have 1: "separator_free demo_ticket" "separator_free (demo_ticket\<lparr>allowed_derp_node_ids := [''d1'', ''d2'']\<rparr>)"
    by code_simp+
  have 2: "signing_payload demo_ticket = signing_payload (demo_ticket\<lparr>allowed_derp_node_ids := [''d1'', ''d2'']\<rparr>)"
    by code_simp
  show ?thesis
    using signing_payload_injective [OF 1 2] 1 by simp
qed

text \<open>
  Without that proviso the payload is ambiguous: a separator inside the source node id can be
  moved across the boundary to the destination node id without changing the signed text.
\<close>

theorem signing_payload_collision:
  "signing_payload (t\<lparr>src_node_id := a @ ''|'' @ b, dst_node_id := c\<rparr>) =
   signing_payload (t\<lparr>src_node_id := a, dst_node_id := b @ ''|'' @ c\<rparr>)"
  by (simp add: signing_payload_def)

end
