(* ===== verification/Relay_Session.thy ===== *)
theory Relay_Session
  imports Relay_Core
begin

text \<open>
  Crate \<open>session\<close>: the trait \<open>SessionStore\<close> as a record of operations, the in-memory store over a
  lock and a hash map, the contract of the trait as the locale \<open>session_store\<close>, and the
  interpretation that discharges it for the in-memory store.
\<close>

section \<open>The store\<close>

text \<open>\<open>Arc<RwLock<HashMap<String, RelaySession>>>\<close>: clones of the store share one lock.\<close>

record MemorySessionState =
  sessions :: "(string, RelaySession) HashMap mutex"

text \<open>\<open>PoisonError::to_string\<close>.\<close>

definition poison_message :: string where
  "poison_message = ''poisoned lock: another task failed inside''"

text \<open>\<open>len\<close> panics on a poisoned lock: \<open>None\<close>.\<close>

definition state_len :: "MemorySessionState \<Rightarrow> nat option" where
  "state_len st = map_option (\<lambda>m. size (fmdom m)) (lock (sessions st))"

definition state_create ::
  "MemorySessionState \<Rightarrow> RelaySession \<Rightarrow> (unit, RelayError) result \<times> MemorySessionState" where
  "state_create st session =
     (case lock (sessions st) of
        None \<Rightarrow> (Err (Store poison_message), st)
      | Some guard \<Rightarrow>
          if fmlookup guard (RelaySession.session_id session) \<noteq> None then (Err SessionAlreadyExists, st)
          else (Ok (), st\<lparr>sessions := Healthy (fmupd (RelaySession.session_id session) session guard)\<rparr>))"

definition state_get :: "MemorySessionState \<Rightarrow> string \<Rightarrow> RelaySession option" where
  "state_get st sid = (case lock (sessions st) of None \<Rightarrow> None | Some guard \<Rightarrow> fmlookup guard sid)"

definition state_remove ::
  "MemorySessionState \<Rightarrow> string \<Rightarrow> (unit, RelayError) result \<times> MemorySessionState" where
  "state_remove st sid =
     (case lock (sessions st) of
        None \<Rightarrow> (Err (Store poison_message), st)
      | Some guard \<Rightarrow>
          (if fmlookup guard sid = None then Err SessionNotFound else Ok (),
           st\<lparr>sessions := Healthy (fmdrop sid guard)\<rparr>))"

record InMemorySessionStore =
  inner :: MemorySessionState

definition store_new :: InMemorySessionStore where
  "store_new = \<lparr>inner = \<lparr>sessions = Healthy fmempty\<rparr>\<rparr>"

definition store_len :: "InMemorySessionStore \<Rightarrow> nat option" where
  "store_len s = state_len (inner s)"

definition store_is_empty :: "InMemorySessionStore \<Rightarrow> bool option" where
  "store_is_empty s = map_option (\<lambda>n. n = 0) (store_len s)"

text \<open>The trait: one record of operations for each implementing type.\<close>

record 's SessionStore =
  create_op :: "'s \<Rightarrow> RelaySession \<Rightarrow> (unit, RelayError) result \<times> 's"
  get_op :: "'s \<Rightarrow> string \<Rightarrow> RelaySession option"
  remove_op :: "'s \<Rightarrow> string \<Rightarrow> (unit, RelayError) result \<times> 's"

definition memory_store_create ::
  "InMemorySessionStore \<Rightarrow> RelaySession \<Rightarrow> (unit, RelayError) result \<times> InMemorySessionStore" where
  "memory_store_create s session =
     (case state_create (inner s) session of (r, st) \<Rightarrow> (r, s\<lparr>inner := st\<rparr>))"

definition memory_store_get :: "InMemorySessionStore \<Rightarrow> string \<Rightarrow> RelaySession option" where
  "memory_store_get s sid = state_get (inner s) sid"

definition memory_store_remove ::
  "InMemorySessionStore \<Rightarrow> string \<Rightarrow> (unit, RelayError) result \<times> InMemorySessionStore" where
  "memory_store_remove s sid =
     (case state_remove (inner s) sid of (r, st) \<Rightarrow> (r, s\<lparr>inner := st\<rparr>))"

definition memory_store :: "InMemorySessionStore SessionStore" where
  "memory_store =
     \<lparr>create_op = memory_store_create, get_op = memory_store_get, remove_op = memory_store_remove\<rparr>"

text \<open>The stores whose lock no thread has poisoned, each session under its own id.\<close>

definition store_ok :: "InMemorySessionStore \<Rightarrow> bool" where
  "store_ok s \<longleftrightarrow>
     (\<exists>m. sessions (inner s) = Healthy m \<and>
          (\<forall>sid x. fmlookup m sid = Some x \<longrightarrow> RelaySession.session_id x = sid))"

section \<open>The contract of a session store\<close>

text \<open>
  A store behaves as a finite map from session ids to sessions: \<open>create\<close> adds one binding or
  reports a duplicate, \<open>remove\<close> drops one or reports its absence, and nothing else changes.
\<close>

locale session_store =
  fixes ops :: "'s SessionStore"
    and valid :: "'s \<Rightarrow> bool"
  assumes create_fresh:
      "valid s \<Longrightarrow> get_op ops s (RelaySession.session_id x) = None \<Longrightarrow>
       \<exists>s'. create_op ops s x = (Ok (), s') \<and> valid s' \<and>
            get_op ops s' = (get_op ops s)(RelaySession.session_id x \<mapsto> x)"
    and create_taken:
      "valid s \<Longrightarrow> get_op ops s (RelaySession.session_id x) = Some y \<Longrightarrow>
       create_op ops s x = (Err SessionAlreadyExists, s)"
    and remove_some:
      "valid s \<Longrightarrow> get_op ops s sid = Some y \<Longrightarrow>
       \<exists>s'. remove_op ops s sid = (Ok (), s') \<and> valid s' \<and> get_op ops s' = (get_op ops s)(sid := None)"
    and remove_none:
      "valid s \<Longrightarrow> get_op ops s sid = None \<Longrightarrow>
       \<exists>s'. remove_op ops s sid = (Err SessionNotFound, s') \<and> valid s' \<and> get_op ops s' = get_op ops s"
    and get_id: "valid s \<Longrightarrow> get_op ops s sid = Some y \<Longrightarrow> RelaySession.session_id y = sid"
begin

lemma create_cases:
  assumes "valid s" and "create_op ops s x = (r, s')"
  obtains (fresh) "get_op ops s (RelaySession.session_id x) = None" "r = Ok ()" "valid s'"
      "get_op ops s' = (get_op ops s)(RelaySession.session_id x \<mapsto> x)"
    | (taken) y where "get_op ops s (RelaySession.session_id x) = Some y" "r = Err SessionAlreadyExists" "s' = s"
proof (cases "get_op ops s (RelaySession.session_id x)")
  case None
  with create_fresh [of s x] assms show ?thesis by (auto intro: fresh)
next
  case (Some y)
  with create_taken [of s x] assms show ?thesis by (auto intro: taken)
qed

lemma create_valid: "valid s \<Longrightarrow> create_op ops s x = (r, s') \<Longrightarrow> valid s'"
  by (rule create_cases [of s x r s']) auto

lemma create_get: "valid s \<Longrightarrow> create_op ops s x = (Ok (), s') \<Longrightarrow> get_op ops s' (RelaySession.session_id x) = Some x"
  by (erule create_cases) auto

lemma create_frame:
  "valid s \<Longrightarrow> create_op ops s x = (r, s') \<Longrightarrow> sid \<noteq> RelaySession.session_id x \<Longrightarrow>
   get_op ops s' sid = get_op ops s sid"
  by (erule create_cases) auto

lemma remove_cases:
  assumes "valid s" and "remove_op ops s sid = (r, s')"
  obtains (present) y where "get_op ops s sid = Some y" "r = Ok ()" "valid s'" "get_op ops s' = (get_op ops s)(sid := None)"
    | (absent) "get_op ops s sid = None" "r = Err SessionNotFound" "valid s'" "get_op ops s' = get_op ops s"
proof (cases "get_op ops s sid")
  case None
  with remove_none [of s sid] assms show ?thesis by (auto intro: absent)
next
  case (Some y)
  with remove_some [of s sid] assms show ?thesis by (auto intro: present)
qed

lemma remove_valid: "valid s \<Longrightarrow> remove_op ops s sid = (r, s') \<Longrightarrow> valid s'"
  by (erule remove_cases) auto

lemma remove_get: "valid s \<Longrightarrow> remove_op ops s sid = (r, s') \<Longrightarrow> get_op ops s' = (get_op ops s)(sid := None)"
  by (erule remove_cases) auto

text \<open>Creating a session and removing it again leaves every lookup as it was.\<close>

lemma create_remove:
  assumes "valid s" and "create_op ops s x = (Ok (), s')"
    and "remove_op ops s' (RelaySession.session_id x) = (r, s'')"
  shows "r = Ok () \<and> get_op ops s'' = get_op ops s"
  using assms(1,2)
proof (cases rule: create_cases)
  case fresh
  then have "r = Ok ()"
    using assms(3) by (auto elim: remove_cases)
  with fresh remove_get [OF fresh(3) assms(3)] show ?thesis
    by (simp add: fun_upd_idem)
qed auto

end

section \<open>The in-memory store fulfils it\<close>

lemma memory_store_get_ok:
  "sessions (inner s) = Healthy m \<Longrightarrow> memory_store_get s = fmlookup m"
  by (rule ext) (simp add: memory_store_get_def state_get_def)

interpretation mem: session_store memory_store store_ok
proof
  fix s :: InMemorySessionStore and x y :: RelaySession and sid :: string
  assume ok: "store_ok s"
  then obtain m where m: "sessions (inner s) = Healthy m"
      "\<forall>sid x. fmlookup m sid = Some x \<longrightarrow> RelaySession.session_id x = sid"
    by (auto simp: store_ok_def)
  note defs = memory_store_def memory_store_create_def memory_store_remove_def state_create_def
    state_remove_def m store_ok_def memory_store_get_ok [OF m(1)] memory_store_get_ok map_simps
  show "\<exists>s'. create_op memory_store s x = (Ok (), s') \<and> store_ok s' \<and>
      get_op memory_store s' = (get_op memory_store s)(RelaySession.session_id x \<mapsto> x)"
    if "get_op memory_store s (RelaySession.session_id x) = None"
    using that m(2) by (simp add: defs)
  show "create_op memory_store s x = (Err SessionAlreadyExists, s)"
    if "get_op memory_store s (RelaySession.session_id x) = Some y"
    using that by (simp add: defs)
  show "\<exists>s'. remove_op memory_store s sid = (Ok (), s') \<and> store_ok s' \<and>
      get_op memory_store s' = (get_op memory_store s)(sid := None)"
    if "get_op memory_store s sid = Some y"
    using that m(2) by (simp add: defs)
  show "\<exists>s'. remove_op memory_store s sid = (Err SessionNotFound, s') \<and> store_ok s' \<and>
      get_op memory_store s' = get_op memory_store s"
    if "get_op memory_store s sid = None"
    using that m(2) by (simp add: defs fun_upd_idem)
  show "RelaySession.session_id y = sid" if "get_op memory_store s sid = Some y"
    using that m(2) by (simp add: defs)
qed

lemma store_new_ok [simp]: "store_ok store_new"
  by (simp add: store_ok_def store_new_def)

lemma store_new_get [simp]: "get_op memory_store store_new sid = None"
  by (simp add: memory_store_def memory_store_get_def state_get_def store_new_def)

lemma store_len_card: "store_ok s \<Longrightarrow> store_len s = Some (card (dom (get_op memory_store s)))"
  by (auto simp: store_len_def state_len_def store_ok_def memory_store_def memory_store_get_ok
      size_fset_overloaded_simps fmdom.rep_eq fcard.rep_eq)

lemma store_is_empty_iff:
  "store_ok s \<Longrightarrow> store_is_empty s = Some (get_op memory_store s = Map.empty)"
  by (auto simp: store_is_empty_def store_len_card card_eq_0_iff store_ok_def memory_store_def
      memory_store_get_ok)

end
