(* ===== verification/Relay_Auth.thy ===== *)
theory Relay_Auth
  imports Relay_Core
begin

text \<open>
  Crate \<open>auth\<close>: the static ticket validator (required fields, relay URL prefix, expiry, HMAC
  signature).  The crates \<open>hmac\<close>, \<open>sha2\<close> and \<open>base64\<close> are the parameter \<open>TicketCrypto\<close>, the system
  clock is the parameter \<open>clock\<close> in seconds since the unix epoch.
\<close>

section \<open>The validator\<close>

text \<open>
  What the signature check uses of other crates: whether \<open>Hmac::new_from_slice\<close> takes the key, the
  HMAC-SHA256 tag of a message, and the URL-safe base64 encoding without padding.
\<close>

record TicketCrypto =
  mac_key_accepted :: "string \<Rightarrow> bool"
  hmac_sha256 :: "string \<Rightarrow> string \<Rightarrow> string"
  url_safe_no_pad :: "string \<Rightarrow> string"

record HmacTicketSignatureValidator =
  secret :: string

record StaticTicketValidator =
  required_relay_url_prefix :: "string option"
  signature_validator :: "HmacTicketSignatureValidator option"

definition hmac_validate ::
  "TicketCrypto \<Rightarrow> HmacTicketSignatureValidator \<Rightarrow> RelayTicket \<Rightarrow> (unit, RelayError) result" where
  "hmac_validate crypto v ticket =
     (if \<not> mac_key_accepted crypto (secret v) then Err InvalidTicket
      else
        let expected = url_safe_no_pad crypto (hmac_sha256 crypto (secret v) (signing_payload ticket))
        in if expected \<noteq> signature ticket then Err InvalidSignature else Ok ())"

definition validator_new :: "string \<Rightarrow> StaticTicketValidator" where
  "validator_new prefix = \<lparr>required_relay_url_prefix = Some prefix, signature_validator = None\<rparr>"

definition with_hmac_secret :: "string option \<Rightarrow> string \<Rightarrow> StaticTicketValidator" where
  "with_hmac_secret prefix key =
     \<lparr>required_relay_url_prefix = prefix, signature_validator = Some \<lparr>secret = key\<rparr>\<rparr>"

definition with_options :: "string option \<Rightarrow> string option \<Rightarrow> StaticTicketValidator" where
  "with_options prefix key =
     \<lparr>required_relay_url_prefix = prefix,
      signature_validator = map_option (\<lambda>k. \<lparr>secret = k\<rparr>) key\<rparr>"

definition validate_required_fields :: "RelayTicket \<Rightarrow> (unit, RelayError) result" where
  "validate_required_fields ticket =
     (if blank (ticket_id ticket) \<or> blank (signature ticket) \<or> blank (relay_url ticket)
         \<or> blank (expires_at ticket) \<or> blank (RelayTicket.network_id ticket)
         \<or> blank (RelayTicket.session_id ticket) \<or> blank (src_node_id ticket)
         \<or> blank (dst_node_id ticket)
      then Err InvalidTicket else Ok ())"

definition validate_relay_prefix :: "RelayTicket \<Rightarrow> string option \<Rightarrow> (unit, RelayError) result" where
  "validate_relay_prefix ticket prefix =
     (case prefix of
        Some p \<Rightarrow> if \<not> starts_with (relay_url ticket) p then Err InvalidTicket else Ok ()
      | None \<Rightarrow> Ok ())"

definition validate_expiration :: "int \<Rightarrow> RelayTicket \<Rightarrow> (unit, RelayError) result" where
  "validate_expiration clock ticket =
     (case is_expired clock ticket of
        Err e \<Rightarrow> Err e
      | Ok expired \<Rightarrow> if expired then Err TicketExpired else Ok ())"

definition validate_signature ::
  "TicketCrypto \<Rightarrow> StaticTicketValidator \<Rightarrow> RelayTicket \<Rightarrow> (unit, RelayError) result" where
  "validate_signature crypto v ticket =
     (case signature_validator v of
        Some validator \<Rightarrow> hmac_validate crypto validator ticket
      | None \<Rightarrow> Ok ())"

definition validate_ticket ::
  "TicketCrypto \<Rightarrow> int \<Rightarrow> StaticTicketValidator \<Rightarrow> RelayTicket \<Rightarrow> (unit, RelayError) result" where
  "validate_ticket crypto clock v ticket =
     (case validate_required_fields ticket of
        Err e \<Rightarrow> Err e
      | Ok _ \<Rightarrow> (case validate_relay_prefix ticket (required_relay_url_prefix v) of
        Err e \<Rightarrow> Err e
      | Ok _ \<Rightarrow> (case validate_expiration clock ticket of
        Err e \<Rightarrow> Err e
      | Ok _ \<Rightarrow> validate_signature crypto v ticket)))"

section \<open>Reference notions\<close>

definition required_fields :: "RelayTicket \<Rightarrow> string list" where
  "required_fields t =
     [ticket_id t, signature t, relay_url t, expires_at t, RelayTicket.network_id t,
      RelayTicket.session_id t, src_node_id t, dst_node_id t]"

text \<open>A tag function for the witnesses: the key in front of the message.\<close>

definition demo_crypto :: TicketCrypto where
  "demo_crypto = \<lparr>mac_key_accepted = (\<lambda>_. True), hmac_sha256 = (\<lambda>k m. k @ m), url_safe_no_pad = id\<rparr>"

definition signed_ticket :: RelayTicket where
  "signed_ticket = demo_ticket\<lparr>signature := ''key'' @ signing_payload demo_ticket\<rparr>"

section \<open>What the validator accepts\<close>

lemma validate_required_fields_Ok_iff:
  "validate_required_fields t = Ok () \<longleftrightarrow> (\<forall>f \<in> set (required_fields t). \<not> blank f)"
  by (auto simp: validate_required_fields_def required_fields_def)

lemma validate_relay_prefix_Ok_iff:
  "validate_relay_prefix t prefix = Ok () \<longleftrightarrow> (\<forall>p. prefix = Some p \<longrightarrow> starts_with (relay_url t) p)"
  by (simp add: validate_relay_prefix_def split: option.split)

lemma validate_expiration_Ok_iff:
  "validate_expiration clock t = Ok () \<longleftrightarrow>
   0 \<le> clock \<and> (\<exists>n. parse_timestamp (expires_at t) = Ok n \<and> as_i64 clock < n)"
  by (auto simp: validate_expiration_def is_expired_def is_expired_at_def split: result.splits)

lemma validate_signature_Ok_iff:
  "validate_signature crypto v t = Ok () \<longleftrightarrow>
   (\<forall>h. signature_validator v = Some h \<longrightarrow>
      mac_key_accepted crypto (secret h) \<and>
      signature t = url_safe_no_pad crypto (hmac_sha256 crypto (secret h) (signing_payload t)))"
  by (auto simp: validate_signature_def hmac_validate_def Let_def split: option.splits)

lemmas validate_checks = validate_required_fields_Ok_iff validate_relay_prefix_Ok_iff
  validate_expiration_Ok_iff validate_signature_Ok_iff

lemma validate_ticket_Ok:
  "validate_ticket crypto clock v t = Ok () \<longleftrightarrow>
   validate_required_fields t = Ok () \<and>
   validate_relay_prefix t (required_relay_url_prefix v) = Ok () \<and>
   validate_expiration clock t = Ok () \<and> validate_signature crypto v t = Ok ()"
  by (simp add: validate_ticket_def split: result.splits)

text \<open>
  C8: a ticket is accepted exactly when no required field is blank, its relay URL has the
  configured prefix, the clock is not before the epoch, the expiry parses and lies in the future,
  and, with a secret configured, the signature is the encoded HMAC of the signing payload.
\<close>

theorem validate_ticket_accepts:
  "validate_ticket crypto clock v t = Ok () \<longleftrightarrow>
   (\<forall>f \<in> set (required_fields t). \<not> blank f) \<and>
   (\<forall>p. required_relay_url_prefix v = Some p \<longrightarrow> starts_with (relay_url t) p) \<and>
   0 \<le> clock \<and> (\<exists>n. parse_timestamp (expires_at t) = Ok n \<and> as_i64 clock < n) \<and>
   (\<forall>h. signature_validator v = Some h \<longrightarrow> mac_key_accepted crypto (secret h) \<and>
      signature t = url_safe_no_pad crypto (hmac_sha256 crypto (secret h) (signing_payload t)))"
  by (simp add: validate_ticket_Ok validate_checks)

lemma signed_ticket_ok:
  "validate_ticket demo_crypto 99 (with_hmac_secret (Some ''udp://'') ''key'') signed_ticket = Ok ()"
  by code_simp

theorem validate_ticket_accepts_witness:
  "validate_ticket demo_crypto 99 (with_hmac_secret (Some ''udp://'') ''key'') signed_ticket = Ok () \<and>
   starts_with (relay_url signed_ticket) ''udp://''"
  using signed_ticket_ok validate_ticket_accepts [of demo_crypto 99 "with_hmac_secret (Some ''udp://'') ''key''" signed_ticket]
  by (simp add: with_hmac_secret_def)

section \<open>What it answers otherwise\<close>

text \<open>
  The checks answer in the order fields, prefix, clock, timestamp, expiry, signature: the error
  of a rejected ticket is the one of the first check that fails.
\<close>

theorem validate_ticket_error:
  assumes "mac_key_accepted crypto = (\<lambda>_. True)"
  shows "validate_ticket crypto clock v t =
    (if (\<exists>f \<in> set (required_fields t). blank f)
        \<or> (\<exists>p. required_relay_url_prefix v = Some p \<and> \<not> starts_with (relay_url t) p)
     then Err InvalidTicket
     else if clock < 0 then Err ClockSkew
     else case parse_timestamp (expires_at t) of
            Err e \<Rightarrow> Err e
          | Ok n \<Rightarrow>
              if n \<le> as_i64 clock then Err TicketExpired
              else if \<exists>h. signature_validator v = Some h \<and>
                     signature t \<noteq> url_safe_no_pad crypto (hmac_sha256 crypto (secret h) (signing_payload t))
              then Err InvalidSignature else Ok ())"
proof -
  have R: "validate_required_fields t =
      (if \<exists>f \<in> set (required_fields t). blank f then Err InvalidTicket else Ok ())"
    by (auto simp: validate_required_fields_def required_fields_def)
  have P: "validate_relay_prefix t (required_relay_url_prefix v) =
      (if \<exists>p. required_relay_url_prefix v = Some p \<and> \<not> starts_with (relay_url t) p
       then Err InvalidTicket else Ok ())"
    by (simp add: validate_relay_prefix_def split: option.split)
  have E: "validate_expiration clock t = (if clock < 0 then Err ClockSkew
      else case parse_timestamp (expires_at t) of Err e \<Rightarrow> Err e
           | Ok n \<Rightarrow> if n \<le> as_i64 clock then Err TicketExpired else Ok ())"
    by (simp add: validate_expiration_def is_expired_def is_expired_at_def split: result.split)
  have S: "validate_signature crypto v t = (if \<exists>h. signature_validator v = Some h \<and>
      signature t \<noteq> url_safe_no_pad crypto (hmac_sha256 crypto (secret h) (signing_payload t))
      then Err InvalidSignature else Ok ())"
    using assms by (simp add: validate_signature_def hmac_validate_def Let_def split: option.split)
  show ?thesis
    unfolding validate_ticket_def R P E S
    by (cases "parse_timestamp (expires_at t)") (simp_all, blast)
qed

theorem validate_ticket_error_witness:
  "validate_ticket demo_crypto (- 1) (validator_new ''udp://'') (demo_ticket\<lparr>signature := ''x''\<rparr>) = Err ClockSkew"
proof -
  have "mac_key_accepted demo_crypto = (\<lambda>_. True)"
    by (simp add: demo_crypto_def)
  moreover have "\<not> (\<exists>f \<in> set (required_fields (demo_ticket\<lparr>signature := ''x''\<rparr>)). blank f)"
    by code_simp
  moreover have "starts_with (relay_url (demo_ticket\<lparr>signature := ''x''\<rparr>)) ''udp://''"
    by code_simp
  ultimately show ?thesis
    using validate_ticket_error [of demo_crypto "- 1" "validator_new ''udp://''" "demo_ticket\<lparr>signature := ''x''\<rparr>"]
    by (simp add: validator_new_def)
qed

lemma validate_ticket_errors:
  "validate_ticket crypto clock v t = Err e \<Longrightarrow>
   e \<in> {InvalidTicket, InvalidSignature, InvalidTimestamp, TicketExpired, ClockSkew}"
  by (auto simp: validate_ticket_def validate_required_fields_def validate_relay_prefix_def
      validate_expiration_def validate_signature_def hmac_validate_def is_expired_def is_expired_at_def
      parse_timestamp_def Let_def split: if_splits option.splits result.splits)

section \<open>Tampering\<close>

text \<open>
  What a signature covers: the twelve signed fields, an absent optional field counting as an empty one and the
  allowed nodes as the sorted, comma-separated text that is signed.
\<close>

lemma same_payload_same_claims:
  assumes "bar_free t" and "signing_payload t = signing_payload t'"
  shows "ticket_id t = ticket_id t' \<and> RelayTicket.network_id t = RelayTicket.network_id t'
    \<and> RelayTicket.session_id t = RelayTicket.session_id t' \<and> src_node_id t = src_node_id t' \<and> dst_node_id t = dst_node_id t'
    \<and> case_option [] id (derp_cluster_id t) = case_option [] id (derp_cluster_id t')
    \<and> case_option [] id (country_code t) = case_option [] id (country_code t')
    \<and> case_option [] id (city_code t) = case_option [] id (city_code t')
    \<and> join '','' (sort (allowed_derp_node_ids t)) = join '','' (sort (allowed_derp_node_ids t'))
    \<and> relay_url t = relay_url t' \<and> expires_at t = expires_at t' \<and> session_key t = session_key t'"
  using signed_fields_determined [OF assms] by (simp add: signed_fields_def)

text \<open>
  C9: with a secret configured, a ticket that borrows the signature of an accepted one and differs from it in any of the
  twelve signed fields is rejected, whatever it contains, provided that no field of the accepted ticket contains
  the separator \<open>|\<close> and that the encoded MACs of two different payloads differ.  An absent optional field counts as an
  empty one, and the allowed nodes as their sorted, comma-separated text.
\<close>

theorem tampered_ticket_rejected:
  assumes collision_free:
      "url_safe_no_pad crypto (hmac_sha256 crypto key (signing_payload t')) =
       url_safe_no_pad crypto (hmac_sha256 crypto key (signing_payload t)) \<Longrightarrow>
       signing_payload t' = signing_payload t"
    and accepted: "validate_ticket crypto clock (with_options prefix (Some key)) t = Ok ()"
    and sig: "signature t' = signature t"
    and clean: "bar_free t"
    and changed: "ticket_id t' \<noteq> ticket_id t \<or> RelayTicket.network_id t' \<noteq> RelayTicket.network_id t
      \<or> RelayTicket.session_id t' \<noteq> RelayTicket.session_id t \<or> src_node_id t' \<noteq> src_node_id t \<or> dst_node_id t' \<noteq> dst_node_id t
      \<or> case_option [] id (derp_cluster_id t') \<noteq> case_option [] id (derp_cluster_id t)
      \<or> case_option [] id (country_code t') \<noteq> case_option [] id (country_code t)
      \<or> case_option [] id (city_code t') \<noteq> case_option [] id (city_code t)
      \<or> join '','' (sort (allowed_derp_node_ids t')) \<noteq> join '','' (sort (allowed_derp_node_ids t))
      \<or> relay_url t' \<noteq> relay_url t \<or> expires_at t' \<noteq> expires_at t \<or> session_key t' \<noteq> session_key t"
  shows "\<exists>e. validate_ticket crypto clock' (with_options prefix (Some key)) t' = Err e"
proof (rule ccontr)
  assume "\<nexists>e. validate_ticket crypto clock' (with_options prefix (Some key)) t' = Err e"
  then have "validate_ticket crypto clock' (with_options prefix (Some key)) t' = Ok ()"
    by (cases "validate_ticket crypto clock' (with_options prefix (Some key)) t'") auto
  then have "signing_payload t = signing_payload t'"
    using accepted sig collision_free by (simp add: validate_ticket_Ok validate_signature_Ok_iff with_options_def)
  then show False
    using same_payload_same_claims [OF clean] changed by metis
qed

theorem tampered_ticket_rejected_witness:
  "\<exists>e. validate_ticket demo_crypto 50 (with_options (Some ''udp://'') (Some ''key''))
     (signed_ticket\<lparr>src_node_id := ''a|b'', dst_node_id := ''mallory''\<rparr>) = Err e"
proof (rule tampered_ticket_rejected [where t = signed_ticket and clock = 99])
  show "validate_ticket demo_crypto 99 (with_options (Some ''udp://'') (Some ''key'')) signed_ticket = Ok ()"
    by code_simp
  show "bar_free signed_ticket"
    by code_simp
qed (simp_all add: demo_crypto_def signed_ticket_def demo_ticket_def)

end
