(* ===== verification/Udp_Relay.thy ===== *)
theory Udp_Relay
  imports Relay_Session Relay_Auth
begin

text \<open>
  Crate \<open>udp-relay\<close>: the relay over any session store and any ticket validator.  The store is a
  \<open>SessionStore\<close> record of operations, the validator the function \<open>validate\<close> of its value, with the
  clock and the cryptographic crates already applied.  The locale \<open>udp_relay\<close> extends the store
  contract; its lemmas hold for every lawful store and are instantiated for the in-memory one.
\<close>

section \<open>The relay\<close>

record RelayPacket =
  session_id :: string
  from_device_id :: string
  payload :: "u8 list"

record ForwardedPacket =
  session_id :: string
  to_device_id :: string
  payload :: "u8 list"

record ('s, 'v) UdpRelay =
  store :: 's
  validator :: 'v

definition udp_new :: "'s \<Rightarrow> 'v \<Rightarrow> ('s, 'v) UdpRelay" where
  "udp_new s v = \<lparr>store = s, validator = v\<rparr>"

definition udp_attach ::
  "'s SessionStore \<Rightarrow> ('s, 'v) UdpRelay \<Rightarrow> RelaySession \<Rightarrow> (unit, RelayError) result \<times> ('s, 'v) UdpRelay" where
  "udp_attach ops relay session =
     (case create_op ops (store relay) session of (r, s') \<Rightarrow> (r, relay\<lparr>store := s'\<rparr>))"

definition udp_attach_with_ticket ::
  "'s SessionStore \<Rightarrow> ('v \<Rightarrow> RelayTicket \<Rightarrow> (unit, RelayError) result) \<Rightarrow> ('s, 'v) UdpRelay \<Rightarrow>
   RelayTicket \<Rightarrow> RelaySession \<Rightarrow> (unit, RelayError) result \<times> ('s, 'v) UdpRelay" where
  "udp_attach_with_ticket ops validate relay ticket session =
     (case validate (validator relay) ticket of
        Err e \<Rightarrow> (Err e, relay)
      | Ok _ \<Rightarrow> udp_attach ops relay session)"

definition udp_session :: "'s SessionStore \<Rightarrow> ('s, 'v) UdpRelay \<Rightarrow> string \<Rightarrow> (RelaySession, RelayError) result" where
  "udp_session ops relay sid = ok_or (get_op ops (store relay) sid) SessionNotFound"

definition udp_detach ::
  "'s SessionStore \<Rightarrow> ('s, 'v) UdpRelay \<Rightarrow> string \<Rightarrow> (unit, RelayError) result \<times> ('s, 'v) UdpRelay" where
  "udp_detach ops relay sid =
     (case remove_op ops (store relay) sid of (r, s') \<Rightarrow> (r, relay\<lparr>store := s'\<rparr>))"

definition udp_forward ::
  "'s SessionStore \<Rightarrow> ('s, 'v) UdpRelay \<Rightarrow> RelayPacket \<Rightarrow> (ForwardedPacket, RelayError) result" where
  "udp_forward ops relay packet =
     (if RelayPacket.payload packet = [] then Err EmptyPayload
      else case udp_session ops relay (RelayPacket.session_id packet) of
        Err e \<Rightarrow> Err e
      | Ok session \<Rightarrow> (case peer_of session (from_device_id packet) of
          Err e \<Rightarrow> Err e
        | Ok peer \<Rightarrow>
            Ok \<lparr>session_id = RelayPacket.session_id packet, to_device_id = peer,
                payload = RelayPacket.payload packet\<rparr>))"

section \<open>The relay over a lawful store\<close>

locale udp_relay = session_store ops valid
  for ops :: "'s SessionStore" and valid :: "'s \<Rightarrow> bool" +
  fixes validate :: "'v \<Rightarrow> RelayTicket \<Rightarrow> (unit, RelayError) result"
begin

lemma attach_with_ticket_cases:
  assumes "valid (store relay)"
    and "udp_attach_with_ticket ops validate relay ticket session = (r, relay')"
  obtains (rejected) e where "validate (validator relay) ticket = Err e" "r = Err e" "relay' = relay"
    | (attached) "validate (validator relay) ticket = Ok ()" "r = Ok ()" "valid (store relay')"
        "get_op ops (store relay) (RelaySession.session_id session) = None"
        "get_op ops (store relay') = (get_op ops (store relay))(RelaySession.session_id session \<mapsto> session)"
        "validator relay' = validator relay"
    | (duplicate) y where "validate (validator relay) ticket = Ok ()" "r = Err SessionAlreadyExists"
        "get_op ops (store relay) (RelaySession.session_id session) = Some y" "relay' = relay"
proof (cases "validate (validator relay) ticket")
  case (Err e)
  then have "r = Err e" "relay' = relay"
    using assms(2) by (simp_all add: udp_attach_with_ticket_def)
  with Err show ?thesis by (rule rejected)
next
  case (Ok u)
  obtain r0 s0 where c: "create_op ops (store relay) session = (r0, s0)"
    by fastforce
  then have r: "r = r0" "relay' = relay\<lparr>store := s0\<rparr>"
    using assms(2) Ok by (simp_all add: udp_attach_with_ticket_def udp_attach_def)
  from assms(1) c show ?thesis
  proof (cases rule: create_cases)
    case fresh
    with r Ok show ?thesis by (intro attached) simp_all
  next
    case (taken y)
    with r Ok show ?thesis by (intro duplicate [of y]) simp_all
  qed
qed

text \<open>No session appears, disappears or changes without a ticket the validator accepts.\<close>

lemma attach_needs_valid_ticket:
  "udp_attach_with_ticket ops validate relay ticket session = (r, relay') \<Longrightarrow>
   validate (validator relay) ticket = Err e \<Longrightarrow> r = Err e \<and> relay' = relay"
  by (auto simp: udp_attach_with_ticket_def)

lemma detach_cases:
  assumes "valid (store relay)" and "udp_detach ops relay sid = (r, relay')"
  obtains (present) y where "get_op ops (store relay) sid = Some y" "r = Ok ()" "valid (store relay')"
      "get_op ops (store relay') = (get_op ops (store relay))(sid := None)" "validator relay' = validator relay"
    | (absent) "get_op ops (store relay) sid = None" "r = Err SessionNotFound" "valid (store relay')"
      "get_op ops (store relay') = get_op ops (store relay)" "validator relay' = validator relay"
proof -
  obtain r0 s0 where c: "remove_op ops (store relay) sid = (r0, s0)"
    by fastforce
  then have r: "r = r0" "relay' = relay\<lparr>store := s0\<rparr>"
    using assms(2) by (simp_all add: udp_detach_def)
  from assms(1) c show ?thesis
  proof (cases rule: remove_cases)
    case (present y)
    with r show ?thesis by (intro that(1)) simp_all
  next
    case absent
    with r show ?thesis by (intro that(2)) simp_all
  qed
qed

lemma forward_Ok_iff:
  "udp_forward ops relay p = Ok f \<longleftrightarrow>
   RelayPacket.payload p \<noteq> [] \<and>
   (\<exists>s. get_op ops (store relay) (RelayPacket.session_id p) = Some s \<and>
        peer_of s (from_device_id p) = Ok (to_device_id f)) \<and>
   ForwardedPacket.session_id f = RelayPacket.session_id p \<and>
   ForwardedPacket.payload f = RelayPacket.payload p"
  by (cases f) (auto simp: udp_forward_def udp_session_def split: result.splits)

text \<open>What is forwarded goes to the other participant of the session, and its answer comes back.\<close>

lemma forward_reply:
  assumes "udp_forward ops relay p = Ok f"
    and "get_op ops (store relay) (RelayPacket.session_id p) = Some s"
    and "source_device_id s \<noteq> target_device_id s" and "body \<noteq> []"
  shows "udp_forward ops relay
      \<lparr>RelayPacket.session_id = ForwardedPacket.session_id f, from_device_id = to_device_id f, payload = body\<rparr> =
    Ok \<lparr>ForwardedPacket.session_id = RelayPacket.session_id p, to_device_id = from_device_id p, payload = body\<rparr>"
proof -
  have "peer_of s (from_device_id p) = Ok (to_device_id f)"
    using assms(1,2) by (auto simp: forward_Ok_iff)
  then have "peer_of s (to_device_id f) = Ok (from_device_id p)"
    using peer_of_peer assms(3) by blast
  with assms show ?thesis by (auto simp: forward_Ok_iff)
qed

end

section \<open>The relay the daemon runs\<close>

type_synonym daemon_relay = "(InMemorySessionStore, StaticTicketValidator) UdpRelay"

interpretation mem_relay: udp_relay memory_store store_ok "validate_ticket crypto clock"
  for crypto clock ..

lemma udp_new_sel [simp]: "store (udp_new s v) = s" "validator (udp_new s v) = v"
  by (simp_all add: udp_new_def)

text \<open>
  Over the in-memory store, whatever the relay forwards for one participant of a session with
  two distinct devices can be answered: the addressee's reply in the same session is forwarded
  back to the sender with its payload unchanged.
\<close>

theorem udp_forward_reply:
  fixes relay :: daemon_relay
  assumes "udp_forward memory_store relay p = Ok f"
    and "get_op memory_store (store relay) (RelayPacket.session_id p) = Some s"
    and "source_device_id s \<noteq> target_device_id s" and "body \<noteq> []"
  shows "udp_forward memory_store relay
      \<lparr>RelayPacket.session_id = ForwardedPacket.session_id f, from_device_id = to_device_id f, payload = body\<rparr> =
    Ok \<lparr>ForwardedPacket.session_id = RelayPacket.session_id p, to_device_id = from_device_id p, payload = body\<rparr>"
  using assms by (rule mem_relay.forward_reply)

definition demo_session :: RelaySession where
  "demo_session = \<lparr>RelaySession.session_id = ''s1'', source_device_id = ''a'', target_device_id = ''b'', RelaySession.network_id = ''n1''\<rparr>"

definition demo_relay :: daemon_relay where
  "demo_relay = snd (udp_attach memory_store (udp_new store_new (validator_new ''udp://'')) demo_session)"

theorem udp_forward_reply_witness:
  "udp_forward memory_store demo_relay \<lparr>RelayPacket.session_id = ''s1'', from_device_id = ''b'', payload = [2]\<rparr> =
    Ok \<lparr>ForwardedPacket.session_id = ''s1'', to_device_id = ''a'', payload = [2]\<rparr>"
proof -
  let ?p = "\<lparr>RelayPacket.session_id = ''s1'', from_device_id = ''a'', payload = [1]\<rparr>"
  let ?f = "\<lparr>ForwardedPacket.session_id = ''s1'', to_device_id = ''b'', payload = [1]\<rparr>"
  have 1: "udp_forward memory_store demo_relay ?p = Ok ?f"
    by code_simp
  have 2: "get_op memory_store (store demo_relay) (RelayPacket.session_id ?p) = Some demo_session"
    by code_simp
  show ?thesis
    using udp_forward_reply [OF 1 2, of "[2]"] by (simp add: demo_session_def)
qed

end
