(* ===== verification/Serde_Tree.thy ===== *)
theory Serde_Tree
  imports Slan_Prelude
begin

text \<open>
  JSON documents as trees, and what \<open>derive(Serialize, Deserialize)\<close> does with the fields of a
  struct and the tag of an enum.  \<open>None\<close> is a document that is refused; the wording of the refusal
  belongs to \<open>serde\<close> and is not modelled.  The text form of a tree is \<open>serde_json\<close>'s.  A derived struct
  also reads an array with its fields in order; the model leaves this out, since no sender writes one.
\<close>

datatype json = JNull | JBool bool | JNum int | JStr string | JArr "json list" | JObj "(string \<times> json) list"

type_synonym json_object = "(string \<times> json) list"

fun de_string :: "json \<Rightarrow> string option" where
  "de_string (JStr s) = Some s"
| "de_string _ = None"

fun de_nat :: "json \<Rightarrow> nat option" where
  "de_nat (JNum n) = (if 0 \<le> n then Some (nat n) else None)"
| "de_nat _ = None"

fun de_option :: "(json \<Rightarrow> 'a option) \<Rightarrow> json \<Rightarrow> 'a option option" where
  "de_option de JNull = Some None"
| "de_option de v = map_option Some (de v)"

fun de_all :: "(json \<Rightarrow> 'a option) \<Rightarrow> json list \<Rightarrow> 'a list option" where
  "de_all de [] = Some []"
| "de_all de (v # vs) =
     (case de v of None \<Rightarrow> None | Some x \<Rightarrow> map_option (\<lambda>xs. x # xs) (de_all de vs))"

fun de_list :: "(json \<Rightarrow> 'a option) \<Rightarrow> json \<Rightarrow> 'a list option" where
  "de_list de (JArr vs) = de_all de vs"
| "de_list de _ = None"

fun se_option :: "('a \<Rightarrow> json) \<Rightarrow> 'a option \<Rightarrow> json" where
  "se_option se None = JNull"
| "se_option se (Some x) = se x"

text \<open>
  A field that must be present, and one with a default.  A key that occurs twice is refused; keys
  that name no field are ignored.
\<close>

definition occurrences :: "string \<Rightarrow> json_object \<Rightarrow> json list" where
  "occurrences k obj = map snd (filter (\<lambda>(k', _). k' = k) obj)"

definition de_field :: "(json \<Rightarrow> 'a option) \<Rightarrow> string \<Rightarrow> json_object \<Rightarrow> 'a option" where
  "de_field de k obj = (case occurrences k obj of [v] \<Rightarrow> de v | _ \<Rightarrow> None)"

definition de_field_default :: "'a \<Rightarrow> (json \<Rightarrow> 'a option) \<Rightarrow> string \<Rightarrow> json_object \<Rightarrow> 'a option" where
  "de_field_default d de k obj = (case occurrences k obj of [] \<Rightarrow> Some d | [v] \<Rightarrow> de v | _ \<Rightarrow> None)"

fun de_object :: "(json_object \<Rightarrow> 'a option) \<Rightarrow> json \<Rightarrow> 'a option" where
  "de_object de (JObj obj) = de obj"
| "de_object de _ = None"

text \<open>\<open>serde(tag = "kind")\<close>: the tag names the variant, the other keys are its fields.\<close>

definition de_tagged :: "(string \<Rightarrow> json_object \<Rightarrow> 'a option) \<Rightarrow> json \<Rightarrow> 'a option" where
  "de_tagged variant v =
     de_object (\<lambda>obj. case de_field de_string ''kind'' obj of
        None \<Rightarrow> None
      | Some kind \<Rightarrow> variant kind (filter (\<lambda>(k, _). k \<noteq> ''kind'') obj)) v"

lemma occurrences_simps [simp]:
  "occurrences k [] = []"
  "occurrences k ((k', v) # obj) = (if k' = k then v # occurrences k obj else occurrences k obj)"
  by (simp_all add: occurrences_def)

lemma de_all_strings [simp]: "de_all de_string (map JStr xs) = Some xs"
  by (induction xs) auto

lemma de_option_string [simp]: "de_option de_string (se_option JStr x) = Some x"
  by (cases x) auto

lemma de_field_absent: "k \<notin> fst ` set obj \<Longrightarrow> de_field de k obj = None"
  by (induction obj) (auto simp: de_field_def)

end
