(* ===== verification/Relay_Protocol.thy ===== *)
theory Relay_Protocol
  imports Relay_Core Serde_Tree
begin

text \<open>
  The wire protocol of the relay daemon, modules \<open>protocol\<close> and \<open>errors\<close>: requests, responses and
  the ticket as it is sent, the derived (de)serialisers on JSON trees, and the maps from domain
  errors to wire errors and from wire tickets to tickets.
\<close>

section \<open>Messages\<close>

record RelayTicketWire =
  ticket_id :: string
  network_id :: string
  session_id :: string
  src_node_id :: string
  dst_node_id :: string
  derp_cluster_id :: "string option"
  country_code :: "string option"
  city_code :: "string option"
  allowed_derp_node_ids :: "string list"
  relay_url :: string
  expires_at :: string
  session_key :: string
  signature :: string

datatype ClientRequest =
    Ping
  | Attach string RelayTicketWire  \<comment> \<open>participant, ticket\<close>
  | Forward string string string  \<comment> \<open>session, sending participant, payload in base64\<close>
  | Detach string string  \<comment> \<open>session, participant\<close>

record AttachAck =
  session_id :: string
  peer_participant_id :: string

record ForwardAck =
  session_id :: string
  to_participant_id :: string
  bytes_forwarded :: nat

record RelayPacketMessage =
  session_id :: string
  from_participant_id :: string
  payload_b64 :: string

record ErrorResponse =
  code :: string
  message :: string

datatype ServerResponse =
    Pong
  | Attached AttachAck
  | Forwarded ForwardAck
  | Detached string string  \<comment> \<open>session, participant\<close>
  | Packet RelayPacketMessage
  | Error ErrorResponse

section \<open>Errors\<close>

record RelayRuntimeError =
  code :: string
  message :: string

definition runtime_error_new :: "string \<Rightarrow> string \<Rightarrow> RelayRuntimeError" where
  "runtime_error_new c m = \<lparr>RelayRuntimeError.code = c, message = m\<rparr>"

fun relay_runtime_error :: "RelayError \<Rightarrow> RelayRuntimeError" where
  "relay_runtime_error InvalidTicket =
     runtime_error_new ''invalid_ticket'' (display_relay_error InvalidTicket)"
| "relay_runtime_error InvalidSignature =
     runtime_error_new ''invalid_signature'' (display_relay_error InvalidSignature)"
| "relay_runtime_error InvalidTimestamp =
     runtime_error_new ''invalid_timestamp'' (display_relay_error InvalidTimestamp)"
| "relay_runtime_error TicketExpired =
     runtime_error_new ''ticket_expired'' (display_relay_error TicketExpired)"
| "relay_runtime_error SessionNotFound =
     runtime_error_new ''session_not_found'' (display_relay_error SessionNotFound)"
| "relay_runtime_error SessionAlreadyExists =
     runtime_error_new ''session_already_exists'' (display_relay_error SessionAlreadyExists)"
| "relay_runtime_error UnauthorizedPeer =
     runtime_error_new ''unauthorized_peer'' (display_relay_error UnauthorizedPeer)"
| "relay_runtime_error EmptyPayload =
     runtime_error_new ''empty_payload'' (display_relay_error EmptyPayload)"
| "relay_runtime_error ClockSkew =
     runtime_error_new ''clock_skew'' (display_relay_error ClockSkew)"
| "relay_runtime_error (Store m) =
     runtime_error_new ''store_error'' (''session store error: '' @ m)"

definition to_relay_ticket :: "RelayTicketWire \<Rightarrow> RelayTicket" where
  "to_relay_ticket t =
     \<lparr>RelayTicket.ticket_id = RelayTicketWire.ticket_id t,
      network_id = RelayTicketWire.network_id t, session_id = RelayTicketWire.session_id t,
      src_node_id = RelayTicketWire.src_node_id t, dst_node_id = RelayTicketWire.dst_node_id t,
      derp_cluster_id = RelayTicketWire.derp_cluster_id t,
      country_code = RelayTicketWire.country_code t, city_code = RelayTicketWire.city_code t,
      allowed_derp_node_ids = RelayTicketWire.allowed_derp_node_ids t,
      relay_url = RelayTicketWire.relay_url t, expires_at = RelayTicketWire.expires_at t,
      session_key = RelayTicketWire.session_key t, signature = RelayTicketWire.signature t\<rparr>"

section \<open>The derived serialisers\<close>

definition se_ticket :: "RelayTicketWire \<Rightarrow> json" where
  "se_ticket t = JObj
     [(''ticket_id'', JStr (RelayTicketWire.ticket_id t)),
      (''network_id'', JStr (RelayTicketWire.network_id t)),
      (''session_id'', JStr (RelayTicketWire.session_id t)),
      (''src_node_id'', JStr (RelayTicketWire.src_node_id t)),
      (''dst_node_id'', JStr (RelayTicketWire.dst_node_id t)),
      (''derp_cluster_id'', se_option JStr (RelayTicketWire.derp_cluster_id t)),
      (''country_code'', se_option JStr (RelayTicketWire.country_code t)),
      (''city_code'', se_option JStr (RelayTicketWire.city_code t)),
      (''allowed_derp_node_ids'', JArr (map JStr (RelayTicketWire.allowed_derp_node_ids t))),
      (''relay_url'', JStr (RelayTicketWire.relay_url t)),
      (''expires_at'', JStr (RelayTicketWire.expires_at t)),
      (''session_key'', JStr (RelayTicketWire.session_key t)),
      (''signature'', JStr (RelayTicketWire.signature t))]"

definition de_ticket :: "json \<Rightarrow> RelayTicketWire option" where
  "de_ticket = de_object (\<lambda>obj.
     case de_field de_string ''ticket_id'' obj of None \<Rightarrow> None | Some a \<Rightarrow>
     (case de_field de_string ''network_id'' obj of None \<Rightarrow> None | Some b \<Rightarrow>
     (case de_field de_string ''session_id'' obj of None \<Rightarrow> None | Some c \<Rightarrow>
     (case de_field de_string ''src_node_id'' obj of None \<Rightarrow> None | Some d \<Rightarrow>
     (case de_field de_string ''dst_node_id'' obj of None \<Rightarrow> None | Some e \<Rightarrow>
     (case de_field_default None (de_option de_string) ''derp_cluster_id'' obj of None \<Rightarrow> None | Some f \<Rightarrow>
     (case de_field_default None (de_option de_string) ''country_code'' obj of None \<Rightarrow> None | Some g \<Rightarrow>
     (case de_field_default None (de_option de_string) ''city_code'' obj of None \<Rightarrow> None | Some h \<Rightarrow>
     (case de_field_default [] (de_list de_string) ''allowed_derp_node_ids'' obj of None \<Rightarrow> None | Some i \<Rightarrow>
     (case de_field de_string ''relay_url'' obj of None \<Rightarrow> None | Some j \<Rightarrow>
     (case de_field de_string ''expires_at'' obj of None \<Rightarrow> None | Some k \<Rightarrow>
     (case de_field_default [] de_string ''session_key'' obj of None \<Rightarrow> None | Some l \<Rightarrow>
     (case de_field de_string ''signature'' obj of None \<Rightarrow> None | Some m \<Rightarrow>
        Some \<lparr>RelayTicketWire.ticket_id = a, network_id = b, session_id = c, src_node_id = d,
              dst_node_id = e, derp_cluster_id = f, country_code = g, city_code = h,
              allowed_derp_node_ids = i, relay_url = j, expires_at = k, session_key = l,
              signature = m\<rparr>)))))))))))))"

fun se_request :: "ClientRequest \<Rightarrow> json" where
  "se_request Ping = JObj [(''kind'', JStr ''ping'')]"
| "se_request (Attach p t) =
     JObj [(''kind'', JStr ''attach''), (''participant_id'', JStr p), (''ticket'', se_ticket t)]"
| "se_request (Forward s p b) =
     JObj [(''kind'', JStr ''forward''), (''session_id'', JStr s),
           (''from_participant_id'', JStr p), (''payload_b64'', JStr b)]"
| "se_request (Detach s p) =
     JObj [(''kind'', JStr ''detach''), (''session_id'', JStr s), (''participant_id'', JStr p)]"

definition de_request_variant :: "string \<Rightarrow> json_object \<Rightarrow> ClientRequest option" where
  "de_request_variant kind obj =
     (if kind = ''ping'' then Some Ping
      else if kind = ''attach'' then
        (case de_field de_string ''participant_id'' obj of None \<Rightarrow> None | Some p \<Rightarrow>
         map_option (Attach p) (de_field de_ticket ''ticket'' obj))
      else if kind = ''forward'' then
        (case de_field de_string ''session_id'' obj of None \<Rightarrow> None | Some s \<Rightarrow>
         (case de_field de_string ''from_participant_id'' obj of None \<Rightarrow> None | Some p \<Rightarrow>
          map_option (Forward s p) (de_field de_string ''payload_b64'' obj)))
      else if kind = ''detach'' then
        (case de_field de_string ''session_id'' obj of None \<Rightarrow> None | Some s \<Rightarrow>
         map_option (Detach s) (de_field de_string ''participant_id'' obj))
      else None)"

definition de_request :: "json \<Rightarrow> ClientRequest option" where
  "de_request = de_tagged de_request_variant"

fun se_response :: "ServerResponse \<Rightarrow> json" where
  "se_response Pong = JObj [(''kind'', JStr ''pong'')]"
| "se_response (Attached a) =
     JObj [(''kind'', JStr ''attached''), (''session_id'', JStr (AttachAck.session_id a)),
           (''peer_participant_id'', JStr (peer_participant_id a))]"
| "se_response (Forwarded a) =
     JObj [(''kind'', JStr ''forwarded''), (''session_id'', JStr (ForwardAck.session_id a)),
           (''to_participant_id'', JStr (to_participant_id a)),
           (''bytes_forwarded'', JNum (int (bytes_forwarded a)))]"
| "se_response (Detached s p) =
     JObj [(''kind'', JStr ''detached''), (''session_id'', JStr s), (''participant_id'', JStr p)]"
| "se_response (Packet m) =
     JObj [(''kind'', JStr ''packet''), (''session_id'', JStr (RelayPacketMessage.session_id m)),
           (''from_participant_id'', JStr (RelayPacketMessage.from_participant_id m)),
           (''payload_b64'', JStr (RelayPacketMessage.payload_b64 m))]"
| "se_response (Error e) =
     JObj [(''kind'', JStr ''error''), (''code'', JStr (ErrorResponse.code e)),
           (''message'', JStr (ErrorResponse.message e))]"

section \<open>Properties\<close>

lemmas de_simps = de_field_def de_field_default_def de_tagged_def de_request_variant_def

lemma de_ticket_se: "de_ticket (se_ticket t) = Some t"
  by (simp add: de_ticket_def se_ticket_def de_simps)

text \<open>The two derives of the protocol crate for requests agree; the serialiser is used by its tests only.\<close>

lemma de_request_se: "de_request (se_request r) = Some r"
  by (cases r) (simp_all add: de_request_def de_simps de_ticket_se)

lemma to_relay_ticket_sel [simp]:
  "RelayTicket.session_id (to_relay_ticket t) = RelayTicketWire.session_id t"
  "RelayTicket.src_node_id (to_relay_ticket t) = RelayTicketWire.src_node_id t"
  "RelayTicket.dst_node_id (to_relay_ticket t) = RelayTicketWire.dst_node_id t"
  "RelayTicket.network_id (to_relay_ticket t) = RelayTicketWire.network_id t"
  by (simp_all add: to_relay_ticket_def)

lemma relay_runtime_error_sel:
  "RelayRuntimeError.message (relay_runtime_error e) = display_relay_error e"
  by (cases e) (simp_all add: runtime_error_new_def)

text \<open>The wire codes tell the domain errors apart, up to the message of a store error.\<close>

lemma relay_runtime_error_inject:
  "relay_runtime_error e = relay_runtime_error e' \<Longrightarrow> e = e'"
  by (cases e; cases e') (simp_all add: runtime_error_new_def)

end
