(* ===== verification/Relay_Daemon.thy ===== *)
theory Relay_Daemon
  imports Udp_Relay Relay_Protocol
begin

text \<open>
  Crate \<open>relay-daemon\<close>: the runtime with its attach, forward and detach handlers, the UDP server
  loop, the configuration and the command line.  Sockets, the clock, the file system, \<open>serde_json\<close>
  and \<open>base64\<close> are parameters.  The invariant of the runtime is proved for every handler and so for
  every state the daemon reaches.
\<close>

section \<open>The runtime\<close>

type_synonym SessionEndpoints = "(string, (string, SocketAddr) HashMap) HashMap"

record RelayRuntime =
  relay :: daemon_relay
  endpoints :: SessionEndpoints

text \<open>\<open>base64::STANDARD\<close>; a decoding error is its text.\<close>

record Base64Standard =
  std_encode :: "u8 list \<Rightarrow> string"
  std_decode :: "string \<Rightarrow> (u8 list, string) result"

type_synonym reply = "(ServerResponse \<times> (SocketAddr \<times> ServerResponse) option, RelayRuntimeError) result"

definition runtime_new :: "string option \<Rightarrow> string option \<Rightarrow> RelayRuntime" where
  "runtime_new relay_url_prefix ticket_signing_secret =
     \<lparr>relay = udp_new store_new (with_options relay_url_prefix ticket_signing_secret),
      endpoints = fmempty\<rparr>"

text \<open>\<open>endpoints.entry(session).or_default().insert(participant, source)\<close>.\<close>

definition bind_endpoint :: "SessionEndpoints \<Rightarrow> string \<Rightarrow> string \<Rightarrow> SocketAddr \<Rightarrow> SessionEndpoints" where
  "bind_endpoint eps sid participant source =
     (let ps = (case fmlookup eps sid of Some ps \<Rightarrow> ps | None \<Rightarrow> fmempty)
      in fmupd sid (fmupd participant source ps) eps)"

definition attach_ok :: "RelayRuntime \<Rightarrow> SocketAddr \<Rightarrow> string \<Rightarrow> RelayTicket \<Rightarrow> reply \<times> RelayRuntime" where
  "attach_ok rt source participant t =
     (let peer = (if participant = RelayTicket.src_node_id t then RelayTicket.dst_node_id t
                  else RelayTicket.src_node_id t)
      in (Ok (Attached \<lparr>AttachAck.session_id = RelayTicket.session_id t, peer_participant_id = peer\<rparr>, None),
          rt\<lparr>endpoints := bind_endpoint (endpoints rt) (RelayTicket.session_id t) participant source\<rparr>))"

definition session_of_ticket :: "RelayTicket \<Rightarrow> RelaySession" where
  "session_of_ticket t =
     \<lparr>RelaySession.session_id = RelayTicket.session_id t,
      source_device_id = RelayTicket.src_node_id t, target_device_id = RelayTicket.dst_node_id t,
      network_id = RelayTicket.network_id t\<rparr>"

definition handle_attach ::
  "TicketCrypto \<Rightarrow> int \<Rightarrow> RelayRuntime \<Rightarrow> SocketAddr \<Rightarrow> string \<Rightarrow> RelayTicketWire \<Rightarrow> reply \<times> RelayRuntime" where
  "handle_attach crypto clock rt source participant wire =
     (let t = to_relay_ticket wire
      in if participant \<noteq> RelayTicket.src_node_id t \<and> participant \<noteq> RelayTicket.dst_node_id t
         then (Err (runtime_error_new ''participant_not_in_ticket''
                      ''participant is not part of relay ticket''), rt)
         else
           let session = session_of_ticket t;
               (r, relay') = udp_attach_with_ticket memory_store (validate_ticket crypto clock)
                               (relay rt) t session;
               rt' = rt\<lparr>relay := relay'\<rparr>
           in case r of
                Ok _ \<Rightarrow> attach_ok rt' source participant t
              | Err e \<Rightarrow>
                  if e = SessionAlreadyExists then
                    (case udp_session memory_store relay' (RelayTicket.session_id t) of
                       Err e' \<Rightarrow> (Err (relay_runtime_error e'), rt')
                     | Ok existing \<Rightarrow>
                         if existing \<noteq> session
                         then (Err (runtime_error_new ''session_conflict''
                                 ''relay session already exists with different participants''), rt')
                         else attach_ok rt' source participant t)
                  else (Err (relay_runtime_error e), rt'))"

definition handle_forward ::
  "Base64Standard \<Rightarrow> RelayRuntime \<Rightarrow> SocketAddr \<Rightarrow> string \<Rightarrow> string \<Rightarrow> string \<Rightarrow> reply \<times> RelayRuntime" where
  "handle_forward b64 rt source sid from b64_payload =
     ((case fmlookup (endpoints rt) sid of
         None \<Rightarrow> Err (runtime_error_new ''session_not_attached''
                        ''relay session has no attached participants'')
       | Some ps \<Rightarrow> (case fmlookup ps from of
         None \<Rightarrow> Err (runtime_error_new ''participant_not_attached''
                        ''participant has not attached to relay session'')
       | Some bound \<Rightarrow>
         if bound \<noteq> source
         then Err (runtime_error_new ''participant_address_mismatch''
                     ''participant is bound to a different udp address'')
         else case std_decode b64 b64_payload of
           Err e \<Rightarrow> Err (runtime_error_new ''invalid_payload_b64'' (''invalid payload_b64: '' @ e))
         | Ok body \<Rightarrow>
           (case udp_forward memory_store (relay rt)
                   \<lparr>RelayPacket.session_id = sid, from_device_id = from, payload = body\<rparr> of
              Err e \<Rightarrow> Err (relay_runtime_error e)
            | Ok fwd \<Rightarrow>
                (case fmlookup ps (to_device_id fwd) of
                   None \<Rightarrow> Err (runtime_error_new ''peer_not_attached''
                                  ''target participant has not attached to relay session'')
                 | Some peer_addr \<Rightarrow>
                     Ok (Forwarded \<lparr>ForwardAck.session_id = ForwardedPacket.session_id fwd,
                           to_participant_id = to_device_id fwd,
                           bytes_forwarded = length (ForwardedPacket.payload fwd)\<rparr>,
                         Some (peer_addr,
                           Packet \<lparr>RelayPacketMessage.session_id = ForwardedPacket.session_id fwd,
                             from_participant_id = from,
                             payload_b64 = std_encode b64 (ForwardedPacket.payload fwd)\<rparr>)))))),
      rt)"

definition handle_detach ::
  "RelayRuntime \<Rightarrow> SocketAddr \<Rightarrow> string \<Rightarrow> string \<Rightarrow> reply \<times> RelayRuntime" where
  "handle_detach rt source sid participant =
     (case fmlookup (endpoints rt) sid of
        None \<Rightarrow> (Err (runtime_error_new ''session_not_attached''
                        ''relay session has no attached participants''), rt)
      | Some ps \<Rightarrow> (case fmlookup ps participant of
        None \<Rightarrow> (Err (runtime_error_new ''participant_not_attached''
                        ''participant has not attached to relay session''), rt)
      | Some bound \<Rightarrow>
        if bound \<noteq> source
        then (Err (runtime_error_new ''participant_address_mismatch''
                     ''participant is bound to a different udp address''), rt)
        else
          let ps' = fmdrop participant ps;
              rt1 = rt\<lparr>endpoints := fmupd sid ps' (endpoints rt)\<rparr>;
              ack = Ok (Detached sid participant, None)
          in if ps' = fmempty then
               let rt2 = rt1\<lparr>endpoints := fmdrop sid (endpoints rt1)\<rparr>;
                   (r, relay') = udp_detach memory_store (relay rt2) sid;
                   rt3 = rt2\<lparr>relay := relay'\<rparr>
               in case r of
                    Err e \<Rightarrow> (Err (relay_runtime_error e), rt3)
                  | Ok _ \<Rightarrow> (ack, rt3)
             else (ack, rt1)))"

fun handle_request ::
  "TicketCrypto \<Rightarrow> Base64Standard \<Rightarrow> int \<Rightarrow> RelayRuntime \<Rightarrow> SocketAddr \<Rightarrow> ClientRequest \<Rightarrow> reply \<times> RelayRuntime" where
  "handle_request crypto b64 clock rt source Ping = (Ok (Pong, None), rt)"
| "handle_request crypto b64 clock rt source (Attach p t) = handle_attach crypto clock rt source p t"
| "handle_request crypto b64 clock rt source (Forward s p b) = handle_forward b64 rt source s p b"
| "handle_request crypto b64 clock rt source (Detach s p) = handle_detach rt source s p"

section \<open>The server loop\<close>

text \<open>
  One turn of \<open>serve\<close> sees an answer of the socket, the clock, and the outcome of every send.
  \<open>serde_json\<close> is a codec between bytes and messages.
\<close>

record Turn =
  received :: "(u8 list \<times> SocketAddr, string) result"
  clock_now :: int
  send_to :: "SocketAddr \<Rightarrow> u8 list \<Rightarrow> (nat, string) result"

record WireCodec =
  from_slice :: "u8 list \<Rightarrow> (ClientRequest, string) result"
  to_vec :: "ServerResponse \<Rightarrow> (u8 list, string) result"

type_synonym sent = "(SocketAddr \<times> ServerResponse) list"

definition send_response ::
  "WireCodec \<Rightarrow> Turn \<Rightarrow> SocketAddr \<Rightarrow> ServerResponse \<Rightarrow> (unit, string) result \<times> sent" where
  "send_response codec turn target response =
     (case to_vec codec response of
        Err e \<Rightarrow> (Err (''encode relay response: '' @ e), [])
      | Ok body \<Rightarrow>
          (case send_to turn target body of
             Err e \<Rightarrow> (Err (''send relay udp response: '' @ e), [])
           | Ok _ \<Rightarrow> (Ok (), [(target, response)])))"

definition serve_turn ::
  "TicketCrypto \<Rightarrow> Base64Standard \<Rightarrow> WireCodec \<Rightarrow> Turn \<Rightarrow> RelayRuntime \<Rightarrow> (unit, string) result \<times> RelayRuntime \<times> sent" where
  "serve_turn crypto b64 codec turn rt =
     (case received turn of
        Err e \<Rightarrow> (Err (''recv relay udp packet: '' @ e), rt, [])
      | Ok (datagram, source) \<Rightarrow>
          (case from_slice codec (take (64 * 1024) datagram) of
             Err e \<Rightarrow> (Err (''decode relay request: '' @ e), rt, [])
           | Ok request \<Rightarrow>
               (case handle_request crypto b64 (clock_now turn) rt source request of
                  (Ok (response, maybe_peer_packet), rt') \<Rightarrow>
                    (case maybe_peer_packet of
                       None \<Rightarrow>
                         (case send_response codec turn source response of (r, out) \<Rightarrow> (r, rt', out))
                     | Some (peer_addr, packet) \<Rightarrow>
                         (case send_response codec turn peer_addr packet of
                            (Err e, out) \<Rightarrow> (Err e, rt', out)
                          | (Ok _, out) \<Rightarrow>
                              (case send_response codec turn source response of
                                 (r, out') \<Rightarrow> (r, rt', out @ out'))))
                | (Err error, rt') \<Rightarrow>
                    (case send_response codec turn source
                            (Error \<lparr>ErrorResponse.code = RelayRuntimeError.code error,
                               message = RelayRuntimeError.message error\<rparr>) of
                       (r, out) \<Rightarrow> (r, rt', out)))))"

text \<open>\<open>serve\<close> over the turns the environment offers: \<open>Ok\<close> is a loop that still waits for the next one.\<close>

fun serve ::
  "TicketCrypto \<Rightarrow> Base64Standard \<Rightarrow> WireCodec \<Rightarrow> Turn list \<Rightarrow> RelayRuntime \<Rightarrow> (unit, string) result \<times> RelayRuntime \<times> sent" where
  "serve crypto b64 codec [] rt = (Ok (), rt, [])"
| "serve crypto b64 codec (turn # turns) rt =
     (case serve_turn crypto b64 codec turn rt of
        (Err e, rt', out) \<Rightarrow> (Err e, rt', out)
      | (Ok _, rt', out) \<Rightarrow>
          (case serve crypto b64 codec turns rt' of (r, rt'', out') \<Rightarrow> (r, rt'', out @ out')))"

section \<open>Configuration and command line\<close>

record DaemonConfig =
  udp_bind :: string
  relay_url_prefix :: "string option"
  ticket_signing_secret :: "string option"

definition config_default :: DaemonConfig where
  "config_default =
     \<lparr>udp_bind = ''0.0.0.0:9000'', relay_url_prefix = Some ''udp://'', ticket_signing_secret = None\<rparr>"

text \<open>
  \<open>from_file\<close> is a parameter of \<open>parse_args\<close> in two parts: the file contents and the JSON reader.
\<close>

definition from_file ::
  "(string \<Rightarrow> (string, string) result) \<Rightarrow> (string \<Rightarrow> (DaemonConfig, string) result) \<Rightarrow> string \<Rightarrow> (DaemonConfig, string) result" where
  "from_file read_to_string from_str path =
     (case read_to_string path of
        Err e \<Rightarrow> Err (''failed to read config '' @ path @ '': '' @ e)
      | Ok text \<Rightarrow> map_err (\<lambda>e. ''failed to parse config '' @ path @ '': '' @ e) (from_str text))"

fun parse_args ::
  "(string \<Rightarrow> (DaemonConfig, string) result) \<Rightarrow> DaemonConfig \<Rightarrow> string list \<Rightarrow> (DaemonConfig, string) result" where
  "parse_args load config [] = Ok config"
| "parse_args load config (arg # rest) =
     (if arg = ''--config'' then
        (case rest of [] \<Rightarrow> Err ''missing value for --config''
         | v # rest' \<Rightarrow> (case load v of Err e \<Rightarrow> Err e | Ok c \<Rightarrow> parse_args load c rest'))
      else if arg = ''--udp-bind'' then
        (case rest of [] \<Rightarrow> Err ''missing value for --udp-bind''
         | v # rest' \<Rightarrow> parse_args load (config\<lparr>udp_bind := v\<rparr>) rest')
      else if arg = ''--relay-url-prefix'' then
        (case rest of [] \<Rightarrow> Err ''missing value for --relay-url-prefix''
         | v # rest' \<Rightarrow> parse_args load (config\<lparr>relay_url_prefix := Some v\<rparr>) rest')
      else if arg = ''--no-relay-url-prefix'' then
        parse_args load (config\<lparr>relay_url_prefix := None\<rparr>) rest
      else if arg = ''--ticket-signing-secret'' then
        (case rest of [] \<Rightarrow> Err ''missing value for --ticket-signing-secret''
         | v # rest' \<Rightarrow> parse_args load (config\<lparr>ticket_signing_secret := Some v\<rparr>) rest')
      else Err (''unsupported flag: '' @ arg))"

definition daemon_bind ::
  "(string \<Rightarrow> (unit, string) result) \<Rightarrow> DaemonConfig \<Rightarrow> (RelayRuntime, string) result" where
  "daemon_bind bind_socket config =
     (case bind_socket (udp_bind config) of
        Err e \<Rightarrow> Err (''bind relay udp socket '' @ udp_bind config @ '': '' @ e)
      | Ok _ \<Rightarrow> Ok (runtime_new (relay_url_prefix config) (ticket_signing_secret config)))"

section \<open>The invariant\<close>

abbreviation session_at :: "RelayRuntime \<Rightarrow> string \<Rightarrow> RelaySession option" where
  "session_at rt \<equiv> get_op memory_store (store (relay rt))"

text \<open>
  Endpoints and sessions have the same ids, and the endpoints of a session are not empty and
  belong to its participants.
\<close>

definition runtime_inv :: "RelayRuntime \<Rightarrow> bool" where
  "runtime_inv rt \<longleftrightarrow>
     store_ok (store (relay rt)) \<and>
     (\<forall>sid. fmlookup (endpoints rt) sid = None \<longleftrightarrow> session_at rt sid = None) \<and>
     (\<forall>sid ps s. fmlookup (endpoints rt) sid = Some ps \<longrightarrow> session_at rt sid = Some s \<longrightarrow>
        ps \<noteq> fmempty \<and> (\<forall>p. fmlookup ps p \<noteq> None \<longrightarrow> involves s p))"

lemma runtime_invI:
  assumes "store_ok (store (relay rt))"
    and "\<And>sid. fmlookup (endpoints rt) sid = None \<longleftrightarrow> session_at rt sid = None"
    and "\<And>sid ps s. fmlookup (endpoints rt) sid = Some ps \<Longrightarrow> session_at rt sid = Some s \<Longrightarrow>
      ps \<noteq> fmempty \<and> (\<forall>p. fmlookup ps p \<noteq> None \<longrightarrow> involves s p)"
  shows "runtime_inv rt"
  using assms by (auto simp: runtime_inv_def)

lemma runtime_invD:
  assumes "runtime_inv rt"
  shows "store_ok (store (relay rt))"
    and "fmlookup (endpoints rt) sid = None \<longleftrightarrow> session_at rt sid = None"
    and "fmlookup (endpoints rt) sid = Some ps \<Longrightarrow> \<exists>s. session_at rt sid = Some s \<and>
      ps \<noteq> fmempty \<and> (\<forall>p. fmlookup ps p \<noteq> None \<longrightarrow> involves s p)"
proof -
  show "store_ok (store (relay rt))" and "fmlookup (endpoints rt) sid = None \<longleftrightarrow> session_at rt sid = None"
    using assms by (simp_all add: runtime_inv_def)
  assume "fmlookup (endpoints rt) sid = Some ps"
  with assms show "\<exists>s. session_at rt sid = Some s \<and>
      ps \<noteq> fmempty \<and> (\<forall>p. fmlookup ps p \<noteq> None \<longrightarrow> involves s p)"
    unfolding runtime_inv_def by (metis option.exhaust option.distinct(1))
qed

lemma runtime_new_inv: "runtime_inv (runtime_new prefix key)"
  by (rule runtime_invI) (simp_all add: runtime_new_def)

subsection \<open>Attach\<close>

lemma bind_endpoint_lookup:
  "fmlookup (bind_endpoint eps sid p a) sid' =
     (if sid' = sid then Some (fmupd p a (case_option fmempty id (fmlookup eps sid)))
      else fmlookup eps sid')"
  by (simp add: bind_endpoint_def Let_def split: option.split)

lemma bind_endpoint_bound:
  assumes "fmlookup (bind_endpoint eps sid q a) sid' = Some ps" and "fmlookup ps p = Some addr"
  shows "sid' = sid \<and> p = q \<and> addr = a \<or> (\<exists>ps0. fmlookup eps sid' = Some ps0 \<and> fmlookup ps0 p = Some addr)"
proof (cases "fmlookup eps sid'")
  case None
  with assms show ?thesis by (auto simp: bind_endpoint_lookup split: if_splits)
next
  case (Some ps0)
  with assms show ?thesis by (auto simp: bind_endpoint_lookup split: if_splits)
qed

text \<open>
  An attach is refused and changes nothing, or it binds the participant in a session that is the
  ticket's, created just now or before.
\<close>

lemma handle_attach_cases:
  assumes inv: "runtime_inv rt" and h: "handle_attach crypto clock rt source p wire = (r, rt')"
  obtains (refused) e where "r = Err e" "rt' = rt"
    | (bound) "p = RelayTicketWire.src_node_id wire \<or> p = RelayTicketWire.dst_node_id wire"
        "validate_ticket crypto clock (validator (relay rt)) (to_relay_ticket wire) = Ok ()"
        "r = fst (attach_ok rt source p (to_relay_ticket wire))"
        "endpoints rt' = bind_endpoint (endpoints rt) (RelayTicketWire.session_id wire) p source"
        "session_at rt (RelayTicketWire.session_id wire) \<in> {None, Some (session_of_ticket (to_relay_ticket wire))}"
        "session_at rt' = (session_at rt)(RelayTicketWire.session_id wire \<mapsto> session_of_ticket (to_relay_ticket wire))"
        "store_ok (store (relay rt'))" "validator (relay rt') = validator (relay rt)"
proof -
  define t where "t = to_relay_ticket wire"
  define session where "session = session_of_ticket t"
  have sid: "RelaySession.session_id session = RelayTicket.session_id t"
    by (simp add: session_def session_of_ticket_def)
  note ok = runtime_invD(1) [OF inv]
  obtain r0 relay' where a: "udp_attach_with_ticket memory_store (validate_ticket crypto clock) (relay rt) t session = (r0, relay')"
    by fastforce
  show ?thesis
  proof (cases "p \<noteq> RelayTicket.src_node_id t \<and> p \<noteq> RelayTicket.dst_node_id t")
    case True
    with h have "rt' = rt" "\<exists>e. r = Err e"
      by (auto simp: handle_attach_def Let_def t_def)
    then show ?thesis by (auto intro: refused)
  next
    case False
    note h' = h [unfolded handle_attach_def Let_def, folded t_def, folded session_def, unfolded a]
    from ok a show ?thesis
    proof (cases rule: mem_relay.attach_with_ticket_cases)
      case (rejected e)
      then have "e \<noteq> SessionAlreadyExists"
        by (auto dest: validate_ticket_errors)
      with h' False rejected have "rt' = rt" "\<exists>e. r = Err e"
        by auto
      then show ?thesis by (auto intro: refused)
    next
      case attached
      with h' False sid show ?thesis
        by (intro bound) (auto simp: attach_ok_def Let_def t_def session_def)
    next
      case (duplicate y)
      show ?thesis
      proof (cases "y = session")
        case True
        with h' False sid duplicate ok show ?thesis
          by (intro bound) (auto simp: attach_ok_def udp_session_def Let_def t_def session_def fun_upd_idem)
      next
        case not_same: False
        with h' False sid duplicate have "rt' = rt" "\<exists>e. r = Err e"
          by (auto simp: udp_session_def)
        then show ?thesis by (auto intro: refused)
      qed
    qed
  qed
qed

lemma handle_attach_inv:
  assumes inv: "runtime_inv rt" and h: "handle_attach crypto clock rt source p wire = (r, rt')"
  shows "runtime_inv rt'"
  using inv h
proof (cases rule: handle_attach_cases)
  case refused
  with inv show ?thesis by simp
next
  case bound
  let ?sid = "RelayTicketWire.session_id wire"
  let ?s = "session_of_ticket (to_relay_ticket wire)"
  show ?thesis
  proof (rule runtime_invI)
    show "fmlookup (endpoints rt') sid = None \<longleftrightarrow> session_at rt' sid = None" for sid
      using bound runtime_invD(2) [OF inv] by (simp add: bind_endpoint_lookup)
    fix sid ps s
    assume l: "fmlookup (endpoints rt') sid = Some ps" "session_at rt' sid = Some s"
    show "ps \<noteq> fmempty \<and> (\<forall>q. fmlookup ps q \<noteq> None \<longrightarrow> involves s q)"
    proof (cases "sid = ?sid")
      case False
      with l bound runtime_invD(3) [OF inv] show ?thesis
        by (fastforce simp: bind_endpoint_lookup)
    next
      case True
      have p: "involves ?s p"
        using bound(1) by (auto simp: involves_def session_of_ticket_def)
      have ps: "ps = fmupd p source (case_option fmempty id (fmlookup (endpoints rt) ?sid))" "s = ?s"
        using True l bound by (auto simp: bind_endpoint_lookup)
      have "involves ?s q" if "fmlookup (case_option fmempty id (fmlookup (endpoints rt) ?sid)) q \<noteq> None" for q
        using that bound(5) runtime_invD(2,3) [OF inv, of ?sid] by (auto split: option.splits)
      with ps p show ?thesis
        by (auto simp: map_simps)
    qed
  qed (use bound in simp_all)
qed

subsection \<open>Detach\<close>

lemma handle_detach_cases:
  assumes inv: "runtime_inv rt" and h: "handle_detach rt source sid p = (r, rt')"
  obtains (refused) e where "r = Err e" "rt' = rt"
      "RelayRuntimeError.code e \<in>
         {''session_not_attached'', ''participant_not_attached'', ''participant_address_mismatch''}"
      "\<not> (\<exists>ps. fmlookup (endpoints rt) sid = Some ps \<and> fmlookup ps p = Some source)"
    | (left) ps where "r = Ok (Detached sid p, None)" "fmlookup (endpoints rt) sid = Some ps"
        "fmlookup ps p = Some source" "fmdrop p ps \<noteq> fmempty"
        "endpoints rt' = fmupd sid (fmdrop p ps) (endpoints rt)" "relay rt' = relay rt"
    | (closed) ps where "r = Ok (Detached sid p, None)" "fmlookup (endpoints rt) sid = Some ps"
        "fmlookup ps p = Some source" "fmdrop p ps = fmempty"
        "endpoints rt' = fmdrop sid (fmupd sid (fmdrop p ps) (endpoints rt))"
        "session_at rt' = (session_at rt)(sid := None)"
        "store_ok (store (relay rt'))" "validator (relay rt') = validator (relay rt)"
proof (cases "\<exists>ps. fmlookup (endpoints rt) sid = Some ps \<and> fmlookup ps p = Some source")
  case False
  then have "rt' = rt" "\<exists>e. r = Err e \<and> RelayRuntimeError.code e \<in>
      {''session_not_attached'', ''participant_not_attached'', ''participant_address_mismatch''}"
    using h by (auto simp: handle_detach_def runtime_error_new_def split: option.splits)
  then show ?thesis using False by (auto intro: refused)
next
  case True
  then obtain ps where ps: "fmlookup (endpoints rt) sid = Some ps" "fmlookup ps p = Some source"
    by blast
  show ?thesis
  proof (cases "fmdrop p ps = fmempty")
    case False
    with ps h show ?thesis
      by (intro left [of ps]) (auto simp: handle_detach_def Let_def)
  next
    case True
    obtain r0 relay' where d: "udp_detach memory_store (relay rt) sid = (r0, relay')"
      by fastforce
    obtain y where y: "session_at rt sid = Some y"
      using runtime_invD(3) [OF inv ps(1)] by blast
    from runtime_invD(1) [OF inv] d show ?thesis
    proof (cases rule: mem_relay.detach_cases)
      case present
      with True ps h d show ?thesis
        by (intro closed [of ps]) (auto simp: handle_detach_def Let_def)
    next
      case absent
      with y show ?thesis by simp
    qed
  qed
qed

lemma handle_detach_inv:
  assumes inv: "runtime_inv rt" and h: "handle_detach rt source sid p = (r, rt')"
  shows "runtime_inv rt'"
  using inv h
proof (cases rule: handle_detach_cases)
  case refused
  with inv show ?thesis by simp
next
  case (left ps)
  have "involves s q" if "fmlookup (fmdrop p ps) q \<noteq> None" "session_at rt sid = Some s" for q s
    using that runtime_invD(3) [OF inv left(2)] by (auto split: if_splits)
  with left show ?thesis
    using runtime_invD [OF inv]
    by (intro runtime_invI) (fastforce split: if_splits)+
next
  case (closed ps)
  with runtime_invD(2,3) [OF inv] show ?thesis
    by (intro runtime_invI) (fastforce split: if_splits)+
qed

subsection \<open>Forward\<close>

lemma handle_forward_state: "handle_forward b64 rt source sid from body = (r, rt') \<Longrightarrow> rt' = rt"
  by (simp add: handle_forward_def)

lemma handle_forward_Ok_iff:
  "fst (handle_forward b64 rt source sid from text) = Ok (ack, pkt) \<longleftrightarrow>
   (\<exists>ps body s peer addr. fmlookup (endpoints rt) sid = Some ps \<and> fmlookup ps from = Some source \<and>
      std_decode b64 text = Ok body \<and> body \<noteq> [] \<and>
      session_at rt sid = Some s \<and> peer_of s from = Ok peer \<and> fmlookup ps peer = Some addr \<and>
      ack = Forwarded \<lparr>ForwardAck.session_id = sid, to_participant_id = peer, bytes_forwarded = length body\<rparr> \<and>
      pkt = Some (addr, Packet \<lparr>RelayPacketMessage.session_id = sid, from_participant_id = from,
                          payload_b64 = std_encode b64 body\<rparr>))"
proof (cases "\<exists>ps body. fmlookup (endpoints rt) sid = Some ps \<and> fmlookup ps from = Some source \<and>
      std_decode b64 text = Ok body")
  case False
  then show ?thesis
    by (auto simp: handle_forward_def split: option.splits result.splits)
next
  case True
  then obtain ps body where 1: "fmlookup (endpoints rt) sid = Some ps" "fmlookup ps from = Some source"
      "std_decode b64 text = Ok body"
    by blast
  then show ?thesis
    by (cases "session_at rt sid"; cases "body = []")
      (auto simp: handle_forward_def udp_forward_def udp_session_def split: option.splits result.splits)
qed

lemma handle_forward_error_codes:
  assumes "runtime_inv rt" and "fst (handle_forward b64 rt source sid from text) = Err e"
  shows "RelayRuntimeError.code e \<in> {''session_not_attached'', ''participant_not_attached'',
    ''participant_address_mismatch'', ''invalid_payload_b64'', ''empty_payload'', ''peer_not_attached''}"
proof (cases "fmlookup (endpoints rt) sid")
  case None
  with assms show ?thesis by (auto simp: handle_forward_def runtime_error_new_def)
next
  case (Some ps)
  then obtain s where s: "session_at rt sid = Some s" "\<forall>p. fmlookup ps p \<noteq> None \<longrightarrow> involves s p"
    using runtime_invD(3) [OF assms(1)] by blast
  have peer: "\<exists>q. peer_of s from = Ok q" if "fmlookup ps from = Some a" for a
    using that s(2) by (simp add: peer_of_Ok_iff)
  show ?thesis
    using assms(2) Some s(1) peer
    by (auto simp: handle_forward_def runtime_error_new_def udp_forward_def udp_session_def
        split: option.splits result.splits if_splits)
qed

section \<open>Reachable states\<close>

text \<open>
  The states the daemon reaches, with the history of the requests it was handed: the clock, the
  source address and the request of each.
\<close>

type_synonym event = "int \<times> SocketAddr \<times> ClientRequest"

inductive reachable ::
  "TicketCrypto \<Rightarrow> Base64Standard \<Rightarrow> string option \<Rightarrow> string option \<Rightarrow> event list \<Rightarrow> RelayRuntime \<Rightarrow> bool"
  for crypto b64 prefix key where
  start: "reachable crypto b64 prefix key [] (runtime_new prefix key)"
| step: "reachable crypto b64 prefix key h rt \<Longrightarrow>
    handle_request crypto b64 clock rt source req = (r, rt') \<Longrightarrow>
    reachable crypto b64 prefix key (h @ [(clock, source, req)]) rt'"

inductive_cases reachable_snocE: "reachable crypto b64 prefix key (h @ [e]) rt"

lemma handle_request_inv:
  assumes "runtime_inv rt" and "handle_request crypto b64 clock rt source req = (r, rt')"
  shows "runtime_inv rt'"
  using assms
  by (cases req) (auto dest: handle_attach_inv handle_detach_inv handle_forward_state)

lemma handle_request_validator:
  assumes "runtime_inv rt" and "handle_request crypto b64 clock rt source req = (r, rt')"
  shows "validator (relay rt') = validator (relay rt)"
proof (cases req)
  case (Attach p t)
  with assms show ?thesis
    by (auto elim: handle_attach_cases [of rt crypto clock source p t r rt'])
next
  case (Forward s p b)
  with assms show ?thesis by (auto dest: handle_forward_state)
next
  case (Detach s p)
  with assms show ?thesis
    by (auto elim: handle_detach_cases [of rt source s p r rt'])
qed (use assms in simp)

lemma reachable_basic:
  "reachable crypto b64 prefix key h rt \<Longrightarrow>
   runtime_inv rt \<and> validator (relay rt) = with_options prefix key"
proof (induction rule: reachable.induct)
  case start
  then show ?case
    by (simp add: runtime_new_inv) (simp add: runtime_new_def)
next
  case (step h rt clock source req r rt')
  then show ?case
    using handle_request_inv [OF _ step.hyps(2)] handle_request_validator [OF _ step.hyps(2)] by simp
qed

end
