(* ===== verification/Daemon_Safety.thy ===== *)
theory Daemon_Safety
  imports Relay_Daemon
begin

text \<open>
  What the relay daemon guarantees: who can be bound to a session and what a forward delivers, in
  every reachable state; that refused requests change nothing and sessions do not interfere; that
  two attached participants reach each other; and how the server loop answers.
\<close>

section \<open>Values for the witnesses\<close>

definition demo_b64 :: Base64Standard where
  "demo_b64 = \<lparr>std_encode = map (\<lambda>w. char_of (unat w)),
               std_decode = (\<lambda>s. Ok (map (\<lambda>c. word_of_nat (of_char c)) s))\<rparr>"

lemma demo_b64_round: "std_decode demo_b64 (std_encode demo_b64 body) = Ok body"
proof -
  have "unat w < 2 ^ LENGTH(8)" for w :: u8
    by (rule unsigned_less)
  then have "unat w mod 256 = unat w" for w :: u8
    by simp
  then have "word_of_nat (of_char (char_of (unat w) :: char)) = w" for w :: u8
    by simp
  then show ?thesis
    by (simp add: demo_b64_def comp_def)
qed

definition demo_wire :: RelayTicketWire where
  "demo_wire = \<lparr>ticket_id = ''t1'', network_id = ''n1'', session_id = ''s1'', src_node_id = ''a'',
     dst_node_id = ''b'', derp_cluster_id = None, country_code = None, city_code = None,
     allowed_derp_node_ids = [], relay_url = ''udp://relay'', expires_at = ''100'',
     session_key = ''k'', signature = ''sig''\<rparr>"

abbreviation demo_request :: "RelayRuntime \<Rightarrow> SocketAddr \<Rightarrow> ClientRequest \<Rightarrow> reply \<times> RelayRuntime" where
  "demo_request \<equiv> handle_request demo_crypto demo_b64 99"

definition demo_start :: RelayRuntime where
  "demo_start = runtime_new (Some ''udp://'') None"

definition demo_one :: RelayRuntime where
  "demo_one = snd (demo_request demo_start (V4 1 1) (Attach ''a'' demo_wire))"

definition demo_two :: RelayRuntime where
  "demo_two = snd (demo_request demo_one (V4 2 2) (Attach ''b'' demo_wire))"

definition demo_history :: "event list" where
  "demo_history = [(99, V4 1 1, Attach ''a'' demo_wire), (99, V4 2 2, Attach ''b'' demo_wire)]"

lemma reachable_snd:
  "reachable crypto b64 prefix key h rt \<Longrightarrow>
   reachable crypto b64 prefix key (h @ [(clock, source, req)]) (snd (handle_request crypto b64 clock rt source req))"
  by (erule reachable.step) (rule prod.collapse [symmetric])

lemma demo_two_reachable: "reachable demo_crypto demo_b64 (Some ''udp://'') None demo_history demo_two"
proof -
  have "reachable demo_crypto demo_b64 (Some ''udp://'') None [] demo_start"
    unfolding demo_start_def by (rule reachable.start)
  then have "reachable demo_crypto demo_b64 (Some ''udp://'') None ([] @ [(99, V4 1 1, Attach ''a'' demo_wire)]) demo_one"
    unfolding demo_one_def by (rule reachable_snd)
  then have "reachable demo_crypto demo_b64 (Some ''udp://'') None
      (([] @ [(99, V4 1 1, Attach ''a'' demo_wire)]) @ [(99, V4 2 2, Attach ''b'' demo_wire)]) demo_two"
    unfolding demo_two_def by (rule reachable_snd)
  then show ?thesis by (simp add: demo_history_def)
qed

lemma demo_two_endpoints:
  "fmlookup (endpoints demo_two) ''s1'' = Some (fmupd ''a'' (V4 1 1) (fmupd ''b'' (V4 2 2) fmempty))"
  by code_simp

section \<open>The invariant of reachable states\<close>

text \<open>
  C1: in every state the daemon reaches, endpoints are kept for exactly the stored sessions, each
  such session has at least one endpoint, and every endpoint belongs to a participant of it.
\<close>

theorem reachable_runtime_inv:
  assumes "reachable crypto b64 prefix key h rt"
  shows "runtime_inv rt"
  using reachable_basic [OF assms] by simp

theorem reachable_runtime_inv_witness: "runtime_inv demo_two"
  using demo_two_reachable by (rule reachable_runtime_inv)

section \<open>Who is bound to a session\<close>

text \<open>The attach that binds \<open>p\<close> at \<open>addr\<close> in session \<open>sid\<close>, with a ticket that was valid at its time.\<close>

definition authorized_attach ::
  "TicketCrypto \<Rightarrow> StaticTicketValidator \<Rightarrow> event list \<Rightarrow> RelaySession option \<Rightarrow> string \<Rightarrow> string \<Rightarrow> SocketAddr \<Rightarrow> bool" where
  "authorized_attach crypto v h session sid p addr \<longleftrightarrow>
     (\<exists>clock wire. (clock, addr, Attach p wire) \<in> set h \<and>
        RelayTicketWire.session_id wire = sid \<and>
        (p = RelayTicketWire.src_node_id wire \<or> p = RelayTicketWire.dst_node_id wire) \<and>
        validate_ticket crypto clock v (to_relay_ticket wire) = Ok () \<and>
        session = Some (session_of_ticket (to_relay_ticket wire)))"

lemma authorized_attach_mono:
  "authorized_attach crypto v h session sid p addr \<Longrightarrow> set h \<subseteq> set h' \<Longrightarrow>
   authorized_attach crypto v h' session sid p addr"
  unfolding authorized_attach_def by blast

lemma authorized_attach_snoc [intro]:
  "authorized_attach crypto v h session sid p addr \<Longrightarrow>
   authorized_attach crypto v (h @ [e]) session sid p addr"
  by (erule authorized_attach_mono) auto

abbreviation all_authorized ::
  "TicketCrypto \<Rightarrow> event list \<Rightarrow> RelayRuntime \<Rightarrow> bool" where
  "all_authorized crypto h rt \<equiv>
     \<forall>sid ps p addr. fmlookup (endpoints rt) sid = Some ps \<longrightarrow> fmlookup ps p = Some addr \<longrightarrow>
       authorized_attach crypto (validator (relay rt)) h (session_at rt sid) sid p addr"

lemma handle_request_authorized:
  assumes inv: "runtime_inv rt" and IH: "all_authorized crypto h rt"
    and h: "handle_request crypto b64 clock rt source req = (r, rt')"
  shows "all_authorized crypto (h @ [(clock, source, req)]) rt'"
proof (cases req)
  case Ping
  with h IH show ?thesis by auto
next
  case (Attach q wire)
  with h have "handle_attach crypto clock rt source q wire = (r, rt')" by simp
  with inv show ?thesis
  proof (cases rule: handle_attach_cases)
    case refused
    with IH show ?thesis by auto
  next
    case bound
    show ?thesis
    proof (intro allI impI)
      fix sid ps p addr
      assume l: "fmlookup (endpoints rt') sid = Some ps" "fmlookup ps p = Some addr"
      consider (new) "sid = RelayTicketWire.session_id wire" "p = q" "addr = source"
        | (old) ps0 where "fmlookup (endpoints rt) sid = Some ps0" "fmlookup ps0 p = Some addr"
        using bind_endpoint_bound [OF l(1) [unfolded bound(4)] l(2)] by blast
      then show "authorized_attach crypto (validator (relay rt')) (h @ [(clock, source, req)])
          (session_at rt' sid) sid p addr"
      proof cases
        case new
        with bound Attach show ?thesis
          by (fastforce simp: authorized_attach_def)
      next
        case old
        then have "authorized_attach crypto (validator (relay rt)) h (session_at rt sid) sid p addr"
          using IH by blast
        moreover have "session_at rt' sid = session_at rt sid"
          using bound(5,6) runtime_invD(2) [OF inv, of sid] old by auto
        ultimately show ?thesis
          using bound(8) by auto
      qed
    qed
  qed
next
  case (Forward s p b)
  with h IH show ?thesis by (auto dest!: handle_forward_state)
next
  case (Detach s q)
  with h have "handle_detach rt source s q = (r, rt')" by simp
  with inv show ?thesis
  proof (cases rule: handle_detach_cases)
    case refused
    with IH show ?thesis by auto
  next
    case (left ps)
    with IH show ?thesis by (fastforce split: if_splits)
  next
    case (closed ps)
    with IH show ?thesis by (fastforce split: if_splits)
  qed
qed

lemma reachable_authorized:
  "reachable crypto b64 prefix key h rt \<Longrightarrow> all_authorized crypto h rt"
proof (induction rule: reachable.induct)
  case start
  then show ?case by (simp add: runtime_new_def)
next
  case (step h rt clock source req r rt')
  then show ?case
    using handle_request_authorized reachable_basic by blast
qed

text \<open>
  C2: an address is bound to a participant of a session only by an attach request from that very
  address, for that participant and session, whose ticket the validator accepted at that time;
  and the stored session is the one of that ticket.
\<close>

theorem endpoint_authorized:
  assumes "reachable crypto b64 prefix key h rt"
    and "fmlookup (endpoints rt) sid = Some ps" and "fmlookup ps p = Some addr"
  shows "authorized_attach crypto (with_options prefix key) h (session_at rt sid) sid p addr"
  using reachable_authorized [OF assms(1)] reachable_basic [OF assms(1)] assms(2,3) by metis

theorem endpoint_authorized_witness:
  "authorized_attach demo_crypto (with_options (Some ''udp://'') None) demo_history
     (session_at demo_two ''s1'') ''s1'' ''b'' (V4 2 2)"
  by (rule endpoint_authorized [OF demo_two_reachable demo_two_endpoints]) simp

section \<open>What a forward delivers\<close>

text \<open>
  C3: in every reachable state, a forward is delivered exactly when it comes from the address bound
  to the sender, its payload decodes to at least one byte, and the other participant of the
  session is bound; it then goes to that participant's address and decodes there to the very same
  bytes, and the acknowledgement counts them.
\<close>

theorem forward_delivers:
  assumes b64: "\<And>body. std_decode b64 (std_encode b64 body) = Ok body"
    and r: "reachable crypto b64 prefix key h rt"
    and s: "session_at rt sid = Some s"
  shows "(\<exists>sent. fst (handle_request crypto b64 clock rt source (Forward sid from text)) =
        Ok (Forwarded \<lparr>ForwardAck.session_id = sid, to_participant_id = peer, bytes_forwarded = length body\<rparr>,
            Some (addr, Packet \<lparr>RelayPacketMessage.session_id = sid, from_participant_id = from, payload_b64 = sent\<rparr>))
        \<and> std_decode b64 sent = Ok body)
    \<longleftrightarrow> (\<exists>ps. fmlookup (endpoints rt) sid = Some ps \<and> fmlookup ps from = Some source
        \<and> fmlookup ps peer = Some addr \<and> peer_of s from = Ok peer
        \<and> std_decode b64 text = Ok body \<and> body \<noteq> [])"
  using s by (auto simp: handle_forward_Ok_iff b64)

theorem forward_delivers_witness:
  "\<exists>sent. fst (demo_request demo_two (V4 1 1) (Forward ''s1'' ''a'' ''hi'')) =
     Ok (Forwarded \<lparr>ForwardAck.session_id = ''s1'', to_participant_id = ''b'', bytes_forwarded = 2\<rparr>,
         Some (V4 2 2, Packet \<lparr>RelayPacketMessage.session_id = ''s1'', from_participant_id = ''a'', payload_b64 = sent\<rparr>))
     \<and> std_decode demo_b64 sent = Ok [104, 105]"
proof -
  have s: "session_at demo_two ''s1'' = Some (session_of_ticket (to_relay_ticket demo_wire))"
    by code_simp
  have peer: "peer_of (session_of_ticket (to_relay_ticket demo_wire)) ''a'' = Ok ''b''"
    by code_simp
  have dec: "std_decode demo_b64 ''hi'' = Ok [104, 105]"
    by code_simp
  show ?thesis
    using forward_delivers [OF demo_b64_round demo_two_reachable s, of 99 "V4 1 1" "''a''" "''hi''" "''b''" "[104, 105]" "V4 2 2"]
      demo_two_endpoints peer dec by auto
qed

text \<open>
  A datagram for a session reaches only addresses that attached to that session with a valid
  ticket, and only on behalf of a sender that did: both ends of every delivery are authorised for
  the same stored session.
\<close>

theorem forward_authorized:
  assumes r: "reachable crypto b64 prefix key h rt"
    and f: "handle_request crypto b64 clock rt source (Forward sid from text) = (Ok (ack, Some (addr, pkt)), rt')"
  shows "\<exists>s peer. session_at rt sid = Some s \<and> peer_of s from = Ok peer \<and> rt' = rt
    \<and> authorized_attach crypto (with_options prefix key) h (Some s) sid from source
    \<and> authorized_attach crypto (with_options prefix key) h (Some s) sid peer addr"
proof -
  have h: "handle_forward b64 rt source sid from text = (Ok (ack, Some (addr, pkt)), rt')"
    using f by simp
  then have "fst (handle_forward b64 rt source sid from text) = Ok (ack, Some (addr, pkt))"
    by simp
  moreover have "rt' = rt"
    using h by (rule handle_forward_state)
  ultimately obtain ps s peer where "fmlookup (endpoints rt) sid = Some ps" "fmlookup ps from = Some source"
      "session_at rt sid = Some s" "peer_of s from = Ok peer" "fmlookup ps peer = Some addr"
    by (auto simp: handle_forward_Ok_iff)
  with \<open>rt' = rt\<close> show ?thesis
    using reachable_authorized [OF r] reachable_basic [OF r] by metis
qed

theorem forward_authorized_witness:
  "\<exists>s peer. session_at demo_two ''s1'' = Some s \<and> peer_of s ''a'' = Ok peer
     \<and> authorized_attach demo_crypto (with_options (Some ''udp://'') None) demo_history (Some s) ''s1'' peer (V4 2 2)"
proof -
  have "fst (demo_request demo_two (V4 1 1) (Forward ''s1'' ''a'' ''hi'')) =
      Ok (Forwarded \<lparr>ForwardAck.session_id = ''s1'', to_participant_id = ''b'', bytes_forwarded = 2\<rparr>,
          Some (V4 2 2, Packet \<lparr>RelayPacketMessage.session_id = ''s1'', from_participant_id = ''a'', payload_b64 = ''hi''\<rparr>))"
    by code_simp
  then have f: "demo_request demo_two (V4 1 1) (Forward ''s1'' ''a'' ''hi'') =
      (Ok (Forwarded \<lparr>ForwardAck.session_id = ''s1'', to_participant_id = ''b'', bytes_forwarded = 2\<rparr>,
          Some (V4 2 2, Packet \<lparr>RelayPacketMessage.session_id = ''s1'', from_participant_id = ''a'', payload_b64 = ''hi''\<rparr>)), demo_two)"
    by (simp add: handle_forward_def)
  show ?thesis
    using forward_authorized [OF demo_two_reachable f] by blast
qed

section \<open>Refusals and isolation\<close>

text \<open>
  C6: a request that is answered with an error leaves the runtime exactly as it was.
\<close>

theorem refused_request_changes_nothing:
  assumes "reachable crypto b64 prefix key h rt"
    and "handle_request crypto b64 clock rt source req = (Err e, rt')"
  shows "rt' = rt"
proof -
  have inv: "runtime_inv rt"
    using reachable_basic [OF assms(1)] by simp
  show ?thesis
  proof (cases req)
    case (Attach p t)
    with inv assms(2) show ?thesis
      by (auto elim: handle_attach_cases [of rt crypto clock source p t "Err e" rt'] simp: attach_ok_def Let_def)
  next
    case (Forward s p b)
    with assms(2) show ?thesis by (auto dest: handle_forward_state)
  next
    case (Detach s p)
    with inv assms(2) show ?thesis
      by (auto elim: handle_detach_cases [of rt source s p "Err e" rt'])
  qed (use assms(2) in simp)
qed

theorem refused_request_changes_nothing_witness:
  "snd (demo_request demo_two (V4 9 9) (Detach ''s1'' ''a'')) = demo_two"
proof -
  have "\<not> is_ok (fst (demo_request demo_two (V4 9 9) (Detach ''s1'' ''a'')))"
    by code_simp
  then obtain e where "demo_request demo_two (V4 9 9) (Detach ''s1'' ''a'') = (Err e, snd (demo_request demo_two (V4 9 9) (Detach ''s1'' ''a'')))"
    by (cases "demo_request demo_two (V4 9 9) (Detach ''s1'' ''a'')"; cases "fst (demo_request demo_two (V4 9 9) (Detach ''s1'' ''a''))") auto
  then show ?thesis
    using refused_request_changes_nothing [OF demo_two_reachable] by blast
qed

text \<open>The session a request is about.\<close>

fun request_session :: "ClientRequest \<Rightarrow> string option" where
  "request_session Ping = None"
| "request_session (Attach p t) = Some (RelayTicketWire.session_id t)"
| "request_session (Forward s p b) = Some s"
| "request_session (Detach s p) = Some s"

text \<open>
  C7: a request touches only the session it names: the endpoints and the stored session of every
  other session are the same after it.
\<close>

theorem sessions_isolated:
  assumes "reachable crypto b64 prefix key h rt"
    and "handle_request crypto b64 clock rt source req = (r, rt')"
    and "request_session req \<noteq> Some sid"
  shows "fmlookup (endpoints rt') sid = fmlookup (endpoints rt) sid \<and> session_at rt' sid = session_at rt sid"
proof -
  have inv: "runtime_inv rt"
    using reachable_basic [OF assms(1)] by simp
  show ?thesis
  proof (cases req)
    case (Attach p t)
    with inv assms(2,3) show ?thesis
      by (auto elim!: handle_attach_cases [of rt crypto clock source p t r rt'] simp: bind_endpoint_lookup)
  next
    case (Forward s p b)
    with assms(2) show ?thesis by (auto dest: handle_forward_state)
  next
    case (Detach s p)
    with inv assms(2,3) show ?thesis
      by (auto elim!: handle_detach_cases [of rt source s p r rt'])
  qed (use assms(2) in simp)
qed

theorem sessions_isolated_witness:
  "fmlookup (endpoints (snd (demo_request demo_two (V4 3 3) (Attach ''a'' (demo_wire\<lparr>RelayTicketWire.session_id := ''s2''\<rparr>))))) ''s1''
     = fmlookup (endpoints demo_two) ''s1''"
  using sessions_isolated [OF demo_two_reachable prod.collapse [symmetric], of "Attach ''a'' (demo_wire\<lparr>RelayTicketWire.session_id := ''s2''\<rparr>)" "''s1''" 99 "V4 3 3"]
  by simp

section \<open>The life of a session\<close>

lemma attach_fresh_ok:
  assumes inv: "runtime_inv rt"
    and valid: "validate_ticket crypto clock (validator (relay rt)) (to_relay_ticket wire) = Ok ()"
    and part: "p = RelayTicketWire.src_node_id wire \<or> p = RelayTicketWire.dst_node_id wire"
    and known: "session_at rt (RelayTicketWire.session_id wire)
      \<in> {None, Some (session_of_ticket (to_relay_ticket wire))}"
  obtains rt' where "handle_attach crypto clock rt source p wire = (fst (attach_ok rt source p (to_relay_ticket wire)), rt')"
    "endpoints rt' = bind_endpoint (endpoints rt) (RelayTicketWire.session_id wire) p source"
    "session_at rt' (RelayTicketWire.session_id wire) = Some (session_of_ticket (to_relay_ticket wire))"
    "runtime_inv rt'" "validator (relay rt') = validator (relay rt)"
proof -
  let ?t = "to_relay_ticket wire"
  let ?s = "session_of_ticket ?t"
  obtain r rt' where h: "handle_attach crypto clock rt source p wire = (r, rt')"
    by fastforce
  obtain r0 relay' where a: "udp_attach_with_ticket memory_store (validate_ticket crypto clock) (relay rt) ?t ?s = (r0, relay')"
    by fastforce
  have sid: "RelaySession.session_id ?s = RelayTicketWire.session_id wire"
    by (simp add: session_of_ticket_def)
  have "\<exists>x. r = Ok x"
    using runtime_invD(1) [OF inv] a
  proof (cases rule: mem_relay.attach_with_ticket_cases)
    case (rejected e)
    with valid show ?thesis by simp
  next
    case attached
    with h a part show ?thesis by (auto simp: handle_attach_def Let_def attach_ok_def)
  next
    case (duplicate y)
    with known sid have "y = ?s" by simp
    with duplicate h a part sid show ?thesis
      by (auto simp: handle_attach_def Let_def attach_ok_def udp_session_def)
  qed
  with inv h show ?thesis
  proof (cases rule: handle_attach_cases)
    case bound
    with h that show ?thesis using handle_attach_inv [OF inv h] by simp
  qed auto
qed

text \<open>In a session with both participants bound, a forward by either goes to the other.\<close>

lemma bound_participants_forward:
  assumes "std_decode b64 (std_encode b64 body) = Ok body" and "body \<noteq> []"
    and "session_at rt sid = Some s" and "fmlookup (endpoints rt) sid = Some ps"
    and "peer_of s p = Ok q" and "fmlookup ps p = Some a" and "fmlookup ps q = Some b"
  shows "handle_request crypto b64 clock rt a (Forward sid p (std_encode b64 body)) =
     (Ok (Forwarded \<lparr>ForwardAck.session_id = sid, to_participant_id = q, bytes_forwarded = length body\<rparr>,
        Some (b, Packet \<lparr>RelayPacketMessage.session_id = sid, from_participant_id = p, payload_b64 = std_encode b64 body\<rparr>)), rt)"
proof -
  have "fst (handle_forward b64 rt a sid p (std_encode b64 body)) =
     Ok (Forwarded \<lparr>ForwardAck.session_id = sid, to_participant_id = q, bytes_forwarded = length body\<rparr>,
        Some (b, Packet \<lparr>RelayPacketMessage.session_id = sid, from_participant_id = p, payload_b64 = std_encode b64 body\<rparr>))"
    using assms by (simp add: handle_forward_Ok_iff)
  moreover have "handle_forward b64 rt a sid p (std_encode b64 body) =
      (fst (handle_forward b64 rt a sid p (std_encode b64 body)), rt)"
    by (simp add: handle_forward_def)
  ultimately show ?thesis by simp
qed

text \<open>
  C4: starting from any reachable state that does not know the session, once the two different participants of a
  valid ticket have attached from their addresses, in this order, a forward by each of them reaches the address of
  the other with the same payload, and is acknowledged with its length.
\<close>

theorem attached_participants_connect:
  assumes b64: "\<And>body. std_decode b64 (std_encode b64 body) = Ok body"
    and r: "reachable crypto b64 prefix key h rt"
    and new: "session_at rt (RelayTicketWire.session_id wire) = None"
    and valid: "validate_ticket crypto c1 (with_options prefix key) (to_relay_ticket wire) = Ok ()"
      "validate_ticket crypto c2 (with_options prefix key) (to_relay_ticket wire) = Ok ()"
    and sid: "sid = RelayTicketWire.session_id wire"
    and ends: "p = RelayTicketWire.src_node_id wire" "q = RelayTicketWire.dst_node_id wire" "p \<noteq> q"
    and body: "body \<noteq> []"
  shows "\<exists>r1 rt1 r2 rt2.
     handle_request crypto b64 c1 rt a (Attach p wire) = (Ok r1, rt1) \<and>
     handle_request crypto b64 c2 rt1 b (Attach q wire) = (Ok r2, rt2) \<and>
     handle_request crypto b64 c3 rt2 a (Forward sid p (std_encode b64 body)) =
       (Ok (Forwarded \<lparr>ForwardAck.session_id = sid, to_participant_id = q, bytes_forwarded = length body\<rparr>,
          Some (b, Packet \<lparr>RelayPacketMessage.session_id = sid, from_participant_id = p, payload_b64 = std_encode b64 body\<rparr>)),
        rt2) \<and>
     handle_request crypto b64 c4 rt2 b (Forward sid q (std_encode b64 body)) =
       (Ok (Forwarded \<lparr>ForwardAck.session_id = sid, to_participant_id = p, bytes_forwarded = length body\<rparr>,
          Some (a, Packet \<lparr>RelayPacketMessage.session_id = sid, from_participant_id = q, payload_b64 = std_encode b64 body\<rparr>)),
        rt2)"
proof -
  let ?s = "session_of_ticket (to_relay_ticket wire)"
  note basic = reachable_basic [OF r]
  obtain rt1 where 1: "handle_attach crypto c1 rt a p wire = (fst (attach_ok rt a p (to_relay_ticket wire)), rt1)"
      "endpoints rt1 = bind_endpoint (endpoints rt) sid p a"
      "session_at rt1 sid = Some ?s" "runtime_inv rt1" "validator (relay rt1) = validator (relay rt)"
    using attach_fresh_ok [of rt crypto c1 wire p a thesis] basic new valid(1) sid ends by auto
  obtain rt2 where 2: "handle_attach crypto c2 rt1 b q wire = (fst (attach_ok rt1 b q (to_relay_ticket wire)), rt2)"
      "endpoints rt2 = bind_endpoint (endpoints rt1) sid q b"
      "session_at rt2 sid = Some ?s" "runtime_inv rt2"
    using attach_fresh_ok [of rt1 crypto c2 wire q b thesis] basic 1 valid(2) sid ends by auto
  obtain ps where ps: "fmlookup (endpoints rt2) sid = Some ps" "fmlookup ps p = Some a" "fmlookup ps q = Some b"
    using 1(2) 2(2) ends(3) by (simp add: bind_endpoint_lookup)
  have peers: "peer_of ?s p = Ok q" "peer_of ?s q = Ok p"
    using ends by (simp_all add: peer_of_def session_of_ticket_def)
  obtain r1 r2 where "handle_request crypto b64 c1 rt a (Attach p wire) = (Ok r1, rt1)"
      "handle_request crypto b64 c2 rt1 b (Attach q wire) = (Ok r2, rt2)"
    using 1(1) 2(1) by (fastforce simp: attach_ok_def Let_def)
  then show ?thesis
    using bound_participants_forward [OF b64 body 2(3) ps(1) peers(1) ps(2,3)]
      bound_participants_forward [OF b64 body 2(3) ps(1) peers(2) ps(3,2)] by blast
qed

theorem attached_participants_connect_witness:
  "\<exists>r1 rt1 r2 rt2.
     demo_request demo_start (V4 1 1) (Attach ''a'' demo_wire) = (Ok r1, rt1) \<and>
     handle_request demo_crypto demo_b64 98 rt1 (V4 2 2) (Attach ''b'' demo_wire) = (Ok r2, rt2) \<and>
     demo_request rt2 (V4 2 2) (Forward ''s1'' ''b'' ''hi'') =
       (Ok (Forwarded \<lparr>ForwardAck.session_id = ''s1'', to_participant_id = ''a'', bytes_forwarded = 2\<rparr>,
          Some (V4 1 1, Packet \<lparr>RelayPacketMessage.session_id = ''s1'', from_participant_id = ''b'', payload_b64 = ''hi''\<rparr>)), rt2)"
proof -
  have r: "reachable demo_crypto demo_b64 (Some ''udp://'') None [] demo_start"
    unfolding demo_start_def by (rule reachable.start)
  have new: "session_at demo_start (RelayTicketWire.session_id demo_wire) = None"
    by code_simp
  have valid: "validate_ticket demo_crypto 99 (with_options (Some ''udp://'') None) (to_relay_ticket demo_wire) = Ok ()"
      "validate_ticket demo_crypto 98 (with_options (Some ''udp://'') None) (to_relay_ticket demo_wire) = Ok ()"
    by code_simp+
  have wire: "''s1'' = RelayTicketWire.session_id demo_wire" "''a'' = RelayTicketWire.src_node_id demo_wire"
      "''b'' = RelayTicketWire.dst_node_id demo_wire"
    by code_simp+
  have hi: "std_encode demo_b64 [104, 105] = ''hi''"
    by code_simp
  show ?thesis
    using attached_participants_connect [OF demo_b64_round r new valid wire, of "[104, 105]" "V4 1 1" "V4 2 2" 99 99]
    by (auto simp: hi)
qed

text \<open>
  C5: in every reachable state a detach succeeds exactly for the participant bound at the source
  address; it then unbinds that participant, and keeps the session exactly when somebody else is
  still bound to it.  In particular it never answers that the session is unknown to the store.
\<close>

theorem detach_effect:
  assumes r: "reachable crypto b64 prefix key h rt"
    and d: "handle_request crypto b64 clock rt source (Detach sid p) = (reply, rt')"
  shows "(if \<exists>ps. fmlookup (endpoints rt) sid = Some ps \<and> fmlookup ps p = Some source
     then reply = Ok (Detached sid p, None) \<and>
       (session_at rt' sid \<noteq> None \<longleftrightarrow>
          (\<exists>ps q. fmlookup (endpoints rt) sid = Some ps \<and> q \<noteq> p \<and> fmlookup ps q \<noteq> None)) \<and>
       (\<forall>ps. fmlookup (endpoints rt') sid = Some ps \<longrightarrow> fmlookup ps p = None)
     else \<exists>e. reply = Err e \<and> RelayRuntimeError.code e \<in>
       {''session_not_attached'', ''participant_not_attached'', ''participant_address_mismatch''})"
proof -
  have inv: "runtime_inv rt"
    using reachable_basic [OF r] by simp
  have d': "handle_detach rt source sid p = (reply, rt')"
    using d by simp
  from inv d' show ?thesis
  proof (cases rule: handle_detach_cases)
    case (refused e)
    then show ?thesis by simp
  next
    case (left ps)
    then have "\<exists>q. q \<noteq> p \<and> fmlookup ps q \<noteq> None"
      by (auto simp: map_simps split: if_splits)
    with left runtime_invD(2) [OF inv, of sid] show ?thesis by auto
  next
    case (closed ps)
    then have "\<not> (\<exists>q. q \<noteq> p \<and> fmlookup ps q \<noteq> None)"
      by (auto simp: map_simps split: if_splits)
    with closed show ?thesis by auto
  qed
qed

theorem detach_effect_witness:
  "fst (demo_request demo_two (V4 1 1) (Detach ''s1'' ''a'')) = Ok (Detached ''s1'' ''a'', None) \<and>
   session_at (snd (demo_request demo_two (V4 1 1) (Detach ''s1'' ''a''))) ''s1'' \<noteq> None"
proof -
  have d: "demo_request demo_two (V4 1 1) (Detach ''s1'' ''a'') =
      (fst (demo_request demo_two (V4 1 1) (Detach ''s1'' ''a'')), snd (demo_request demo_two (V4 1 1) (Detach ''s1'' ''a'')))"
    by (rule prod.collapse [symmetric])
  have "\<exists>ps. fmlookup (endpoints demo_two) ''s1'' = Some ps \<and> fmlookup ps ''a'' = Some (V4 1 1)"
    by (simp add: demo_two_endpoints)
  moreover have "\<exists>ps q. fmlookup (endpoints demo_two) ''s1'' = Some ps \<and> q \<noteq> ''a'' \<and> fmlookup ps q \<noteq> None"
    by (intro exI [of _ "''b''"] exI [of _ "fmupd ''a'' (V4 1 1) (fmupd ''b'' (V4 2 2) fmempty)"])
      (simp add: demo_two_endpoints)
  ultimately show ?thesis
    using detach_effect [OF demo_two_reachable d] by presburger
qed

section \<open>The server loop\<close>

text \<open>The turns in which the socket works: the datagram decodes and every send goes through.\<close>

definition smooth :: "WireCodec \<Rightarrow> Turn \<Rightarrow> bool" where
  "smooth codec turn \<longleftrightarrow>
     (case received turn of Err _ \<Rightarrow> False
      | Ok (d, _) \<Rightarrow> is_ok (from_slice codec (take (64 * 1024) d))) \<and>
     (\<forall>m. is_ok (to_vec codec m)) \<and> (\<forall>a b. is_ok (send_to turn a b))"

lemma send_response_smooth:
  "smooth codec turn \<Longrightarrow> send_response codec turn a m = (Ok (), [(a, m)])"
proof -
  assume "smooth codec turn"
  then obtain b n where "to_vec codec m = Ok b" "send_to turn a b = Ok n"
    by (auto simp: smooth_def result_simps) (meson is_ok_iff)
  then show ?thesis by (simp add: send_response_def)
qed

lemma serve_turn_smooth:
  assumes "smooth codec turn" and "received turn = Ok (d, source)"
    and "from_slice codec (take (64 * 1024) d) = Ok request"
    and "handle_request crypto b64 (clock_now turn) rt source request = (r, rt')"
  shows "serve_turn crypto b64 codec turn rt = (Ok (), rt',
     case r of
       Ok (response, None) \<Rightarrow> [(source, response)]
     | Ok (response, Some (peer, packet)) \<Rightarrow> [(peer, packet), (source, response)]
     | Err e \<Rightarrow> [(source, Error \<lparr>ErrorResponse.code = RelayRuntimeError.code e,
                            message = RelayRuntimeError.message e\<rparr>)])"
  using assms
  by (auto simp: serve_turn_def send_response_smooth split: result.splits option.splits prod.splits)

lemma smoothE:
  assumes "smooth codec turn"
  obtains d source request where "received turn = Ok (d, source)"
    "from_slice codec (take (64 * 1024) d) = Ok request"
  using assms by (auto simp: smooth_def result_simps split: result.splits)

lemma serve_turn_count:
  assumes "smooth codec turn"
  shows "\<exists>rt' out. serve_turn crypto b64 codec turn rt = (Ok (), rt', out) \<and> 1 \<le> length out \<and> length out \<le> 2"
proof -
  obtain d source request where 1: "received turn = Ok (d, source)"
      "from_slice codec (take (64 * 1024) d) = Ok request"
    using assms by (rule smoothE)
  obtain r rt' where 2: "handle_request crypto b64 (clock_now turn) rt source request = (r, rt')"
    by fastforce
  show ?thesis
    by (simp add: serve_turn_smooth [OF assms 1 2] split: result.split option.split prod.split)
qed

text \<open>
  C14: as long as datagrams decode and sends succeed the server keeps running, and it answers every
  datagram: between one and two messages leave for each.
\<close>

theorem serve_answers:
  assumes "\<forall>turn \<in> set turns. smooth codec turn"
  shows "\<exists>rt' out. serve crypto b64 codec turns rt = (Ok (), rt', out) \<and>
    length turns \<le> length out \<and> length out \<le> 2 * length turns"
  using assms
proof (induction turns arbitrary: rt)
  case Nil
  then show ?case by simp
next
  case (Cons turn turns)
  from Cons.prems obtain rt1 out1 where 1: "serve_turn crypto b64 codec turn rt = (Ok (), rt1, out1)"
      "1 \<le> length out1" "length out1 \<le> 2"
    using serve_turn_count by fastforce
  from Cons obtain rt2 out2 where 2: "serve crypto b64 codec turns rt1 = (Ok (), rt2, out2)"
      "length turns \<le> length out2" "length out2 \<le> 2 * length turns"
    by fastforce
  from 1 2 show ?case by simp
qed

definition demo_codec :: WireCodec where
  "demo_codec = \<lparr>from_slice = (\<lambda>b. if b = [1] then Ok Ping else Err ''expected value''),
                 to_vec = (\<lambda>m. Ok [2])\<rparr>"

definition demo_turn :: "u8 list \<Rightarrow> Turn" where
  "demo_turn b = \<lparr>received = Ok (b, V4 1 1), clock_now = 99, send_to = (\<lambda>a d. Ok (length d))\<rparr>"

theorem serve_answers_witness:
  "\<exists>rt' out. serve demo_crypto demo_b64 demo_codec [demo_turn [1], demo_turn [1]] demo_start = (Ok (), rt', out) \<and>
    length [demo_turn [1], demo_turn [1]] \<le> length out \<and> length out \<le> 2 * length [demo_turn [1], demo_turn [1]]"
proof -
  have "\<forall>turn \<in> set [demo_turn [1], demo_turn [1]]. smooth demo_codec turn"
    by (simp add: smooth_def demo_turn_def demo_codec_def)
  then show ?thesis by (rule serve_answers)
qed

text \<open>
  One datagram that does not decode ends the server: whatever was served before, the loop
  returns the decoding error and no later datagram is handled.
\<close>

theorem serve_stops_at_malformed:
  assumes "serve crypto b64 codec before rt = (Ok (), rt1, out)"
    and "received bad = Ok (d, source)" and "from_slice codec (take (64 * 1024) d) = Err e"
  shows "serve crypto b64 codec (before @ bad # later) rt = (Err (''decode relay request: '' @ e), rt1, out)"
  using assms(1)
proof (induction before arbitrary: rt out)
  case Nil
  with assms show ?case by (simp add: serve_turn_def)
next
  case (Cons turn turns)
  then show ?case
    by (auto split: prod.splits result.splits)
qed

theorem serve_stops_at_malformed_witness:
  "fst (serve demo_crypto demo_b64 demo_codec [demo_turn [1], demo_turn [0], demo_turn [1]] demo_start) =
     Err ''decode relay request: expected value''"
proof -
  have 1: "serve demo_crypto demo_b64 demo_codec [demo_turn [1]] demo_start = (Ok (), demo_start, [(V4 1 1, Pong)])"
    by (simp add: serve_turn_def demo_turn_def demo_codec_def send_response_def)
  have 2: "received (demo_turn [0]) = Ok ([0], V4 1 1)"
    "from_slice demo_codec (take (64 * 1024) [0]) = Err ''expected value''"
    by (simp_all add: demo_turn_def demo_codec_def)
  show ?thesis
    using serve_stops_at_malformed [OF 1 2, of "[demo_turn [1]]"] by simp
qed

text \<open>The states of the loop are reachable states.\<close>

lemma serve_turn_reachable:
  assumes "reachable crypto b64 prefix key h rt" and "serve_turn crypto b64 codec turn rt = (r, rt', out)"
  shows "\<exists>h'. reachable crypto b64 prefix key h' rt'"
proof -
  have "rt' = rt \<or> (\<exists>x clock source req. handle_request crypto b64 clock rt source req = (x, rt'))"
    using assms(2) by (auto simp: serve_turn_def split: result.splits option.splits prod.splits)
  then show ?thesis
    using assms(1) reachable.step by blast
qed

theorem serve_reachable:
  assumes "serve crypto b64 codec turns rt = (r, rt', out)" and "reachable crypto b64 prefix key h rt"
  shows "\<exists>h'. reachable crypto b64 prefix key h' rt'"
  using assms
proof (induction turns arbitrary: rt h out)
  case (Cons turn turns)
  obtain r1 rt1 out1 where 1: "serve_turn crypto b64 codec turn rt = (r1, rt1, out1)"
    by (metis prod_cases3)
  then obtain h1 where h1: "reachable crypto b64 prefix key h1 rt1"
    using serve_turn_reachable Cons.prems(2) by blast
  obtain r2 rt2 out2 where 2: "serve crypto b64 codec turns rt1 = (r2, rt2, out2)"
    by (metis prod_cases3)
  show ?case
  proof (cases r1)
    case (Ok u)
    with Cons.prems 1 2 have "rt2 = rt'" "r2 = r" by simp_all
    with Cons.IH 2 h1 show ?thesis by blast
  next
    case (Err e)
    with Cons.prems 1 h1 show ?thesis by auto
  qed
qed auto

section \<open>Command line\<close>

text \<open>Arguments are read from left to right, each prefix that parses fixing the configuration so far.\<close>

lemma parse_args_append:
  "parse_args load c xs = Ok c' \<Longrightarrow> parse_args load c (xs @ ys) = parse_args load c' ys"
proof (induction load c xs rule: parse_args.induct)
  case (2 load config arg rest)
  show ?case
  proof (cases rest)
    case Nil
    with 2 show ?thesis by (simp split: if_split_asm)
  next
    case (Cons v rest')
    note unfold = parse_args.simps(2) [of load config arg "v # rest'"]
      parse_args.simps(2) [of load config arg "v # rest' @ ys"]
    from 2 Cons show ?thesis
      by (simp add: unfold del: parse_args.simps split: if_split_asm result.split_asm)
  qed
qed simp

end
