(* ===== verification/App_Core.thy ===== *)
theory App_Core
  imports Slan_Prelude
begin

text \<open>
  The domain model of the client, crate \<open>slan_app_core\<close>: identities, networks and their control-plane
  view, DERP nodes and pools, relay tickets, paths and connections, WireGuard configuration.  Every
  struct is a record with the same fields, every enum a datatype with the same variants.
\<close>

section \<open>Identity\<close>

record Session =
  user_id :: string
  access_token :: string
  refresh_token :: "string option"
  expires_in :: int
  device_id :: "string option"

record Device =
  device_id :: string
  name :: string
  platform :: string
  status :: string
  virtual_ip :: "string option"
  public_key :: "string option"

record Node =
  node_id :: string
  device_id :: string
  node_public_key :: string
  network_ids :: "string list"
  capabilities :: "string list"

section \<open>Networks\<close>

record DnsConfig =
  servers :: "string list"
  search_domains :: "string list"

record ControlPlaneConfig =
  ws_url :: string
  session_token :: "string option"
  heartbeat_seconds :: u32

record RelayEndpoint =
  endpoint_id :: string
  transport :: string
  address :: string

record RelayRegion =
  region_id :: string
  region_name :: string
  country_code :: "string option"
  country_name :: "string option"
  city_code :: "string option"
  city_name :: "string option"
  cluster_id :: "string option"
  cluster_name :: "string option"
  endpoints :: "RelayEndpoint list"

record RelayNode =
  node_id :: string
  transport :: string
  address :: string
  priority :: u32
  tags :: "string list"

record RelayCluster =
  cluster_id :: string
  cluster_name :: string
  nodes :: "RelayNode list"

record RelayCity =
  city_code :: string
  city_name :: string
  clusters :: "RelayCluster list"

record RelayCountry =
  country_code :: string
  country_name :: string
  cities :: "RelayCity list"

record RelayConfig =
  default_cluster_id :: string
  countries :: "RelayCountry list"

record NetworkMember =
  device_id :: string
  role :: string
  virtual_ip :: "string option"

record Network =
  network_id :: string
  name :: string
  cidr :: string
  members :: "NetworkMember list"

record Endpoint =
  endpoint_type :: string
  address :: string
  updated_at :: int

record Peer =
  node_id :: string
  device_id :: string
  public_key :: string
  status :: string
  relay_allowed :: bool
  virtual_ips :: "string list"
  endpoints :: "Endpoint list"
  allowed_routes :: "string list"

record Route =
  cidr :: string
  via_node_id :: string
  metric :: "string option"

record NetworkMap =
  self_user_id :: string
  self_device_id :: string
  self_node_id :: string
  network_id :: string
  revision :: u64
  heartbeat_seconds :: u32
  stun_servers :: "string list"
  peers :: "Peer list"
  routes :: "Route list"
  relay_regions :: "RelayRegion list"
  dns :: DnsConfig
  mtu :: "u32 option"

section \<open>DERP\<close>

datatype DerpTransport = Udp | Tcp | Quic

record DerpNodeMeta =
  cluster_id :: string
  region_id :: string
  country_code :: "string option"
  country_name :: "string option"
  city_code :: "string option"
  city_name :: "string option"
  node_id :: string
  host :: string
  port :: u16
  transport :: DerpTransport
  priority :: u32
  tags :: "string list"

record DerpCluster =
  cluster_id :: string
  cluster_name :: "string option"
  region_id :: string
  region_name :: string
  country_code :: "string option"
  country_name :: "string option"
  city_code :: "string option"
  city_name :: "string option"
  recommended_fanout :: u8
  nodes :: "DerpNodeMeta list"

record DerpMap =
  probe_interval_seconds :: u32
  clusters :: "DerpCluster list"

record BootstrapConfig =
  device :: Device
  networks :: "Network list"
  control_plane :: ControlPlaneConfig
  stun_servers :: "string list"
  relay :: RelayConfig
  derp_map :: "DerpMap option"
  network_map :: "NetworkMap option"

record ProbeSample =
  rtt_ms :: u32
  timed_out :: bool
  packet_loss_ppm :: u32
  sampled_at_ms :: u64

datatype DerpLinkState = Connecting | Ready | Suspect | Failed | Closed

record DerpHealth =
  rtt_ms_ewma :: u32
  loss_ppm :: u32
  timeout_count :: u32
  consecutive_failures :: u32
  last_probe_at_ms :: u64
  last_recv_at_ms :: u64
  score :: u32

record DerpLinkSnapshot =
  meta :: DerpNodeMeta
  state :: DerpLinkState
  health :: DerpHealth
  is_active :: bool

record DerpPoolState =
  cluster_id :: string
  session_id :: string
  active_node_id :: "string option"
  links :: "DerpLinkSnapshot list"
  switch_epoch :: u64

datatype SwitchReason = BootstrapPreferred | ProbeTimeout | HighRtt | HighLoss | SendFailure | Manual

record DerpSwitchEvent =
  cluster_id :: string
  from_node_id :: "string option"
  to_node_id :: string
  reason :: SwitchReason
  happened_at_ms :: u64

record RelayTicket =
  ticket_id :: string
  network_id :: string
  session_id :: string
  src_node_id :: string
  dst_node_id :: string
  derp_cluster_id :: "string option"
  country_code :: "string option"
  city_code :: "string option"
  allowed_derp_node_ids :: "string list"
  relay_url :: string
  expires_at :: string
  session_key :: "string option"
  signature :: string

section \<open>Connections\<close>

text \<open>The variants carry the peer node; the one of DERP the cluster and the node.\<close>

datatype ActivePath = NoPath | P2P string | Relay string | Derp string string

datatype ConnectionPath = P2P | Relay | Derp

datatype ConnectionState = Disconnected | Connecting | Connected ConnectionPath | Failed string

section \<open>WireGuard\<close>

record AllowedIp =
  cidr :: string

record WireGuardKeyPair =
  public_key :: string
  private_key :: string

record TunnelKeyMaterial =
  device_id :: "string option"
  node_id :: "string option"
  key_pair :: WireGuardKeyPair
  created_at_ms :: u64

record WireGuardPeerConfig =
  peer_node_id :: "string option"
  public_key :: string
  preshared_key :: "string option"
  endpoint :: "string option"
  allowed_ips :: "AllowedIp list"
  persistent_keepalive_seconds :: "u16 option"

record WireGuardInterfaceConfig =
  interface_name :: "string option"
  key_pair :: WireGuardKeyPair
  listen_port :: "u16 option"
  mtu :: "u16 option"
  addresses :: "string list"
  dns_servers :: "string list"
  peers :: "WireGuardPeerConfig list"

datatype TunnelTransport = P2P | Relay | Derp

record WireGuardRuntimeStats =
  transport :: TunnelTransport
  peer_public_key :: string
  selected_endpoint :: "string option"
  latest_handshake_at_ms :: "u64 option"
  bytes_received :: u64
  bytes_sent :: u64

text \<open>The state a link must have to carry packets.\<close>

definition usable :: "DerpLinkState \<Rightarrow> bool" where
  "usable s \<longleftrightarrow> s = DerpLinkState.Ready \<or> s = DerpLinkState.Suspect"

end
