(* ===== verification/Sockets.thy ===== *)
theory Sockets
  imports App_Core
begin

text \<open>
  The answers of the operating system to one call of the client: name resolution, connects, reads
  and writes on sockets, and the clock.  A socket is a handle; an I/O error has a kind, which the code
  matches on, and a text.  Nothing is assumed of the answers.
\<close>

datatype ErrorKind = WouldBlock | TimedOut | ConnectionRefused | OtherKind

record IoError =
  kind :: ErrorKind
  text_of :: string

type_synonym handle = nat

datatype ActiveSocket = TcpSocket handle | UdpSocket handle

record SocketEnv =
  now_ms :: u64
  resolve :: "string \<Rightarrow> (SocketAddr list, string) result"
  tcp_connect :: "SocketAddr \<Rightarrow> (handle, string) result"
  udp_bind :: "string \<Rightarrow> (handle, string) result"
  udp_connect :: "handle \<Rightarrow> string \<Rightarrow> (unit, string) result"
  tcp_write_all :: "handle \<Rightarrow> u8 list \<Rightarrow> (unit, string) result"
  udp_send :: "handle \<Rightarrow> u8 list \<Rightarrow> (nat, string) result"
  set_nonblocking :: "handle \<Rightarrow> bool \<Rightarrow> (unit, string) result"
  set_read_timeout :: "handle \<Rightarrow> bool \<Rightarrow> (unit, string) result"
  tcp_read :: "handle \<Rightarrow> (u8 list, IoError) result"
  udp_recv :: "handle \<Rightarrow> (u8 list, IoError) result"

text \<open>
  \<open>stream.read\<close> into a buffer of 2048 bytes on a socket just made non-blocking, as the three clients
  have it: no data and the end of the stream are both \<open>None\<close>.
\<close>

definition tcp_poll :: "SocketEnv \<Rightarrow> handle \<Rightarrow> string \<Rightarrow> (u8 list option, string) result" where
  "tcp_poll env s prefix =
     (case tcp_read env s of
        Ok bytes \<Rightarrow> if bytes = [] then Ok None else Ok (Some (take 2048 bytes))
      | Err e \<Rightarrow> if kind e = WouldBlock then Ok None else Err (prefix @ text_of e))"

lemma tcp_poll_Some: "tcp_poll env s prefix = Ok (Some b) \<Longrightarrow> b \<noteq> [] \<and> length b \<le> 2048"
  by (auto simp: tcp_poll_def split: result.splits if_splits)

text \<open>An environment in which every call succeeds, and a ticket, for the witnesses.\<close>

definition demo_env :: SocketEnv where
  "demo_env = \<lparr>now_ms = 5, resolve = (\<lambda>a. Ok [V4 1 1]), tcp_connect = (\<lambda>a. Ok 7),
     udp_bind = (\<lambda>a. Ok 8), udp_connect = (\<lambda>s a. Ok ()), tcp_write_all = (\<lambda>s b. Ok ()),
     udp_send = (\<lambda>s b. Ok (length b)), set_nonblocking = (\<lambda>s b. Ok ()), set_read_timeout = (\<lambda>s b. Ok ()),
     tcp_read = (\<lambda>s. Ok [1]), udp_recv = (\<lambda>s. Ok [1])\<rparr>"

definition demo_derp_ticket :: RelayTicket where
  "demo_derp_ticket = \<lparr>ticket_id = ''t1'', network_id = ''n1'', session_id = ''s1'', src_node_id = ''a'',
     dst_node_id = ''b'', derp_cluster_id = Some ''c1'', country_code = None, city_code = None,
     allowed_derp_node_ids = [''d1'', ''d2''], relay_url = ''udp://relay'', expires_at = ''100'',
     session_key = None, signature = ''sig''\<rparr>"

end
