(* ===== verification/Relay_Client.thy ===== *)
theory Relay_Client
  imports Sockets Serde_Tree
begin

text \<open>
  \<open>SocketRelayClient\<close> of crate \<open>relay-client\<close>: the client side of the relay daemon's protocol over
  UDP.  \<open>serde_json\<close>, \<open>base64\<close> and the \<open>Debug\<close> form of a response are parameters; the derived
  serialisers are also given on JSON trees, so that the two ends of the protocol can be compared.
\<close>

section \<open>Protocol of the daemon as the client declares it\<close>

datatype RelayDaemonRequest =
    Ping
  | Attach string RelayTicket  \<comment> \<open>participant, ticket\<close>
  | Forward string string string  \<comment> \<open>session, sending participant, payload in base64\<close>
  | Detach string string  \<comment> \<open>session, participant\<close>

datatype RelayDaemonResponse =
    Pong
  | Attached string string  \<comment> \<open>session, peer participant\<close>
  | Forwarded string string nat  \<comment> \<open>session, receiving participant, bytes\<close>
  | Detached string string
  | Packet string string string
  | Error "string option" string  \<comment> \<open>code, message\<close>

datatype RelayDaemonErrorCode =
    InvalidTicket | InvalidSignature | InvalidTimestamp | TicketExpired | SessionNotFound
  | SessionAlreadyExists | UnauthorizedPeer | EmptyPayload | ClockSkew | StoreError
  | ParticipantNotInTicket | SessionConflict | SessionNotAttached | ParticipantNotAttached
  | ParticipantAddressMismatch | InvalidPayloadB64 | PeerNotAttached | Unknown string

definition code_of_wire :: "string \<Rightarrow> RelayDaemonErrorCode" where
  "code_of_wire v =
     (if v = ''invalid_ticket'' then InvalidTicket
      else if v = ''invalid_signature'' then InvalidSignature
      else if v = ''invalid_timestamp'' then InvalidTimestamp
      else if v = ''ticket_expired'' then TicketExpired
      else if v = ''session_not_found'' then SessionNotFound
      else if v = ''session_already_exists'' then SessionAlreadyExists
      else if v = ''unauthorized_peer'' then UnauthorizedPeer
      else if v = ''empty_payload'' then EmptyPayload
      else if v = ''clock_skew'' then ClockSkew
      else if v = ''store_error'' then StoreError
      else if v = ''participant_not_in_ticket'' then ParticipantNotInTicket
      else if v = ''session_conflict'' then SessionConflict
      else if v = ''session_not_attached'' then SessionNotAttached
      else if v = ''participant_not_attached'' then ParticipantNotAttached
      else if v = ''participant_address_mismatch'' then ParticipantAddressMismatch
      else if v = ''invalid_payload_b64'' then InvalidPayloadB64
      else if v = ''peer_not_attached'' then PeerNotAttached
      else Unknown v)"

definition parse_error_code :: "string option \<Rightarrow> RelayDaemonErrorCode option" where
  "parse_error_code value =
     (case value of
        None \<Rightarrow> None
      | Some v \<Rightarrow> let v = trim v in if v = [] then None else Some (code_of_wire v))"

fun code_as_str :: "RelayDaemonErrorCode \<Rightarrow> string" where
  "code_as_str InvalidTicket = ''invalid_ticket''"
| "code_as_str InvalidSignature = ''invalid_signature''"
| "code_as_str InvalidTimestamp = ''invalid_timestamp''"
| "code_as_str TicketExpired = ''ticket_expired''"
| "code_as_str SessionNotFound = ''session_not_found''"
| "code_as_str SessionAlreadyExists = ''session_already_exists''"
| "code_as_str UnauthorizedPeer = ''unauthorized_peer''"
| "code_as_str EmptyPayload = ''empty_payload''"
| "code_as_str ClockSkew = ''clock_skew''"
| "code_as_str StoreError = ''store_error''"
| "code_as_str ParticipantNotInTicket = ''participant_not_in_ticket''"
| "code_as_str SessionConflict = ''session_conflict''"
| "code_as_str SessionNotAttached = ''session_not_attached''"
| "code_as_str ParticipantNotAttached = ''participant_not_attached''"
| "code_as_str ParticipantAddressMismatch = ''participant_address_mismatch''"
| "code_as_str InvalidPayloadB64 = ''invalid_payload_b64''"
| "code_as_str PeerNotAttached = ''peer_not_attached''"
| "code_as_str (Unknown v) = v"

record RelayDaemonError =
  code :: "RelayDaemonErrorCode option"
  message :: string

record RelayClientError =
  code :: "string option"
  message :: string

definition client_error_new :: "string option \<Rightarrow> string \<Rightarrow> RelayClientError" where
  "client_error_new c m = \<lparr>RelayClientError.code = c, message = m\<rparr>"

definition client_error_message :: "string \<Rightarrow> RelayClientError" where
  "client_error_message m = client_error_new None m"

definition display_client_error :: "RelayClientError \<Rightarrow> string" where
  "display_client_error e =
     (case RelayClientError.code e of
        Some c \<Rightarrow> if \<not> blank c then ''['' @ c @ ''] '' @ RelayClientError.message e
                  else RelayClientError.message e
      | None \<Rightarrow> RelayClientError.message e)"

definition error_from_wire :: "string option \<Rightarrow> string \<Rightarrow> RelayDaemonError" where
  "error_from_wire c m = \<lparr>RelayDaemonError.code = parse_error_code c, message = m\<rparr>"

definition format_with_prefix :: "RelayDaemonError \<Rightarrow> string \<Rightarrow> string" where
  "format_with_prefix e prefix =
     (case RelayDaemonError.code e of
        Some c \<Rightarrow> prefix @ '' ['' @ code_as_str c @ '']: '' @ RelayDaemonError.message e
      | None \<Rightarrow> prefix @ '': '' @ RelayDaemonError.message e)"

definition into_client_error :: "RelayDaemonError \<Rightarrow> string \<Rightarrow> RelayClientError" where
  "into_client_error e prefix =
     client_error_new (map_option code_as_str (RelayDaemonError.code e)) (format_with_prefix e prefix)"

section \<open>The client\<close>

record RelayClientState =
  relay_url :: "string option"
  session_id :: "string option"
  local_participant_id :: "string option"
  peer_participant_id :: "string option"
  active_socket :: "ActiveSocket option"

record SocketRelayClient =
  connect_timeout :: nat  \<comment> \<open>in milliseconds\<close>
  client_state :: "RelayClientState mutex"

definition relay_client_new :: "nat \<Rightarrow> SocketRelayClient" where
  "relay_client_new timeout =
     \<lparr>connect_timeout = timeout,
      client_state = Healthy \<lparr>relay_url = None, session_id = None, local_participant_id = None,
        peer_participant_id = None, active_socket = None\<rparr>\<rparr>"

definition relay_client_default :: SocketRelayClient where
  "relay_client_default = relay_client_new 1000"

record RelayCodec =
  request_to_vec :: "RelayDaemonRequest \<Rightarrow> (u8 list, string) result"
  response_from_slice :: "u8 list \<Rightarrow> (RelayDaemonResponse, string) result"
  debug_response :: "RelayDaemonResponse \<Rightarrow> string"
  b64_encode :: "u8 list \<Rightarrow> string"
  b64_decode :: "string \<Rightarrow> (u8 list, string) result"

text \<open>
  Reading a response sets the socket to a mode for the read and resets it afterwards; the second
  result lists the options that were set.  A response that does not decode returns at once,
  before the reset.
\<close>

datatype SockOpt = Nonblocking bool | ReadTimeout "nat option"

definition read_udp_response ::
  "SocketEnv \<Rightarrow> RelayCodec \<Rightarrow> handle \<Rightarrow> nat option \<Rightarrow> (RelayDaemonResponse option, string) result \<times> SockOpt list" where
  "read_udp_response env codec s timeout =
     (let use_nonblocking = (timeout = Some 0);
          opt = (if use_nonblocking then Nonblocking True else ReadTimeout timeout);
          reset = (if use_nonblocking then Nonblocking False else ReadTimeout None)
      in case (if use_nonblocking
               then map_err (\<lambda>e. ''set relay udp socket nonblocking failed: '' @ e) (set_nonblocking env s True)
               else map_err (\<lambda>e. ''set relay udp read timeout failed: '' @ e)
                      (set_read_timeout env s (timeout \<noteq> None))) of
           Err e \<Rightarrow> (Err e, [opt])
         | Ok _ \<Rightarrow>
             let finish = (\<lambda>result.
                   case (if use_nonblocking
                         then map_err (\<lambda>e. ''reset relay udp socket nonblocking failed: '' @ e) (set_nonblocking env s False)
                         else map_err (\<lambda>e. ''reset relay udp read timeout failed: '' @ e) (set_read_timeout env s False)) of
                     Err e \<Rightarrow> (Err e, [opt, reset])
                   | Ok _ \<Rightarrow> (result, [opt, reset]))
             in case udp_recv env s of
                  Ok bytes \<Rightarrow>
                    (case response_from_slice codec (take (64 * 1024) bytes) of
                       Err e \<Rightarrow> (Err (''decode relay daemon response failed: '' @ e), [opt])
                     | Ok response \<Rightarrow> finish (Ok (Some response)))
                | Err e \<Rightarrow>
                    if kind e = WouldBlock \<or> kind e = TimedOut \<or> kind e = ConnectionRefused
                    then finish (Ok None)
                    else finish (Err (''read relay udp socket failed: '' @ text_of e)))"

definition send_udp_request ::
  "SocketEnv \<Rightarrow> RelayCodec \<Rightarrow> handle \<Rightarrow> RelayDaemonRequest \<Rightarrow> (unit, string) result" where
  "send_udp_request env codec s request =
     (case request_to_vec codec request of
        Err e \<Rightarrow> Err (''encode relay daemon request failed: '' @ e)
      | Ok payload \<Rightarrow>
          (case udp_send env s payload of
             Err e \<Rightarrow> Err (''send packet to relay udp socket failed: '' @ e)
           | Ok _ \<Rightarrow> Ok ()))"

definition relay_attach ::
  "SocketEnv \<Rightarrow> RelayCodec \<Rightarrow> SocketRelayClient \<Rightarrow> RelayTicket \<Rightarrow> handle \<Rightarrow>
   (ConnectionState, RelayClientError) result \<times> SocketRelayClient" where
  "relay_attach env codec c t s =
     (case send_udp_request env codec s (Attach (src_node_id t) t) of
        Err e \<Rightarrow> (Err (client_error_message e), c)
      | Ok _ \<Rightarrow> (case fst (read_udp_response env codec s (Some (connect_timeout c))) of
          Err e \<Rightarrow> (Err (client_error_message e), c)
        | Ok None \<Rightarrow> (Err (client_error_message ''timed out waiting for relay attach response''), c)
        | Ok (Some response) \<Rightarrow>
            (case response of
               Attached sid peer \<Rightarrow>
                 (case lock (client_state c) of
                    None \<Rightarrow> (Err (client_error_message ''relay client state poisoned''), c)
                  | Some st \<Rightarrow>
                      (Ok (ConnectionState.Connected ConnectionPath.Relay),
                       c\<lparr>client_state := Healthy (st\<lparr>
                          relay_url := Some (RelayTicket.relay_url t), session_id := Some sid,
                          local_participant_id := Some (src_node_id t),
                          peer_participant_id := Some peer, active_socket := Some (UdpSocket s)\<rparr>)\<rparr>))
             | Error ecode m \<Rightarrow> (Err (into_client_error (error_from_wire ecode m) ''relay attach failed''), c)
             | other \<Rightarrow> (Err (client_error_message (''unexpected relay attach response: '' @ debug_response codec other)), c))))"

definition relay_connect ::
  "SocketEnv \<Rightarrow> RelayCodec \<Rightarrow> SocketRelayClient \<Rightarrow> RelayTicket \<Rightarrow>
   (ConnectionState, RelayClientError) result \<times> SocketRelayClient" where
  "relay_connect env codec c t =
     (case split_once ''://'' (RelayTicket.relay_url t) of
        None \<Rightarrow> (Err (client_error_message (''invalid relay url: '' @ RelayTicket.relay_url t)), c)
      | Some (scheme, authority) \<Rightarrow>
          if scheme = ''tcp'' then
            (Err (client_error_message ''tcp relay daemon protocol not implemented; use udp relay url''), c)
          else if scheme = ''udp'' then
            (let bind_addr = (if starts_with authority ''['' then ''[::]:0'' else ''0.0.0.0:0'')
             in case udp_bind env bind_addr of
                  Err e \<Rightarrow> (Err (client_error_message (''bind udp socket failed: '' @ e)), c)
                | Ok s \<Rightarrow>
                    (case udp_connect env s authority of
                       Err e \<Rightarrow> (Err (client_error_message (''udp relay connect to '' @ authority @ '' failed: '' @ e)), c)
                     | Ok _ \<Rightarrow> relay_attach env codec c t s))
          else (Err (client_error_message (''unsupported relay url scheme: '' @ scheme)), c))"

definition check_forward_ack ::
  "RelayCodec \<Rightarrow> string \<Rightarrow> u8 list \<Rightarrow> RelayDaemonResponse \<Rightarrow> (unit, RelayClientError) result" where
  "check_forward_ack codec sid packet response =
     (case response of
        Forwarded ack_sid _ n \<Rightarrow>
          if ack_sid \<noteq> sid then
            Err (client_error_message (''relay forward ack session mismatch: expected '' @ sid @ '', got '' @ ack_sid))
          else if n \<noteq> length packet then
            Err (client_error_message (''relay forward ack bytes mismatch: expected '' @ show_nat (length packet)
                   @ '', got '' @ show_nat n))
          else Ok ()
      | Error ecode m \<Rightarrow> Err (into_client_error (error_from_wire ecode m) ''relay forward failed'')
      | other \<Rightarrow> Err (client_error_message (''unexpected relay forward response: '' @ debug_response codec other)))"

definition relay_send_transport_packet ::
  "SocketEnv \<Rightarrow> RelayCodec \<Rightarrow> SocketRelayClient \<Rightarrow> u8 list \<Rightarrow> (unit, RelayClientError) result" where
  "relay_send_transport_packet env codec c packet =
     (if packet = [] then Err (client_error_message ''cannot send empty packet via relay'')
      else case lock (client_state c) of
        None \<Rightarrow> Err (client_error_message ''relay client state poisoned'')
      | Some st \<Rightarrow> (case active_socket st of
          None \<Rightarrow> Err (client_error_message ''relay client has no active connection'')
        | Some (TcpSocket s) \<Rightarrow>
            map_err (\<lambda>e. client_error_message (''send packet to relay tcp socket failed: '' @ e))
              (tcp_write_all env s packet)
        | Some (UdpSocket s) \<Rightarrow>
            (case session_id st of
               None \<Rightarrow> Err (client_error_message ''relay client has no attached session'')
             | Some sid \<Rightarrow> (case local_participant_id st of
                 None \<Rightarrow> Err (client_error_message ''relay client has no local participant id'')
               | Some from \<Rightarrow>
                   (case send_udp_request env codec s (Forward sid from (b64_encode codec packet)) of
                      Err e \<Rightarrow> Err (client_error_message e)
                    | Ok _ \<Rightarrow> (case fst (read_udp_response env codec s (Some (connect_timeout c))) of
                        Err e \<Rightarrow> Err (client_error_message e)
                      | Ok None \<Rightarrow> Err (client_error_message ''timed out waiting for relay forward ack'')
                      | Ok (Some response) \<Rightarrow> check_forward_ack codec sid packet response))))))"

definition relay_poll_transport_packet ::
  "SocketEnv \<Rightarrow> RelayCodec \<Rightarrow> SocketRelayClient \<Rightarrow> (u8 list option, RelayClientError) result" where
  "relay_poll_transport_packet env codec c =
     (case lock (client_state c) of
        None \<Rightarrow> Err (client_error_message ''relay client state poisoned'')
      | Some st \<Rightarrow> (case active_socket st of
          None \<Rightarrow> Err (client_error_message ''relay client has no active connection'')
        | Some (TcpSocket s) \<Rightarrow>
            (case set_nonblocking env s True of
               Err e \<Rightarrow> Err (client_error_message (''set relay tcp socket nonblocking failed: '' @ e))
             | Ok _ \<Rightarrow> map_err client_error_message (tcp_poll env s ''read relay tcp socket failed: ''))
        | Some (UdpSocket s) \<Rightarrow>
            (case fst (read_udp_response env codec s (Some 0)) of
               Err e \<Rightarrow> Err (client_error_message e)
             | Ok (Some (Packet _ _ text)) \<Rightarrow>
                 (case b64_decode codec text of
                    Ok b \<Rightarrow> Ok (Some b)
                  | Err e \<Rightarrow> Err (client_error_message (''decode relay packet payload failed: '' @ e)))
             | Ok (Some (Error ecode m)) \<Rightarrow>
                 Err (into_client_error (error_from_wire ecode m) ''relay receive failed'')
             | Ok (Some _) \<Rightarrow> Ok None
             | Ok None \<Rightarrow> Ok None)))"

section \<open>The derived serialisers\<close>

text \<open>\<open>rename_all = "camelCase"\<close> on the ticket, field names as they are on the request.\<close>

definition se_client_ticket :: "RelayTicket \<Rightarrow> json" where
  "se_client_ticket t = JObj
     [(''ticketId'', JStr (ticket_id t)), (''networkId'', JStr (RelayTicket.network_id t)),
      (''sessionId'', JStr (RelayTicket.session_id t)), (''srcNodeId'', JStr (src_node_id t)),
      (''dstNodeId'', JStr (dst_node_id t)), (''derpClusterId'', se_option JStr (derp_cluster_id t)),
      (''countryCode'', se_option JStr (RelayTicket.country_code t)),
      (''cityCode'', se_option JStr (RelayTicket.city_code t)),
      (''allowedDerpNodeIds'', JArr (map JStr (allowed_derp_node_ids t))),
      (''relayUrl'', JStr (RelayTicket.relay_url t)), (''expiresAt'', JStr (expires_at t)),
      (''sessionKey'', se_option JStr (session_key t)), (''signature'', JStr (signature t))]"

fun se_daemon_request :: "RelayDaemonRequest \<Rightarrow> json" where
  "se_daemon_request Ping = JObj [(''kind'', JStr ''ping'')]"
| "se_daemon_request (Attach p t) =
     JObj [(''kind'', JStr ''attach''), (''participant_id'', JStr p), (''ticket'', se_client_ticket t)]"
| "se_daemon_request (Forward s p b) =
     JObj [(''kind'', JStr ''forward''), (''session_id'', JStr s),
           (''from_participant_id'', JStr p), (''payload_b64'', JStr b)]"
| "se_daemon_request (Detach s p) =
     JObj [(''kind'', JStr ''detach''), (''session_id'', JStr s), (''participant_id'', JStr p)]"

definition de_response_variant :: "string \<Rightarrow> json_object \<Rightarrow> RelayDaemonResponse option" where
  "de_response_variant variant obj =
     (if variant = ''pong'' then Some Pong
      else if variant = ''attached'' then
        (case de_field de_string ''session_id'' obj of None \<Rightarrow> None | Some s \<Rightarrow>
         map_option (Attached s) (de_field de_string ''peer_participant_id'' obj))
      else if variant = ''forwarded'' then
        (case de_field de_string ''session_id'' obj of None \<Rightarrow> None | Some s \<Rightarrow>
         (case de_field de_string ''to_participant_id'' obj of None \<Rightarrow> None | Some p \<Rightarrow>
          map_option (Forwarded s p) (de_field de_nat ''bytes_forwarded'' obj)))
      else if variant = ''detached'' then
        (case de_field de_string ''session_id'' obj of None \<Rightarrow> None | Some s \<Rightarrow>
         map_option (Detached s) (de_field de_string ''participant_id'' obj))
      else if variant = ''packet'' then
        (case de_field de_string ''session_id'' obj of None \<Rightarrow> None | Some s \<Rightarrow>
         (case de_field de_string ''from_participant_id'' obj of None \<Rightarrow> None | Some p \<Rightarrow>
          map_option (Packet s p) (de_field de_string ''payload_b64'' obj)))
      else if variant = ''error'' then
        (case de_field_default None (de_option de_string) ''code'' obj of None \<Rightarrow> None | Some c \<Rightarrow>
         map_option (Error c) (de_field de_string ''message'' obj))
      else None)"

definition de_daemon_response :: "json \<Rightarrow> RelayDaemonResponse option" where
  "de_daemon_response = de_tagged de_response_variant"

section \<open>Properties\<close>

lemma code_of_wire_known: "(\<forall>v. c \<noteq> Unknown v) \<Longrightarrow> code_of_wire (code_as_str c) = c"
  by (cases c) (simp_all add: code_of_wire_def)

lemma visible_code: "(\<forall>v. c \<noteq> Unknown v) \<Longrightarrow>
  code_as_str c \<noteq> [] \<and> visible (hd (code_as_str c)) \<and> visible (last (code_as_str c))"
  by (cases c) (simp_all add: visible_def)

text \<open>The codes the client knows survive printing and parsing.\<close>

lemma parse_error_code_as_str:
  "(\<forall>v. c \<noteq> Unknown v) \<Longrightarrow> parse_error_code (Some (code_as_str c)) = Some c"
  using visible_code [of c] by (simp add: parse_error_code_def trim_id code_of_wire_known)

lemma code_of_wire_as_str: "code_as_str (code_of_wire v) = v"
  by (simp add: code_of_wire_def)

text \<open>Every error of the relay keeps its code for the caller, without surrounding white space.\<close>

lemma into_client_error_code:
  "RelayClientError.code (into_client_error (error_from_wire c m) prefix) =
   (case c of None \<Rightarrow> None | Some v \<Rightarrow> if blank v then None else Some (trim v))"
  by (simp add: into_client_error_def error_from_wire_def client_error_new_def parse_error_code_def
      code_of_wire_as_str blank_def Let_def split: option.split)

text \<open>
  A connection is made exactly for a \<open>udp\<close> URL on which bind, connect and attach succeed; the
  client then remembers the session and the peer the relay named, and otherwise nothing of the
  client changes.
\<close>

theorem relay_connect_effect:
  assumes "client_state c = Healthy st" and "relay_connect env codec c t = (r, c')"
  shows "case r of
     Err e \<Rightarrow> c' = c
   | Ok conn \<Rightarrow> conn = ConnectionState.Connected ConnectionPath.Relay \<and>
       (\<exists>authority s sid peer. RelayTicket.relay_url t = ''udp://'' @ authority \<and>
          send_udp_request env codec s (Attach (src_node_id t) t) = Ok () \<and>
          fst (read_udp_response env codec s (Some (connect_timeout c))) = Ok (Some (Attached sid peer)) \<and>
          c' = c\<lparr>client_state := Healthy (st\<lparr>relay_url := Some (RelayTicket.relay_url t),
             session_id := Some sid, local_participant_id := Some (src_node_id t),
             peer_participant_id := Some peer, active_socket := Some (UdpSocket s)\<rparr>)\<rparr>)"
proof (cases "split_once ''://'' (RelayTicket.relay_url t)")
  case None
  with assms show ?thesis by (auto simp: relay_connect_def)
next
  case (Some p)
  obtain scheme authority where p: "p = (scheme, authority)" by fastforce
  then have url: "RelayTicket.relay_url t = scheme @ ''://'' @ authority"
    using Some split_once_Some by blast
  have attach: "case fst (relay_attach env codec c t s) of
      Err e \<Rightarrow> snd (relay_attach env codec c t s) = c
    | Ok conn \<Rightarrow> conn = ConnectionState.Connected ConnectionPath.Relay \<and>
        (\<exists>sid peer. send_udp_request env codec s (Attach (src_node_id t) t) = Ok () \<and>
           fst (read_udp_response env codec s (Some (connect_timeout c))) = Ok (Some (Attached sid peer)) \<and>
           snd (relay_attach env codec c t s) = c\<lparr>client_state := Healthy (st\<lparr>relay_url := Some (RelayTicket.relay_url t),
             session_id := Some sid, local_participant_id := Some (src_node_id t),
             peer_participant_id := Some peer, active_socket := Some (UdpSocket s)\<rparr>)\<rparr>)" for s
    using assms(1)
    by (simp add: relay_attach_def split: result.splits option.splits RelayDaemonResponse.splits)
  show ?thesis
  proof (cases "scheme = ''udp''")
    case False
    with assms Some p show ?thesis by (auto simp: relay_connect_def split: if_splits)
  next
    case True
    with assms(2) Some p consider e where "r = Err e" "c' = c" | s where "relay_attach env codec c t s = (r, c')"
      by (auto simp: relay_connect_def Let_def split: result.splits if_splits)
    then show ?thesis
    proof cases
      case (2 s)
      with attach [of s] url True show ?thesis by (force split: result.splits)
    qed simp
  qed
qed

definition demo_relay_codec :: "RelayDaemonResponse \<Rightarrow> RelayCodec" where
  "demo_relay_codec response =
     \<lparr>request_to_vec = (\<lambda>r. Ok [3]), response_from_slice = (\<lambda>b. Ok response), debug_response = (\<lambda>r. []),
      b64_encode = (\<lambda>b. ''x''), b64_decode = (\<lambda>s. Ok [4])\<rparr>"

lemma demo_read: "fst (read_udp_response demo_env (demo_relay_codec x) s t) = Ok (Some x)"
  by (cases "t = Some 0") (simp_all add: read_udp_response_def demo_env_def demo_relay_codec_def Let_def)

lemma demo_send: "send_udp_request demo_env (demo_relay_codec x) s r = Ok ()"
  by (simp add: send_udp_request_def demo_env_def demo_relay_codec_def)

definition demo_attached :: SocketRelayClient where
  "demo_attached = snd (relay_connect demo_env (demo_relay_codec (Attached ''s1'' ''b'')) relay_client_default demo_derp_ticket)"

theorem relay_connect_effect_witness:
  "\<exists>st. client_state demo_attached = Healthy st \<and> session_id st = Some ''s1'' \<and>
     peer_participant_id st = Some ''b'' \<and> active_socket st \<noteq> None"
proof -
  let ?codec = "demo_relay_codec (Attached ''s1'' ''b'')"
  let ?r = "relay_connect demo_env ?codec relay_client_default demo_derp_ticket"
  have ok: "fst ?r = Ok (ConnectionState.Connected ConnectionPath.Relay)"
  proof -
    have "split_once ''://'' (RelayTicket.relay_url demo_derp_ticket) = Some (''udp'', ''relay'')"
      by code_simp
    moreover have "udp_bind demo_env a = Ok 8" "udp_connect demo_env h a = Ok ()" for a h
      by (simp_all add: demo_env_def)
    ultimately show ?thesis
      by (simp add: relay_connect_def relay_attach_def demo_read demo_send relay_client_default_def relay_client_new_def)
  qed
  have r: "?r = (Ok (ConnectionState.Connected ConnectionPath.Relay), demo_attached)"
    using ok by (metis demo_attached_def prod.collapse)
  have st: "client_state relay_client_default = Healthy \<lparr>relay_url = None, session_id = None,
      local_participant_id = None, peer_participant_id = None, active_socket = None\<rparr>"
    by (simp add: relay_client_default_def relay_client_new_def)
  obtain s where eq: "demo_attached = relay_client_default\<lparr>client_state := Healthy
      \<lparr>relay_url = Some (RelayTicket.relay_url demo_derp_ticket), session_id = Some ''s1'',
       local_participant_id = Some (src_node_id demo_derp_ticket), peer_participant_id = Some ''b'',
       active_socket = Some (UdpSocket s)\<rparr>\<rparr>"
    using relay_connect_effect [OF st r] by (auto simp: demo_read)
  have "client_state demo_attached = Healthy
      \<lparr>relay_url = Some (RelayTicket.relay_url demo_derp_ticket), session_id = Some ''s1'',
       local_participant_id = Some (src_node_id demo_derp_ticket), peer_participant_id = Some ''b'',
       active_socket = Some (UdpSocket s)\<rparr>"
    unfolding eq by simp
  then show ?thesis by simp
qed

text \<open>
  C19: over UDP a packet counts as sent exactly when it is not empty, the client is attached, the
  forward request went out and the relay acknowledged it for the same session with as many bytes
  as the packet has.
\<close>

theorem relay_send_acknowledged:
  assumes "client_state c = Healthy st" and "active_socket st = Some (UdpSocket s)"
  shows "relay_send_transport_packet env codec c packet = Ok () \<longleftrightarrow>
    packet \<noteq> [] \<and>
    (\<exists>sid from to. session_id st = Some sid \<and> local_participant_id st = Some from \<and>
       send_udp_request env codec s (Forward sid from (b64_encode codec packet)) = Ok () \<and>
       fst (read_udp_response env codec s (Some (connect_timeout c))) =
         Ok (Some (Forwarded sid to (length packet))))"
  using assms
  by (auto simp: relay_send_transport_packet_def check_forward_ack_def
      split: option.splits result.splits RelayDaemonResponse.splits if_splits)

theorem relay_send_acknowledged_witness:
  "relay_send_transport_packet demo_env (demo_relay_codec (Forwarded ''s1'' ''b'' 2))
     \<lparr>connect_timeout = 5, client_state = Healthy \<lparr>relay_url = None, session_id = Some ''s1'',
        local_participant_id = Some ''a'', peer_participant_id = None, active_socket = Some (UdpSocket 8)\<rparr>\<rparr> [1, 2] = Ok ()"
proof -
  let ?st = "\<lparr>relay_url = None, session_id = Some ''s1'', local_participant_id = Some ''a'',
     peer_participant_id = None, active_socket = Some (UdpSocket 8)\<rparr>"
  let ?c = "\<lparr>connect_timeout = 5, client_state = Healthy ?st\<rparr>"
  have st: "client_state ?c = Healthy ?st" "active_socket ?st = Some (UdpSocket 8)"
    by simp_all
  show ?thesis
    unfolding relay_send_acknowledged [OF st]
    by (simp add: demo_read demo_send)
qed

text \<open>
  Reading a response resets the mode of the socket in every case but two: the socket refused
  the mode, or a datagram arrived that does not decode.
\<close>

theorem read_udp_response_reset:
  "snd (read_udp_response env codec s timeout) =
     [if timeout = Some 0 then Nonblocking True else ReadTimeout timeout,
      if timeout = Some 0 then Nonblocking False else ReadTimeout None] \<longleftrightarrow>
   is_ok (if timeout = Some 0 then set_nonblocking env s True else set_read_timeout env s (timeout \<noteq> None)) \<and>
   \<not> (\<exists>bytes e. udp_recv env s = Ok bytes \<and> response_from_slice codec (take (64 * 1024) bytes) = Err e)"
proof -
  let ?set = "if timeout = Some 0 then set_nonblocking env s True else set_read_timeout env s (timeout \<noteq> None)"
  consider (bad) e where "?set = Err e"
    | (garbled) bytes e where "?set = Ok ()" "udp_recv env s = Ok bytes" "response_from_slice codec (take (64 * 1024) bytes) = Err e"
    | (good) "?set = Ok ()" "\<not> (\<exists>bytes e. udp_recv env s = Ok bytes \<and> response_from_slice codec (take (64 * 1024) bytes) = Err e)"
    by (cases ?set) auto
  then show ?thesis
  proof cases
    case bad
    then show ?thesis by (cases "timeout = Some 0") (simp_all add: read_udp_response_def)
  next
    case garbled
    then show ?thesis by (cases "timeout = Some 0") (simp_all add: read_udp_response_def Let_def)
  next
    case good
    then show ?thesis
      by (cases "timeout = Some 0"; cases "udp_recv env s")
        (auto simp: read_udp_response_def Let_def split: result.splits)
  qed
qed

end
