(* ===== verification/Protocol_Match.thy ===== *)
theory Protocol_Match
  imports Daemon_Safety Relay_Client
begin

text \<open>
  The two ends of the relay protocol against each other: what the client's requests mean to the
  daemon, what the daemon's responses mean to the client, the way of a packet from one client through the
  daemon to the other, and whether the client knows every error code the daemon uses.
\<close>

section \<open>Requests\<close>


text \<open>
  C20: the daemon decodes no attach request of the client, whatever the ticket: the client writes the
  ticket's fields in camel case and the daemon requires them in snake case.
\<close>

theorem client_attach_undecodable:
  "de_request (se_daemon_request (RelayDaemonRequest.Attach p t)) = None"
proof -
  have "de_ticket (se_client_ticket t) = None"
    by (simp add: de_ticket_def se_client_ticket_def de_field_def)
  then show ?thesis
    by (simp add: de_request_def de_simps)
qed

section \<open>Responses\<close>



section \<open>The way of a packet\<close>




















section \<open>Error codes\<close>

definition daemon_codes :: "string list" where
  "daemon_codes = [''invalid_ticket'', ''invalid_signature'', ''invalid_timestamp'', ''ticket_expired'',
     ''session_not_found'', ''session_already_exists'', ''unauthorized_peer'', ''empty_payload'',
     ''clock_skew'', ''store_error'', ''participant_not_in_ticket'', ''session_conflict'',
     ''session_not_attached'', ''participant_not_attached'', ''participant_address_mismatch'',
     ''invalid_payload_b64'', ''peer_not_attached'']"

lemma relay_runtime_error_code: "RelayRuntimeError.code (relay_runtime_error e) \<in> set daemon_codes"
  by (cases e) (simp_all add: runtime_error_new_def daemon_codes_def)

lemma runtime_error_new_code: "c \<in> set daemon_codes \<Longrightarrow> RelayRuntimeError.code (runtime_error_new c m) \<in> set daemon_codes"
  by (simp add: runtime_error_new_def)

lemmas daemon_code_intros = relay_runtime_error_code runtime_error_new_code

lemma handle_request_codes:
  assumes "handle_request crypto b64 clock rt source req = (Err e, rt')"
  shows "RelayRuntimeError.code e \<in> set daemon_codes"
proof -
  have lit: "''participant_not_in_ticket'' \<in> set daemon_codes" "''session_conflict'' \<in> set daemon_codes"
      "''session_not_attached'' \<in> set daemon_codes" "''participant_not_attached'' \<in> set daemon_codes"
      "''participant_address_mismatch'' \<in> set daemon_codes" "''invalid_payload_b64'' \<in> set daemon_codes"
      "''peer_not_attached'' \<in> set daemon_codes"
    by (simp_all add: daemon_codes_def)
  note intros = daemon_code_intros lit
  show ?thesis
  proof (cases req)
    case (Attach p t)
    with assms have "handle_attach crypto clock rt source p t = (Err e, rt')" by simp
    then show ?thesis
      by (auto simp: handle_attach_def attach_ok_def Let_def intro!: intros
          split: if_splits prod.splits result.splits)
  next
    case (Forward s p b)
    with assms have "handle_forward b64 rt source s p b = (Err e, rt')" by simp
    then show ?thesis
      by (auto simp: handle_forward_def intro!: intros split: if_splits option.splits result.splits)
  next
    case (Detach s p)
    with assms have "handle_detach rt source s p = (Err e, rt')" by simp
    then show ?thesis
      by (auto simp: handle_detach_def Let_def intro!: intros
          split: if_splits option.splits prod.splits result.splits)
  qed (use assms in simp)
qed

text \<open>
  Every error the daemon can answer with has a code that the client parses to a code it knows.
\<close>

theorem daemon_error_codes_known:
  assumes "handle_request crypto b64 clock rt source req = (Err e, rt')"
  shows "\<exists>c. parse_error_code (Some (RelayRuntimeError.code e)) = Some c \<and> (\<forall>v. c \<noteq> Unknown v)
    \<and> code_as_str c = RelayRuntimeError.code e"
proof -
  have "\<forall>w \<in> set daemon_codes. \<not> (\<exists>v. code_of_wire w = Unknown v)"
    by (simp add: daemon_codes_def code_of_wire_def)
  then obtain c where c: "c = code_of_wire (RelayRuntimeError.code e)" "\<forall>v. c \<noteq> Unknown v"
    using handle_request_codes [OF assms] by blast
  then have "code_as_str c = RelayRuntimeError.code e"
    by (simp add: code_of_wire_as_str)
  with c(2) parse_error_code_as_str [OF c(2)] show ?thesis by auto
qed

theorem daemon_error_codes_known_witness:
  "\<exists>c e. fst (demo_request demo_two (V4 9 9) (ClientRequest.Detach ''s1'' ''a'')) = Err e \<and>
     parse_error_code (Some (RelayRuntimeError.code e)) = Some c \<and> (\<forall>v. c \<noteq> Unknown v)"
proof -
  let ?h = "demo_request demo_two (V4 9 9) (ClientRequest.Detach ''s1'' ''a'')"
  have "\<not> is_ok (fst ?h)" by code_simp
  then obtain e where e: "fst ?h = Err e" by (cases "fst ?h") auto
  then have "?h = (Err e, snd ?h)" by (metis prod.collapse)
  from daemon_error_codes_known [OF this] e show ?thesis by blast
qed

end
