(* ===== verification/Tunnel.thy ===== *)
theory Tunnel
  imports App_Core
begin

text \<open>
  Crate \<open>tunnel\<close>, the part every platform shares: the tunnel configuration, the contract of a
  backend (trait \<open>TunnelBackend\<close>, as the locale \<open>tunnel_backend\<close>), the in-memory backend and the
  managers that delegate to a backend.  An operation takes the backend and returns its result with
  the backend after it; the in-memory backend is its lock-protected map.
\<close>

record TunnelConfig =
  transport :: TunnelTransport
  local_virtual_ip :: string
  peer_virtual_ip :: string
  wireguard_interface :: WireGuardInterfaceConfig
  wireguard_peer :: WireGuardPeerConfig

section \<open>Processes\<close>

text \<open>
  The operating system as the platform backends see it: environment variables, the time, and programs
  that run and leave an exit status and, decoded, what they wrote.  A program may change the world
  \<open>'w\<close>, so running one returns the world after it.  The target of the build is a value here, where
  the source selects code with \<open>cfg\<close>.
\<close>

datatype TargetOs = Linux | Windows | Macos | OtherOs

datatype ProcessOutcome =
    NotSpawned string
  | StdinFailed string
  | NotWaited string
  | Exited (exit_success: bool) (exit_status: string) (exit_stdout: string) (exit_stderr: string)

record 'w ProcessEnv =
  run_process :: "string \<Rightarrow> string list \<Rightarrow> string option \<Rightarrow> 'w \<Rightarrow> ProcessOutcome \<times> 'w"
  env_var :: "string \<Rightarrow> string option"
  target_os :: TargetOs
  now_ms :: u64

section \<open>The contract of a backend\<close>

text \<open>
  The operations of the trait that the manager calls.  What a backend promises is stated over the
  table it keeps, from the virtual IPs of the peers to their public keys: an operation that succeeds
  has done its update, and one that fails touches no other peer than its own.
\<close>

type_synonym 's backend_op = "'s \<Rightarrow> (unit, string) result \<times> 's"

record 's TunnelBackend =
  establish :: "TunnelConfig \<Rightarrow> 's backend_op"
  close :: "string \<Rightarrow> 's backend_op"

text \<open>The abstract specification: a table of peers, and what a call may do to it.\<close>

type_synonym peer_table = "string \<rightharpoonup> string"

datatype tunnel_op = Establish TunnelConfig | Close string

fun op_peer :: "tunnel_op \<Rightarrow> string" where
  "op_peer (Establish cfg) = peer_virtual_ip cfg"
| "op_peer (Close ip) = ip"

fun op_entry :: "tunnel_op \<Rightarrow> string option" where
  "op_entry (Establish cfg) = Some (WireGuardPeerConfig.public_key (wireguard_peer cfg))"
| "op_entry (Close ip) = None"

definition spec_step :: "tunnel_op \<Rightarrow> (unit, string) result \<Rightarrow> peer_table \<Rightarrow> peer_table \<Rightarrow> bool" where
  "spec_step opn r m m' \<longleftrightarrow>
     (\<exists>v. m' = m(op_peer opn := v) \<and> (r = Ok () \<longrightarrow> v = op_entry opn))"

fun spec_steps :: "(tunnel_op \<times> (unit, string) result) list \<Rightarrow> peer_table \<Rightarrow> peer_table \<Rightarrow> bool" where
  "spec_steps [] m m' \<longleftrightarrow> m' = m"
| "spec_steps ((opn, r) # rest) m m' \<longleftrightarrow> (\<exists>m1. spec_step opn r m m1 \<and> spec_steps rest m1 m')"

fun apply_op :: "'s TunnelBackend \<Rightarrow> tunnel_op \<Rightarrow> 's backend_op" where
  "apply_op ops (Establish cfg) s = establish ops cfg s"
| "apply_op ops (Close ip) s = close ops ip s"

fun apply_ops :: "'s TunnelBackend \<Rightarrow> tunnel_op list \<Rightarrow> 's \<Rightarrow> (unit, string) result list \<times> 's" where
  "apply_ops ops [] s = ([], s)"
| "apply_ops ops (opn # rest) s =
     (let (r, s1) = apply_op ops opn s; (rs, s2) = apply_ops ops rest s1 in (r # rs, s2))"

lemma spec_steps_frame:
  "spec_steps trace m m' \<Longrightarrow> ip \<notin> op_peer ` fst ` set trace \<Longrightarrow> m' ip = m ip"
proof (induction trace arbitrary: m)
  case (Cons step trace)
  then show ?case
    by (cases step) (force simp: spec_step_def)
qed simp

lemma spec_steps_append:
  "spec_steps (xs @ ys) m m' \<longleftrightarrow> (\<exists>m1. spec_steps xs m m1 \<and> spec_steps ys m1 m')"
proof (induction xs arbitrary: m)
  case (Cons step xs)
  then show ?case by (cases step) (simp, blast)
qed simp

text \<open>The last call that succeeded decides, when no later call was about the same peer.\<close>

lemma spec_steps_last:
  assumes "spec_steps (xs @ (opn, Ok ()) # ys) m m'" and "op_peer opn \<notin> op_peer ` fst ` set ys"
  shows "m' (op_peer opn) = op_entry opn"
proof -
  obtain m1 where "m1 (op_peer opn) = op_entry opn" and "spec_steps ys m1 m'"
    using assms(1) unfolding spec_steps_append spec_steps.simps spec_step_def by (metis fun_upd_same)
  then show ?thesis
    using spec_steps_frame assms(2) by metis
qed

locale tunnel_backend =
  fixes ops :: "'s TunnelBackend"
    and table :: "'s \<Rightarrow> peer_table"
    and inv :: "'s \<Rightarrow> bool"
  assumes op_spec: "inv s \<Longrightarrow> apply_op ops opn s = (r, s') \<Longrightarrow> spec_step opn r (table s) (table s')"
    and op_inv: "inv s \<Longrightarrow> apply_op ops opn s = (r, s') \<Longrightarrow> inv s'"
begin

lemma ops_refine:
  "inv s \<Longrightarrow> apply_ops ops calls s = (rs, s') \<Longrightarrow>
     inv s' \<and> length rs = length calls \<and> spec_steps (zip calls rs) (table s) (table s')"
proof (induction calls arbitrary: s rs)
  case (Cons opn calls)
  obtain r s1 rs' where 1: "apply_op ops opn s = (r, s1)" "apply_ops ops calls s1 = (rs', s')" "rs = r # rs'"
    using Cons.prems(2) by (auto split: prod.splits)
  with Cons.IH [OF op_inv [OF Cons.prems(1) 1(1)] 1(2)] op_spec [OF Cons.prems(1) 1(1)]
  show ?case by auto
qed auto

lemma last_success_decides:
  assumes "inv s" and "apply_ops ops (before @ opn # after) s = (rs, s')"
    and "rs ! length before = Ok ()" and "op_peer opn \<notin> op_peer ` set after"
  shows "table s' (op_peer opn) = op_entry opn"
proof -
  have len: "length rs = length before + Suc (length after)"
      and spec: "spec_steps (zip (before @ opn # after) rs) (table s) (table s')"
    using ops_refine [OF assms(1,2)] by auto
  have rs: "rs = take (length before) rs @ Ok () # drop (Suc (length before)) rs"
    using len assms(3) by (metis id_take_nth_drop less_add_Suc1 add_Suc_right)
  have z: "zip (before @ opn # after) rs =
      zip before (take (length before) rs) @ (opn, Ok ()) # zip after (drop (Suc (length before)) rs)"
    by (subst rs) (simp add: len zip_append1)
  show ?thesis
  proof (rule spec_steps_last)
    show "spec_steps (zip before (take (length before) rs) @ (opn, Ok ())
        # zip after (drop (Suc (length before)) rs)) (table s) (table s')"
      using spec unfolding z .
    show "op_peer opn \<notin> op_peer ` fst ` set (zip after (drop (Suc (length before)) rs))"
      using assms(4) by (auto dest: set_zip_leftD)
  qed
qed

end

section \<open>The in-memory backend\<close>

type_synonym InMemoryTunnelBackend = "(string, WireGuardPeerConfig) HashMap mutex"

definition established_peer_ips :: "InMemoryTunnelBackend \<Rightarrow> string fset" where
  "established_peer_ips b = (case lock b of None \<Rightarrow> {||} | Some m \<Rightarrow> fmdom m)"

definition memory_apply_peer_config ::
  "string \<Rightarrow> WireGuardPeerConfig \<Rightarrow> InMemoryTunnelBackend backend_op" where
  "memory_apply_peer_config ip peer b =
     (case lock b of
        None \<Rightarrow> (Err ''tunnel backend state poisoned'', b)
      | Some m \<Rightarrow>
          let entered = (if ip |\<in>| fmdom m then m else fmupd ip peer m)
          in (Ok (), Healthy (fmupd ip peer entered)))"

definition memory_establish :: "TunnelConfig \<Rightarrow> InMemoryTunnelBackend backend_op" where
  "memory_establish cfg b =
     (case lock b of
        None \<Rightarrow> (Err ''tunnel backend state poisoned'', b)
      | Some m \<Rightarrow> (Ok (), Healthy (fmupd (peer_virtual_ip cfg) (wireguard_peer cfg) m)))"

definition memory_remove_peer :: "string \<Rightarrow> InMemoryTunnelBackend backend_op" where
  "memory_remove_peer ip b =
     (case lock b of
        None \<Rightarrow> (Err ''tunnel backend state poisoned'', b)
      | Some m \<Rightarrow> (Ok (), Healthy (fmdrop ip m)))"

text \<open>\<open>close\<close> is the trait's default: it removes the peer.\<close>

definition memory_ops :: "InMemoryTunnelBackend TunnelBackend" where
  "memory_ops = \<lparr>establish = memory_establish, close = memory_remove_peer\<rparr>"

definition key_table :: "('p \<Rightarrow> string) \<Rightarrow> (string, 'p) HashMap \<Rightarrow> peer_table" where
  "key_table key m = (\<lambda>ip. map_option key (fmlookup m ip))"

lemma key_table_simps [simp]:
  "key_table key (fmupd ip p m) = (key_table key m)(ip \<mapsto> key p)"
  "key_table key (fmdrop ip m) = (key_table key m)(ip := None)"
  by (auto simp: key_table_def)

text \<open>The two writes of \<open>apply_peer_config\<close> are the one of \<open>establish\<close>.\<close>

lemma memory_apply_peer_config_establish:
  "memory_apply_peer_config (peer_virtual_ip cfg) (wireguard_peer cfg) b = memory_establish cfg b"
  by (simp add: memory_apply_peer_config_def memory_establish_def Let_def split: option.splits)

lemma spec_step_same [simp]: "spec_step opn (Err e) m m"
  by (auto simp: spec_step_def intro: exI [of _ "m (op_peer opn)"])

lemma spec_step_touched [simp]: "op_peer opn = ip \<Longrightarrow> spec_step opn (Err e) m (m(ip := v))"
  by (auto simp: spec_step_def)

lemma spec_step_done [simp]: "spec_step opn (Ok ()) m m' \<longleftrightarrow> m' = m(op_peer opn := op_entry opn)"
  by (auto simp: spec_step_def)

lemma apply_op_cases:
  assumes "apply_op ops opn s = (r, s')"
  obtains (establish) cfg where "opn = Establish cfg" "establish ops cfg s = (r, s')"
  | (close) ip where "opn = Close ip" "close ops ip s = (r, s')"
  using assms by (cases opn) auto

interpretation memory: tunnel_backend memory_ops
  "key_table WireGuardPeerConfig.public_key \<circ> protected" "\<lambda>b. \<exists>m. b = Healthy m"
proof
  fix b :: InMemoryTunnelBackend and opn r b'
  assume "\<exists>m. b = Healthy m" and "apply_op memory_ops opn b = (r, b')"
  then show "spec_step opn r ((key_table WireGuardPeerConfig.public_key \<circ> protected) b)
        ((key_table WireGuardPeerConfig.public_key \<circ> protected) b')"
      and "\<exists>m. b' = Healthy m"
    by (auto elim!: apply_op_cases simp: memory_ops_def memory_establish_def memory_remove_peer_def)
qed

section \<open>Managers\<close>

text \<open>
  \<open>SystemTunnelManager\<close> holds a backend and delegates, and \<open>InMemoryTunnelManager\<close> is a
  \<open>SystemTunnelManager\<close> of the in-memory backend; \<open>Arc\<close> only shares.
\<close>

record 's SystemTunnelManager =
  backend :: 's

definition manager_establish ::
  "'s TunnelBackend \<Rightarrow> TunnelConfig \<Rightarrow> 's SystemTunnelManager \<Rightarrow> (unit, string) result \<times> 's SystemTunnelManager" where
  "manager_establish ops cfg mgr =
     (let (r, b) = establish ops cfg (backend mgr) in (r, mgr\<lparr>backend := b\<rparr>))"

definition manager_close ::
  "'s TunnelBackend \<Rightarrow> string \<Rightarrow> 's SystemTunnelManager \<Rightarrow> (unit, string) result \<times> 's SystemTunnelManager" where
  "manager_close ops ip mgr =
     (let (r, b) = close ops ip (backend mgr) in (r, mgr\<lparr>backend := b\<rparr>))"

definition manager_ops :: "'s TunnelBackend \<Rightarrow> 's SystemTunnelManager TunnelBackend" where
  "manager_ops ops = \<lparr>establish = manager_establish ops, close = manager_close ops\<rparr>"

definition InMemoryTunnelManager_default :: "InMemoryTunnelBackend SystemTunnelManager" where
  "InMemoryTunnelManager_default = \<lparr>backend = Healthy fmempty\<rparr>"

lemma manager_delegates:
  "apply_op (manager_ops ops) opn mgr =
     (let (r, b) = apply_op ops opn (backend mgr) in (r, mgr\<lparr>backend := b\<rparr>))"
  by (cases opn) (simp_all add: manager_ops_def manager_establish_def manager_close_def)

text \<open>A manager keeps the contract of its backend.\<close>

context tunnel_backend
begin

lemma managed: "tunnel_backend (manager_ops ops) (table \<circ> backend) (inv \<circ> backend)"
proof
  fix mgr opn r mgr'
  assume "(inv \<circ> backend) mgr" and "apply_op (manager_ops ops) opn mgr = (r, mgr')"
  then show "spec_step opn r ((table \<circ> backend) mgr) ((table \<circ> backend) mgr')" and "(inv \<circ> backend) mgr'"
    using op_spec op_inv by (auto simp: manager_delegates split: prod.splits)
qed

end

interpretation memory_manager: tunnel_backend "manager_ops memory_ops"
  "(key_table WireGuardPeerConfig.public_key \<circ> protected) \<circ> backend" "(\<lambda>b. \<exists>m. b = Healthy m) \<circ> backend"
  by (rule memory.managed)

end
