(* ===== verification/Tunnel_Linux.thy ===== *)
theory Tunnel_Linux
  imports Tunnel
begin

text \<open>
  Crate \<open>tunnel\<close>, the Linux backend: the mapping of a configuration to a plan
  (\<open>linux_mapper.rs\<close>), of a plan to the command lines of \<open>ip\<close> and \<open>wg\<close> and the adapter that runs
  them (\<open>linux_adapter.rs\<close>), the executor that is not integrated yet (\<open>linux_native.rs\<close>), the
  statistics (\<open>linux_stats.rs\<close>) and the backend (\<open>linux_backend.rs\<close>).  An executor changes a world
  \<open>'w\<close>; the adapter is passed together with it.
\<close>

section \<open>Plans\<close>

record LinuxKernelInterfacePlan =
  interface_name :: "string option"
  private_key :: string
  listen_port :: "u16 option"
  mtu :: "u16 option"
  addresses :: "string list"
  dns_servers :: "string list"

record LinuxKernelPeerPlan =
  peer_node_id :: "string option"
  public_key :: string
  preshared_key :: "string option"
  endpoint :: "string option"
  allowed_ips :: "string list"
  persistent_keepalive_seconds :: "u16 option"

definition linux_validate_interface :: "WireGuardInterfaceConfig \<Rightarrow> (unit, string) result" where
  "linux_validate_interface i =
     (if blank (WireGuardKeyPair.public_key (WireGuardInterfaceConfig.key_pair i))
      then Err ''linux backend requires non-empty interface public key''
      else if blank (WireGuardKeyPair.private_key (WireGuardInterfaceConfig.key_pair i))
      then Err ''linux backend requires non-empty interface private key''
      else if WireGuardInterfaceConfig.addresses i = []
      then Err ''linux backend requires at least one interface address''
      else Ok ())"

definition linux_validate_peer :: "string \<Rightarrow> WireGuardPeerConfig \<Rightarrow> (unit, string) result" where
  "linux_validate_peer ip p =
     (if blank ip then Err ''linux backend requires non-empty peer virtual ip''
      else if blank (WireGuardPeerConfig.public_key p)
      then Err ''linux backend requires non-empty peer public key''
      else if WireGuardPeerConfig.allowed_ips p = []
      then Err ''linux backend requires at least one allowed ip''
      else Ok ())"

definition linux_validate_config :: "TunnelConfig \<Rightarrow> (unit, string) result" where
  "linux_validate_config cfg =
     (case linux_validate_interface (wireguard_interface cfg) of
        Err e \<Rightarrow> Err e
      | Ok _ \<Rightarrow> (case linux_validate_peer (peer_virtual_ip cfg) (wireguard_peer cfg) of
          Err e \<Rightarrow> Err e
        | Ok _ \<Rightarrow>
            if blank (local_virtual_ip cfg) then Err ''linux backend requires non-empty local virtual ip''
            else if blank (peer_virtual_ip cfg) then Err ''linux backend requires non-empty peer virtual ip''
            else if local_virtual_ip cfg = peer_virtual_ip cfg
            then Err ''linux backend requires distinct local and peer virtual ip''
            else Ok ()))"

definition linux_map_interface :: "WireGuardInterfaceConfig \<Rightarrow> LinuxKernelInterfacePlan" where
  "linux_map_interface i =
     \<lparr>interface_name = WireGuardInterfaceConfig.interface_name i,
      private_key = WireGuardKeyPair.private_key (WireGuardInterfaceConfig.key_pair i),
      listen_port = WireGuardInterfaceConfig.listen_port i,
      mtu = WireGuardInterfaceConfig.mtu i,
      addresses = WireGuardInterfaceConfig.addresses i,
      dns_servers = WireGuardInterfaceConfig.dns_servers i\<rparr>"

definition linux_map_peer :: "WireGuardPeerConfig \<Rightarrow> LinuxKernelPeerPlan" where
  "linux_map_peer p =
     \<lparr>peer_node_id = WireGuardPeerConfig.peer_node_id p,
      public_key = WireGuardPeerConfig.public_key p,
      preshared_key = WireGuardPeerConfig.preshared_key p,
      endpoint = WireGuardPeerConfig.endpoint p,
      allowed_ips = map cidr (WireGuardPeerConfig.allowed_ips p),
      persistent_keepalive_seconds = WireGuardPeerConfig.persistent_keepalive_seconds p\<rparr>"

section \<open>Runtime and statistics\<close>

record LinuxKernelRuntime =
  interface_name :: "string option"
  addresses :: "string list"
  dns_servers :: "string list"
  is_up :: bool

definition linux_initial_runtime :: "LinuxKernelInterfacePlan \<Rightarrow> LinuxKernelRuntime" where
  "linux_initial_runtime i =
     \<lparr>interface_name = LinuxKernelInterfacePlan.interface_name i,
      addresses = LinuxKernelInterfacePlan.addresses i,
      dns_servers = LinuxKernelInterfacePlan.dns_servers i,
      is_up = False\<rparr>"

definition linux_map_runtime_stats :: "TunnelTransport \<Rightarrow> LinuxKernelPeerPlan \<Rightarrow> WireGuardRuntimeStats" where
  "linux_map_runtime_stats t p =
     \<lparr>WireGuardRuntimeStats.transport = t,
      peer_public_key = LinuxKernelPeerPlan.public_key p,
      selected_endpoint = LinuxKernelPeerPlan.endpoint p,
      latest_handshake_at_ms = None,
      bytes_received = 0,
      bytes_sent = 0\<rparr>"

section \<open>Commands\<close>

record LinuxCommandSpec =
  program :: string
  args :: "string list"
  stdin :: "string option"
  ignored_stderr_substrings :: "string list"

definition command_new :: "string \<Rightarrow> string list \<Rightarrow> LinuxCommandSpec" where
  "command_new p as = \<lparr>program = p, args = as, stdin = None, ignored_stderr_substrings = []\<rparr>"

definition with_stdin :: "LinuxCommandSpec \<Rightarrow> string \<Rightarrow> LinuxCommandSpec" where
  "with_stdin c input = c\<lparr>stdin := Some input\<rparr>"

definition ignore_stderr :: "LinuxCommandSpec \<Rightarrow> string \<Rightarrow> LinuxCommandSpec" where
  "ignore_stderr c fragment = c\<lparr>ignored_stderr_substrings := ignored_stderr_substrings c @ [fragment]\<rparr>"

definition interface_name_from_plan :: "LinuxKernelInterfacePlan \<Rightarrow> string" where
  "interface_name_from_plan i =
     (case LinuxKernelInterfacePlan.interface_name i of None \<Rightarrow> ''wg0'' | Some n \<Rightarrow> n)"

definition interface_name_from_runtime :: "LinuxKernelRuntime \<Rightarrow> string" where
  "interface_name_from_runtime rt =
     (case LinuxKernelRuntime.interface_name rt of None \<Rightarrow> ''wg0'' | Some n \<Rightarrow> n)"

definition show_word :: "'l::len word \<Rightarrow> string" where
  "show_word w = show_nat (unat w)"

definition apply_interface_commands :: "LinuxKernelInterfacePlan \<Rightarrow> LinuxCommandSpec list" where
  "apply_interface_commands i =
     (let dev = interface_name_from_plan i;
          port = (case LinuxKernelInterfacePlan.listen_port i of
                    None \<Rightarrow> [] | Some p \<Rightarrow> [''listen-port'', show_word p])
      in [ignore_stderr (command_new ''ip'' [''link'', ''add'', ''dev'', dev, ''type'', ''wireguard'']) ''File exists'',
          with_stdin (command_new ''wg'' ([''set'', dev, ''private-key'', ''/dev/stdin''] @ port))
            (LinuxKernelInterfacePlan.private_key i)]
         @ (case LinuxKernelInterfacePlan.mtu i of
              None \<Rightarrow> []
            | Some m \<Rightarrow> [command_new ''ip'' [''link'', ''set'', ''dev'', dev, ''mtu'', show_word m]])
         @ map (\<lambda>address. command_new ''ip'' [''address'', ''replace'', address, ''dev'', dev])
             (LinuxKernelInterfacePlan.addresses i))"

definition apply_peer_commands :: "string \<Rightarrow> LinuxKernelPeerPlan \<Rightarrow> LinuxCommandSpec list" where
  "apply_peer_commands dev p =
     (let wg_args = [''set'', dev, ''peer'', LinuxKernelPeerPlan.public_key p]
            @ (case LinuxKernelPeerPlan.endpoint p of None \<Rightarrow> [] | Some e \<Rightarrow> [''endpoint'', e])
            @ [''allowed-ips'', join '','' (LinuxKernelPeerPlan.allowed_ips p)]
            @ (case LinuxKernelPeerPlan.persistent_keepalive_seconds p of
                 None \<Rightarrow> [] | Some k \<Rightarrow> [''persistent-keepalive'', show_word k]);
          wg_command = (case LinuxKernelPeerPlan.preshared_key p of
            Some key \<Rightarrow> with_stdin (command_new ''wg'' (wg_args @ [''preshared-key'', ''/dev/stdin''])) key
          | None \<Rightarrow> command_new ''wg'' wg_args)
      in wg_command # map (\<lambda>allowed_ip. command_new ''ip'' [''route'', ''replace'', allowed_ip, ''dev'', dev])
           (LinuxKernelPeerPlan.allowed_ips p))"

definition remove_peer_commands :: "string \<Rightarrow> LinuxKernelPeerPlan \<Rightarrow> LinuxCommandSpec list" where
  "remove_peer_commands dev p =
     command_new ''wg'' [''set'', dev, ''peer'', LinuxKernelPeerPlan.public_key p, ''remove'']
     # map (\<lambda>allowed_ip.
         ignore_stderr (ignore_stderr
           (command_new ''ip'' [''route'', ''del'', allowed_ip, ''dev'', dev]) ''No such process'')
           ''Cannot find device'')
         (LinuxKernelPeerPlan.allowed_ips p)"

definition bring_up_command :: "string \<Rightarrow> LinuxCommandSpec" where
  "bring_up_command dev = command_new ''ip'' [''link'', ''set'', ''up'', ''dev'', dev]"

definition bring_down_command :: "string \<Rightarrow> LinuxCommandSpec" where
  "bring_down_command dev = command_new ''ip'' [''link'', ''set'', ''down'', ''dev'', dev]"

section \<open>Executors\<close>

type_synonym 'w executor = "LinuxCommandSpec \<Rightarrow> 'w \<Rightarrow> (unit, string) result \<times> 'w"

definition noop_run :: "'w executor" where
  "noop_run c w = (Ok (), w)"

text \<open>
  The pipe to a child exists exactly when the command has an input, so taking it never fails.
\<close>

definition system_run :: "'w ProcessEnv \<Rightarrow> 'w executor" where
  "system_run env c w =
     (case run_process env (program c) (args c) (stdin c) w of
        (NotSpawned e, w') \<Rightarrow> (Err (''failed to spawn '' @ program c @ '': '' @ e), w')
      | (StdinFailed e, w') \<Rightarrow> (Err (''failed to write '' @ program c @ '' stdin: '' @ e), w')
      | (NotWaited e, w') \<Rightarrow> (Err (''failed to wait '' @ program c @ '': '' @ e), w')
      | (Exited ok code_text out err, w') \<Rightarrow>
          if ok then (Ok (), w')
          else let text = trim err in
            if \<exists>fragment \<in> set (ignored_stderr_substrings c). contains text fragment then (Ok (), w')
            else (Err (program c @ '' '' @ join '' '' (args c) @ '' failed: ''
                    @ (if text = [] then code_text else text)), w'))"

datatype NativeLinuxOperation =
    CreateInterface | ConfigureInterface | SetLinkMtu | AssignAddress | ConfigurePeer | ReplaceRoute
  | RemovePeer | DeleteRoute | BringUp | BringDown | UnknownOperation

text \<open>The patterns of the source in their order; a slice pattern with \<open>..\<close> is a prefix.\<close>

definition classify :: "LinuxCommandSpec \<Rightarrow> NativeLinuxOperation" where
  "classify c =
     (let p = program c; as = args c;
          arg = (\<lambda>i s. i < length as \<and> as ! i = s)
      in if p = ''ip'' \<and> arg 0 ''link'' \<and> arg 1 ''add'' then CreateInterface
         else if p = ''wg'' \<and> arg 0 ''set'' \<and> arg 2 ''private-key'' then ConfigureInterface
         else if p = ''ip'' \<and> arg 0 ''link'' \<and> arg 1 ''set'' \<and> arg 3 ''mtu'' then SetLinkMtu
         else if p = ''ip'' \<and> arg 0 ''address'' \<and> arg 1 ''replace'' then AssignAddress
         else if p = ''wg'' \<and> arg 0 ''set'' \<and> arg 2 ''peer'' \<and> arg 4 ''remove'' \<and> length as = 5 then RemovePeer
         else if p = ''wg'' \<and> arg 0 ''set'' \<and> arg 2 ''peer'' then ConfigurePeer
         else if p = ''ip'' \<and> arg 0 ''route'' \<and> arg 1 ''replace'' then ReplaceRoute
         else if p = ''ip'' \<and> arg 0 ''route'' \<and> arg 1 ''del'' then DeleteRoute
         else if p = ''ip'' \<and> arg 0 ''link'' \<and> arg 1 ''set'' \<and> arg 2 ''up'' then BringUp
         else if p = ''ip'' \<and> arg 0 ''link'' \<and> arg 1 ''set'' \<and> arg 2 ''down'' then BringDown
         else UnknownOperation)"

fun description :: "NativeLinuxOperation \<Rightarrow> string" where
  "description CreateInterface = ''create interface''"
| "description ConfigureInterface = ''configure interface''"
| "description SetLinkMtu = ''set link mtu''"
| "description AssignAddress = ''assign address''"
| "description ConfigurePeer = ''configure peer''"
| "description ReplaceRoute = ''replace route''"
| "description RemovePeer = ''remove peer''"
| "description DeleteRoute = ''delete route''"
| "description BringUp = ''bring link up''"
| "description BringDown = ''bring link down''"
| "description UnknownOperation = ''unknown operation''"

definition native_run :: "'w executor" where
  "native_run c w =
     (Err (''native linux wireguard executor is not integrated yet; cannot '' @ description (classify c)
        @ '' via '' @ program c @ '' '' @ join '' '' (args c)), w)"

section \<open>The adapter\<close>

datatype LinuxExecutionMode = System | DryRun

datatype LinuxExecutionBackend = Shell | Native

record LinuxDriverDiagnostics =
  execution_mode :: LinuxExecutionMode
  execution_backend :: LinuxExecutionBackend
  interface_name :: "string option"
  is_up :: bool
  planned_peer_count :: nat
  recent_command_count :: nat

text \<open>\<open>LinuxKernelPeerRuntime\<close> is a struct of one field, the plan.\<close>

record LinuxKernelPeerRuntime =
  peer :: LinuxKernelPeerPlan

record 'w LinuxKernelWireGuardAdapter =
  executor :: "'w executor"
  execution_mode :: LinuxExecutionMode
  execution_backend :: LinuxExecutionBackend
  interface :: "LinuxKernelRuntime option mutex"
  peers :: "(string, LinuxKernelPeerRuntime) HashMap mutex"
  recent_commands :: "LinuxCommandSpec list mutex"

type_synonym 'w linux_state = "'w \<times> 'w LinuxKernelWireGuardAdapter"

definition adapter_new_with_executor ::
  "'w executor \<Rightarrow> LinuxExecutionMode \<Rightarrow> LinuxExecutionBackend \<Rightarrow> 'w LinuxKernelWireGuardAdapter" where
  "adapter_new_with_executor ex m b =
     \<lparr>executor = ex, execution_mode = m, execution_backend = b,
      interface = Healthy None, peers = Healthy fmempty, recent_commands = Healthy []\<rparr>"

definition adapter_default :: "'w ProcessEnv \<Rightarrow> 'w LinuxKernelWireGuardAdapter" where
  "adapter_default env =
     (let dry_run = (case env_var env ''SLAN_TUNNEL_DRY_RUN'' of
            None \<Rightarrow> False | Some v \<Rightarrow> v \<in> {''1'', ''true'', ''TRUE'', ''yes'', ''on''});
          requested = (case env_var env ''SLAN_LINUX_EXECUTOR'' of None \<Rightarrow> ''shell'' | Some v \<Rightarrow> v);
          native = (requested = ''native'' \<or> requested = ''netlink'')
      in if dry_run then
           adapter_new_with_executor (if native then native_run else noop_run) DryRun
             (if native then Native else Shell)
         else if target_os env = Linux then
           (if native then adapter_new_with_executor native_run System Native
            else adapter_new_with_executor (system_run env) System Shell)
         else adapter_new_with_executor noop_run DryRun Shell)"

text \<open>The first command that fails ends the loop.\<close>

fun run_commands :: "'w executor \<Rightarrow> LinuxCommandSpec list \<Rightarrow> 'w \<Rightarrow> (unit, string) result \<times> 'w" where
  "run_commands ex [] w = (Ok (), w)"
| "run_commands ex (c # cs) w =
     (case ex c w of
        (Err e, w') \<Rightarrow> (Err e, w')
      | (Ok _, w') \<Rightarrow> run_commands ex cs w')"

definition run_all :: "LinuxCommandSpec list \<Rightarrow> 'w linux_state backend_op" where
  "run_all commands s =
     (case s of (w, a) \<Rightarrow>
        (case lock (recent_commands a) of
           None \<Rightarrow> (Err ''linux adapter command state poisoned'', s)
         | Some recent \<Rightarrow>
             let a' = a\<lparr>recent_commands := Healthy (recent @ commands)\<rparr>;
                 (r, w') = run_commands (executor a) commands w
             in (r, w', a')))"

definition apply_interface :: "LinuxKernelInterfacePlan \<Rightarrow> LinuxKernelRuntime \<Rightarrow> 'w linux_state backend_op" where
  "apply_interface i rt s =
     (case run_all (apply_interface_commands i) s of
        (Err e, s') \<Rightarrow> (Err e, s')
      | (Ok _, w, a) \<Rightarrow>
          (case lock (interface a) of
             None \<Rightarrow> (Err ''linux adapter interface state poisoned'', w, a)
           | Some _ \<Rightarrow> (Ok (), w, a\<lparr>interface := Healthy (Some rt)\<rparr>)))"

definition interface_runtime :: "'w LinuxKernelWireGuardAdapter \<Rightarrow> LinuxKernelRuntime option" where
  "interface_runtime a = (case lock (interface a) of None \<Rightarrow> None | Some rt \<Rightarrow> rt)"

definition apply_peer :: "string \<Rightarrow> LinuxKernelPeerPlan \<Rightarrow> 'w linux_state backend_op" where
  "apply_peer ip p s =
     (case interface_runtime (snd s) of
        None \<Rightarrow> (Err ''linux adapter interface runtime unavailable'', s)
      | Some rt \<Rightarrow>
          (case run_all (apply_peer_commands (interface_name_from_runtime rt) p) s of
             (Err e, s') \<Rightarrow> (Err e, s')
           | (Ok _, w, a) \<Rightarrow>
               (case lock (peers a) of
                  None \<Rightarrow> (Err ''linux adapter peer state poisoned'', w, a)
                | Some m \<Rightarrow> (Ok (), w, a\<lparr>peers := Healthy (fmupd ip \<lparr>peer = p\<rparr> m)\<rparr>))))"

definition adapter_remove_peer :: "string \<Rightarrow> 'w linux_state backend_op" where
  "adapter_remove_peer ip s =
     (case interface_runtime (snd s) of
        None \<Rightarrow> (Err ''linux adapter interface runtime unavailable'', s)
      | Some rt \<Rightarrow>
          (case s of (w, a) \<Rightarrow>
             (case lock (peers a) of
                None \<Rightarrow> (Err ''linux adapter peer state poisoned'', s)
              | Some m \<Rightarrow>
                  (case fmlookup m ip of
                     None \<Rightarrow> (Ok (), s)
                   | Some p \<Rightarrow>
                       run_all (remove_peer_commands (interface_name_from_runtime rt) (peer p))
                         (w, a\<lparr>peers := Healthy (fmdrop ip m)\<rparr>)))))"

definition adapter_bring_up :: "'w linux_state backend_op" where
  "adapter_bring_up s =
     (case s of (w, a) \<Rightarrow>
        (case lock (interface a) of
           None \<Rightarrow> (Err ''linux adapter interface state poisoned'', s)
         | Some None \<Rightarrow> (Err ''linux adapter interface runtime unavailable'', s)
         | Some (Some rt) \<Rightarrow>
             let command = bring_up_command (interface_name_from_runtime rt)
             in (case lock (recent_commands a) of
                   None \<Rightarrow> (Err ''linux adapter command state poisoned'', s)
                 | Some recent \<Rightarrow>
                     let a' = a\<lparr>recent_commands := Healthy (recent @ [command])\<rparr>
                     in (case executor a command w of
                           (Err e, w') \<Rightarrow> (Err e, w', a')
                         | (Ok _, w') \<Rightarrow>
                             (Ok (), w', a'\<lparr>interface := Healthy (Some (rt\<lparr>LinuxKernelRuntime.is_up := True\<rparr>))\<rparr>)))))"

definition adapter_bring_down :: "'w linux_state backend_op" where
  "adapter_bring_down s =
     (case s of (w, a) \<Rightarrow>
        (case lock (interface a) of
           None \<Rightarrow> (Err ''linux adapter interface state poisoned'', s)
         | Some None \<Rightarrow> (Ok (), s)
         | Some (Some rt) \<Rightarrow>
             let command = bring_down_command (interface_name_from_runtime rt)
             in (case lock (recent_commands a) of
                   None \<Rightarrow> (Err ''linux adapter command state poisoned'', s)
                 | Some recent \<Rightarrow>
                     let a' = a\<lparr>recent_commands := Healthy (recent @ [command])\<rparr>
                     in (case executor a command w of
                           (Err e, w') \<Rightarrow> (Err e, w', a')
                         | (Ok _, w') \<Rightarrow>
                             (Ok (), w', a'\<lparr>interface := Healthy (Some (rt\<lparr>LinuxKernelRuntime.is_up := False\<rparr>))\<rparr>)))))"

definition planned_peer_ips :: "'w LinuxKernelWireGuardAdapter \<Rightarrow> string fset" where
  "planned_peer_ips a = (case lock (peers a) of None \<Rightarrow> {||} | Some m \<Rightarrow> fmdom m)"

definition peer_runtime :: "'w LinuxKernelWireGuardAdapter \<Rightarrow> string \<Rightarrow> LinuxKernelPeerRuntime option" where
  "peer_runtime a ip = (case lock (peers a) of None \<Rightarrow> None | Some m \<Rightarrow> fmlookup m ip)"

definition adapter_recent_commands :: "'w LinuxKernelWireGuardAdapter \<Rightarrow> LinuxCommandSpec list" where
  "adapter_recent_commands a = (case lock (recent_commands a) of None \<Rightarrow> [] | Some cs \<Rightarrow> cs)"

definition adapter_diagnostics :: "'w LinuxKernelWireGuardAdapter \<Rightarrow> LinuxDriverDiagnostics" where
  "adapter_diagnostics a =
     \<lparr>LinuxDriverDiagnostics.execution_mode = LinuxKernelWireGuardAdapter.execution_mode a,
      execution_backend = LinuxKernelWireGuardAdapter.execution_backend a,
      interface_name = (case interface_runtime a of
         None \<Rightarrow> None | Some rt \<Rightarrow> LinuxKernelRuntime.interface_name rt),
      is_up = (case interface_runtime a of None \<Rightarrow> False | Some rt \<Rightarrow> LinuxKernelRuntime.is_up rt),
      planned_peer_count = fcard (planned_peer_ips a),
      recent_command_count = length (adapter_recent_commands a)\<rparr>"

section \<open>The backend\<close>

definition linux_apply_interface_config :: "WireGuardInterfaceConfig \<Rightarrow> 'w linux_state backend_op" where
  "linux_apply_interface_config i s =
     (case linux_validate_interface i of
        Err e \<Rightarrow> (Err e, s)
      | Ok _ \<Rightarrow>
          let mapped = linux_map_interface i
          in apply_interface mapped (linux_initial_runtime mapped) s)"

definition linux_apply_peer_config :: "string \<Rightarrow> WireGuardPeerConfig \<Rightarrow> 'w linux_state backend_op" where
  "linux_apply_peer_config ip p s =
     (case linux_validate_peer ip p of
        Err e \<Rightarrow> (Err e, s)
      | Ok _ \<Rightarrow> apply_peer ip (linux_map_peer p) s)"

definition linux_establish :: "TunnelConfig \<Rightarrow> 'w linux_state backend_op" where
  "linux_establish cfg s =
     (case linux_validate_config cfg of
        Err e \<Rightarrow> (Err e, s)
      | Ok _ \<Rightarrow> (case linux_apply_interface_config (wireguard_interface cfg) s of
          (Err e, s1) \<Rightarrow> (Err e, s1)
        | (Ok _, s1) \<Rightarrow> (case linux_apply_peer_config (peer_virtual_ip cfg) (wireguard_peer cfg) s1 of
            (Err e, s2) \<Rightarrow> (Err e, s2)
          | (Ok _, s2) \<Rightarrow> adapter_bring_up s2)))"

definition linux_runtime_stats ::
  "'w LinuxKernelWireGuardAdapter \<Rightarrow> string \<Rightarrow> (WireGuardRuntimeStats option, string) result" where
  "linux_runtime_stats a ip =
     (case interface_runtime a of
        None \<Rightarrow> Err ''linux adapter interface runtime unavailable''
      | Some rt \<Rightarrow>
          (case peer_runtime a ip of
             None \<Rightarrow> Ok None
           | Some p \<Rightarrow>
               Ok (Some (linux_map_runtime_stats
                 (if LinuxKernelRuntime.is_up rt then TunnelTransport.P2P else TunnelTransport.Relay)
                 (peer p)))))"

definition linux_ops :: "'w linux_state TunnelBackend" where
  "linux_ops = \<lparr>establish = linux_establish, close = adapter_remove_peer\<rparr>"

end
