(* ===== verification/Tunnel_Linux_Safety.thy ===== *)
theory Tunnel_Linux_Safety
  imports Tunnel_Linux
begin

text \<open>
  What the Linux backend guarantees: which commands an establish runs and in which order, that the
  backend keeps the contract of a tunnel backend, and what a failed removal leaves behind.
\<close>

definition linux_inv :: "'w linux_state \<Rightarrow> bool" where
  "linux_inv s \<longleftrightarrow> (\<exists>rt m cs. interface (snd s) = Healthy rt \<and> peers (snd s) = Healthy m \<and>
     recent_commands (snd s) = Healthy cs)"

definition linux_table :: "'w linux_state \<Rightarrow> peer_table" where
  "linux_table s = key_table (LinuxKernelPeerPlan.public_key \<circ> peer) (protected (peers (snd s)))"

text \<open>The command lines of one establish, from the interface to the link.\<close>

definition establish_commands :: "TunnelConfig \<Rightarrow> LinuxCommandSpec list" where
  "establish_commands cfg =
     (let plan = linux_map_interface (wireguard_interface cfg); dev = interface_name_from_plan plan
      in apply_interface_commands plan
         @ apply_peer_commands dev (linux_map_peer (wireguard_peer cfg))
         @ [bring_up_command dev])"

lemma run_commands_append:
  "run_commands ex (xs @ ys) w =
     (case run_commands ex xs w of (Err e, w') \<Rightarrow> (Err e, w') | (Ok _, w') \<Rightarrow> run_commands ex ys w')"
  by (induction xs arbitrary: w) (auto split: prod.splits result.splits)

lemma initial_runtime_name [simp]:
  "interface_name_from_runtime (linux_initial_runtime i) = interface_name_from_plan i"
  by (simp add: interface_name_from_runtime_def interface_name_from_plan_def linux_initial_runtime_def)

lemma map_peer_key [simp]: "LinuxKernelPeerPlan.public_key (linux_map_peer p) = WireGuardPeerConfig.public_key p"
  by (simp add: linux_map_peer_def)

lemma linux_validate_config_parts:
  assumes "linux_validate_config cfg = Ok ()"
  shows "linux_validate_interface (wireguard_interface cfg) = Ok ()"
    and "linux_validate_peer (peer_virtual_ip cfg) (wireguard_peer cfg) = Ok ()"
  using assms by (auto simp: linux_validate_config_def split: result.splits)

lemma run_all_healthy:
  "recent_commands a = Healthy cs \<Longrightarrow>
   run_all commands (w, a) =
     (fst (run_commands (executor a) commands w),
      snd (run_commands (executor a) commands w), a\<lparr>recent_commands := Healthy (cs @ commands)\<rparr>)"
  by (simp add: run_all_def split: prod.splits)

lemma result_unit_cases:
  obtains (Ok) "r = Ok ()" | (Err) e where "r = Err e"
  by (cases r) auto

lemma linux_establish_valid:
  assumes inv: "interface a = Healthy rt" "peers a = Healthy m" "recent_commands a = Healthy cs"
    and valid: "linux_validate_config cfg = Ok ()"
    and e: "linux_establish cfg (w, a) = (r, w', a')"
  shows "(r, w') = run_commands (executor a) (establish_commands cfg) w \<and> executor a' = executor a \<and>
    linux_inv (w', a') \<and>
    (r = Ok () \<longrightarrow>
       peers a' = Healthy (fmupd (peer_virtual_ip cfg) \<lparr>peer = linux_map_peer (wireguard_peer cfg)\<rparr> m) \<and>
       recent_commands a' = Healthy (cs @ establish_commands cfg) \<and>
       interface a' = Healthy (Some ((linux_initial_runtime (linux_map_interface (wireguard_interface cfg)))
         \<lparr>LinuxKernelRuntime.is_up := True\<rparr>))) \<and>
    (r \<noteq> Ok () \<longrightarrow> peers a' = Healthy m \<or>
       peers a' = Healthy (fmupd (peer_virtual_ip cfg) \<lparr>peer = linux_map_peer (wireguard_peer cfg)\<rparr> m))"
proof -
  let ?plan = "linux_map_interface (wireguard_interface cfg)"
  let ?dev = "interface_name_from_plan ?plan"
  note v = linux_validate_config_parts [OF valid]
  obtain r1 w1 where 1: "run_commands (executor a) (apply_interface_commands ?plan) w = (r1, w1)"
    by fastforce
  obtain r2 w2 where 2: "run_commands (executor a) (apply_peer_commands ?dev (linux_map_peer (wireguard_peer cfg))) w1 = (r2, w2)"
    by fastforce
  obtain r3 w3 where 3: "executor a (bring_up_command ?dev) w2 = (r3, w3)"
    by fastforce
  note defs = linux_establish_def linux_apply_interface_config_def linux_apply_peer_config_def
    apply_interface_def apply_peer_def adapter_bring_up_def interface_runtime_def run_all_healthy
    establish_commands_def Let_def run_commands_append linux_inv_def
  consider (fail1) e1 where "r1 = Err e1" | (fail2) e2 where "r1 = Ok ()" "r2 = Err e2"
    | (fail3) e3 where "r1 = Ok ()" "r2 = Ok ()" "r3 = Err e3" | (all) "r1 = Ok ()" "r2 = Ok ()" "r3 = Ok ()"
    by (rule result_unit_cases [of r1]; rule result_unit_cases [of r2]; rule result_unit_cases [of r3])
  then show ?thesis
  proof cases
    case fail1
    with 1 e show ?thesis by (auto simp: defs inv valid v)
  next
    case fail2
    with 1 2 e show ?thesis by (auto simp: defs inv valid v)
  next
    case fail3
    with 1 2 3 e show ?thesis by (auto simp: defs inv valid v)
  next
    case all
    with 1 2 3 e show ?thesis by (auto simp: defs inv valid v)
  qed
qed

text \<open>
  C22: establishing a tunnel with a configuration that does not validate runs nothing and changes
  nothing; otherwise it runs the commands that create and configure the interface, configure the
  peer and its routes and bring the link up, in this order and up to the first that fails, and it
  reports exactly the result of that run.  When all succeed the peer is recorded and the interface is
  up.
\<close>

theorem linux_establish_runs:
  assumes "linux_inv (w, a)" and "linux_establish cfg (w, a) = (r, w', a')"
  shows "if linux_validate_config cfg = Ok ()
    then (r, w') = run_commands (executor a) (establish_commands cfg) w \<and>
      (r = Ok () \<longrightarrow> peer_runtime a' (peer_virtual_ip cfg) = Some \<lparr>peer = linux_map_peer (wireguard_peer cfg)\<rparr> \<and>
         LinuxDriverDiagnostics.is_up (adapter_diagnostics a') \<and>
         adapter_recent_commands a' = adapter_recent_commands a @ establish_commands cfg)
    else is_ok r = False \<and> w' = w \<and> a' = a"
proof (cases "linux_validate_config cfg = Ok ()")
  case True
  obtain rt m cs where "interface a = Healthy rt" "peers a = Healthy m" "recent_commands a = Healthy cs"
    using assms(1) by (auto simp: linux_inv_def)
  from linux_establish_valid [OF this True assms(2)] True this show ?thesis
    by (auto simp: peer_runtime_def adapter_diagnostics_def interface_runtime_def adapter_recent_commands_def)
next
  case False
  then obtain e where "linux_validate_config cfg = Err e"
    by (cases "linux_validate_config cfg") auto
  with assms(2) have "r = Err e" "w' = w" "a' = a"
    by (simp_all add: linux_establish_def)
  with False show ?thesis by simp
qed

text \<open>A backend whose commands all succeed, and a configuration for it.\<close>

definition demo_linux :: "unit linux_state" where
  "demo_linux = ((), adapter_new_with_executor noop_run DryRun Shell)"

definition demo_tunnel :: TunnelConfig where
  "demo_tunnel =
     \<lparr>TunnelConfig.transport = TunnelTransport.Relay, local_virtual_ip = ''100.64.0.10'', peer_virtual_ip = ''100.64.0.2'',
      wireguard_interface =
        \<lparr>WireGuardInterfaceConfig.interface_name = Some ''wg0'', WireGuardInterfaceConfig.key_pair = \<lparr>WireGuardKeyPair.public_key = ''self-pk'', WireGuardKeyPair.private_key = ''self-sk''\<rparr>,
         WireGuardInterfaceConfig.listen_port = Some 53, WireGuardInterfaceConfig.mtu = None, WireGuardInterfaceConfig.addresses = [''100.64.0.10/32''], WireGuardInterfaceConfig.dns_servers = [], WireGuardInterfaceConfig.peers = []\<rparr>,
      wireguard_peer =
        \<lparr>WireGuardPeerConfig.peer_node_id = Some ''peer-1'', WireGuardPeerConfig.public_key = ''peer-pk'', WireGuardPeerConfig.preshared_key = None,
         WireGuardPeerConfig.endpoint = Some ''198.51.100.10:53'', WireGuardPeerConfig.allowed_ips = [\<lparr>cidr = ''100.64.0.2/32''\<rparr>],
         WireGuardPeerConfig.persistent_keepalive_seconds = Some 15\<rparr>\<rparr>"

lemma demo_linux_inv: "linux_inv demo_linux"
  by (simp add: linux_inv_def demo_linux_def adapter_new_with_executor_def)

lemma demo_tunnel_valid: "linux_validate_config demo_tunnel = Ok ()"
  by code_simp

lemma noop_commands [simp]: "run_commands noop_run cs w = (Ok (), w)"
  by (induction cs) (auto simp: noop_run_def)

theorem linux_establish_runs_witness:
  "linux_validate_config demo_tunnel = Ok () \<and>
   (\<exists>a'. linux_establish demo_tunnel demo_linux = (Ok (), (), a') \<and>
     LinuxDriverDiagnostics.is_up (adapter_diagnostics a') \<and>
     adapter_recent_commands a' = establish_commands demo_tunnel)"
proof -
  obtain r a' where e: "linux_establish demo_tunnel demo_linux = (r, (), a')"
    by (metis (full_types) old.unit.exhaust prod.exhaust)
  have "executor (snd demo_linux) = noop_run" "adapter_recent_commands (snd demo_linux) = []"
    by (simp_all add: demo_linux_def adapter_new_with_executor_def adapter_recent_commands_def)
  with linux_establish_runs [of "()" "snd demo_linux" demo_tunnel r "()" a'] demo_linux_inv e demo_tunnel_valid
  show ?thesis by (simp add: demo_linux_def)
qed

section \<open>The contract\<close>

lemma linux_step:
  assumes "linux_inv s" and "apply_op linux_ops opn s = (r, s')"
  shows "spec_step opn r (linux_table s) (linux_table s') \<and> linux_inv s'"
  using assms(2)
proof (cases rule: apply_op_cases)
  case (establish cfg)
  obtain w a w' a' where s: "s = (w, a)" "s' = (w', a')"
    by (metis surj_pair)
  obtain rt m cs where inv: "interface a = Healthy rt" "peers a = Healthy m" "recent_commands a = Healthy cs"
    using assms(1) by (auto simp: linux_inv_def s)
  have e: "linux_establish cfg (w, a) = (r, w', a')"
    using establish(2) by (simp add: linux_ops_def s)
  show ?thesis
  proof (cases "linux_validate_config cfg = Ok ()")
    case True
    then show ?thesis
      using linux_establish_valid [OF inv True e] establish(1) inv
      by (cases r) (auto simp: s linux_table_def)
  next
    case False
    then obtain err where "linux_validate_config cfg = Err err"
      by (cases "linux_validate_config cfg") auto
    with e have "r = Err err" "w' = w" "a' = a"
      by (simp_all add: linux_establish_def)
    with assms(1) show ?thesis
      by (simp add: s)
  qed
next
  case (close ip)
  obtain w a where s: "s = (w, a)"
    by (metis surj_pair)
  obtain rt m cs where inv: "interface a = Healthy rt" "peers a = Healthy m" "recent_commands a = Healthy cs"
    using assms(1) by (auto simp: linux_inv_def s)
  have e: "adapter_remove_peer ip (w, a) = (r, s')"
    using close(2) by (simp add: linux_ops_def s)
  show ?thesis
  proof (cases "rt = None \<or> fmlookup m ip = None")
    case True
    with e inv have "s' = (w, a)" "r = Ok () \<longrightarrow> fmlookup m ip = None"
      by (cases rt; auto simp: adapter_remove_peer_def interface_runtime_def)+
    with inv close(1) assms(1) show ?thesis
      by (cases r) (auto simp: s linux_table_def key_table_def fun_upd_idem)
  next
    case False
    then obtain rt' p where "rt = Some rt'" "fmlookup m ip = Some p"
      by auto
    with e inv close(1) show ?thesis
      by (cases r) (auto simp: s adapter_remove_peer_def interface_runtime_def run_all_healthy
          linux_table_def linux_inv_def)
  qed
qed

interpretation linux: tunnel_backend linux_ops linux_table linux_inv
  using linux_step by unfold_locales blast+

interpretation linux_manager: tunnel_backend "manager_ops linux_ops" "linux_table \<circ> backend" "linux_inv \<circ> backend"
  by (rule linux.managed)

text \<open>
  Whatever calls a manager of a Linux backend has seen and however the commands went, each call
  did to the table of peers what the contract allows; in particular, once a call for a peer has
  succeeded and no later call is about that peer, the table has the peer's key exactly when the call
  was an establish.
\<close>

theorem linux_manager_refines:
  assumes "linux_inv (backend mgr)" and "apply_ops (manager_ops linux_ops) (before @ opn # after) mgr = (rs, mgr')"
  shows "length rs = length before + Suc (length after) \<and>
    spec_steps (zip (before @ opn # after) rs) (linux_table (backend mgr)) (linux_table (backend mgr')) \<and>
    (rs ! length before = Ok () \<and> op_peer opn \<notin> op_peer ` set after \<longrightarrow>
       linux_table (backend mgr') (op_peer opn) = op_entry opn)"
  using linux_manager.ops_refine [of mgr, unfolded o_apply, OF assms]
    linux_manager.last_success_decides [of mgr, unfolded o_apply, OF assms]
  by auto

theorem linux_manager_refines_witness:
  "\<exists>rs mgr'. apply_ops (manager_ops linux_ops) [Establish demo_tunnel, Close ''100.64.0.3''] \<lparr>backend = demo_linux\<rparr> = (rs, mgr') \<and>
     linux_table (backend mgr') ''100.64.0.2'' = Some ''peer-pk''"
proof -
  let ?mgr = "\<lparr>backend = demo_linux\<rparr>" and ?calls = "[Establish demo_tunnel, Close ''100.64.0.3'']"
  obtain rs mgr' where a: "apply_ops (manager_ops linux_ops) ?calls ?mgr = (rs, mgr')"
    by fastforce
  obtain a' where "linux_establish demo_tunnel demo_linux = (Ok (), (), a')"
    using linux_establish_valid [of "snd demo_linux" None fmempty "[]" demo_tunnel "()"] demo_tunnel_valid
    by (cases "linux_establish demo_tunnel demo_linux")
      (auto simp: demo_linux_def adapter_new_with_executor_def)
  then have "rs ! 0 = Ok ()"
    using a by (auto simp: manager_ops_def manager_establish_def linux_ops_def split: prod.splits)
  moreover have "op_peer (Establish demo_tunnel) = ''100.64.0.2''" "op_entry (Establish demo_tunnel) = Some ''peer-pk''"
    by (simp_all add: demo_tunnel_def)
  ultimately show ?thesis
    using linux_manager_refines [of ?mgr "[]" "Establish demo_tunnel" "[Close ''100.64.0.3'']" rs mgr']
      demo_linux_inv a by auto
qed

section \<open>Failed removals\<close>

text \<open>
  A removal whose commands fail reports the error, but the peer is forgotten: closing the peer
  again succeeds and runs no command, so its routes and its key stay configured.
\<close>

theorem failed_removal_forgotten:
  assumes "linux_inv (w, a)" and "interface_runtime a = Some rt" and "peer_runtime a ip = Some p"
    and "fst (run_commands (executor a) (remove_peer_commands (interface_name_from_runtime rt) (peer p)) w) = Err e"
  shows "\<exists>w' a'. adapter_remove_peer ip (w, a) = (Err e, w', a') \<and>
    adapter_remove_peer ip (w', a') = (Ok (), w', a')"
  using assms
  by (auto simp: linux_inv_def adapter_remove_peer_def peer_runtime_def interface_runtime_def run_all_healthy)

theorem failed_removal_forgotten_witness:
  "\<exists>w' a'. adapter_remove_peer ''100.64.0.2''
       ((), (snd (snd (linux_establish demo_tunnel demo_linux)))\<lparr>executor := native_run\<rparr>) = (Err
       ''native linux wireguard executor is not integrated yet; cannot remove peer via wg set wg0 peer peer-pk remove'', w', a')
     \<and> adapter_remove_peer ''100.64.0.2'' (w', a') = (Ok (), w', a')"
proof (rule failed_removal_forgotten)
  let ?a = "(snd (snd (linux_establish demo_tunnel demo_linux)))\<lparr>executor := native_run\<rparr>"
  let ?rt = "\<lparr>LinuxKernelRuntime.interface_name = Some ''wg0'', LinuxKernelRuntime.addresses = [''100.64.0.10/32''], LinuxKernelRuntime.dns_servers = [], LinuxKernelRuntime.is_up = True\<rparr>"
  show "linux_inv ((), ?a)"
    using linux_establish_valid [of "snd demo_linux" None fmempty "[]" demo_tunnel "()"] demo_tunnel_valid
    by (cases "linux_establish demo_tunnel demo_linux")
      (auto simp: demo_linux_def adapter_new_with_executor_def linux_inv_def)
  show "interface_runtime ?a = Some ?rt"
    by code_simp
  show "peer_runtime ?a ''100.64.0.2'' = Some \<lparr>peer = linux_map_peer (wireguard_peer demo_tunnel)\<rparr>"
    by code_simp
  show "fst (run_commands (executor ?a) (remove_peer_commands (interface_name_from_runtime ?rt)
      (peer \<lparr>peer = linux_map_peer (wireguard_peer demo_tunnel)\<rparr>)) ()) = Err
      ''native linux wireguard executor is not integrated yet; cannot remove peer via wg set wg0 peer peer-pk remove''"
    by code_simp
qed

section \<open>Classification of commands\<close>

text \<open>
  The executor that is not integrated yet names every command the adapter generates by its purpose,
  except the one that sets the MTU: the pattern expects \<open>mtu\<close> where the command has the device.
\<close>

lemma classify_commands:
  "map classify (apply_peer_commands dev p) = ConfigurePeer # map (\<lambda>_. ReplaceRoute) (LinuxKernelPeerPlan.allowed_ips p)"
  "map classify (remove_peer_commands dev p) = RemovePeer # map (\<lambda>_. DeleteRoute) (LinuxKernelPeerPlan.allowed_ips p)"
  "classify (bring_up_command dev) = BringUp" "classify (bring_down_command dev) = BringDown"
proof -
  note defs = classify_def command_new_def with_stdin_def ignore_stderr_def nth_Cons'
  show "map classify (apply_peer_commands dev p) = ConfigurePeer # map (\<lambda>_. ReplaceRoute) (LinuxKernelPeerPlan.allowed_ips p)"
    by (cases "LinuxKernelPeerPlan.endpoint p"; cases "LinuxKernelPeerPlan.persistent_keepalive_seconds p";
        cases "LinuxKernelPeerPlan.preshared_key p") (simp_all add: apply_peer_commands_def defs)
  show "map classify (remove_peer_commands dev p) = RemovePeer # map (\<lambda>_. DeleteRoute) (LinuxKernelPeerPlan.allowed_ips p)"
    by (simp add: remove_peer_commands_def defs)
  show "classify (bring_up_command dev) = BringUp" "classify (bring_down_command dev) = BringDown"
    by (simp_all add: bring_up_command_def bring_down_command_def defs)
qed

lemma classify_mtu:
  "classify (command_new ''ip'' [''link'', ''set'', ''dev'', dev, ''mtu'', m]) =
     (if dev = ''mtu'' then SetLinkMtu else UnknownOperation)"
  by (simp add: classify_def command_new_def)

end
