(* ===== verification/Rust_Text.thy ===== *)
theory Rust_Text
  imports Slan_Prelude
begin

text \<open>
  More of Rust's text functions: \<open>lines\<close>, \<open>split_whitespace\<close>, \<open>trim_matches\<close>, \<open>replace\<close>, searching an
  iterator, and the check of UTF-8 in \<open>String::from_utf8\<close> with its error texts.
\<close>

section \<open>Lines and words\<close>

definition strip_suffix :: "string \<Rightarrow> string \<Rightarrow> string option" where
  "strip_suffix s p = map_option rev (strip_prefix (rev s) (rev p))"

text \<open>\<open>str::lines\<close>: pieces that end with a line feed, without it and a carriage return before it.\<close>

fun split_inclusive :: "char \<Rightarrow> string \<Rightarrow> string list" where
  "split_inclusive sep [] = []"
| "split_inclusive sep (c # cs) =
     (if c = sep then [c] # split_inclusive sep cs
      else (case split_inclusive sep cs of [] \<Rightarrow> [[c]] | l # ls \<Rightarrow> (c # l) # ls))"

definition text_lines :: "string \<Rightarrow> string list" where
  "text_lines s = map (\<lambda>line.
     case strip_suffix line [CHR 0x0A] of
       None \<Rightarrow> line
     | Some l \<Rightarrow> (case strip_suffix l [CHR 0x0D] of None \<Rightarrow> l | Some l' \<Rightarrow> l')) (split_inclusive (CHR 0x0A) s)"

text \<open>\<open>str::split_whitespace\<close>.\<close>

fun break_white_space :: "string \<Rightarrow> string \<times> string" where
  "break_white_space [] = ([], [])"
| "break_white_space (c # cs) =
     (if \<exists>w \<in> set white_space. starts_with (c # cs) w then ([], c # cs)
      else let (a, b) = break_white_space cs in (c # a, b))"

lemma break_white_space_append: "break_white_space s = (a, b) \<Longrightarrow> s = a @ b"
  by (induction s arbitrary: a) (auto split: if_splits prod.splits)

lemma trim_front_stops:
  "w \<in> set ws \<Longrightarrow> w \<noteq> [] \<Longrightarrow> \<not> starts_with (trim_front ws s) w"
proof (induction ws s rule: trim_front.induct)
  case (1 ws s)
  show ?case
  proof (cases "find (\<lambda>w. w \<noteq> [] \<and> starts_with s w) ws")
    case None
    then have "trim_front ws s = s"
      by (subst trim_front.simps) simp
    with None 1(2,3) show ?thesis
      by (auto simp: find_None_iff)
  next
    case (Some v)
    with 1 show ?thesis
      by (subst trim_front.simps) simp
  qed
qed

lemma white_space_nonempty: "w \<in> set white_space \<Longrightarrow> w \<noteq> []"
  by (auto simp: white_space_def)

function split_whitespace :: "string \<Rightarrow> string list" where
  "split_whitespace s =
     (let t = trim_front white_space s
      in if t = [] then [] else let (a, b) = break_white_space t in a # split_whitespace b)"
  by pat_completeness auto
termination
proof (relation "measure length")
  fix s t a b x
  assume t: "t = trim_front white_space s" "t \<noteq> []" and x: "x = break_white_space t" "(a, b) = x"
  obtain c cs where c: "t = c # cs"
    using t(2) by (cases t) auto
  have "\<not> (\<exists>w \<in> set white_space. starts_with t w)"
    using trim_front_stops white_space_nonempty t(1) by blast
  then have "a \<noteq> []"
    using x by (auto simp: c split: prod.splits)
  moreover have "t = a @ b"
    using x by (metis break_white_space_append)
  moreover obtain p where "s = p @ t"
    using trim_front_suffix t(1) by metis
  ultimately show "(b, s) \<in> measure length"
    by (cases a) auto
qed simp

declare split_whitespace.simps [simp del]

definition trim_matches :: "(char \<Rightarrow> bool) \<Rightarrow> string \<Rightarrow> string" where
  "trim_matches p s = rev (dropWhile p (rev (dropWhile p s)))"

definition replace_char :: "char \<Rightarrow> string \<Rightarrow> string \<Rightarrow> string" where
  "replace_char c by s = concat (map (\<lambda>d. if d = c then by else [d]) s)"

fun find_map :: "('a \<Rightarrow> 'b option) \<Rightarrow> 'a list \<Rightarrow> 'b option" where
  "find_map f [] = None"
| "find_map f (x # xs) = (case f x of None \<Rightarrow> find_map f xs | Some y \<Rightarrow> Some y)"

section \<open>UTF-8\<close>

text \<open>
  \<open>String::from_utf8\<close>: the length of the first character if the bytes start with one, or the number of
  bytes to blame, with \<open>None\<close> when the input ends inside a character.
\<close>

definition continuation :: "u8 \<Rightarrow> bool" where
  "continuation b \<longleftrightarrow> 0x80 \<le> b \<and> b \<le> 0xBF"

definition second_ok :: "u8 \<Rightarrow> u8 \<Rightarrow> bool" where
  "second_ok a b \<longleftrightarrow>
     (if a = 0xE0 then 0xA0 \<le> b \<and> b \<le> 0xBF
      else if a = 0xED then 0x80 \<le> b \<and> b \<le> 0x9F
      else if a = 0xF0 then 0x90 \<le> b \<and> b \<le> 0xBF
      else if a = 0xF4 then 0x80 \<le> b \<and> b \<le> 0x8F
      else continuation b)"

definition char_width :: "u8 \<Rightarrow> nat" where
  "char_width a =
     (if a < 0x80 then 1 else if a < 0xC2 then 0 else if a \<le> 0xDF then 2 else if a \<le> 0xEF then 3
      else if a \<le> 0xF4 then 4 else 0)"

fun tail_fault :: "nat \<Rightarrow> nat \<Rightarrow> u8 list \<Rightarrow> nat option option" where
  "tail_fault pos 0 bs = None"
| "tail_fault pos (Suc n) [] = Some None"
| "tail_fault pos (Suc n) (b # bs) = (if continuation b then tail_fault (Suc pos) n bs else Some (Some pos))"

definition char_fault :: "u8 list \<Rightarrow> nat option option" where
  "char_fault s =
     (case s of
        [] \<Rightarrow> None
      | a # rest \<Rightarrow>
          if char_width a = 0 then Some (Some 1)
          else if char_width a = 1 then None
          else (case rest of
             [] \<Rightarrow> Some None
           | b # rest' \<Rightarrow> if second_ok a b then tail_fault 2 (char_width a - 2) rest' else Some (Some 1)))"

function utf8_fault :: "nat \<Rightarrow> u8 list \<Rightarrow> (nat \<times> nat option) option" where
  "utf8_fault i s =
     (if s = [] then None
      else case char_fault s of
        Some len \<Rightarrow> Some (i, len)
      | None \<Rightarrow> utf8_fault (i + max 1 (char_width (hd s))) (drop (max 1 (char_width (hd s))) s))"
  by pat_completeness auto
termination
  by (relation "measure (\<lambda>(i, s). length s)") auto

declare utf8_fault.simps [simp del]

definition from_utf8 :: "u8 list \<Rightarrow> (string, string) result" where
  "from_utf8 bs =
     (case utf8_fault 0 bs of
        None \<Rightarrow> Ok (map (\<lambda>b. char_of (unat b)) bs)
      | Some (i, Some n) \<Rightarrow> Err (''invalid utf-8 sequence of '' @ show_nat n @ '' bytes from index '' @ show_nat i)
      | Some (i, None) \<Rightarrow> Err (''incomplete utf-8 byte sequence from index '' @ show_nat i))"

definition as_bytes :: "string \<Rightarrow> u8 list" where
  "as_bytes s = map (\<lambda>c. of_nat (of_char c)) s"

lemma utf8_fault_ascii: "\<forall>b \<in> set bs. b < 0x80 \<Longrightarrow> utf8_fault i bs = None"
proof (induction bs arbitrary: i)
  case (Cons b bs)
  then have "char_fault (b # bs) = None" and "char_width b = 1"
    by (simp_all add: char_fault_def char_width_def)
  with Cons show ?case
    by (subst utf8_fault.simps) simp
qed (simp add: utf8_fault.simps)

end
