(* ===== verification/Tunnel_Windows.thy ===== *)
theory Tunnel_Windows
  imports Tunnel Rust_Text
begin

text \<open>
  Crate \<open>tunnel\<close>, the Windows backend (\<open>windows_backend.rs\<close>): it keeps the interface and the peers
  in memory and projects the local address onto a system interface with \<open>netsh\<close> or, on a dedicated
  adapter, with a PowerShell script.  Code the source compiles only for Windows is guarded by the
  target of the environment.
\<close>

section \<open>Text of command output\<close>

definition trim_ascii_whitespace :: "string \<Rightarrow> string" where
  "trim_ascii_whitespace = trim_matches (\<lambda>c. c \<in> {CHR '' '', CHR 0x0D, CHR 0x0A, CHR 0x09})"

definition show_u8 :: "u8 \<Rightarrow> string" where
  "show_u8 w = show_nat (unat w)"

definition show_u32 :: "u32 \<Rightarrow> string" where
  "show_u32 w = show_nat (unat w)"

section \<open>State\<close>

record WindowsInterfaceRuntime =
  interface_name :: string
  interface_index :: "u32 option"
  is_dedicated_adapter :: bool
  local_virtual_ip :: string
  local_prefix_len :: u8
  is_up :: bool

record WindowsPeerRuntime =
  peer :: WireGuardPeerConfig
  latest_handshake_at_ms :: "u64 option"

record WindowsEmbeddableServiceBackend =
  interface :: "WindowsInterfaceRuntime option mutex"
  peers :: "(string, WindowsPeerRuntime) HashMap mutex"

type_synonym 'w windows_state = "'w \<times> WindowsEmbeddableServiceBackend"

definition windows_new :: WindowsEmbeddableServiceBackend where
  "windows_new = \<lparr>interface = Healthy None, peers = Healthy fmempty\<rparr>"

definition windows_planned_peer_ips :: "WindowsEmbeddableServiceBackend \<Rightarrow> string fset" where
  "windows_planned_peer_ips b = (case lock (peers b) of None \<Rightarrow> {||} | Some m \<Rightarrow> fmdom m)"

definition windows_interface_name :: "WindowsEmbeddableServiceBackend \<Rightarrow> string option" where
  "windows_interface_name b =
     (case lock (interface b) of None \<Rightarrow> None | Some rt \<Rightarrow> map_option interface_name rt)"

definition windows_is_up :: "WindowsEmbeddableServiceBackend \<Rightarrow> bool" where
  "windows_is_up b = (case lock (interface b) of Some (Some rt) \<Rightarrow> is_up rt | _ \<Rightarrow> False)"

section \<open>Validation\<close>

definition windows_validate_interface :: "WireGuardInterfaceConfig \<Rightarrow> (unit, string) result" where
  "windows_validate_interface i =
     (if blank (WireGuardKeyPair.public_key (WireGuardInterfaceConfig.key_pair i))
      then Err ''windows backend requires non-empty wireguard public key''
      else if blank (WireGuardKeyPair.private_key (WireGuardInterfaceConfig.key_pair i))
      then Err ''windows backend requires non-empty wireguard private key''
      else if WireGuardInterfaceConfig.addresses i = []
      then Err ''windows backend requires at least one wireguard interface address''
      else Ok ())"

definition windows_validate_peer :: "string \<Rightarrow> WireGuardPeerConfig \<Rightarrow> (unit, string) result" where
  "windows_validate_peer ip p =
     (if blank ip then Err ''windows backend requires non-empty peer virtual ip''
      else if blank (WireGuardPeerConfig.public_key p)
      then Err ''windows backend requires non-empty peer public key''
      else if WireGuardPeerConfig.allowed_ips p = []
      then Err ''windows backend requires at least one allowed ip''
      else Ok ())"

definition windows_validate_config :: "TunnelConfig \<Rightarrow> (unit, string) result" where
  "windows_validate_config cfg =
     (if blank (TunnelConfig.local_virtual_ip cfg)
      then Err ''windows backend requires non-empty local virtual ip''
      else if blank (peer_virtual_ip cfg) then Err ''windows backend requires non-empty peer virtual ip''
      else if TunnelConfig.local_virtual_ip cfg = peer_virtual_ip cfg
      then Err ''windows backend requires distinct local and peer virtual ip''
      else case windows_validate_interface (wireguard_interface cfg) of
        Err e \<Rightarrow> Err e
      | Ok _ \<Rightarrow> windows_validate_peer (peer_virtual_ip cfg) (wireguard_peer cfg))"

definition parse_interface_address :: "string \<Rightarrow> (string \<times> u8, string) result" where
  "parse_interface_address raw =
     (case split_once ''/'' raw of
        None \<Rightarrow> Err (''windows backend requires cidr interface address, got '' @ raw)
      | Some (ip, prefix_len) \<Rightarrow>
          let ip = trim ip
          in if ip = [] then Err ''windows backend requires non-empty local virtual ip''
             else (case parse_u8 (trim prefix_len) of
               Err e \<Rightarrow> Err (''windows backend invalid prefix length in '' @ raw @ '': '' @ display_int_error e)
             | Ok n \<Rightarrow> Ok (ip, word_of_int n)))"

definition prefix_mask :: "u8 \<Rightarrow> u32" where
  "prefix_mask prefix_len = (if prefix_len = 0 then 0 else push_bit (unat (32 - prefix_len)) (- 1))"

definition netmask_from_prefix_len :: "u8 \<Rightarrow> (string, string) result" where
  "netmask_from_prefix_len prefix_len =
     (if 32 < prefix_len
      then Err (''windows backend requires ipv4 prefix length <= 32, got '' @ show_u8 prefix_len)
      else let mask = prefix_mask prefix_len
        in Ok (show_u32 (and (drop_bit 24 mask) 0xFF) @ ''.'' @ show_u32 (and (drop_bit 16 mask) 0xFF)
             @ ''.'' @ show_u32 (and (drop_bit 8 mask) 0xFF) @ ''.'' @ show_u32 (and mask 0xFF)))"

section \<open>Commands\<close>

text \<open>Standard error, standard output or a fallback, the first that is not empty.\<close>

definition failure_detail :: "string \<Rightarrow> string \<Rightarrow> string \<Rightarrow> string" where
  "failure_detail err out fallback = (if err \<noteq> [] then err else if out \<noteq> [] then out else fallback)"

definition launch_error :: "ProcessOutcome \<Rightarrow> string option" where
  "launch_error res = (case res of NotSpawned e \<Rightarrow> Some e | StdinFailed e \<Rightarrow> Some e | NotWaited e \<Rightarrow> Some e
     | Exited _ _ _ _ \<Rightarrow> None)"

definition command_stdout :: "'w ProcessEnv \<Rightarrow> string \<Rightarrow> string list \<Rightarrow> 'w \<Rightarrow> (string, string) result \<times> 'w" where
  "command_stdout env prog argv w =
     (let (res, w') = run_process env prog argv None w
      in case launch_error res of
           Some e \<Rightarrow> (Err (''failed to launch '' @ prog @ '': '' @ e), w')
         | None \<Rightarrow>
             if exit_success res then (Ok (exit_stdout res), w')
             else (Err (prog @ '' '' @ join '' '' argv @ '' failed: ''
               @ failure_detail (trim (exit_stderr res)) (trim (exit_stdout res)) (''exit status '' @ exit_status res)), w'))"

definition dry_run :: "'w ProcessEnv \<Rightarrow> bool" where
  "dry_run env \<longleftrightarrow> env_var env ''SLAN_WINDOWS_TUNNEL_MODE'' = Some ''dry-run''"

definition powershell_args :: "string \<Rightarrow> string list" where
  "powershell_args command =
     [''-NoProfile'', ''-NonInteractive'', ''-ExecutionPolicy'', ''Bypass'', ''-Command'', command]"

definition quote_argument :: "string \<Rightarrow> string" where
  "quote_argument v = [CHR 0x27] @ replace_char CHR 0x27 [CHR 0x27, CHR 0x27] v @ [CHR 0x27]"

text \<open>The two commands that start a process with elevated rights, around the text they run.\<close>

definition elevated_netsh_command :: "string list \<Rightarrow> string" where
  "elevated_netsh_command argv =
     ''$p = Start-Process -FilePath '' @ [CHR 0x27] @ ''netsh.exe'' @ [CHR 0x27] @ '' -ArgumentList @(''
     @ join '','' (map quote_argument argv)
     @ '') -Verb RunAs -WindowStyle Hidden -Wait -PassThru; exit $p.ExitCode''"

definition elevated_script_command :: "string \<Rightarrow> string" where
  "elevated_script_command script =
     ''$p = Start-Process -FilePath '' @ [CHR 0x27] @ ''powershell.exe'' @ [CHR 0x27] @ '' -ArgumentList @(''
     @ [CHR 0x27] @ ''-NoProfile'' @ [CHR 0x27] @ '','' @ [CHR 0x27] @ ''-ExecutionPolicy'' @ [CHR 0x27] @ '',''
     @ [CHR 0x27] @ ''Bypass'' @ [CHR 0x27] @ '','' @ [CHR 0x27] @ ''-Command'' @ [CHR 0x27] @ '',''
     @ [CHR 0x27] @ replace_char CHR 0x0A ''; '' (replace_char CHR 0x27 [CHR 0x27, CHR 0x27] script) @ [CHR 0x27]
     @ '') -Verb RunAs -WindowStyle Hidden -Wait -PassThru; exit $p.ExitCode''"

definition run_netsh_elevated :: "'w ProcessEnv \<Rightarrow> string list \<Rightarrow> 'w backend_op" where
  "run_netsh_elevated env argv w =
     (let (res, w') = run_process env ''powershell.exe'' (powershell_args (elevated_netsh_command argv)) None w
      in case launch_error res of
           Some e \<Rightarrow> (Err (''failed to launch elevated netsh: '' @ e), w')
         | None \<Rightarrow>
             if exit_success res then (Ok (), w')
             else (Err (''netsh '' @ join '' '' argv @ '' failed after elevation attempt: ''
               @ failure_detail (trim (exit_stderr res)) (trim (exit_stdout res))
                   ''UAC prompt was rejected or the elevated netsh command failed''), w'))"

definition run_netsh :: "'w ProcessEnv \<Rightarrow> string list \<Rightarrow> 'w backend_op" where
  "run_netsh env argv w =
     (if target_os env \<noteq> Windows then (Ok (), w)
      else if dry_run env then (Ok (), w)
      else let (res, w') = run_process env ''netsh'' argv None w
        in case launch_error res of
             Some e \<Rightarrow> (Err (''failed to launch netsh: '' @ e), w')
           | None \<Rightarrow>
               if exit_success res then (Ok (), w')
               else let err = trim (exit_stderr res); out = trim (exit_stdout res)
                 in if contains err ''requires elevation'' \<or> contains out ''requires elevation'' \<or>
                       contains err ''Run as administrator'' \<or> contains out ''Run as administrator''
                    then run_netsh_elevated env argv w'
                    else (Err (''netsh '' @ join '' '' argv @ '' failed: ''
                      @ failure_detail err out (''exit status '' @ exit_status res)), w'))"

definition run_powershell_script_elevated :: "'w ProcessEnv \<Rightarrow> string \<Rightarrow> 'w backend_op" where
  "run_powershell_script_elevated env script w =
     (let (res, w') = run_process env ''powershell.exe'' (powershell_args (elevated_script_command script)) None w
      in case launch_error res of
           Some e \<Rightarrow> (Err (''failed to launch elevated powershell: '' @ e), w')
         | None \<Rightarrow>
             if exit_success res then (Ok (), w')
             else (Err (''elevated powershell script failed: ''
               @ failure_detail (trim (exit_stderr res)) (trim (exit_stdout res))
                   ''UAC prompt was rejected or the elevated PowerShell command failed''), w'))"

definition run_powershell_script :: "'w ProcessEnv \<Rightarrow> string \<Rightarrow> bool \<Rightarrow> 'w backend_op" where
  "run_powershell_script env script elevated w =
     (if target_os env \<noteq> Windows then (Ok (), w)
      else if dry_run env then (Ok (), w)
      else if elevated then run_powershell_script_elevated env script w
      else let (res, w') = run_process env ''powershell.exe'' (powershell_args script) None w
        in case launch_error res of
             Some e \<Rightarrow> (Err (''failed to launch powershell: '' @ e), w')
           | None \<Rightarrow>
               if exit_success res then (Ok (), w')
               else let err = trim (exit_stderr res); out = trim (exit_stdout res)
                 in if contains err ''requires elevation'' \<or> contains out ''requires elevation'' \<or>
                       contains err ''Access is denied'' \<or> contains out ''Access is denied''
                    then run_powershell_script_elevated env script w'
                    else (Err (''powershell script failed: ''
                      @ failure_detail err out (''exit status '' @ exit_status res)), w'))"

section \<open>The interface to configure\<close>

definition to_u32 :: "string \<Rightarrow> u32 option" where
  "to_u32 s = (case parse_u32 s of Ok n \<Rightarrow> Some (word_of_int n) | Err _ \<Rightarrow> None)"

text \<open>The index of the loopback adapter for tests, from the lines of \<open>route print\<close>.\<close>

definition kmtest_index :: "string \<Rightarrow> u32 option" where
  "kmtest_index route_output = find_map (\<lambda>line.
     if \<not> contains line ''Microsoft KM-TEST'' then None
     else case split_whitespace (trim_ascii_whitespace line) of
       [] \<Rightarrow> None
     | first # _ \<Rightarrow> to_u32 first) (text_lines route_output)"

definition kmtest_alias :: "u32 \<Rightarrow> string \<Rightarrow> string option" where
  "kmtest_alias idx netsh_output = find_map (\<lambda>line.
     let trimmed = trim_ascii_whitespace line; columns = split_whitespace trimmed
     in if length columns < 5 \<or> to_u32 (columns ! 0) \<noteq> Some idx then None
        else case split_once (columns ! 4) trimmed of
          None \<Rightarrow> None
        | Some (_, rest) \<Rightarrow>
            let text = trim (columns ! 4 @ rest) in if text = [] then None else Some text)
     (text_lines netsh_output)"

definition resolve_dedicated :: "'w ProcessEnv \<Rightarrow> 'w \<Rightarrow> (string \<times> u32) option \<times> 'w" where
  "resolve_dedicated env w =
     (case command_stdout env ''route'' [''print''] w of
        (Err _, w1) \<Rightarrow> (None, w1)
      | (Ok route_output, w1) \<Rightarrow>
          (case kmtest_index route_output of
             None \<Rightarrow> (None, w1)
           | Some idx \<Rightarrow>
               (case command_stdout env ''netsh'' [''interface'', ''ipv4'', ''show'', ''interfaces''] w1 of
                  (Ok netsh_output, w2) \<Rightarrow>
                    (case kmtest_alias idx netsh_output of
                       Some text \<Rightarrow> (Some (text, idx), w2)
                     | None \<Rightarrow> (Some (''Microsoft KM-TEST Loopback Adapter'', idx), w2))
                | (Err _, w2) \<Rightarrow> (Some (''Microsoft KM-TEST Loopback Adapter'', idx), w2))))"

definition resolve_interface_target ::
  "'w ProcessEnv \<Rightarrow> string option \<Rightarrow> 'w \<Rightarrow> (string \<times> u32 option \<times> bool) \<times> 'w" where
  "resolve_interface_target env requested w =
     (case Option.bind (env_var env ''SLAN_WINDOWS_TUNNEL_INTERFACE_ALIAS'')
             (\<lambda>v. if trim v = [] then None else Some (trim v)) of
        Some configured \<Rightarrow> ((configured, None, False), w)
      | None \<Rightarrow>
          (case Option.bind requested (\<lambda>v. if trim v \<noteq> [] \<and> trim v \<noteq> ''slan0'' then Some (trim v) else None) of
             Some requested_alias \<Rightarrow> ((requested_alias, None, False), w)
           | None \<Rightarrow>
               if target_os env = Windows then
                 (case resolve_dedicated env w of
                    (Some (text, idx), w') \<Rightarrow> ((text, Some idx, True), w')
                  | (None, w') \<Rightarrow> ((''Loopback Pseudo-Interface 1'', None, False), w'))
               else ((''Loopback Pseudo-Interface 1'', None, False), w)))"

section \<open>The address on the system interface\<close>

definition line_feed :: string where
  "line_feed = [CHR 0x0A]"

definition stop_on_error :: string where
  "stop_on_error = ''$ErrorActionPreference='' @ quote_argument ''Stop'' @ line_feed"

definition clear_addresses_line :: "string \<Rightarrow> string" where
  "clear_addresses_line idx =
     ''Get-NetIPAddress -InterfaceIndex '' @ idx @ '' -AddressFamily IPv4 -ErrorAction SilentlyContinue''
     @ '' | Remove-NetIPAddress -Confirm:$false -ErrorAction SilentlyContinue'' @ line_feed"

definition apply_script :: "u32 \<Rightarrow> string \<Rightarrow> u8 \<Rightarrow> string" where
  "apply_script index ip prefix_len =
     (let idx = show_u32 index
      in stop_on_error
         @ ''Enable-NetAdapter -InterfaceIndex '' @ idx
         @ '' -Confirm:$false -ErrorAction SilentlyContinue | Out-Null'' @ line_feed
         @ ''Set-NetIPInterface -InterfaceIndex '' @ idx
         @ '' -Dhcp Disabled -ErrorAction SilentlyContinue | Out-Null'' @ line_feed
         @ clear_addresses_line idx
         @ ''New-NetIPAddress -InterfaceIndex '' @ idx @ '' -IPAddress '' @ ip @ '' -PrefixLength ''
         @ show_u8 prefix_len @ '' -AddressFamily IPv4 -Type Unicast | Out-Null'' @ line_feed)"

definition delete_address_args :: "WindowsInterfaceRuntime \<Rightarrow> string list" where
  "delete_address_args rt =
     [''interface'', ''ipv4'', ''delete'', ''address'', ''name='' @ interface_name rt, ''addr='' @ local_virtual_ip rt]"

definition apply_system_interface :: "'w ProcessEnv \<Rightarrow> WindowsInterfaceRuntime \<Rightarrow> 'w backend_op" where
  "apply_system_interface env rt w =
     (if target_os env = Windows \<and> is_dedicated_adapter rt then
        (case interface_index rt of
           None \<Rightarrow> (Err ''windows backend dedicated adapter is missing an interface index'', w)
         | Some idx \<Rightarrow>
             run_powershell_script env (apply_script idx (local_virtual_ip rt) (local_prefix_len rt)) True w)
      else case netmask_from_prefix_len (local_prefix_len rt) of
        Err e \<Rightarrow> (Err e, w)
      | Ok netmask \<Rightarrow>
          let (_, w') = run_netsh env (delete_address_args rt) w
          in run_netsh env [''interface'', ''ipv4'', ''add'', ''address'', ''name='' @ interface_name rt,
               ''addr='' @ local_virtual_ip rt, ''mask='' @ netmask] w')"

definition remove_system_interface_address :: "'w ProcessEnv \<Rightarrow> WindowsInterfaceRuntime \<Rightarrow> 'w backend_op" where
  "remove_system_interface_address env rt w =
     (if target_os env = Windows \<and> is_dedicated_adapter rt then
        (case interface_index rt of
           None \<Rightarrow> (Err ''windows backend dedicated adapter is missing an interface index'', w)
         | Some idx \<Rightarrow>
             run_powershell_script env (stop_on_error @ clear_addresses_line (show_u32 idx)) True w)
      else run_netsh env (delete_address_args rt) w)"

section \<open>The backend\<close>

definition windows_apply_interface_config ::
  "'w ProcessEnv \<Rightarrow> WireGuardInterfaceConfig \<Rightarrow> 'w windows_state backend_op" where
  "windows_apply_interface_config env i s =
     (case windows_validate_interface i of
        Err e \<Rightarrow> (Err e, s)
      | Ok _ \<Rightarrow>
          (case WireGuardInterfaceConfig.addresses i of
             [] \<Rightarrow> (Err ''windows backend requires at least one wireguard interface address'', s)
           | addr # _ \<Rightarrow>
               if trim addr = [] then (Err ''windows backend requires at least one wireguard interface address'', s)
               else (case parse_interface_address (trim addr) of
                  Err e \<Rightarrow> (Err e, s)
                | Ok (ip, prefix_len) \<Rightarrow>
                    (case s of (w, b) \<Rightarrow>
                       (case lock (interface b) of
                          None \<Rightarrow> (Err ''windows backend interface state poisoned'', s)
                        | Some _ \<Rightarrow>
                            (case resolve_interface_target env (WireGuardInterfaceConfig.interface_name i) w of
                               ((n, idx, dedicated), w') \<Rightarrow>
                                 (Ok (), w', b\<lparr>interface := Healthy (Some
                                    \<lparr>interface_name = n, interface_index = idx, is_dedicated_adapter = dedicated,
                                     local_virtual_ip = ip, local_prefix_len = prefix_len, is_up = False\<rparr>)\<rparr>)))))))"

definition windows_apply_peer_config :: "string \<Rightarrow> WireGuardPeerConfig \<Rightarrow> 'w windows_state backend_op" where
  "windows_apply_peer_config ip p s =
     (case windows_validate_peer ip p of
        Err e \<Rightarrow> (Err e, s)
      | Ok _ \<Rightarrow>
          (case s of (w, b) \<Rightarrow>
             (case lock (peers b) of
                None \<Rightarrow> (Err ''windows backend peer state poisoned'', s)
              | Some m \<Rightarrow>
                  (Ok (), w, b\<lparr>peers := Healthy (fmupd ip \<lparr>peer = p, latest_handshake_at_ms = None\<rparr> m)\<rparr>))))"

definition windows_bring_up :: "'w ProcessEnv \<Rightarrow> 'w windows_state backend_op" where
  "windows_bring_up env s =
     (case s of (w, b) \<Rightarrow>
        (case lock (interface b) of
           None \<Rightarrow> (Err ''windows backend interface state poisoned'', s)
         | Some None \<Rightarrow> (Err ''windows backend interface runtime unavailable'', s)
         | Some (Some rt) \<Rightarrow>
             (case apply_system_interface env rt w of
                (Err e, w') \<Rightarrow> (Err e, w', b)
              | (Ok _, w') \<Rightarrow>
                  let b' = b\<lparr>interface := Healthy (Some (rt\<lparr>is_up := True\<rparr>))\<rparr>
                  in (case lock (peers b') of
                        None \<Rightarrow> (Err ''windows backend peer state poisoned'', w', b')
                      | Some m \<Rightarrow>
                          (Ok (), w', b'\<lparr>peers := Healthy
                             (fmmap (\<lambda>p. p\<lparr>latest_handshake_at_ms := Some (now_ms env)\<rparr>) m)\<rparr>)))))"

definition windows_bring_down :: "'w ProcessEnv \<Rightarrow> 'w windows_state backend_op" where
  "windows_bring_down env s =
     (case s of (w, b) \<Rightarrow>
        (case lock (interface b) of
           None \<Rightarrow> (Err ''windows backend interface state poisoned'', s)
         | Some None \<Rightarrow> (Err ''windows backend interface runtime unavailable'', s)
         | Some (Some rt) \<Rightarrow>
             let (_, w') = remove_system_interface_address env rt w
             in (Ok (), w', b\<lparr>interface := Healthy (Some (rt\<lparr>is_up := False\<rparr>))\<rparr>)))"

definition windows_establish :: "'w ProcessEnv \<Rightarrow> TunnelConfig \<Rightarrow> 'w windows_state backend_op" where
  "windows_establish env cfg s =
     (case windows_validate_config cfg of
        Err e \<Rightarrow> (Err e, s)
      | Ok _ \<Rightarrow> (case windows_apply_interface_config env (wireguard_interface cfg) s of
          (Err e, s1) \<Rightarrow> (Err e, s1)
        | (Ok _, s1) \<Rightarrow> (case windows_apply_peer_config (peer_virtual_ip cfg) (wireguard_peer cfg) s1 of
            (Err e, s2) \<Rightarrow> (Err e, s2)
          | (Ok _, s2) \<Rightarrow> windows_bring_up env s2)))"

definition windows_remove_peer :: "string \<Rightarrow> 'w windows_state backend_op" where
  "windows_remove_peer ip s =
     (case s of (w, b) \<Rightarrow>
        (case lock (peers b) of
           None \<Rightarrow> (Err ''windows backend peer state poisoned'', s)
         | Some m \<Rightarrow> (Ok (), w, b\<lparr>peers := Healthy (fmdrop ip m)\<rparr>)))"

definition windows_runtime_stats ::
  "WindowsEmbeddableServiceBackend \<Rightarrow> string \<Rightarrow> (WireGuardRuntimeStats option, string) result" where
  "windows_runtime_stats b ip =
     (case lock (interface b) of
        None \<Rightarrow> Err ''windows backend interface state poisoned''
      | Some None \<Rightarrow> Err ''windows backend interface runtime unavailable''
      | Some (Some rt) \<Rightarrow>
          (case lock (peers b) of
             None \<Rightarrow> Err ''windows backend peer state poisoned''
           | Some m \<Rightarrow>
               Ok (map_option (\<lambda>p.
                 \<lparr>WireGuardRuntimeStats.transport = (if is_up rt then TunnelTransport.P2P else TunnelTransport.Relay),
                  peer_public_key = WireGuardPeerConfig.public_key (peer p),
                  selected_endpoint = WireGuardPeerConfig.endpoint (peer p),
                  latest_handshake_at_ms = WindowsPeerRuntime.latest_handshake_at_ms p,
                  bytes_received = (if is_up rt then 1 else 0),
                  bytes_sent = (if is_up rt then 1 else 0)\<rparr>) (fmlookup m ip))))"

definition windows_ops :: "'w ProcessEnv \<Rightarrow> 'w windows_state TunnelBackend" where
  "windows_ops env = \<lparr>establish = windows_establish env, close = windows_remove_peer\<rparr>"

section \<open>The contract\<close>

definition windows_inv :: "'w windows_state \<Rightarrow> bool" where
  "windows_inv s \<longleftrightarrow> (\<exists>rt m. interface (snd s) = Healthy rt \<and> peers (snd s) = Healthy m)"

definition windows_table :: "'w windows_state \<Rightarrow> peer_table" where
  "windows_table s = key_table (WireGuardPeerConfig.public_key \<circ> peer) (protected (peers (snd s)))"

lemma key_table_fmmap: "(\<And>p. key (f p) = key p) \<Longrightarrow> key_table key (fmmap f m) = key_table key m"
  by (auto simp: key_table_def fun_eq_iff option.map_comp o_def)

lemma windows_apply_interface_config_frame:
  assumes "windows_inv s" and "windows_apply_interface_config env i s = (r, s')"
  shows "windows_inv s' \<and> peers (snd s') = peers (snd s)"
  using assms
  by (auto simp: windows_apply_interface_config_def windows_inv_def
      split: result.splits list.splits if_splits prod.splits)

lemma windows_bring_up_frame:
  assumes "windows_inv s" and "windows_bring_up env s = (r, s')"
  shows "windows_inv s' \<and> windows_table s' = windows_table s"
  using assms
  by (auto simp: windows_bring_up_def windows_inv_def windows_table_def key_table_fmmap Let_def
      split: result.splits option.splits prod.splits)

lemma windows_apply_peer_config_step:
  assumes "windows_inv s" and "windows_apply_peer_config ip p s = (r, s')"
  shows "windows_inv s' \<and> (case r of
      Err e \<Rightarrow> windows_table s' = windows_table s
    | Ok _ \<Rightarrow> windows_table s' = (windows_table s)(ip \<mapsto> WireGuardPeerConfig.public_key p))"
  using assms
  by (auto simp: windows_apply_peer_config_def windows_inv_def windows_table_def
      split: result.splits prod.splits)

lemma windows_establish_step:
  assumes "windows_inv s" and "windows_establish env cfg s = (r, s')"
  shows "spec_step (Establish cfg) r (windows_table s) (windows_table s') \<and> windows_inv s'"
proof (cases "windows_validate_config cfg")
  case (Err e)
  with assms have "r = Err e" "s' = s"
    by (auto simp: windows_establish_def)
  with assms(1) show ?thesis by simp
next
  case (Ok u)
  obtain r1 s1 where 1: "windows_apply_interface_config env (wireguard_interface cfg) s = (r1, s1)"
    by (metis surj_pair)
  have i1: "windows_inv s1" "windows_table s1 = windows_table s"
    using windows_apply_interface_config_frame [OF assms(1) 1] by (simp_all add: windows_table_def)
  obtain r2 s2 where 2: "windows_apply_peer_config (peer_virtual_ip cfg) (wireguard_peer cfg) s1 = (r2, s2)"
    by (metis surj_pair)
  note i2 = windows_apply_peer_config_step [OF i1(1) 2]
  show ?thesis
  proof (cases r1)
    case (Err e)
    with assms(2) Ok 1 have "r = Err e" "s' = s1"
      by (simp_all add: windows_establish_def)
    with i1 show ?thesis by simp
  next
    case r1: (Ok u1)
    show ?thesis
    proof (cases r2)
      case (Err e)
      with assms(2) Ok 1 2 r1 have "r = Err e" "s' = s2"
        by (simp_all add: windows_establish_def)
      with i1 i2 Err show ?thesis by simp
    next
      case (Ok u2)
      with assms(2) \<open>windows_validate_config cfg = result.Ok u\<close> 1 2 r1 have "windows_bring_up env s2 = (r, s')"
        by (simp add: windows_establish_def)
      with i2 have "windows_inv s'" "windows_table s' = windows_table s2"
        using windows_bring_up_frame by blast+
      with i1 i2 Ok show ?thesis
        by (cases r) simp_all
    qed
  qed
qed

lemma windows_step:
  assumes "windows_inv s" and "apply_op (windows_ops env) opn s = (r, s')"
  shows "spec_step opn r (windows_table s) (windows_table s') \<and> windows_inv s'"
  using assms(2)
proof (cases rule: apply_op_cases)
  case (establish cfg)
  with windows_establish_step [OF assms(1)] show ?thesis
    by (simp add: windows_ops_def)
next
  case (close ip)
  with assms(1) show ?thesis
    by (auto simp: windows_ops_def windows_remove_peer_def windows_inv_def windows_table_def split: prod.splits)
qed

interpretation windows: tunnel_backend "windows_ops env" windows_table windows_inv for env
  using windows_step by unfold_locales blast+

interpretation windows_manager: tunnel_backend "manager_ops (windows_ops env)" "windows_table \<circ> backend" "windows_inv \<circ> backend" for env
  by (rule windows.managed)

section \<open>Addresses and netmasks\<close>

lemma bit_prefix_mask:
  assumes "p \<le> 32" and "k < 32"
  shows "bit (prefix_mask p) (31 - k) \<longleftrightarrow> k < unat p"
proof (cases "p = 0")
  case False
  have "unat p \<le> 32"
    using assms(1) by (simp add: word_le_nat_alt)
  then have "unat (32 - p) = 32 - unat p"
    using assms(1) by (simp add: unat_sub)
  with False assms(2) \<open>unat p \<le> 32\<close> show ?thesis
    by (auto simp: prefix_mask_def bit_not_iff bit_mask_iff)
qed (simp add: prefix_mask_def)

lemma show_low_byte: "show_u32 (and x 0xFF) = show_u8 (ucast x)"
proof -
  have "and x 0xFF = take_bit 8 x"
    by (simp add: take_bit_eq_mask mask_eq_exp_minus_1)
  then have "unat (and x 0xFF) = unat (ucast x :: u8)"
    by (simp add: unsigned_take_bit_eq unsigned_ucast_eq)
  then show ?thesis
    by (simp add: show_u32_def show_u8_def)
qed

text \<open>
  A prefix length over 32 is refused; for any other the printed netmask is four bytes in dotted
  decimal whose bits, read from the first, are ones exactly up to the prefix length.
\<close>

theorem netmask_from_prefix_len_bits:
  "case netmask_from_prefix_len p of
     Err e \<Rightarrow> 32 < p
   | Ok text \<Rightarrow> p \<le> 32 \<and> (\<exists>bytes :: u8 list. length bytes = 4 \<and> text = join ''.'' (map show_u8 bytes) \<and>
       (\<forall>k < 32. bit (bytes ! (k div 8)) (7 - k mod 8) \<longleftrightarrow> k < unat p))"
proof (cases "32 < p")
  case True
  then show ?thesis by (simp add: netmask_from_prefix_len_def)
next
  case False
  then have p: "p \<le> 32" by simp
  let ?m = "prefix_mask p"
  define bytes :: "u8 list" where
    "bytes = [ucast (drop_bit 24 ?m), ucast (drop_bit 16 ?m), ucast (drop_bit 8 ?m), ucast ?m]"
  have eq: "netmask_from_prefix_len p = Ok (join ''.'' (map show_u8 bytes))"
    using False by (simp add: netmask_from_prefix_len_def show_low_byte bytes_def Let_def)
  have bits: "bit (bytes ! (k div 8)) (7 - k mod 8) \<longleftrightarrow> k < unat p" if "k < 32" for k
  proof -
    have k: "k = 8 * (k div 8) + k mod 8" and "k mod 8 < 8"
      by simp_all
    then have "31 - k = 7 - k mod 8 + 8 * (3 - k div 8)"
      using that by linarith
    moreover have "bytes ! (k div 8) = ucast (drop_bit (8 * (3 - k div 8)) ?m)"
    proof -
      have "k div 8 = 0 \<or> k div 8 = 1 \<or> k div 8 = 2 \<or> k div 8 = 3"
        using that by linarith
      then show ?thesis by (elim disjE) (simp_all add: bytes_def)
    qed
    ultimately have "bit (bytes ! (k div 8)) (7 - k mod 8) \<longleftrightarrow> bit ?m (31 - k)"
      by (auto simp: bit_ucast_iff bit_drop_bit_eq add.commute)
    with bit_prefix_mask [OF p that] show ?thesis by simp
  qed
  show ?thesis
    using p bits by (auto simp: eq bytes_def intro!: exI [of _ bytes])
qed

theorem netmask_from_prefix_len_bits_witness:
  "netmask_from_prefix_len 20 = Ok ''255.255.240.0'' \<and>
   (\<exists>bytes :: u8 list. ''255.255.240.0'' = join ''.'' (map show_u8 bytes) \<and>
      bit (bytes ! 2) 4 \<and> \<not> bit (bytes ! 2) 3)"
proof -
  have n: "netmask_from_prefix_len 20 = Ok ''255.255.240.0''"
    by code_simp
  obtain bytes :: "u8 list" where b: "''255.255.240.0'' = join ''.'' (map show_u8 bytes)"
      "\<forall>k < 32. bit (bytes ! (k div 8)) (7 - k mod 8) \<longleftrightarrow> k < unat (20 :: u8)"
    using netmask_from_prefix_len_bits [of 20] n by auto
  with n spec [OF b(2), of 19] spec [OF b(2), of 20] show ?thesis
    by auto
qed

text \<open>An address that is printed with its prefix length is read back.\<close>

lemma parse_interface_address_print:
  assumes "ip \<noteq> []" and "visible (hd ip)" and "visible (last ip)" and "CHR ''/'' \<notin> set ip"
  shows "parse_interface_address (ip @ ''/'' @ show_u8 n) = Ok (ip, n)"
proof -
  have digits: "visible c" if "c \<in> set (show_nat k)" for c k
    using show_nat_digits [OF that] by (auto simp: digit_val_def visible_def split: if_splits)
  have t: "trim (show_nat k) = show_nat k" for k
    by (rule trim_id) (auto intro: digits [OF hd_in_set] digits [OF last_in_set])
  have "int (unat n) \<le> 2 ^ 8 - 1"
    using uint_lt2p [of n] by simp
  then have "parse_u8 (show_nat (unat n)) = Ok (int (unat n))"
    unfolding parse_u8_def by (rule parse_int_show_nat)
  then show ?thesis
    using assms by (simp add: parse_interface_address_def split_once_char trim_id t show_u8_def Let_def)
qed

text \<open>
  The script for a dedicated adapter has the address in it as it is, between blanks and not quoted,
  and it runs with elevated rights; the address is only required not to be empty.
\<close>

lemma apply_script_unquoted:
  "contains (apply_script idx ip n) ('' -IPAddress '' @ ip @ '' -PrefixLength '' @ show_u8 n)"
  unfolding contains_iff apply_script_def Let_def by (metis append.assoc)

end
