(* ===== verification/Tunnel_Platform.thy ===== *)
theory Tunnel_Platform
  imports Tunnel_Linux_Safety Tunnel_Windows
begin

text \<open>
  Crate \<open>tunnel\<close>, the remaining backends and the choice between them: the macOS backend
  (\<open>macos.rs\<close>, \<open>macos_adapter.rs\<close>, \<open>macos_mapper.rs\<close>, \<open>macos_stats.rs\<close>), the Android backend that
  refuses everything, and \<open>platform.rs\<close>, which parses the driver a user asks for and builds its
  manager.
\<close>

section \<open>macOS\<close>

record MacosWireGuardKitInterfacePlan =
  interface_name :: "string option"
  private_key :: string
  listen_port :: "u16 option"
  mtu :: "u16 option"
  addresses :: "string list"
  dns_servers :: "string list"

record MacosWireGuardKitPeerPlan =
  public_key :: string
  preshared_key :: "string option"
  endpoint :: "string option"
  allowed_ips :: "string list"
  persistent_keepalive_seconds :: "u16 option"

record MacosWireGuardKitRuntime =
  interface_name :: "string option"
  addresses :: "string list"
  dns_servers :: "string list"

record MacosWireGuardKitAdapter =
  interface :: "MacosWireGuardKitRuntime option mutex"
  peers :: "(string, MacosWireGuardKitPeerPlan) HashMap mutex"

definition macos_validate_interface :: "WireGuardInterfaceConfig \<Rightarrow> (unit, string) result" where
  "macos_validate_interface i =
     (if blank (WireGuardKeyPair.public_key (WireGuardInterfaceConfig.key_pair i))
      then Err ''macos backend requires non-empty wireguard public key''
      else if blank (WireGuardKeyPair.private_key (WireGuardInterfaceConfig.key_pair i))
      then Err ''macos backend requires non-empty wireguard private key''
      else if WireGuardInterfaceConfig.addresses i = []
      then Err ''macos backend requires at least one wireguard interface address''
      else Ok ())"

definition macos_validate_peer :: "WireGuardPeerConfig \<Rightarrow> (unit, string) result" where
  "macos_validate_peer p =
     (if blank (WireGuardPeerConfig.public_key p) then Err ''macos backend requires non-empty peer public key''
      else if WireGuardPeerConfig.allowed_ips p = [] then Err ''macos backend requires at least one allowed ip''
      else Ok ())"

definition macos_validate_config :: "TunnelConfig \<Rightarrow> (unit, string) result" where
  "macos_validate_config cfg =
     (case macos_validate_interface (wireguard_interface cfg) of
        Err e \<Rightarrow> Err e
      | Ok _ \<Rightarrow> (case macos_validate_peer (wireguard_peer cfg) of
          Err e \<Rightarrow> Err e
        | Ok _ \<Rightarrow>
            if blank (TunnelConfig.local_virtual_ip cfg)
            then Err ''macos backend requires non-empty local virtual ip''
            else if blank (peer_virtual_ip cfg) then Err ''macos backend requires non-empty peer virtual ip''
            else if TunnelConfig.local_virtual_ip cfg = peer_virtual_ip cfg
            then Err ''macos backend requires distinct local and peer virtual ip''
            else Ok ()))"

definition macos_map_interface :: "WireGuardInterfaceConfig \<Rightarrow> MacosWireGuardKitInterfacePlan" where
  "macos_map_interface i =
     \<lparr>MacosWireGuardKitInterfacePlan.interface_name = WireGuardInterfaceConfig.interface_name i,
      private_key = WireGuardKeyPair.private_key (WireGuardInterfaceConfig.key_pair i),
      listen_port = WireGuardInterfaceConfig.listen_port i,
      mtu = WireGuardInterfaceConfig.mtu i,
      MacosWireGuardKitInterfacePlan.addresses = WireGuardInterfaceConfig.addresses i,
      MacosWireGuardKitInterfacePlan.dns_servers = WireGuardInterfaceConfig.dns_servers i\<rparr>"

definition macos_map_peer :: "WireGuardPeerConfig \<Rightarrow> MacosWireGuardKitPeerPlan" where
  "macos_map_peer p =
     \<lparr>public_key = WireGuardPeerConfig.public_key p,
      preshared_key = WireGuardPeerConfig.preshared_key p,
      endpoint = WireGuardPeerConfig.endpoint p,
      allowed_ips = map cidr (WireGuardPeerConfig.allowed_ips p),
      persistent_keepalive_seconds = WireGuardPeerConfig.persistent_keepalive_seconds p\<rparr>"

definition macos_initial_runtime :: "MacosWireGuardKitInterfacePlan \<Rightarrow> MacosWireGuardKitRuntime" where
  "macos_initial_runtime i =
     \<lparr>MacosWireGuardKitRuntime.interface_name = MacosWireGuardKitInterfacePlan.interface_name i,
      addresses = MacosWireGuardKitInterfacePlan.addresses i,
      dns_servers = MacosWireGuardKitInterfacePlan.dns_servers i\<rparr>"

definition macos_map_runtime_stats ::
  "TunnelTransport \<Rightarrow> string \<Rightarrow> string option \<Rightarrow> WireGuardRuntimeStats" where
  "macos_map_runtime_stats t key ep =
     \<lparr>WireGuardRuntimeStats.transport = t, peer_public_key = key, selected_endpoint = ep,
      latest_handshake_at_ms = None, bytes_received = 0, bytes_sent = 0\<rparr>"

definition macos_new :: MacosWireGuardKitAdapter where
  "macos_new = \<lparr>interface = Healthy None, peers = Healthy fmempty\<rparr>"

definition macos_apply_interface :: "MacosWireGuardKitRuntime \<Rightarrow> MacosWireGuardKitAdapter backend_op" where
  "macos_apply_interface rt a =
     (case lock (interface a) of
        None \<Rightarrow> (Err ''macos adapter interface state poisoned'', a)
      | Some _ \<Rightarrow> (Ok (), a\<lparr>interface := Healthy (Some rt)\<rparr>))"

definition macos_apply_peer :: "string \<Rightarrow> MacosWireGuardKitPeerPlan \<Rightarrow> MacosWireGuardKitAdapter backend_op" where
  "macos_apply_peer ip p a =
     (case lock (peers a) of
        None \<Rightarrow> (Err ''macos adapter peer state poisoned'', a)
      | Some m \<Rightarrow> (Ok (), a\<lparr>peers := Healthy (fmupd ip p m)\<rparr>))"

definition macos_remove_peer :: "string \<Rightarrow> MacosWireGuardKitAdapter backend_op" where
  "macos_remove_peer ip a =
     (case lock (peers a) of
        None \<Rightarrow> (Err ''macos adapter peer state poisoned'', a)
      | Some m \<Rightarrow> (Ok (), a\<lparr>peers := Healthy (fmdrop ip m)\<rparr>))"

definition macos_planned_peer_ips :: "MacosWireGuardKitAdapter \<Rightarrow> string fset" where
  "macos_planned_peer_ips a = (case lock (peers a) of None \<Rightarrow> {||} | Some m \<Rightarrow> fmdom m)"

definition macos_interface_runtime :: "MacosWireGuardKitAdapter \<Rightarrow> MacosWireGuardKitRuntime option" where
  "macos_interface_runtime a = (case lock (interface a) of None \<Rightarrow> None | Some rt \<Rightarrow> rt)"

definition macos_apply_interface_config :: "WireGuardInterfaceConfig \<Rightarrow> MacosWireGuardKitAdapter backend_op" where
  "macos_apply_interface_config i a =
     (case macos_validate_interface i of
        Err e \<Rightarrow> (Err e, a)
      | Ok _ \<Rightarrow> macos_apply_interface (macos_initial_runtime (macos_map_interface i)) a)"

definition macos_apply_peer_config :: "string \<Rightarrow> WireGuardPeerConfig \<Rightarrow> MacosWireGuardKitAdapter backend_op" where
  "macos_apply_peer_config ip p a =
     (case macos_validate_peer p of
        Err e \<Rightarrow> (Err e, a)
      | Ok _ \<Rightarrow> macos_apply_peer ip (macos_map_peer p) a)"

definition macos_establish :: "TunnelConfig \<Rightarrow> MacosWireGuardKitAdapter backend_op" where
  "macos_establish cfg a =
     (case macos_validate_config cfg of
        Err e \<Rightarrow> (Err e, a)
      | Ok _ \<Rightarrow> (case macos_apply_interface_config (wireguard_interface cfg) a of
          (Err e, a1) \<Rightarrow> (Err e, a1)
        | (Ok _, a1) \<Rightarrow> macos_apply_peer_config (peer_virtual_ip cfg) (wireguard_peer cfg) a1))"

definition macos_runtime_stats ::
  "MacosWireGuardKitAdapter \<Rightarrow> string \<Rightarrow> (WireGuardRuntimeStats option, string) result" where
  "macos_runtime_stats a ip =
     (case macos_interface_runtime a of
        None \<Rightarrow> Err ''macos adapter interface runtime unavailable''
      | Some _ \<Rightarrow>
          if ip |\<notin>| macos_planned_peer_ips a then Ok None
          else Ok (Some (macos_map_runtime_stats TunnelTransport.Relay [] None)))"

definition macos_ops :: "MacosWireGuardKitAdapter TunnelBackend" where
  "macos_ops = \<lparr>establish = macos_establish, close = macos_remove_peer\<rparr>"

definition macos_inv :: "MacosWireGuardKitAdapter \<Rightarrow> bool" where
  "macos_inv a \<longleftrightarrow> (\<exists>rt m. interface a = Healthy rt \<and> peers a = Healthy m)"

definition macos_table :: "MacosWireGuardKitAdapter \<Rightarrow> peer_table" where
  "macos_table a = key_table MacosWireGuardKitPeerPlan.public_key (protected (peers a))"

lemma macos_establish_step:
  assumes "macos_inv a" and "macos_establish cfg a = (r, a')"
  shows "macos_inv a' \<and> (case r of
      Err e \<Rightarrow> macos_table a' = macos_table a
    | Ok _ \<Rightarrow> macos_table a' = (macos_table a)(peer_virtual_ip cfg \<mapsto> WireGuardPeerConfig.public_key (wireguard_peer cfg)))"
  using assms
  by (auto simp: macos_establish_def macos_apply_interface_config_def macos_apply_interface_def
      macos_apply_peer_config_def macos_apply_peer_def macos_inv_def macos_table_def macos_map_peer_def
      split: result.splits)

interpretation macos: tunnel_backend macos_ops macos_table macos_inv
proof
  fix a opn r a'
  assume inv: "macos_inv a" and a: "apply_op macos_ops opn a = (r, a')"
  have "spec_step opn r (macos_table a) (macos_table a') \<and> macos_inv a'"
    using a
  proof (cases rule: apply_op_cases)
    case (establish cfg)
    with macos_establish_step [OF inv, of cfg r a'] show ?thesis
      by (cases r) (simp_all add: macos_ops_def)
  next
    case (close ip)
    with inv show ?thesis
      by (auto simp: macos_ops_def macos_remove_peer_def macos_inv_def macos_table_def)
  qed
  then show "spec_step opn r (macos_table a) (macos_table a')" and "macos_inv a'"
    by auto
qed

section \<open>Android\<close>

definition android_unsupported :: "(unit, string) result" where
  "android_unsupported = Err ''android wireguard tunnel backend not implemented''"

definition android_ops :: "unit TunnelBackend" where
  "android_ops = \<lparr>establish = (\<lambda>_ b. (android_unsupported, b)), close = (\<lambda>_ b. (android_unsupported, b))\<rparr>"

interpretation android: tunnel_backend android_ops "\<lambda>_. Map.empty" "\<lambda>_. True"
  by unfold_locales (auto elim!: apply_op_cases simp: android_ops_def android_unsupported_def)

section \<open>The choice of a driver\<close>

datatype TunnelDriverKind = Auto | InMemory | LinuxKernel | WindowsEmbeddable

record TunnelDriverSelection =
  requested :: TunnelDriverKind
  selected :: TunnelDriverKind
  execution_mode :: string
  execution_backend :: string
  platform :: string

definition driver_parse :: "string option \<Rightarrow> (TunnelDriverKind, string) result" where
  "driver_parse raw =
     (let v = (case raw of None \<Rightarrow> ''auto'' | Some r \<Rightarrow> if trim r = [] then ''auto'' else trim r)
      in if v = ''auto'' then Ok Auto
         else if v \<in> {''in-memory'', ''memory'', ''inmemory''} then Ok InMemory
         else if v \<in> {''linux-kernel'', ''linux'', ''wg-kernel''} then Ok LinuxKernel
         else if v \<in> {''windows-embeddable'', ''windows'', ''wintun''} then Ok WindowsEmbeddable
         else Err (''unsupported tunnel driver '' @ [CHR 0x27] @ v @ [CHR 0x27]
           @ ''; expected auto, in-memory, linux-kernel, or windows-embeddable''))"

definition detect_platform_tunnel_driver ::
  "'w ProcessEnv \<Rightarrow> string option \<Rightarrow> bool \<Rightarrow> (TunnelDriverSelection, string) result" where
  "detect_platform_tunnel_driver env raw dry =
     (case driver_parse raw of
        Err e \<Rightarrow> Err e
      | Ok req \<Rightarrow>
          let sel = (case req of
                Auto \<Rightarrow> (case target_os env of
                    Linux \<Rightarrow> LinuxKernel | Windows \<Rightarrow> WindowsEmbeddable | _ \<Rightarrow> InMemory)
              | other \<Rightarrow> other);
              windows_dry = dry_run env;
              linux_executor = (case env_var env ''SLAN_LINUX_EXECUTOR'' of None \<Rightarrow> ''shell'' | Some v \<Rightarrow> v)
          in Ok \<lparr>requested = req, selected = sel,
               execution_mode = (case sel of
                   LinuxKernel \<Rightarrow> if \<not> dry then ''system'' else ''dry-run''
                 | WindowsEmbeddable \<Rightarrow> if windows_dry then ''dry-run'' else ''system''
                 | InMemory \<Rightarrow> ''memory''
                 | Auto \<Rightarrow> ''unknown''),
               execution_backend = (case sel of
                   LinuxKernel \<Rightarrow> if linux_executor \<in> {''native'', ''netlink''} then ''native'' else ''shell''
                 | WindowsEmbeddable \<Rightarrow> if windows_dry then ''embeddable'' else ''netsh''
                 | InMemory \<Rightarrow> ''memory''
                 | Auto \<Rightarrow> ''unknown''),
               platform = (case target_os env of
                   Linux \<Rightarrow> ''linux'' | Macos \<Rightarrow> ''macos'' | Windows \<Rightarrow> ''windows'' | OtherOs \<Rightarrow> ''other'')\<rparr>)"

text \<open>The managers a selection can build, as values of one type in place of a trait object.\<close>

datatype 'w platform_manager =
    MemoryManager "InMemoryTunnelBackend SystemTunnelManager"
  | LinuxManager "'w LinuxKernelWireGuardAdapter SystemTunnelManager"
  | WindowsManager "WindowsEmbeddableServiceBackend SystemTunnelManager"

definition build_platform_tunnel_manager ::
  "'w ProcessEnv \<Rightarrow> TunnelDriverSelection \<Rightarrow> ('w platform_manager, string) result" where
  "build_platform_tunnel_manager env sel =
     (case selected sel of
        InMemory \<Rightarrow> Ok (MemoryManager InMemoryTunnelManager_default)
      | LinuxKernel \<Rightarrow> Ok (LinuxManager \<lparr>backend = adapter_default env\<rparr>)
      | WindowsEmbeddable \<Rightarrow> Ok (WindowsManager \<lparr>backend = windows_new\<rparr>)
      | Auto \<Rightarrow> Err ''auto tunnel driver selection is unresolved'')"

text \<open>A manager with the world it acts on is a backend of the contract, whichever it is.\<close>

definition platform_establish :: "'w ProcessEnv \<Rightarrow> TunnelConfig \<Rightarrow> ('w \<times> 'w platform_manager) backend_op" where
  "platform_establish env cfg s =
     (case s of
        (w, MemoryManager mgr) \<Rightarrow>
          (let (r, mgr') = manager_establish memory_ops cfg mgr in (r, w, MemoryManager mgr'))
      | (w, LinuxManager mgr) \<Rightarrow>
          (let (r, w', a) = linux_establish cfg (w, backend mgr) in (r, w', LinuxManager \<lparr>backend = a\<rparr>))
      | (w, WindowsManager mgr) \<Rightarrow>
          (let (r, w', b) = windows_establish env cfg (w, backend mgr) in (r, w', WindowsManager \<lparr>backend = b\<rparr>)))"

definition platform_close :: "string \<Rightarrow> ('w \<times> 'w platform_manager) backend_op" where
  "platform_close ip s =
     (case s of
        (w, MemoryManager mgr) \<Rightarrow>
          (let (r, mgr') = manager_close memory_ops ip mgr in (r, w, MemoryManager mgr'))
      | (w, LinuxManager mgr) \<Rightarrow>
          (let (r, w', a) = adapter_remove_peer ip (w, backend mgr) in (r, w', LinuxManager \<lparr>backend = a\<rparr>))
      | (w, WindowsManager mgr) \<Rightarrow>
          (let (r, w', b) = windows_remove_peer ip (w, backend mgr) in (r, w', WindowsManager \<lparr>backend = b\<rparr>)))"

definition platform_ops :: "'w ProcessEnv \<Rightarrow> ('w \<times> 'w platform_manager) TunnelBackend" where
  "platform_ops env = \<lparr>establish = platform_establish env, close = platform_close\<rparr>"

definition platform_inv :: "('w \<times> 'w platform_manager) \<Rightarrow> bool" where
  "platform_inv s = (case s of
      (w, MemoryManager mgr) \<Rightarrow> (\<exists>m. backend mgr = Healthy m)
    | (w, LinuxManager mgr) \<Rightarrow> linux_inv (w, backend mgr)
    | (w, WindowsManager mgr) \<Rightarrow> windows_inv (w, backend mgr))"

definition platform_table :: "('w \<times> 'w platform_manager) \<Rightarrow> peer_table" where
  "platform_table s = (case s of
      (w, MemoryManager mgr) \<Rightarrow> key_table WireGuardPeerConfig.public_key (protected (backend mgr))
    | (w, LinuxManager mgr) \<Rightarrow> linux_table (w, backend mgr)
    | (w, WindowsManager mgr) \<Rightarrow> windows_table (w, backend mgr))"

lemma platform_apply_op:
  "apply_op (platform_ops env) opn (w, MemoryManager mgr) =
     (let (r, b) = apply_op memory_ops opn (backend mgr) in (r, w, MemoryManager \<lparr>backend = b\<rparr>))"
  "apply_op (platform_ops env) opn (w, LinuxManager lmgr) =
     (let (r, w', a) = apply_op linux_ops opn (w, backend lmgr) in (r, w', LinuxManager \<lparr>backend = a\<rparr>))"
  "apply_op (platform_ops env) opn (w, WindowsManager wmgr) =
     (let (r, w', b) = apply_op (windows_ops env) opn (w, backend wmgr) in (r, w', WindowsManager \<lparr>backend = b\<rparr>))"
  by (cases opn; simp add: platform_ops_def platform_establish_def platform_close_def manager_establish_def
      manager_close_def memory_ops_def linux_ops_def windows_ops_def split: prod.splits)+

lemma platform_step:
  assumes "platform_inv s" and "apply_op (platform_ops env) opn s = (r, s')"
  shows "spec_step opn r (platform_table s) (platform_table s') \<and> platform_inv s'"
proof -
  obtain w mgr where s: "s = (w, mgr)" by fastforce
  show ?thesis
  proof (cases mgr)
    case (MemoryManager b)
    with assms s show ?thesis
      using memory.op_spec [of "backend b" opn r] memory.op_inv [of "backend b" opn r]
      by (fastforce simp: platform_inv_def platform_table_def platform_apply_op split: prod.splits)
  next
    case (LinuxManager b)
    with assms s show ?thesis
      using linux.op_spec [of "(w, backend b)" opn r] linux.op_inv [of "(w, backend b)" opn r]
      by (fastforce simp: platform_inv_def platform_table_def platform_apply_op split: prod.splits)
  next
    case (WindowsManager b)
    with assms s show ?thesis
      using windows.op_spec [of "(w, backend b)" env opn r] windows.op_inv [of "(w, backend b)" env opn r]
      by (fastforce simp: platform_inv_def platform_table_def platform_apply_op split: prod.splits)
  qed
qed

interpretation platform: tunnel_backend "platform_ops env" platform_table platform_inv for env
  using platform_step by unfold_locales blast+

lemma adapter_default_new:
  "linux_inv (w, adapter_default env) \<and> linux_table (w, adapter_default env) = Map.empty"
  by (simp add: adapter_default_def adapter_new_with_executor_def linux_inv_def linux_table_def
      key_table_def Let_def)

lemma built_manager_new:
  assumes "build_platform_tunnel_manager env sel = Ok mgr"
  shows "platform_inv (w, mgr) \<and> platform_table (w, mgr) = Map.empty"
  using assms adapter_default_new [of w env]
  by (auto simp: build_platform_tunnel_manager_def InMemoryTunnelManager_default_def platform_inv_def
      platform_table_def windows_new_def windows_inv_def windows_table_def key_table_def
      split: TunnelDriverKind.splits)

definition demo_process_env :: "unit ProcessEnv" where
  "demo_process_env =
     \<lparr>run_process = (\<lambda>_ _ _ w. (Exited True ''exit status: 0'' [] [], w)), env_var = (\<lambda>_. None),
      target_os = Linux, now_ms = 1000\<rparr>"

text \<open>
  C21: a driver that is accepted always resolves to a concrete one, so its manager can be built; the
  manager starts with no peers, and from then on every sequence of calls on it refines the table of
  peers, whatever the platform and however its commands go.
\<close>

theorem platform_manager_refines:
  assumes "detect_platform_tunnel_driver env raw dry = Ok sel"
  shows "\<exists>mgr. build_platform_tunnel_manager env sel = Ok mgr \<and> selected sel \<noteq> Auto \<and>
    platform_table (w, mgr) = Map.empty \<and>
    (\<forall>calls rs s'. apply_ops (platform_ops env) calls (w, mgr) = (rs, s') \<longrightarrow>
       length rs = length calls \<and> spec_steps (zip calls rs) Map.empty (platform_table s'))"
proof -
  have "selected sel \<noteq> Auto"
    using assms by (auto simp: detect_platform_tunnel_driver_def Let_def split: result.splits
        TunnelDriverKind.splits TargetOs.splits)
  then obtain mgr where mgr: "build_platform_tunnel_manager env sel = Ok mgr"
    by (cases "selected sel") (auto simp: build_platform_tunnel_manager_def)
  have new: "platform_inv (w, mgr)" "platform_table (w, mgr) = Map.empty"
    using built_manager_new [OF mgr, of w] by simp_all
  show ?thesis
    using mgr new \<open>selected sel \<noteq> Auto\<close> platform.ops_refine [OF new(1)] by (auto simp: new(2))
qed

theorem platform_manager_refines_witness:
  "\<exists>sel mgr. detect_platform_tunnel_driver demo_process_env (Some ''linux'') True = Ok sel \<and>
     build_platform_tunnel_manager demo_process_env sel = Ok mgr \<and> platform_table ((), mgr) = Map.empty"
proof -
  obtain sel where "detect_platform_tunnel_driver demo_process_env (Some ''linux'') True = Ok sel"
    by (cases "detect_platform_tunnel_driver demo_process_env (Some ''linux'') True")
      (auto simp: detect_platform_tunnel_driver_def driver_parse_def trim_id visible_def Let_def)
  with platform_manager_refines [OF this, of "()"] show ?thesis
    by blast
qed

end
