(* ===== verification/Tunnel_Keys.thy ===== *)
theory Tunnel_Keys
  imports Tunnel_Platform
begin

text \<open>
  Where the keys of a tunnel go.  Other keys are put in the place of the private key of the interface and of the
  preshared key of the peer, in a configuration and in what a backend has stored; a backend keeps its keys from an
  observer when its calls commute with that exchange.  The observer sees the results of the calls and every command
  line, but not the standard input of a program.
\<close>

section \<open>Other keys\<close>

definition rekey_peer :: "(string \<Rightarrow> string) \<Rightarrow> WireGuardPeerConfig \<Rightarrow> WireGuardPeerConfig" where
  "rekey_peer k p = p\<lparr>WireGuardPeerConfig.preshared_key := map_option k (WireGuardPeerConfig.preshared_key p)\<rparr>"

definition rekey_interface :: "(string \<Rightarrow> string) \<Rightarrow> WireGuardInterfaceConfig \<Rightarrow> WireGuardInterfaceConfig" where
  "rekey_interface k i = i\<lparr>WireGuardInterfaceConfig.key_pair := (WireGuardInterfaceConfig.key_pair i)
     \<lparr>WireGuardKeyPair.private_key := k (WireGuardKeyPair.private_key (WireGuardInterfaceConfig.key_pair i))\<rparr>,
     WireGuardInterfaceConfig.peers := map (rekey_peer k) (WireGuardInterfaceConfig.peers i)\<rparr>"

definition rekey :: "(string \<Rightarrow> string) \<Rightarrow> TunnelConfig \<Rightarrow> TunnelConfig" where
  "rekey k cfg = cfg\<lparr>wireguard_interface := rekey_interface k (wireguard_interface cfg),
     wireguard_peer := rekey_peer k (wireguard_peer cfg)\<rparr>"

fun rekey_op :: "(string \<Rightarrow> string) \<Rightarrow> tunnel_op \<Rightarrow> tunnel_op" where
  "rekey_op k (Establish cfg) = Establish (rekey k cfg)"
| "rekey_op k (Close ip) = Close ip"

definition keeps_blank :: "(string \<Rightarrow> string) \<Rightarrow> bool" where
  "keeps_blank k \<longleftrightarrow> (\<forall>key. blank (k key) = blank key)"

lemma rekey_sel [simp]:
  "peer_virtual_ip (rekey k cfg) = peer_virtual_ip cfg"
  "TunnelConfig.local_virtual_ip (rekey k cfg) = TunnelConfig.local_virtual_ip cfg"
  "wireguard_interface (rekey k cfg) = rekey_interface k (wireguard_interface cfg)"
  "wireguard_peer (rekey k cfg) = rekey_peer k (wireguard_peer cfg)"
  "WireGuardInterfaceConfig.addresses (rekey_interface k i) = WireGuardInterfaceConfig.addresses i"
  "WireGuardInterfaceConfig.interface_name (rekey_interface k i) = WireGuardInterfaceConfig.interface_name i"
  "WireGuardKeyPair.public_key (WireGuardInterfaceConfig.key_pair (rekey_interface k i)) =
     WireGuardKeyPair.public_key (WireGuardInterfaceConfig.key_pair i)"
  "WireGuardKeyPair.private_key (WireGuardInterfaceConfig.key_pair (rekey_interface k i)) =
     k (WireGuardKeyPair.private_key (WireGuardInterfaceConfig.key_pair i))"
  "WireGuardPeerConfig.public_key (rekey_peer k p) = WireGuardPeerConfig.public_key p"
  "WireGuardPeerConfig.allowed_ips (rekey_peer k p) = WireGuardPeerConfig.allowed_ips p"
  by (simp_all add: rekey_def rekey_interface_def rekey_peer_def)

section \<open>Backends that keep their keys\<close>

locale key_blind =
  fixes ops :: "'s TunnelBackend"
    and rekeyed :: "(string \<Rightarrow> string) \<Rightarrow> 's \<Rightarrow> 's"
    and blind :: "(string \<Rightarrow> string) \<Rightarrow> 's \<Rightarrow> bool"
  assumes step: "keeps_blank k \<Longrightarrow> blind k s \<Longrightarrow> apply_op ops opn s = (r, s') \<Longrightarrow>
    apply_op ops (rekey_op k opn) (rekeyed k s) = (r, rekeyed k s') \<and> blind k s'"
begin

lemma steps:
  assumes "keeps_blank k" and "blind k s" and "apply_ops ops calls s = (rs, s')"
  shows "apply_ops ops (map (rekey_op k) calls) (rekeyed k s) = (rs, rekeyed k s')"
  using assms(2,3)
proof (induction calls arbitrary: s rs)
  case (Cons opn calls)
  obtain r s1 where 1: "apply_op ops opn s = (r, s1)"
    by (rule prod.exhaust)
  from step [OF assms(1) Cons.prems(1) 1] Cons 1 show ?case
    by (auto split: prod.splits)
qed simp

end

lemma lock_map_mutex: "lock (map_mutex f m) = map_option f (lock m)"
  by (cases m) simp_all

lemma map_mutex_Healthy: "lock m = Some x \<Longrightarrow> m = Healthy x"
  by (cases m) simp_all

section \<open>In memory\<close>

definition memory_rekeyed :: "(string \<Rightarrow> string) \<Rightarrow> InMemoryTunnelBackend \<Rightarrow> InMemoryTunnelBackend" where
  "memory_rekeyed k = map_mutex (fmmap (rekey_peer k))"

interpretation memory_keys: key_blind memory_ops memory_rekeyed "\<lambda>_ _. True"
proof
  fix k b opn r b'
  assume "apply_op memory_ops opn b = (r, b')"
  then show "apply_op memory_ops (rekey_op k opn) (memory_rekeyed k b) = (r, memory_rekeyed k b') \<and> True"
    by (cases rule: apply_op_cases; cases b)
      (auto simp: memory_ops_def memory_establish_def memory_remove_peer_def memory_rekeyed_def fmmap_fmupd)
qed

section \<open>Linux\<close>

definition rekey_command :: "(string \<Rightarrow> string) \<Rightarrow> LinuxCommandSpec \<Rightarrow> LinuxCommandSpec" where
  "rekey_command k c = c\<lparr>stdin := map_option k (stdin c)\<rparr>"

definition rekey_interface_plan :: "(string \<Rightarrow> string) \<Rightarrow> LinuxKernelInterfacePlan \<Rightarrow> LinuxKernelInterfacePlan" where
  "rekey_interface_plan k i = i\<lparr>LinuxKernelInterfacePlan.private_key := k (LinuxKernelInterfacePlan.private_key i)\<rparr>"

definition rekey_peer_plan :: "(string \<Rightarrow> string) \<Rightarrow> LinuxKernelPeerPlan \<Rightarrow> LinuxKernelPeerPlan" where
  "rekey_peer_plan k p = p\<lparr>LinuxKernelPeerPlan.preshared_key := map_option k (LinuxKernelPeerPlan.preshared_key p)\<rparr>"

definition rekey_peer_runtime :: "(string \<Rightarrow> string) \<Rightarrow> LinuxKernelPeerRuntime \<Rightarrow> LinuxKernelPeerRuntime" where
  "rekey_peer_runtime k rt = rt\<lparr>LinuxKernelPeerRuntime.peer := rekey_peer_plan k (LinuxKernelPeerRuntime.peer rt)\<rparr>"

definition linux_rekeyed :: "(string \<Rightarrow> string) \<Rightarrow> 'w linux_state \<Rightarrow> 'w linux_state" where
  "linux_rekeyed k = (\<lambda>(w, a). (w, a
     \<lparr>LinuxKernelWireGuardAdapter.peers := map_mutex (fmmap (rekey_peer_runtime k)) (LinuxKernelWireGuardAdapter.peers a),
      recent_commands := map_mutex (map (rekey_command k)) (recent_commands a)\<rparr>))"

text \<open>An executor that does not tell keys in the input apart.\<close>

definition linux_blind :: "(string \<Rightarrow> string) \<Rightarrow> 'w linux_state \<Rightarrow> bool" where
  "linux_blind k s \<longleftrightarrow> (\<forall>c w. executor (snd s) (rekey_command k c) w = executor (snd s) c w)"

lemma rekeyed_commands:
  "apply_interface_commands (rekey_interface_plan k i) = map (rekey_command k) (apply_interface_commands i)"
  "apply_peer_commands dev (rekey_peer_plan k p) = map (rekey_command k) (apply_peer_commands dev p)"
  "remove_peer_commands dev (rekey_peer_plan k p) = map (rekey_command k) (remove_peer_commands dev p)"
  "rekey_command k (bring_up_command dev) = bring_up_command dev"
  by (simp_all add: apply_interface_commands_def apply_peer_commands_def remove_peer_commands_def bring_up_command_def
      interface_name_from_plan_def rekey_interface_plan_def rekey_peer_plan_def rekey_command_def command_new_def
      with_stdin_def ignore_stderr_def Let_def o_def split: option.split)

lemma run_commands_blind:
  assumes "\<And>c w. ex (rekey_command k c) w = ex c w"
  shows "run_commands ex (map (rekey_command k) cs) w = run_commands ex cs w"
  by (induction cs arbitrary: w) (simp_all add: assms split: prod.split result.split)

lemma run_all_rekeyed:
  assumes "linux_blind k s"
  shows "run_all (map (rekey_command k) cs) (linux_rekeyed k s) = apsnd (linux_rekeyed k) (run_all cs s)"
proof -
  obtain w a where s: "s = (w, a)"
    by (rule prod.exhaust)
  have "run_commands (executor a) (map (rekey_command k) cs) w = run_commands (executor a) cs w"
    using assms by (intro run_commands_blind) (simp add: linux_blind_def s)
  then show ?thesis
    by (cases "recent_commands a") (simp_all add: s run_all_def linux_rekeyed_def split: prod.split)
qed

lemma linux_rekeyed_sel [simp]:
  "interface_runtime (snd (linux_rekeyed k s)) = interface_runtime (snd s)"
  "LinuxKernelWireGuardAdapter.interface (snd (linux_rekeyed k s)) = LinuxKernelWireGuardAdapter.interface (snd s)"
  "linux_blind k (linux_rekeyed k s) = linux_blind k s"
  by (simp_all add: linux_rekeyed_def interface_runtime_def linux_blind_def split: prod.split)

lemma run_all_executor: "run_all cs s = (r, s') \<Longrightarrow> executor (snd s') = executor (snd s)"
  by (auto simp: run_all_def Let_def split: prod.splits option.splits)

lemma run_all_blind: "run_all cs s = (r, s') \<Longrightarrow> linux_blind k s \<Longrightarrow> linux_blind k s'"
  using run_all_executor by (fastforce simp: linux_blind_def)

lemma apply_interface_rekeyed:
  assumes "linux_blind k s"
  shows "apply_interface (rekey_interface_plan k i) rt (linux_rekeyed k s) = apsnd (linux_rekeyed k) (apply_interface i rt s)"
  unfolding apply_interface_def rekeyed_commands run_all_rekeyed [OF assms]
  by (auto simp: linux_rekeyed_def split: prod.split result.split option.split)

lemma apply_peer_rekeyed:
  assumes "linux_blind k s"
  shows "apply_peer ip (rekey_peer_plan k p) (linux_rekeyed k s) = apsnd (linux_rekeyed k) (apply_peer ip p s)"
  unfolding apply_peer_def rekeyed_commands run_all_rekeyed [OF assms] linux_rekeyed_sel
  by (auto simp: linux_rekeyed_def lock_map_mutex fmmap_fmupd rekey_peer_runtime_def split: prod.split result.split option.split)

lemma bring_up_rekeyed:
  assumes "linux_blind k s"
  shows "adapter_bring_up (linux_rekeyed k s) = apsnd (linux_rekeyed k) (adapter_bring_up s)"
  by (cases s) (auto simp: adapter_bring_up_def linux_rekeyed_def lock_map_mutex rekeyed_commands Let_def
      split: prod.split result.split option.split)

lemma apply_interface_blind: "apply_interface i rt s = (r, s') \<Longrightarrow> linux_blind k s \<Longrightarrow> linux_blind k s'"
  by (auto simp: apply_interface_def linux_blind_def split: prod.splits result.splits option.splits dest!: run_all_executor)

lemma apply_peer_blind: "apply_peer ip p s = (r, s') \<Longrightarrow> linux_blind k s \<Longrightarrow> linux_blind k s'"
  by (auto simp: apply_peer_def linux_blind_def split: prod.splits result.splits option.splits dest!: run_all_executor)

lemma bring_up_blind: "adapter_bring_up s = (r, s') \<Longrightarrow> linux_blind k s \<Longrightarrow> linux_blind k s'"
  by (auto simp: adapter_bring_up_def linux_blind_def Let_def split: prod.splits result.splits option.splits)

lemma linux_plans_rekeyed:
  "linux_map_interface (rekey_interface k i) = rekey_interface_plan k (linux_map_interface i)"
  "linux_map_peer (rekey_peer k p) = rekey_peer_plan k (linux_map_peer p)"
  "linux_initial_runtime (rekey_interface_plan k j) = linux_initial_runtime j"
  by (simp_all add: linux_map_interface_def rekey_interface_def rekey_interface_plan_def linux_map_peer_def rekey_peer_def
      rekey_peer_plan_def linux_initial_runtime_def)

lemma linux_validation_rekeyed:
  assumes "keeps_blank k"
  shows "linux_validate_interface (rekey_interface k i) = linux_validate_interface i"
    and "linux_validate_peer ip (rekey_peer k p) = linux_validate_peer ip p"
    and "linux_validate_config (rekey k cfg) = linux_validate_config cfg"
  using assms by (simp_all add: linux_validate_interface_def linux_validate_peer_def linux_validate_config_def keeps_blank_def)

lemma apply_interface_config_rekeyed:
  assumes "keeps_blank k" and "linux_blind k s"
  shows "linux_apply_interface_config (rekey_interface k i) (linux_rekeyed k s) =
    apsnd (linux_rekeyed k) (linux_apply_interface_config i s)"
  using assms by (simp add: linux_apply_interface_config_def linux_validation_rekeyed linux_plans_rekeyed
      apply_interface_rekeyed Let_def split: result.split)

lemma apply_peer_config_rekeyed:
  assumes "keeps_blank k" and "linux_blind k s"
  shows "linux_apply_peer_config ip (rekey_peer k p) (linux_rekeyed k s) = apsnd (linux_rekeyed k) (linux_apply_peer_config ip p s)"
  using assms by (simp add: linux_apply_peer_config_def linux_validation_rekeyed linux_plans_rekeyed apply_peer_rekeyed
      split: result.split)

lemma config_steps_blind:
  assumes "linux_blind k s"
  shows "linux_apply_interface_config i s = (r, s') \<Longrightarrow> linux_blind k s'"
    and "linux_apply_peer_config ip p s = (r, s') \<Longrightarrow> linux_blind k s'"
  using assms
  by (auto simp: linux_apply_interface_config_def linux_apply_peer_config_def Let_def split: result.splits
      intro: apply_interface_blind apply_peer_blind)

lemma linux_establish_rekeyed:
  assumes k: "keeps_blank k" and s: "linux_blind k s" and e: "linux_establish cfg s = (r, s')"
  shows "linux_establish (rekey k cfg) (linux_rekeyed k s) = (r, linux_rekeyed k s') \<and> linux_blind k s'"
proof (cases "linux_validate_config cfg")
  case (Err x)
  with e have "r = Err x" "s' = s"
    by (simp_all add: linux_establish_def)
  with Err s show ?thesis
    by (simp add: linux_establish_def linux_validation_rekeyed [OF k])
next
  case v: (Ok u)
  obtain r1 s1 where 1: "linux_apply_interface_config (wireguard_interface cfg) s = (r1, s1)"
    by (rule prod.exhaust)
  obtain r2 s2 where 2: "linux_apply_peer_config (peer_virtual_ip cfg) (wireguard_peer cfg) s1 = (r2, s2)"
    by (rule prod.exhaust)
  have b: "linux_blind k s1" "linux_blind k s2"
    using config_steps_blind [OF s] config_steps_blind 1 2 by blast+
  note rekeyed = apply_interface_config_rekeyed [OF k s, of "wireguard_interface cfg"]
    apply_peer_config_rekeyed [OF k b(1), of "peer_virtual_ip cfg" "wireguard_peer cfg"] bring_up_rekeyed [OF b(2)]
  show ?thesis
    using v e 1 2 b rekeyed
    by (cases r1; cases r2)
      (auto simp: linux_establish_def linux_validation_rekeyed [OF k] intro: bring_up_blind)
qed

lemma linux_remove_rekeyed:
  assumes s: "linux_blind k s" and e: "adapter_remove_peer ip s = (r, s')"
  shows "adapter_remove_peer ip (linux_rekeyed k s) = (r, linux_rekeyed k s') \<and> linux_blind k s'"
proof -
  obtain w a where a: "s = (w, a)"
    by (rule prod.exhaust)
  let ?ps = "LinuxKernelWireGuardAdapter.peers a"
  obtain ra where ra: "linux_rekeyed k (w, a) = (w, ra)" "interface_runtime ra = interface_runtime a"
      "LinuxKernelWireGuardAdapter.peers ra = map_mutex (fmmap (rekey_peer_runtime k)) ?ps"
      "linux_rekeyed k (w, a\<lparr>LinuxKernelWireGuardAdapter.peers := Healthy m\<rparr>) =
        (w, ra\<lparr>LinuxKernelWireGuardAdapter.peers := Healthy (fmmap (rekey_peer_runtime k) m)\<rparr>)" for m
    by (simp add: linux_rekeyed_def interface_runtime_def)
  consider "interface_runtime a = None" | "lock ?ps = None" | m where "lock ?ps = Some m" "fmlookup m ip = None"
    | rt m q where "interface_runtime a = Some rt" "lock ?ps = Some m" "fmlookup m ip = Some q"
    by fastforce
  then show ?thesis
  proof cases
    case 4
    let ?s1 = "(w, a\<lparr>LinuxKernelWireGuardAdapter.peers := Healthy (fmdrop ip m)\<rparr>)"
    let ?cs = "remove_peer_commands (interface_name_from_runtime rt) (LinuxKernelPeerRuntime.peer q)"
    have blind: "linux_blind k ?s1"
      using s by (simp add: linux_blind_def a)
    have run: "run_all ?cs ?s1 = (r, s')"
      using e 4 by (simp add: a adapter_remove_peer_def)
    have "adapter_remove_peer ip (linux_rekeyed k s) = run_all (map (rekey_command k) ?cs) (linux_rekeyed k ?s1)"
      using 4 by (simp add: a adapter_remove_peer_def ra lock_map_mutex rekey_peer_runtime_def rekeyed_commands)
    then show ?thesis
      using run run_all_blind [OF run blind] by (simp add: run_all_rekeyed [OF blind])
  qed (use e s in \<open>auto simp: a adapter_remove_peer_def ra lock_map_mutex split: option.splits\<close>)
qed

interpretation linux_keys: key_blind linux_ops linux_rekeyed linux_blind
proof
  fix k opn r and s s' :: "'a linux_state"
  assume blind: "keeps_blank k" "linux_blind k s" and "apply_op linux_ops opn s = (r, s')"
  from this(3) show "apply_op linux_ops (rekey_op k opn) (linux_rekeyed k s) = (r, linux_rekeyed k s') \<and> linux_blind k s'"
  proof (cases rule: apply_op_cases)
    case (establish cfg)
    then show ?thesis
      using linux_establish_rekeyed [OF blind, of cfg r s'] by (simp add: linux_ops_def)
  next
    case (close ip)
    then show ?thesis
      using linux_remove_rekeyed [OF blind(2), of ip r s'] by (simp add: linux_ops_def)
  qed
qed

section \<open>Windows\<close>

definition rekey_windows_peer :: "(string \<Rightarrow> string) \<Rightarrow> WindowsPeerRuntime \<Rightarrow> WindowsPeerRuntime" where
  "rekey_windows_peer k rt = rt\<lparr>WindowsPeerRuntime.peer := rekey_peer k (WindowsPeerRuntime.peer rt)\<rparr>"

definition windows_rekeyed :: "(string \<Rightarrow> string) \<Rightarrow> 'w windows_state \<Rightarrow> 'w windows_state" where
  "windows_rekeyed k = (\<lambda>(w, b). (w, b\<lparr>WindowsEmbeddableServiceBackend.peers :=
     map_mutex (fmmap (rekey_windows_peer k)) (WindowsEmbeddableServiceBackend.peers b)\<rparr>))"

lemma windows_validation_rekeyed:
  assumes "keeps_blank k"
  shows "windows_validate_interface (rekey_interface k i) = windows_validate_interface i"
    and "windows_validate_peer ip (rekey_peer k p) = windows_validate_peer ip p"
    and "windows_validate_config (rekey k cfg) = windows_validate_config cfg"
  using assms by (simp_all add: windows_validate_interface_def windows_validate_peer_def windows_validate_config_def keeps_blank_def)

lemma windows_config_rekeyed:
  assumes "keeps_blank k"
  shows "windows_apply_interface_config env (rekey_interface k i) (windows_rekeyed k s) =
      apsnd (windows_rekeyed k) (windows_apply_interface_config env i s)"
    and "windows_apply_peer_config ip (rekey_peer k p) (windows_rekeyed k s) =
      apsnd (windows_rekeyed k) (windows_apply_peer_config ip p s)"
  by (cases s; auto simp: windows_apply_interface_config_def windows_apply_peer_config_def windows_validation_rekeyed [OF assms]
      windows_rekeyed_def rekey_windows_peer_def lock_map_mutex fmmap_fmupd split: result.split list.split option.split prod.split)+

lemma rekey_windows_peer_handshake:
  "rekey_windows_peer k (rt\<lparr>latest_handshake_at_ms := t\<rparr>) = (rekey_windows_peer k rt)\<lparr>latest_handshake_at_ms := t\<rparr>"
  by (simp add: rekey_windows_peer_def)

lemma windows_bring_up_rekeyed: "windows_bring_up env (windows_rekeyed k s) = apsnd (windows_rekeyed k) (windows_bring_up env s)"
  by (cases s) (auto simp: windows_bring_up_def windows_rekeyed_def lock_map_mutex fmap.map_comp o_def rekey_windows_peer_handshake Let_def
      split: result.split option.split prod.split)

lemma windows_establish_rekeyed:
  assumes k: "keeps_blank k"
  shows "windows_establish env (rekey k cfg) (windows_rekeyed k s) = apsnd (windows_rekeyed k) (windows_establish env cfg s)"
proof -
  obtain r1 s1 where 1: "windows_apply_interface_config env (wireguard_interface cfg) s = (r1, s1)"
    by (rule prod.exhaust)
  obtain r2 s2 where 2: "windows_apply_peer_config (peer_virtual_ip cfg) (wireguard_peer cfg) s1 = (r2, s2)"
    by (rule prod.exhaust)
  show ?thesis
    by (cases "windows_validate_config cfg"; cases r1; cases r2)
      (simp_all add: windows_establish_def windows_validation_rekeyed [OF k] windows_config_rekeyed [OF k] 1 2
        windows_bring_up_rekeyed)
qed

lemma windows_remove_rekeyed: "windows_remove_peer ip (windows_rekeyed k s) = apsnd (windows_rekeyed k) (windows_remove_peer ip s)"
  by (cases s) (auto simp: windows_remove_peer_def windows_rekeyed_def lock_map_mutex split: option.split)

interpretation windows_keys: key_blind "windows_ops env" windows_rekeyed "\<lambda>_ _. True" for env
proof
  fix k opn r and s s' :: "'a windows_state"
  assume k: "keeps_blank k" and a: "apply_op (windows_ops env) opn s = (r, s')"
  from a show "apply_op (windows_ops env) (rekey_op k opn) (windows_rekeyed k s) = (r, windows_rekeyed k s') \<and> True"
    by (cases rule: apply_op_cases) (simp_all add: windows_ops_def windows_establish_rekeyed [OF k] windows_remove_rekeyed)
qed

section \<open>The manager of the platform\<close>

definition platform_rekeyed :: "(string \<Rightarrow> string) \<Rightarrow> 'w \<times> 'w platform_manager \<Rightarrow> 'w \<times> 'w platform_manager" where
  "platform_rekeyed k s = (case s of
      (w, MemoryManager mgr) \<Rightarrow> (w, MemoryManager \<lparr>backend = memory_rekeyed k (backend mgr)\<rparr>)
    | (w, LinuxManager mgr) \<Rightarrow> apsnd (\<lambda>a. LinuxManager \<lparr>backend = a\<rparr>) (linux_rekeyed k (w, backend mgr))
    | (w, WindowsManager mgr) \<Rightarrow> apsnd (\<lambda>b. WindowsManager \<lparr>backend = b\<rparr>) (windows_rekeyed k (w, backend mgr)))"

definition platform_blind :: "(string \<Rightarrow> string) \<Rightarrow> 'w \<times> 'w platform_manager \<Rightarrow> bool" where
  "platform_blind k s = (case s of (w, LinuxManager mgr) \<Rightarrow> linux_blind k (w, backend mgr) | _ \<Rightarrow> True)"

lemma rekeyed_world:
  "linux_rekeyed k (w, a) = (w, snd (linux_rekeyed k (w, a)))" "windows_rekeyed k (w, b) = (w, snd (windows_rekeyed k (w, b)))"
  by (simp_all add: linux_rekeyed_def windows_rekeyed_def)

interpretation platform_keys: key_blind "platform_ops env" platform_rekeyed platform_blind for env
proof
  fix k opn r and s s' :: "'a \<times> 'a platform_manager"
  assume k: "keeps_blank k" and blind: "platform_blind k s" and a: "apply_op (platform_ops env) opn s = (r, s')"
  obtain w mgr where s: "s = (w, mgr)"
    by (rule prod.exhaust)
  show "apply_op (platform_ops env) (rekey_op k opn) (platform_rekeyed k s) = (r, platform_rekeyed k s') \<and> platform_blind k s'"
  proof (cases mgr)
    case (MemoryManager b)
    obtain b' where b': "apply_op memory_ops opn (backend b) = (r, b')" "s' = (w, MemoryManager \<lparr>backend = b'\<rparr>)"
      using a by (auto simp: s MemoryManager platform_apply_op split: prod.splits)
    with memory_keys.step [OF k TrueI b'(1)] show ?thesis
      by (simp add: s MemoryManager platform_apply_op platform_rekeyed_def platform_blind_def)
  next
    case (LinuxManager b)
    obtain w' b' where b': "apply_op linux_ops opn (w, backend b) = (r, w', b')" "s' = (w', LinuxManager \<lparr>backend = b'\<rparr>)"
      using a by (auto simp: s LinuxManager platform_apply_op split: prod.splits)
    have "linux_blind k (w, backend b)"
      using blind by (simp add: s LinuxManager platform_blind_def)
    with linux_keys.step [OF k _ b'(1)] b'(2) show ?thesis
      by (cases "linux_rekeyed k (w, backend b)"; cases "linux_rekeyed k (w', b')")
        (auto simp: s LinuxManager platform_apply_op platform_rekeyed_def platform_blind_def dest: rekeyed_world(1) [THEN trans, rotated])
  next
    case (WindowsManager b)
    obtain w' b' where b': "apply_op (windows_ops env) opn (w, backend b) = (r, w', b')" "s' = (w', WindowsManager \<lparr>backend = b'\<rparr>)"
      using a by (auto simp: s WindowsManager platform_apply_op split: prod.splits)
    with windows_keys.step [OF k TrueI b'(1)] show ?thesis
      by (cases "windows_rekeyed k (w, backend b)"; cases "windows_rekeyed k (w', b')")
        (auto simp: s WindowsManager platform_apply_op platform_rekeyed_def platform_blind_def)
  qed
qed

text \<open>Programs that do not tell keys in their input apart; what else they do, with a command line for instance, is free.\<close>

definition processes_blind :: "(string \<Rightarrow> string) \<Rightarrow> 'w ProcessEnv \<Rightarrow> bool" where
  "processes_blind k env \<longleftrightarrow>
     (\<forall>prog argv input w. run_process env prog argv (map_option k input) w = run_process env prog argv input w)"

lemma adapter_default_blind:
  assumes "processes_blind k env"
  shows "linux_blind k (w, adapter_default env)" and "linux_rekeyed k (w, adapter_default env) = (w, adapter_default env)"
proof -
  have "system_run env (rekey_command k c) x = system_run env c x" for c x
    using assms by (simp add: system_run_def rekey_command_def processes_blind_def Let_def split: prod.split ProcessOutcome.split)
  moreover have "native_run (rekey_command k c) x = native_run c x" "noop_run (rekey_command k c) x = noop_run c x" for c and x :: 'a
    by (simp_all add: native_run_def noop_run_def rekey_command_def classify_def)
  ultimately show "linux_blind k (w, adapter_default env)"
    by (simp add: linux_blind_def adapter_default_def adapter_new_with_executor_def Let_def)
  show "linux_rekeyed k (w, adapter_default env) = (w, adapter_default env)"
    by (simp add: linux_rekeyed_def adapter_default_def adapter_new_with_executor_def Let_def)
qed

lemma built_manager_blind:
  assumes "processes_blind k env" and "build_platform_tunnel_manager env sel = Ok mgr"
  shows "platform_blind k (w, mgr) \<and> platform_rekeyed k (w, mgr) = (w, mgr)"
  using assms(2) adapter_default_blind [OF assms(1), of w]
  by (auto simp: build_platform_tunnel_manager_def platform_blind_def platform_rekeyed_def InMemoryTunnelManager_default_def
      memory_rekeyed_def windows_rekeyed_def windows_new_def split: TunnelDriverKind.splits)

lemma platform_rekeyed_world: "fst (platform_rekeyed k s) = fst s"
  by (auto simp: platform_rekeyed_def linux_rekeyed_def windows_rekeyed_def split: prod.split platform_manager.split)

text \<open>
  C23: private keys of the interface and preshared keys of peers go to the standard input of programs and nowhere else.
  Whatever tunnels are established and closed through the manager of a platform (in memory, Linux or Windows), with
  other keys every call gives the same result and leaves the same world, so the same programs ran with the same
  arguments; only programs that tell the keys apart in their standard input are excluded.  The other keys may be any
  that are blank exactly where the keys are.
\<close>

theorem keys_only_in_input:
  assumes "keeps_blank k" and "processes_blind k env" and "build_platform_tunnel_manager env sel = Ok mgr"
    and "apply_ops (platform_ops env) calls (w, mgr) = (rs, w', mgr')"
  shows "\<exists>mgr''. apply_ops (platform_ops env) (map (rekey_op k) calls) (w, mgr) = (rs, w', mgr'')"
proof -
  have new: "platform_blind k (w, mgr)" "platform_rekeyed k (w, mgr) = (w, mgr)"
    using built_manager_blind [OF assms(2,3), of w] by simp_all
  from platform_keys.steps [OF assms(1) new(1) assms(4)]
  have "apply_ops (platform_ops env) (map (rekey_op k) calls) (w, mgr) = (rs, platform_rekeyed k (w', mgr'))"
    by (simp only: new(2))
  then show ?thesis
    using platform_rekeyed_world [of k "(w', mgr')"] by (metis fst_conv surj_pair)
qed

section \<open>An example\<close>

text \<open>A world that records command lines.\<close>

definition logging_env :: "(string \<times> string list) list ProcessEnv" where
  "logging_env =
     \<lparr>run_process = (\<lambda>prog argv _ w. (Exited True ''exit status: 0'' [] [], w @ [(prog, argv)])), env_var = (\<lambda>_. None),
      target_os = Linux, now_ms = 1000\<rparr>"

definition demo_other_key :: "string \<Rightarrow> string" where
  "demo_other_key key = (if blank key then key else ''other-key'')"

definition demo_keyed_tunnel :: TunnelConfig where
  "demo_keyed_tunnel = demo_tunnel\<lparr>wireguard_peer := (wireguard_peer demo_tunnel)\<lparr>WireGuardPeerConfig.preshared_key := Some ''psk''\<rparr>\<rparr>"

lemma demo_log:
  "map fst (fst (snd (apply_ops (platform_ops logging_env) [Establish demo_keyed_tunnel, Close (peer_virtual_ip demo_keyed_tunnel)]
     ([], LinuxManager \<lparr>backend = adapter_default logging_env\<rparr>)))) =
   [''ip'', ''wg'', ''ip'', ''wg'', ''ip'', ''ip'', ''wg'', ''ip'']"
  by code_simp

theorem keys_only_in_input_witness:
  "\<exists>mgr rs w mgr' mgr''.
     build_platform_tunnel_manager logging_env
       \<lparr>requested = Auto, selected = LinuxKernel, execution_mode = [], execution_backend = [], platform = []\<rparr> = Ok mgr \<and>
     apply_ops (platform_ops logging_env) [Establish demo_keyed_tunnel, Close (peer_virtual_ip demo_keyed_tunnel)] ([], mgr) = (rs, w, mgr') \<and>
     apply_ops (platform_ops logging_env)
       [Establish (rekey demo_other_key demo_keyed_tunnel), Close (peer_virtual_ip demo_keyed_tunnel)] ([], mgr) = (rs, w, mgr'') \<and>
     map fst w = [''ip'', ''wg'', ''ip'', ''wg'', ''ip'', ''ip'', ''wg'', ''ip'']"
proof -
  let ?sel = "\<lparr>requested = Auto, selected = LinuxKernel, execution_mode = [], execution_backend = [], platform = []\<rparr>"
    and ?mgr = "LinuxManager \<lparr>backend = adapter_default logging_env\<rparr>"
    and ?calls = "[Establish demo_keyed_tunnel, Close (peer_virtual_ip demo_keyed_tunnel)]"
  have mgr: "build_platform_tunnel_manager logging_env ?sel = Ok ?mgr"
    by (simp add: build_platform_tunnel_manager_def)
  have "keeps_blank demo_other_key"
    by (simp add: keeps_blank_def demo_other_key_def not_blank visible_def)
  moreover have "processes_blind demo_other_key logging_env"
    by (simp add: processes_blind_def logging_env_def)
  moreover obtain rs w mgr' where run: "apply_ops (platform_ops logging_env) ?calls ([], ?mgr) = (rs, w, mgr')"
    by (metis surj_pair)
  moreover from run demo_log have "map fst w = [''ip'', ''wg'', ''ip'', ''wg'', ''ip'', ''ip'', ''wg'', ''ip'']"
    by (simp only: fst_conv snd_conv)
  ultimately show ?thesis
    using keys_only_in_input [OF _ _ mgr run, of demo_other_key] mgr by (auto simp del: apply_ops.simps)
qed

end
