(* ===== verification/Ws_Frame.thy ===== *)
theory Ws_Frame
  imports Rust_Text
begin

text \<open>
  Crate \<open>control-ws-client\<close>, below the messages: the byte stream of a TCP connection, the HTTP
  handshake, and the encoding and decoding of WebSocket text frames.
\<close>

section \<open>Streams\<close>

text \<open>
  What a connection will deliver: segments of bytes as the peer's data arrives, and errors of the
  operating system in between (a timeout, a reset).  At the end the peer has closed.  A byte that a
  failing \<open>read_exact\<close> has taken is gone.
\<close>

datatype stream_item = Segment "u8 list" | ReadError string

type_synonym stream = "stream_item list"

function read_exact :: "nat \<Rightarrow> stream \<Rightarrow> (u8 list, string) result \<times> stream" where
  "read_exact 0 s = (Ok [], s)"
| "read_exact (Suc n) [] = (Err ''failed to fill whole buffer'', [])"
| "read_exact (Suc n) (ReadError e # s) = (Err e, s)"
| "read_exact (Suc n) (Segment [] # s) = read_exact (Suc n) s"
| "read_exact (Suc n) (Segment (b # bs) # s) =
     (case read_exact n (Segment bs # s) of
        (Err e, s') \<Rightarrow> (Err e, s')
      | (Ok rest, s') \<Rightarrow> (Ok (b # rest), s'))"
  by pat_completeness auto
termination
  by (relation "measures [\<lambda>(n, s). n, \<lambda>(n, s). length s]") auto

text \<open>\<open>read\<close> into a buffer of \<open>n\<close> bytes: what has arrived, at most \<open>n\<close> bytes, and nothing at the end.\<close>

fun read_some :: "nat \<Rightarrow> stream \<Rightarrow> (u8 list, string) result \<times> stream" where
  "read_some n [] = (Ok [], [])"
| "read_some n (ReadError e # s) = (Err e, s)"
| "read_some n (Segment bs # s) =
     (if bs = [] then read_some n s
      else (Ok (take n bs), if length bs \<le> n then s else Segment (drop n bs) # s))"

text \<open>The bytes before the first error.\<close>

fun arriving :: "stream \<Rightarrow> u8 list" where
  "arriving [] = []"
| "arriving (ReadError e # s) = []"
| "arriving (Segment bs # s) = bs @ arriving s"

fun stream_size :: "stream \<Rightarrow> nat" where
  "stream_size [] = 0"
| "stream_size (ReadError e # s) = 1 + stream_size s"
| "stream_size (Segment bs # s) = 1 + length bs + stream_size s"

lemma read_exact_arriving:
  "fst (read_exact n s) = Ok bs \<longleftrightarrow> n \<le> length (arriving s) \<and> bs = take n (arriving s)"
proof (induction n s arbitrary: bs rule: read_exact.induct)
  case (5 n b bl s out)
  obtain r s' where r: "read_exact n (Segment bl # s) = (r, s')" by fastforce
  show ?case
  proof (cases r)
    case (Ok rest)
    with 5 [of rest] r show ?thesis by auto
  next
    case (Err e)
    with 5 [of "take n (arriving (Segment bl # s))"] r show ?thesis by auto
  qed
qed auto

lemma read_exact_rest:
  "read_exact n s = (Ok bs, s') \<Longrightarrow> arriving s' = drop n (arriving s)"
proof (induction n s arbitrary: bs s' rule: read_exact.induct)
  case (5 n b bl s out)
  then show ?case
    by (auto split: prod.splits result.splits)
qed auto

lemma read_exact_Ok:
  assumes "arriving s = bs @ rest"
  obtains s' where "read_exact (length bs) s = (Ok bs, s')" and "arriving s' = rest"
proof -
  have "fst (read_exact (length bs) s) = Ok bs"
    by (simp add: read_exact_arriving assms)
  then have "read_exact (length bs) s = (Ok bs, snd (read_exact (length bs) s))"
    by (metis prod.collapse)
  with that show thesis
    using read_exact_rest assms by fastforce
qed

lemma read_some_size:
  "read_some n s = (Ok bs, s') \<Longrightarrow> bs \<noteq> [] \<Longrightarrow> 0 < n \<Longrightarrow> stream_size s' < stream_size s"
  by (induction n s rule: read_some.induct) (auto split: if_splits)

section \<open>Text frames\<close>

definition mask_key :: "u8 list" where
  "mask_key = [0x12, 0x34, 0x56, 0x78]"

definition xor_mask :: "u8 list \<Rightarrow> u8 list \<Rightarrow> u8 list" where
  "xor_mask key payload = map (\<lambda>(i, b). xor b (key ! (i mod 4))) (enumerate 0 payload)"

text \<open>\<open>to_be_bytes\<close> and \<open>from_be_bytes\<close> at a width of \<open>n\<close> bytes.\<close>

fun to_be_bytes :: "nat \<Rightarrow> nat \<Rightarrow> u8 list" where
  "to_be_bytes 0 v = []"
| "to_be_bytes (Suc n) v = to_be_bytes n (v div 256) @ [of_nat (v mod 256)]"

definition from_be_bytes :: "u8 list \<Rightarrow> nat" where
  "from_be_bytes bs = foldl (\<lambda>v b. v * 256 + unat b) 0 bs"

text \<open>The casts \<open>as u8\<close> and \<open>as u16\<close> are below their bounds; a length has at most 64 bits.\<close>

definition encode_text_frame :: "u8 list \<Rightarrow> u8 list" where
  "encode_text_frame payload =
     (let n = length payload
      in [0x81]
         @ (if n < 126 then [or 0x80 (of_nat n)]
            else if n \<le> 65535 then [or 0x80 126] @ to_be_bytes 2 n
            else [or 0x80 127] @ to_be_bytes 8 n)
         @ mask_key
         @ xor_mask mask_key payload)"

text \<open>
  Errors are texts; a panic is neither, it ends the calls up to the thread.  Allocating a vector of
  more than \<open>isize::MAX\<close> bytes panics; other allocations are taken to succeed.
\<close>

datatype fault = Fail string | Panic string

definition read_io :: "string \<Rightarrow> nat \<Rightarrow> stream \<Rightarrow> (u8 list, fault) result \<times> stream" where
  "read_io context n s = apfst (map_err (\<lambda>e. Fail (context @ e))) (read_exact n s)"

definition read_payload_len :: "u8 \<Rightarrow> stream \<Rightarrow> (nat, fault) result \<times> stream" where
  "read_payload_len second s =
     (let n = unat (and second 0x7F)
      in if n = 126 then
           (case read_io ''read websocket extended length: '' 2 s of
              (Err e, s') \<Rightarrow> (Err e, s') | (Ok ext, s') \<Rightarrow> (Ok (from_be_bytes ext), s'))
         else if n = 127 then
           (case read_io ''read websocket extended length: '' 8 s of
              (Err e, s') \<Rightarrow> (Err e, s') | (Ok ext, s') \<Rightarrow> (Ok (from_be_bytes ext), s'))
         else (Ok n, s))"

definition decode_text_frame :: "stream \<Rightarrow> (u8 list, fault) result \<times> stream" where
  "decode_text_frame s =
     (case read_io ''read websocket frame header: '' 2 s of
        (Err e, s1) \<Rightarrow> (Err e, s1)
      | (Ok header, s1) \<Rightarrow>
          let opcode = and (header ! 0) 0x0F in
          if opcode = 0x8 then (Err (Fail ''control ws closed by server''), s1)
          else if opcode \<noteq> 0x1
          then (Err (Fail (''unsupported websocket opcode: '' @ show_nat (unat opcode))), s1)
          else
            let masked = (and (header ! 1) 0x80 \<noteq> 0) in
            (case read_payload_len (header ! 1) s1 of
               (Err e, s2) \<Rightarrow> (Err e, s2)
             | (Ok payload_len, s2) \<Rightarrow>
                 (case (if masked then read_io ''read websocket mask: '' 4 s2 else (Ok [0, 0, 0, 0], s2)) of
                    (Err e, s3) \<Rightarrow> (Err e, s3)
                  | (Ok key, s3) \<Rightarrow>
                      if 2 ^ 63 \<le> payload_len then (Err (Panic ''capacity overflow''), s3)
                      else (case read_io ''read websocket payload: '' payload_len s3 of
                         (Err e, s4) \<Rightarrow> (Err e, s4)
                       | (Ok payload, s4) \<Rightarrow> (Ok (if masked then xor_mask key payload else payload), s4)))))"

lemma length_to_be_bytes [simp]: "length (to_be_bytes n v) = n"
  by (induction n arbitrary: v) auto

lemma from_be_bytes_snoc: "from_be_bytes (bs @ [b]) = from_be_bytes bs * 256 + unat b"
  by (simp add: from_be_bytes_def)

lemma from_to_be_bytes: "v < 256 ^ n \<Longrightarrow> from_be_bytes (to_be_bytes n v) = v"
proof (induction n arbitrary: v)
  case 0
  then show ?case by (simp add: from_be_bytes_def)
next
  case (Suc n)
  then have "from_be_bytes (to_be_bytes n (v div 256)) = v div 256"
    by (simp add: less_mult_imp_div_less mult.commute)
  moreover have "unat (of_nat (v mod 256) :: u8) = v mod 256"
    by (simp add: unat_of_nat take_bit_eq_mod)
  ultimately show ?case
    by (simp add: from_be_bytes_snoc div_mod_decomp [symmetric])
qed

lemma length_xor_mask [simp]: "length (xor_mask key bs) = length bs"
  by (simp add: xor_mask_def)

lemma xor_mask_nth [simp]: "i < length bs \<Longrightarrow> xor_mask key bs ! i = xor (bs ! i) (key ! (i mod 4))"
  by (simp add: xor_mask_def nth_enumerate_eq)

lemma xor_mask_twice: "xor_mask key (xor_mask key bs) = bs"
  by (rule nth_equalityI) (auto simp: xor.assoc)

lemma read_io_Ok:
  assumes "arriving s = bs @ rest" and "n = length bs"
  obtains s' where "read_io context n s = (Ok bs, s')" and "arriving s' = rest"
proof -
  obtain s' where "read_exact n s = (Ok bs, s')" and "arriving s' = rest"
    using read_exact_Ok [OF assms(1)] assms(2) by blast
  with that show thesis by (simp add: read_io_def)
qed

lemma masked_length: "and (or 0x80 n) 0x7F = and n 0x7F" "and (or 0x80 n) 0x80 \<noteq> 0" for n :: u8
proof -
  have "and (or 0x80 n) 0x7F = or (and 0x80 0x7F) (and n 0x7F)"
    by (rule bit.conj_disj_distrib2)
  then show "and (or 0x80 n) 0x7F = and n 0x7F" by simp
  have "and (or 0x80 n) 0x80 = or (and 0x80 0x80) (and n 0x80)"
    by (rule bit.conj_disj_distrib2)
  then show "and (or 0x80 n) 0x80 \<noteq> 0" by simp
qed

lemma small_length: "n < 128 \<Longrightarrow> unat (and (of_nat n :: u8) 0x7F) = n"
proof -
  assume n: "n < 128"
  have "and (of_nat n :: u8) 0x7F = take_bit 7 (of_nat n)"
    by (simp add: take_bit_eq_mask mask_eq_exp_minus_1)
  also have "\<dots> = of_nat (take_bit 7 n)"
    by (simp add: of_nat_take_bit)
  also have "take_bit 7 n = n"
    using n by (simp add: take_bit_nat_eq_self_iff)
  finally show ?thesis
    using n by (simp add: unat_of_nat take_bit_nat_eq_self_iff)
qed

text \<open>
  A frame as the protocol has it, masked by a client and not masked by a server.
\<close>

definition length_code :: "nat \<Rightarrow> u8" where
  "length_code n = (if n < 126 then of_nat n else if n \<le> 65535 then 126 else 127)"

definition length_ext :: "nat \<Rightarrow> u8 list" where
  "length_ext n = (if n < 126 then [] else if n \<le> 65535 then to_be_bytes 2 n else to_be_bytes 8 n)"

definition server_frame :: "u8 list \<Rightarrow> u8 list" where
  "server_frame payload = [0x81, length_code (length payload)] @ length_ext (length payload) @ payload"

lemma encode_text_frame_parts:
  "encode_text_frame payload = [0x81, or 0x80 (length_code (length payload))]
     @ length_ext (length payload) @ mask_key @ xor_mask mask_key payload"
  by (simp add: encode_text_frame_def length_code_def length_ext_def Let_def)

lemma read_payload_len_Ok:
  assumes "and b 0x7F = and (length_code n) 0x7F" and "n < 2 ^ 63" and "arriving s = length_ext n @ rest"
  obtains s' where "read_payload_len b s = (Ok n, s')" and "arriving s' = rest"
proof -
  consider "n < 126" | "126 \<le> n" "n \<le> 65535" | "65535 < n" by linarith
  then show thesis
  proof cases
    case 1
    with assms that [of s] show ?thesis
      by (simp add: read_payload_len_def length_code_def length_ext_def small_length Let_def)
  next
    case 2
    then obtain s' where "read_io ''read websocket extended length: '' 2 s = (Ok (to_be_bytes 2 n), s')"
        "arriving s' = rest"
      using read_io_Ok [OF assms(3), of 2 "''read websocket extended length: ''"] by (auto simp: length_ext_def)
    with 2 assms(1) that show ?thesis
      by (simp add: read_payload_len_def length_code_def from_to_be_bytes Let_def)
  next
    case 3
    then obtain s' where "read_io ''read websocket extended length: '' 8 s = (Ok (to_be_bytes 8 n), s')"
        "arriving s' = rest"
      using read_io_Ok [OF assms(3), of 8 "''read websocket extended length: ''"] by (auto simp: length_ext_def)
    with 3 assms(1,2) that show ?thesis
      by (simp add: read_payload_len_def length_code_def from_to_be_bytes Let_def)
  qed
qed

lemma read_header_Ok:
  assumes "arriving s = [a, b] @ rest"
  obtains s' where "read_io ''read websocket frame header: '' 2 s = (Ok [a, b], s')" and "arriving s' = rest"
  by (rule read_io_Ok [OF assms, where n = 2]) (use that in simp_all)

lemma length_code_unmasked: "and (length_code n) 0x80 = 0" "and (length_code n) 0x7F = length_code n"
proof -
  define m where "m = (if n < 126 then n else if n \<le> 65535 then 126 else 127)"
  have m: "length_code n = of_nat m" "m < 128"
    by (simp_all add: length_code_def m_def)
  have "take_bit 7 (of_nat m :: u8) = of_nat m"
    using m(2) by (simp flip: of_nat_take_bit add: take_bit_nat_eq_self)
  then show 1: "and (length_code n) 0x7F = length_code n"
    by (simp add: m take_bit_eq_mask mask_eq_exp_minus_1)
  have "and (length_code n) 0x80 = and (and (length_code n) 0x7F) 0x80"
    by (simp add: 1)
  then show "and (length_code n) 0x80 = 0"
    by (simp add: and.assoc)
qed

lemma decode_masked_frame:
  assumes "length payload < 2 ^ 63" and "arriving s = encode_text_frame payload @ rest"
  shows "\<exists>s'. decode_text_frame s = (Ok payload, s') \<and> arriving s' = rest"
proof -
  let ?n = "length payload" and ?masked = "xor_mask mask_key payload"
  let ?b = "or 0x80 (length_code ?n)"
  have "arriving s = [0x81, ?b] @ length_ext ?n @ mask_key @ ?masked @ rest"
    by (simp add: assms(2) encode_text_frame_parts)
  then obtain s1 where 1: "read_io ''read websocket frame header: '' 2 s = (Ok [0x81, ?b], s1)"
      "arriving s1 = length_ext ?n @ mask_key @ ?masked @ rest"
    by (rule read_header_Ok)
  obtain s2 where 2: "read_payload_len ?b s1 = (Ok ?n, s2)" "arriving s2 = mask_key @ ?masked @ rest"
    by (rule read_payload_len_Ok [OF masked_length(1) assms(1) 1(2)])
  obtain s3 where 3: "read_io ''read websocket mask: '' 4 s2 = (Ok mask_key, s3)" "arriving s3 = ?masked @ rest"
    by (rule read_io_Ok [OF 2(2), where n = 4]) (auto simp: mask_key_def)
  obtain s4 where 4: "read_io ''read websocket payload: '' ?n s3 = (Ok ?masked, s4)" "arriving s4 = rest"
    by (rule read_io_Ok [OF 3(2)]) simp_all
  show ?thesis
    using assms(1) 4(2)
    by (simp add: decode_text_frame_def 1(1) 2(1) 3(1) 4(1) masked_length xor_mask_twice Let_def)
qed

lemma decode_server_frame:
  assumes "length payload < 2 ^ 63" and "arriving s = server_frame payload @ rest"
  shows "\<exists>s'. decode_text_frame s = (Ok payload, s') \<and> arriving s' = rest"
proof -
  let ?n = "length payload"
  have "arriving s = [0x81, length_code ?n] @ length_ext ?n @ payload @ rest"
    by (simp add: assms(2) server_frame_def)
  then obtain s1 where 1: "read_io ''read websocket frame header: '' 2 s = (Ok [0x81, length_code ?n], s1)"
      "arriving s1 = length_ext ?n @ payload @ rest"
    by (rule read_header_Ok)
  obtain s2 where 2: "read_payload_len (length_code ?n) s1 = (Ok ?n, s2)" "arriving s2 = payload @ rest"
    by (rule read_payload_len_Ok [OF refl assms(1) 1(2)])
  obtain s3 where 3: "read_io ''read websocket payload: '' ?n s2 = (Ok payload, s3)" "arriving s3 = rest"
    by (rule read_io_Ok [OF 2(2)]) simp_all
  show ?thesis
    using assms(1) 3(2)
    by (simp add: decode_text_frame_def 1(1) 2(1) 3(1) length_code_unmasked Let_def)
qed

text \<open>
  C24: a text frame is read back as its payload, the masked frames the encoder writes and the unmasked
  ones of a server, however the bytes are cut into segments and whatever follows them, and exactly the
  bytes of the frame are taken; this holds for the three encodings of the length.
\<close>

theorem decode_encode_text_frame:
  assumes "length payload < 2 ^ 63" and "frame \<in> {encode_text_frame payload, server_frame payload}"
    and "arriving s = frame @ rest"
  shows "\<exists>s'. decode_text_frame s = (Ok payload, s') \<and> arriving s' = rest"
  using assms decode_masked_frame decode_server_frame by blast

theorem decode_encode_text_frame_witness:
  "\<exists>s'. decode_text_frame [Segment (take 3 (encode_text_frame [72, 105])), Segment (drop 3 (encode_text_frame [72, 105])),
       Segment [0x88]] = (Ok [72, 105], s') \<and> arriving s' = [0x88]"
  by (rule decode_encode_text_frame [of _ "encode_text_frame [72, 105]"]) simp_all

section \<open>The handshake\<close>

fun has_window :: "'a list \<Rightarrow> 'a list \<Rightarrow> bool" where
  "has_window p [] \<longleftrightarrow> p = []"
| "has_window p (x # xs) \<longleftrightarrow> take (length p) (x # xs) = p \<or> has_window p xs"

definition end_of_head :: "u8 list" where
  "end_of_head = [0x0D, 0x0A, 0x0D, 0x0A]"

function read_http_loop :: "u8 list \<Rightarrow> stream \<Rightarrow> (string, string) result \<times> stream" where
  "read_http_loop buf s =
     (case read_some 512 s of
        (Err e, s') \<Rightarrow> (Err (''read websocket handshake response: '' @ e), s')
      | (Ok chunk, s') \<Rightarrow>
          if chunk = [] then (Err ''control ws closed during handshake'', s')
          else if has_window end_of_head (buf @ chunk)
          then (map_err (\<lambda>e. ''invalid handshake response utf8: '' @ e) (from_utf8 (buf @ chunk)), s')
          else read_http_loop (buf @ chunk) s')"
  by pat_completeness auto
termination
  by (relation "measure (\<lambda>(buf, s). stream_size s)") (auto dest!: read_some_size [OF sym])

declare read_http_loop.simps [simp del]

definition read_http_response :: "stream \<Rightarrow> (string, string) result \<times> stream" where
  "read_http_response s = read_http_loop [] s"

definition first_response_line :: "string \<Rightarrow> string" where
  "first_response_line response =
     (case text_lines response of [] \<Rightarrow> ''invalid response'' | l # _ \<Rightarrow> l)"

record WsEndpoint =
  authority :: string
  path :: string

definition parse_ws_url :: "string \<Rightarrow> (WsEndpoint, string) result" where
  "parse_ws_url url =
     (case strip_prefix (trim url) ''ws://'' of
        None \<Rightarrow> Err ''only ws:// control plane URLs are currently supported''
      | Some stripped \<Rightarrow>
          (let (auth, p) = (case split_once ''/'' stripped of
                 Some (a, rest) \<Rightarrow> (a, ''/'' @ rest) | None \<Rightarrow> (stripped, ''/''))
           in if blank auth then Err ''invalid control plane ws url''
              else Ok \<lparr>authority = auth, path = p\<rparr>))"

record AckTarget =
  base_url :: string
  access_token :: string

definition ack_target_from_ws_url :: "string \<Rightarrow> string \<Rightarrow> (AckTarget, string) result" where
  "ack_target_from_ws_url url token =
     (case strip_prefix (trim url) ''ws://'' of
        None \<Rightarrow> Err ''only ws:// control plane URLs are currently supported''
      | Some rest \<Rightarrow>
          let auth = trim (case split_once ''/'' rest of Some (a, _) \<Rightarrow> a | None \<Rightarrow> rest)
          in if auth = [] \<or> blank token then Err ''missing ack target''
             else Ok \<lparr>base_url = ''http://'' @ auth, access_token = token\<rparr>)"

definition append_device_id_query :: "string \<Rightarrow> string \<Rightarrow> string" where
  "append_device_id_query p device =
     (if blank device then p
      else p @ (if contains p ''?'' then ''&'' else ''?'') @ ''deviceId='' @ device)"

definition ws_origin :: "string \<Rightarrow> string" where
  "ws_origin auth = ''http://'' @ auth"

text \<open>
  A URL with an authority is split into it and the rest, and the query of the device is appended to
  that rest with the separator that keeps it one query.
\<close>

lemma parse_ws_url_split:
  assumes "CHR ''/'' \<notin> set auth" and "\<not> blank auth"
    and "trim (''ws://'' @ auth @ p) = ''ws://'' @ auth @ p" and "p = [] \<or> hd p = CHR ''/''"
  shows "parse_ws_url (''ws://'' @ auth @ p) = Ok \<lparr>authority = auth, path = (if p = [] then ''/'' else p)\<rparr>"
proof -
  have "strip_prefix (''ws://'' @ auth @ p) ''ws://'' = Some (auth @ p)"
    by (rule strip_prefix_append)
  moreover have none: "split_once ''/'' auth = None"
    using assms(1) by simp
  ultimately show ?thesis
    using assms by (cases p) (auto simp: parse_ws_url_def split_once_char none simp del: split_once_char_None)
qed

text \<open>
  The length of a frame is taken from the server as it is: ten bytes that announce a payload of
  more than \<open>isize::MAX\<close> bytes make the client panic.
\<close>

theorem announced_length_panics:
  assumes "2 ^ 63 \<le> v" and "v < 2 ^ 64" and "arriving s = [0x81, 127] @ to_be_bytes 8 v @ rest"
  shows "fst (decode_text_frame s) = Err (Panic ''capacity overflow'')"
proof -
  obtain s1 where 1: "read_io ''read websocket frame header: '' 2 s = (Ok [0x81, 127], s1)"
      "arriving s1 = to_be_bytes 8 v @ rest"
    by (rule read_io_Ok [OF assms(3), where n = 2]) auto
  obtain s2 where 2: "read_io ''read websocket extended length: '' 8 s1 = (Ok (to_be_bytes 8 v), s2)"
    by (rule read_io_Ok [OF 1(2), where n = 8]) auto
  have "from_be_bytes (to_be_bytes 8 v) = v"
    using assms(2) by (intro from_to_be_bytes) simp
  with assms(1) show ?thesis
    by (simp add: decode_text_frame_def 1(1) read_payload_len_def 2 Let_def)
qed

theorem announced_length_panics_witness:
  "fst (decode_text_frame [Segment ([0x81, 127] @ to_be_bytes 8 (2 ^ 63))]) = Err (Panic ''capacity overflow'')"
  by (rule announced_length_panics [of "2 ^ 63" _ "[]"]) simp_all

end
