(* ===== verification/Control_Messages.thy ===== *)
theory Control_Messages
  imports Ws_Frame Serde_Tree App_Core "HOL-Library.Monad_Syntax"
begin

text \<open>
  Crate \<open>control-ws-client\<close>: the messages of the control channel and what their derived serialisers and
  deserialisers make of JSON trees.
\<close>

section \<open>Messages\<close>

record ControlWsConfig =
  ws_url :: string
  access_token :: string
  session_token :: string
  user_id :: string
  device_id :: string
  node_id :: string
  node_public_key :: string
  network_id :: string
  capabilities :: "string list"

record NodeHelloAck =
  control_session_id :: string
  heartbeat_seconds :: u32
  network_revision :: u64

record Pong =
  timestamp :: int

record ControlSessionBootstrap =
  ack :: NodeHelloAck
  network_map :: NetworkMap

record ControlWsPeerUpdate =
  network_id :: string
  revision :: u64
  peer :: Peer

record ControlWsPeerRemove =
  network_id :: string
  revision :: u64
  peer_node_id :: string

record ControlWsActiveNetworkEnabled =
  user_id :: string
  network_id :: string
  reason :: string

record ControlWsNetworkRestartRequired =
  network_id :: string
  revision :: u64
  reason :: string
  default_subnet_cidr :: string

record ControlWsDeviceIPReassigned =
  network_id :: string
  device_id :: string
  attachment_id :: string
  virtual_ip :: string
  reason :: string

record ControlWsPathOption =
  path_type :: string
  endpoint :: string
  priority :: int

record ControlWsConnectPlan =
  peer_node_id :: string
  prefer_direct :: bool
  paths :: "ControlWsPathOption list"
  derp_cluster_id :: string
  preferred_derp_node_ids :: "string list"
  relay_ticket :: "RelayTicket option"

datatype ControlWsEvent =
    PeerUpdate ControlWsPeerUpdate
  | PeerRemove ControlWsPeerRemove
  | ConnectPlan ControlWsConnectPlan
  | NetworkRestartRequired ControlWsNetworkRestartRequired
  | DeviceIPReassigned ControlWsDeviceIPReassigned
  | ActiveNetworkEnabled ControlWsActiveNetworkEnabled

record ControlWsConnectionStateReport =
  network_id :: string
  peer_node_id :: string
  path :: string
  state :: string
  reason :: "string option"
  observed_rtt_ms :: "u32 option"
  packet_loss_ppm :: "u32 option"
  path_score :: "u32 option"
  derp_node_id :: "string option"

record ControlWsPathHealthReport =
  network_id :: string
  peer_node_id :: string
  path_type :: string
  endpoint :: "string option"
  derp_node_id :: "string option"
  observed_rtt_ms :: "u32 option"
  packet_loss_ppm :: "u32 option"
  path_score :: "u32 option"
  sampled_at_ms :: u64

record ControlError =
  code :: string
  message :: string

record Envelope =
  msg_type :: string
  request_id :: "string option"
  message_id :: "string option"
  payload :: json

section \<open>Deserialisation\<close>

fun de_bool :: "json \<Rightarrow> bool option" where
  "de_bool (JBool b) = Some b"
| "de_bool _ = None"

definition de_int :: "int \<Rightarrow> int \<Rightarrow> json \<Rightarrow> int option" where
  "de_int lo hi v = (case v of JNum n \<Rightarrow> if lo \<le> n \<and> n \<le> hi then Some n else None | _ \<Rightarrow> None)"

definition de_word :: "json \<Rightarrow> ('l::len) word option" where
  "de_word v = map_option word_of_int (de_int 0 (2 ^ LENGTH('l) - 1) v)"

definition de_i32 :: "json \<Rightarrow> int option" where
  "de_i32 = de_int (- (2 ^ 31)) (2 ^ 31 - 1)"

definition de_i64 :: "json \<Rightarrow> int option" where
  "de_i64 = de_int (- (2 ^ 63)) (2 ^ 63 - 1)"

text \<open>An optional field may be missing, with or without \<open>serde(default)\<close>.\<close>

definition de_optional :: "(json \<Rightarrow> 'a option) \<Rightarrow> string \<Rightarrow> json_object \<Rightarrow> 'a option option" where
  "de_optional de k obj = de_field_default None (de_option de) k obj"

definition de_strings_default :: "string \<Rightarrow> json_object \<Rightarrow> string list option" where
  "de_strings_default k obj = de_field_default [] (de_list de_string) k obj"

text \<open>
  The private wire structs have the fields of the model types; each definition is the derived
  deserialiser of the wire struct followed by its \<open>From\<close> conversion.
\<close>

definition de_endpoint :: "json \<Rightarrow> Endpoint option" where
  "de_endpoint = de_object (\<lambda>obj. do {
     t \<leftarrow> de_field de_string ''type'' obj;
     a \<leftarrow> de_field de_string ''address'' obj;
     u \<leftarrow> de_field de_i64 ''updatedAt'' obj;
     Some \<lparr>endpoint_type = t, address = a, updated_at = u\<rparr> })"

definition de_peer :: "json \<Rightarrow> Peer option" where
  "de_peer = de_object (\<lambda>obj. do {
     n \<leftarrow> de_field de_string ''nodeId'' obj;
     d \<leftarrow> de_field de_string ''deviceId'' obj;
     k \<leftarrow> de_field de_string ''publicKey'' obj;
     s \<leftarrow> de_field de_string ''status'' obj;
     r \<leftarrow> de_field de_bool ''relayAllowed'' obj;
     ips \<leftarrow> de_strings_default ''virtualIps'' obj;
     eps \<leftarrow> de_field_default [] (de_list de_endpoint) ''endpoints'' obj;
     routes \<leftarrow> de_strings_default ''allowedRoutes'' obj;
     Some \<lparr>Peer.node_id = n, device_id = d, public_key = k, status = s, relay_allowed = r,
           virtual_ips = ips, endpoints = eps, allowed_routes = routes\<rparr> })"

definition de_route :: "json \<Rightarrow> Route option" where
  "de_route = de_object (\<lambda>obj. do {
     c \<leftarrow> de_field de_string ''cidr'' obj;
     v \<leftarrow> de_field de_string ''viaNodeId'' obj;
     m \<leftarrow> de_optional de_string ''metric'' obj;
     Some \<lparr>Route.cidr = c, via_node_id = v, metric = m\<rparr> })"

definition de_dns :: "json \<Rightarrow> DnsConfig option" where
  "de_dns = de_object (\<lambda>obj. do {
     s \<leftarrow> de_strings_default ''servers'' obj;
     d \<leftarrow> de_strings_default ''searchDomains'' obj;
     Some \<lparr>servers = s, search_domains = d\<rparr> })"

definition de_relay_endpoint :: "json \<Rightarrow> RelayEndpoint option" where
  "de_relay_endpoint = de_object (\<lambda>obj. do {
     i \<leftarrow> de_field de_string ''endpointId'' obj;
     t \<leftarrow> de_field de_string ''transport'' obj;
     a \<leftarrow> de_field de_string ''address'' obj;
     Some \<lparr>endpoint_id = i, RelayEndpoint.transport = t, address = a\<rparr> })"

definition non_empty :: "string \<Rightarrow> string option" where
  "non_empty s = (if s = [] then None else Some s)"

definition de_relay_region :: "json \<Rightarrow> RelayRegion option" where
  "de_relay_region = de_object (\<lambda>obj. do {
     i \<leftarrow> de_field de_string ''regionId'' obj;
     n \<leftarrow> de_field de_string ''regionName'' obj;
     cc \<leftarrow> de_field_default [] de_string ''countryCode'' obj;
     cn \<leftarrow> de_field_default [] de_string ''countryName'' obj;
     tc \<leftarrow> de_field_default [] de_string ''cityCode'' obj;
     tn \<leftarrow> de_field_default [] de_string ''cityName'' obj;
     ki \<leftarrow> de_field_default [] de_string ''clusterId'' obj;
     kn \<leftarrow> de_field_default [] de_string ''clusterName'' obj;
     eps \<leftarrow> de_field_default [] (de_list de_relay_endpoint) ''endpoints'' obj;
     Some \<lparr>RelayRegion.region_id = i, region_name = n, country_code = non_empty cc, country_name = non_empty cn,
           city_code = non_empty tc, city_name = non_empty tn, cluster_id = non_empty ki,
           cluster_name = non_empty kn, endpoints = eps\<rparr> })"

definition de_network_map :: "json \<Rightarrow> NetworkMap option" where
  "de_network_map = de_object (\<lambda>obj. do {
     u \<leftarrow> de_field de_string ''selfUserId'' obj;
     d \<leftarrow> de_field de_string ''selfDeviceId'' obj;
     n \<leftarrow> de_field de_string ''selfNodeId'' obj;
     i \<leftarrow> de_field de_string ''networkId'' obj;
     r \<leftarrow> de_field de_word ''revision'' obj;
     h \<leftarrow> de_field de_word ''heartbeatSeconds'' obj;
     stun \<leftarrow> de_strings_default ''stunServers'' obj;
     ps \<leftarrow> de_field_default [] (de_list de_peer) ''peers'' obj;
     rs \<leftarrow> de_field_default [] (de_list de_route) ''routes'' obj;
     regions \<leftarrow> de_field_default [] (de_list de_relay_region) ''relayRegions'' obj;
     names \<leftarrow> de_field de_dns ''dns'' obj;
     m \<leftarrow> de_optional de_word ''mtu'' obj;
     Some \<lparr>self_user_id = u, self_device_id = d, self_node_id = n, NetworkMap.network_id = i, revision = r,
           heartbeat_seconds = h, stun_servers = stun, peers = ps, routes = rs, relay_regions = regions,
           dns = names, mtu = m\<rparr> })"

definition de_peer_update :: "json \<Rightarrow> ControlWsPeerUpdate option" where
  "de_peer_update = de_object (\<lambda>obj. do {
     i \<leftarrow> de_field de_string ''networkId'' obj;
     r \<leftarrow> de_field de_word ''revision'' obj;
     p \<leftarrow> de_field de_peer ''peer'' obj;
     Some \<lparr>ControlWsPeerUpdate.network_id = i, revision = r, peer = p\<rparr> })"

definition de_peer_remove :: "json \<Rightarrow> ControlWsPeerRemove option" where
  "de_peer_remove = de_object (\<lambda>obj. do {
     i \<leftarrow> de_field de_string ''networkId'' obj;
     r \<leftarrow> de_field de_word ''revision'' obj;
     p \<leftarrow> de_field de_string ''peerNodeId'' obj;
     Some \<lparr>ControlWsPeerRemove.network_id = i, revision = r, peer_node_id = p\<rparr> })"

definition de_client_ticket :: "json \<Rightarrow> RelayTicket option" where
  "de_client_ticket = de_object (\<lambda>obj. do {
     t \<leftarrow> de_field de_string ''ticketId'' obj;
     n \<leftarrow> de_field de_string ''networkId'' obj;
     s \<leftarrow> de_field de_string ''sessionId'' obj;
     src \<leftarrow> de_field de_string ''srcNodeId'' obj;
     dst \<leftarrow> de_field de_string ''dstNodeId'' obj;
     k \<leftarrow> de_optional de_string ''derpClusterId'' obj;
     cc \<leftarrow> de_optional de_string ''countryCode'' obj;
     tc \<leftarrow> de_optional de_string ''cityCode'' obj;
     ids \<leftarrow> de_field (de_list de_string) ''allowedDerpNodeIds'' obj;
     u \<leftarrow> de_field de_string ''relayUrl'' obj;
     e \<leftarrow> de_field de_string ''expiresAt'' obj;
     sk \<leftarrow> de_optional de_string ''sessionKey'' obj;
     sig \<leftarrow> de_field de_string ''signature'' obj;
     Some \<lparr>ticket_id = t, RelayTicket.network_id = n, session_id = s, src_node_id = src, dst_node_id = dst,
           derp_cluster_id = k, country_code = cc, city_code = tc, allowed_derp_node_ids = ids,
           relay_url = u, expires_at = e, session_key = sk, signature = sig\<rparr> })"

definition de_path_option :: "json \<Rightarrow> ControlWsPathOption option" where
  "de_path_option = de_object (\<lambda>obj. do {
     t \<leftarrow> de_field de_string ''pathType'' obj;
     e \<leftarrow> de_field de_string ''endpoint'' obj;
     p \<leftarrow> de_field de_i32 ''priority'' obj;
     Some \<lparr>ControlWsPathOption.path_type = t, endpoint = e, priority = p\<rparr> })"

definition de_connect_plan :: "json \<Rightarrow> ControlWsConnectPlan option" where
  "de_connect_plan = de_object (\<lambda>obj. do {
     p \<leftarrow> de_field de_string ''peerNodeId'' obj;
     d \<leftarrow> de_field de_bool ''preferDirect'' obj;
     ps \<leftarrow> de_field_default [] (de_list de_path_option) ''paths'' obj;
     k \<leftarrow> de_field_default [] de_string ''derpClusterId'' obj;
     ids \<leftarrow> de_strings_default ''preferredDerpNodeIds'' obj;
     t \<leftarrow> de_optional de_client_ticket ''relayTicket'' obj;
     Some \<lparr>ControlWsConnectPlan.peer_node_id = p, prefer_direct = d, paths = ps, derp_cluster_id = k,
           preferred_derp_node_ids = ids, relay_ticket = t\<rparr> })"

definition de_network_restart :: "json \<Rightarrow> ControlWsNetworkRestartRequired option" where
  "de_network_restart = de_object (\<lambda>obj. do {
     i \<leftarrow> de_field de_string ''networkId'' obj;
     r \<leftarrow> de_field_default 0 de_word ''revision'' obj;
     why \<leftarrow> de_field_default [] de_string ''reason'' obj;
     c \<leftarrow> de_field_default [] de_string ''defaultSubnetCidr'' obj;
     Some \<lparr>ControlWsNetworkRestartRequired.network_id = i, revision = r, reason = why, default_subnet_cidr = c\<rparr> })"

definition de_ip_reassigned :: "json \<Rightarrow> ControlWsDeviceIPReassigned option" where
  "de_ip_reassigned = de_object (\<lambda>obj. do {
     i \<leftarrow> de_field de_string ''networkId'' obj;
     d \<leftarrow> de_field de_string ''deviceId'' obj;
     a \<leftarrow> de_field de_string ''attachmentId'' obj;
     v \<leftarrow> de_field de_string ''virtualIp'' obj;
     why \<leftarrow> de_field_default [] de_string ''reason'' obj;
     Some \<lparr>ControlWsDeviceIPReassigned.network_id = i, device_id = d, attachment_id = a, virtual_ip = v, reason = why\<rparr> })"

definition de_active_network :: "json \<Rightarrow> ControlWsActiveNetworkEnabled option" where
  "de_active_network = de_object (\<lambda>obj. do {
     u \<leftarrow> de_field de_string ''userId'' obj;
     i \<leftarrow> de_field de_string ''networkId'' obj;
     why \<leftarrow> de_field_default [] de_string ''reason'' obj;
     Some \<lparr>ControlWsActiveNetworkEnabled.user_id = u, network_id = i, reason = why\<rparr> })"

definition de_hello_ack :: "json \<Rightarrow> NodeHelloAck option" where
  "de_hello_ack = de_object (\<lambda>obj. do {
     i \<leftarrow> de_field de_string ''controlSessionId'' obj;
     h \<leftarrow> de_field de_word ''heartbeatSeconds'' obj;
     r \<leftarrow> de_field de_word ''networkRevision'' obj;
     Some \<lparr>control_session_id = i, NodeHelloAck.heartbeat_seconds = h, network_revision = r\<rparr> })"

definition de_pong :: "json \<Rightarrow> Pong option" where
  "de_pong = de_object (\<lambda>obj. do { t \<leftarrow> de_field de_i64 ''timestamp'' obj; Some \<lparr>timestamp = t\<rparr> })"

definition de_control_error :: "json \<Rightarrow> ControlError option" where
  "de_control_error = de_object (\<lambda>obj. do {
     c \<leftarrow> de_field_default [] de_string ''code'' obj;
     m \<leftarrow> de_field_default [] de_string ''message'' obj;
     Some \<lparr>code = c, message = m\<rparr> })"

definition de_envelope :: "json \<Rightarrow> Envelope option" where
  "de_envelope = de_object (\<lambda>obj. do {
     t \<leftarrow> de_field de_string ''type'' obj;
     r \<leftarrow> de_optional de_string ''requestId'' obj;
     m \<leftarrow> de_optional de_string ''messageId'' obj;
     p \<leftarrow> de_field_default JNull Some ''payload'' obj;
     Some \<lparr>msg_type = t, request_id = r, message_id = m, payload = p\<rparr> })"

section \<open>Serialisation\<close>

definition se_envelope :: "Envelope \<Rightarrow> json" where
  "se_envelope e =
     JObj [(''type'', JStr (msg_type e)), (''requestId'', se_option JStr (request_id e)),
           (''messageId'', se_option JStr (message_id e)), (''payload'', payload e)]"

definition se_node_hello :: "ControlWsConfig \<Rightarrow> json" where
  "se_node_hello c =
     JObj [(''userId'', JStr (ControlWsConfig.user_id c)), (''deviceId'', JStr (ControlWsConfig.device_id c)),
           (''nodeId'', JStr (ControlWsConfig.node_id c)), (''networkId'', JStr (ControlWsConfig.network_id c)),
           (''sessionToken'', JStr (ControlWsConfig.session_token c)),
           (''nodePublicKey'', JStr (ControlWsConfig.node_public_key c)),
           (''capabilities'', JArr (map JStr (ControlWsConfig.capabilities c)))]"

text \<open>A field with \<open>skip_serializing_if = "Option::is_none"\<close>.\<close>

definition se_present :: "string \<Rightarrow> ('a \<Rightarrow> json) \<Rightarrow> 'a option \<Rightarrow> json_object" where
  "se_present k se v = (case v of None \<Rightarrow> [] | Some x \<Rightarrow> [(k, se x)])"

definition se_connection_state :: "ControlWsConnectionStateReport \<Rightarrow> json" where
  "se_connection_state r =
     JObj ([(''networkId'', JStr (ControlWsConnectionStateReport.network_id r)),
            (''peerNodeId'', JStr (ControlWsConnectionStateReport.peer_node_id r)),
            (''path'', JStr (ControlWsConnectionStateReport.path r)),
            (''state'', JStr (ControlWsConnectionStateReport.state r))]
       @ se_present ''reason'' JStr (ControlWsConnectionStateReport.reason r)
       @ se_present ''observedRttMs'' (\<lambda>w. JNum (uint w)) (ControlWsConnectionStateReport.observed_rtt_ms r)
       @ se_present ''packetLossPpm'' (\<lambda>w. JNum (uint w)) (ControlWsConnectionStateReport.packet_loss_ppm r)
       @ se_present ''pathScore'' (\<lambda>w. JNum (uint w)) (ControlWsConnectionStateReport.path_score r)
       @ se_present ''derpNodeId'' JStr (ControlWsConnectionStateReport.derp_node_id r))"

definition se_path_health :: "ControlWsPathHealthReport \<Rightarrow> json" where
  "se_path_health r =
     JObj ([(''networkId'', JStr (ControlWsPathHealthReport.network_id r)),
            (''peerNodeId'', JStr (ControlWsPathHealthReport.peer_node_id r)),
            (''pathType'', JStr (ControlWsPathHealthReport.path_type r))]
       @ se_present ''endpoint'' JStr (ControlWsPathHealthReport.endpoint r)
       @ se_present ''derpNodeId'' JStr (ControlWsPathHealthReport.derp_node_id r)
       @ se_present ''observedRttMs'' (\<lambda>w. JNum (uint w)) (ControlWsPathHealthReport.observed_rtt_ms r)
       @ se_present ''packetLossPpm'' (\<lambda>w. JNum (uint w)) (ControlWsPathHealthReport.packet_loss_ppm r)
       @ se_present ''pathScore'' (\<lambda>w. JNum (uint w)) (ControlWsPathHealthReport.path_score r)
       @ [(''sampledAtMs'', JNum (uint (ControlWsPathHealthReport.sampled_at_ms r)))])"

end
