(* ===== verification/Control_Ws.thy ===== *)
theory Control_Ws
  imports Ws_Frame Control_Messages
begin

text \<open>
  Crate \<open>control-ws-client\<close>: the client of the control channel.  It reads envelopes, acknowledges those
  that carry a message id, keeps the events that arrive while it waits for a response, and hands
  them out later in the order they came.  The state holds what the connection will deliver, what was
  written to it, and which acknowledgements were tried.  Texts of JSON documents and the wording of
  \<open>serde\<close>'s errors are parameters, as are the answers of the operating system.
\<close>

record WsEnv =
  dial :: "string \<Rightarrow> (stream, string) result"
  write_all :: "u8 list \<Rightarrow> (unit, string) result"
  flush :: "(unit, string) result"
  set_read_timeout :: "nat \<Rightarrow> (unit, string) result"
  set_write_timeout :: "nat \<Rightarrow> (unit, string) result"
  resolve :: "string \<Rightarrow> (SocketAddr list, string) result"
  dial_addr :: "SocketAddr \<Rightarrow> (stream, string) result"
  parse_json :: "u8 list \<Rightarrow> (json, string) result"
  print_json :: "json \<Rightarrow> (u8 list, string) result"
  serde_error :: "json \<Rightarrow> string"
  json_text :: "json \<Rightarrow> string"

record ControlWsClient =
  incoming :: stream
  written :: "u8 list list"
  ack_target :: "AckTarget option"
  acks :: "(string \<times> (unit, string) result) list"
  queued_events :: "ControlWsEvent list"

definition static_ws_key :: string where
  "static_ws_key = ''dGhlIHNhbXBsZSBub25jZQ==''"

definition default_io_timeout :: nat where
  "default_io_timeout = 5"

definition crlf :: string where
  "crlf = [CHR 0x0D, CHR 0x0A]"

section \<open>Connecting\<close>

definition upgrade_request :: "ControlWsConfig \<Rightarrow> WsEndpoint \<Rightarrow> string" where
  "upgrade_request cfg ep =
     ''GET '' @ append_device_id_query (WsEndpoint.path ep) (ControlWsConfig.device_id cfg) @ '' HTTP/1.1'' @ crlf
     @ ''Host: '' @ authority ep @ crlf @ ''Upgrade: websocket'' @ crlf @ ''Connection: Upgrade'' @ crlf
     @ ''Origin: '' @ ws_origin (authority ep) @ crlf @ ''Sec-WebSocket-Version: 13'' @ crlf
     @ ''Sec-WebSocket-Key: '' @ static_ws_key @ crlf
     @ ''X-Slan-Device-Id: '' @ ControlWsConfig.device_id cfg @ crlf @ crlf"

definition ws_connect :: "WsEnv \<Rightarrow> ControlWsConfig \<Rightarrow> (ControlWsClient, string) result" where
  "ws_connect env cfg =
     (case parse_ws_url (ControlWsConfig.ws_url cfg) of
        Err e \<Rightarrow> Err e
      | Ok ep \<Rightarrow> (case dial env (authority ep) of
          Err e \<Rightarrow> Err (''connect control ws '' @ authority ep @ '': '' @ e)
        | Ok s \<Rightarrow> (case set_read_timeout env default_io_timeout of
            Err e \<Rightarrow> Err (''set read timeout: '' @ e)
          | Ok _ \<Rightarrow> (case set_write_timeout env default_io_timeout of
              Err e \<Rightarrow> Err (''set write timeout: '' @ e)
            | Ok _ \<Rightarrow> (case write_all env (as_bytes (upgrade_request cfg ep)) of
                Err e \<Rightarrow> Err (''write websocket handshake: '' @ e)
              | Ok _ \<Rightarrow> (case flush env of
                  Err e \<Rightarrow> Err (''flush websocket handshake: '' @ e)
                | Ok _ \<Rightarrow> (case read_http_response s of
                    (Err e, s') \<Rightarrow> Err e
                  | (Ok response, s') \<Rightarrow>
                      if \<not> starts_with response ''HTTP/1.1 101'' \<and> \<not> starts_with response ''HTTP/1.0 101''
                      then Err (''control ws upgrade rejected: '' @ first_response_line response)
                      else Ok \<lparr>incoming = s', written = [as_bytes (upgrade_request cfg ep)],
                        ack_target = (case ack_target_from_ws_url (ControlWsConfig.ws_url cfg)
                            (ControlWsConfig.access_token cfg) of Ok t \<Rightarrow> Some t | Err _ \<Rightarrow> None),
                        acks = [], queued_events = []\<rparr>)))))))"

section \<open>Acknowledgements\<close>

definition ack_request :: "AckTarget \<Rightarrow> string \<Rightarrow> string \<Rightarrow> string" where
  "ack_request target auth mid =
     ''POST /control/messages/'' @ mid @ ''/ack HTTP/1.1'' @ crlf @ ''Host: '' @ auth @ crlf
     @ ''Accept: application/json'' @ crlf @ ''Authorization: Bearer '' @ AckTarget.access_token target @ crlf
     @ ''Content-Type: application/json'' @ crlf @ ''Content-Length: 2'' @ crlf @ ''Connection: close'' @ crlf @ crlf"

definition ack_control_message :: "WsEnv \<Rightarrow> AckTarget \<Rightarrow> string \<Rightarrow> (unit, string) result" where
  "ack_control_message env target mid =
     (case strip_prefix (trim (base_url target)) ''http://'' of
        None \<Rightarrow> Err ''unsupported ack url scheme''
      | Some auth \<Rightarrow> (case resolve env auth of
          Err e \<Rightarrow> Err (''resolve ack authority '' @ auth @ '': '' @ e)
        | Ok [] \<Rightarrow> Err (''no ack address resolved for '' @ auth)
        | Ok (addr # _) \<Rightarrow> (case dial_addr env addr of
            Err e \<Rightarrow> Err (''connect ack endpoint '' @ auth @ '': '' @ e)
          | Ok s \<Rightarrow> (case set_read_timeout env default_io_timeout of
              Err e \<Rightarrow> Err (''set ack read timeout: '' @ e)
            | Ok _ \<Rightarrow> (case set_write_timeout env default_io_timeout of
                Err e \<Rightarrow> Err (''set ack write timeout: '' @ e)
              | Ok _ \<Rightarrow>
                  (case (case write_all env (as_bytes (ack_request target auth mid)) of
                           Err e \<Rightarrow> Err e | Ok _ \<Rightarrow> write_all env (as_bytes ''{}'')) of
                     Err e \<Rightarrow> Err (''write ack request: '' @ e)
                   | Ok _ \<Rightarrow> (case fst (read_http_response s) of
                       Err e \<Rightarrow> Err e
                     | Ok response \<Rightarrow>
                         if \<not> starts_with response ''HTTP/1.1 200'' \<and> \<not> starts_with response ''HTTP/1.0 200''
                         then Err (''ack rejected: '' @ first_response_line response)
                         else Ok ())))))))"

section \<open>Envelopes\<close>

definition decode_as :: "WsEnv \<Rightarrow> string \<Rightarrow> (json \<Rightarrow> 'a option) \<Rightarrow> json \<Rightarrow> ('a, fault) result" where
  "decode_as env what de v =
     (case de v of None \<Rightarrow> Err (Fail (''decode '' @ what @ '': '' @ serde_error env v)) | Some x \<Rightarrow> Ok x)"

fun map_ok :: "('a \<Rightarrow> 'b) \<Rightarrow> ('a, 'e) result \<Rightarrow> ('b, 'e) result" where
  "map_ok f (Ok x) = Ok (f x)"
| "map_ok f (Err e) = Err e"

definition decode_control_ws_event :: "WsEnv \<Rightarrow> Envelope \<Rightarrow> (ControlWsEvent, fault) result" where
  "decode_control_ws_event env response =
     (let t = msg_type response; v = payload response
      in if t = ''peer_update'' then map_ok PeerUpdate (decode_as env t de_peer_update v)
         else if t = ''peer_remove'' then map_ok PeerRemove (decode_as env t de_peer_remove v)
         else if t = ''connect_plan'' then map_ok ConnectPlan (decode_as env t de_connect_plan v)
         else if t = ''network_restart_required'' then
           map_ok NetworkRestartRequired (decode_as env t de_network_restart v)
         else if t = ''device_ip_reassigned'' then map_ok DeviceIPReassigned (decode_as env t de_ip_reassigned v)
         else if t = ''active_network_enabled'' then map_ok ActiveNetworkEnabled (decode_as env t de_active_network v)
         else Err (Fail (''unexpected control ws event: '' @ t)))"

definition format_control_error :: "WsEnv \<Rightarrow> json \<Rightarrow> string" where
  "format_control_error env v =
     (case de_control_error v of
        Some e \<Rightarrow> if \<not> blank (message e) then code e @ '': '' @ message e else code e
      | None \<Rightarrow> json_text env v)"

definition send_envelope :: "WsEnv \<Rightarrow> Envelope \<Rightarrow> ControlWsClient \<Rightarrow> (unit, fault) result \<times> ControlWsClient" where
  "send_envelope env envelope c =
     (case print_json env (se_envelope envelope) of
        Err e \<Rightarrow> (Err (Fail (''encode ws envelope: '' @ e)), c)
      | Ok bytes \<Rightarrow>
          let frame = encode_text_frame bytes
          in (case write_all env frame of
                Err e \<Rightarrow> (Err (Fail (''write websocket frame: '' @ e)), c)
              | Ok _ \<Rightarrow>
                  let c' = c\<lparr>written := written c @ [frame]\<rparr>
                  in (case flush env of
                        Err e \<Rightarrow> (Err (Fail (''flush websocket frame: '' @ e)), c')
                      | Ok _ \<Rightarrow> (Ok (), c'))))"

definition envelope_from_slice :: "WsEnv \<Rightarrow> u8 list \<Rightarrow> (Envelope, string) result" where
  "envelope_from_slice env bytes =
     (case parse_json env bytes of
        Err e \<Rightarrow> Err e
      | Ok v \<Rightarrow> (case de_envelope v of None \<Rightarrow> Err (serde_error env v) | Some e \<Rightarrow> Ok e))"

definition acknowledge :: "WsEnv \<Rightarrow> Envelope \<Rightarrow> ControlWsClient \<Rightarrow> ControlWsClient" where
  "acknowledge env e c =
     (case (ack_target c, message_id e) of
        (Some target, Some mid) \<Rightarrow> c\<lparr>acks := acks c @ [(mid, ack_control_message env target mid)]\<rparr>
      | _ \<Rightarrow> c)"

definition read_envelope :: "WsEnv \<Rightarrow> ControlWsClient \<Rightarrow> (Envelope, fault) result \<times> ControlWsClient" where
  "read_envelope env c =
     (case decode_text_frame (incoming c) of
        (Err e, s) \<Rightarrow> (Err e, c\<lparr>incoming := s\<rparr>)
      | (Ok bytes, s) \<Rightarrow>
          (case envelope_from_slice env bytes of
             Err e \<Rightarrow> (Err (Fail (''decode ws envelope: '' @ e)), c\<lparr>incoming := s\<rparr>)
           | Ok e \<Rightarrow> (Ok e, acknowledge env e (c\<lparr>incoming := s\<rparr>))))"

text \<open>Every frame that is read takes bytes, so waiting for a response ends.\<close>

lemma read_exact_size: "stream_size (snd (read_exact n s)) \<le> stream_size s"
proof (induction n s rule: read_exact.induct)
  case (5 n b bs s)
  then show ?case
    by (auto split: prod.splits result.splits)
qed auto

lemma read_exact_takes:
  assumes "read_exact n s = (Ok bs, s')" and "0 < n"
  shows "stream_size s' < stream_size s"
  using assms
proof (induction n s arbitrary: bs rule: read_exact.induct)
  case (5 n b bl s)
  then show ?case
    using read_exact_size [of n "Segment bl # s"] by (auto split: prod.splits result.splits)
qed auto

lemma read_io_size: "read_io ctx n s = (r, s') \<Longrightarrow> stream_size s' \<le> stream_size s"
  using read_exact_size [of n s] by (auto simp: read_io_def apfst_def map_prod_def split: prod.splits)

lemma read_payload_len_size: "read_payload_len b s = (r, s') \<Longrightarrow> stream_size s' \<le> stream_size s"
  by (auto simp: read_payload_len_def Let_def dest: read_io_size split: if_splits prod.splits result.splits)

lemma decode_text_frame_takes:
  assumes "decode_text_frame s = (Ok bytes, s')"
  shows "stream_size s' < stream_size s"
proof -
  obtain header s1 where 1: "read_io ''read websocket frame header: '' 2 s = (Ok header, s1)"
    using assms by (auto simp: decode_text_frame_def split: prod.splits result.splits)
  then have "stream_size s1 < stream_size s"
    using read_exact_takes by (auto simp: read_io_def apfst_def map_prod_def split: prod.splits)
  moreover have "stream_size s' \<le> stream_size s1"
    using assms
    by (auto simp: decode_text_frame_def 1 Let_def dest!: read_io_size read_payload_len_size
        split: prod.splits result.splits if_splits)
  ultimately show ?thesis by simp
qed

lemma acknowledge_sel [simp]:
  "incoming (acknowledge env e c) = incoming c" "written (acknowledge env e c) = written c"
  "queued_events (acknowledge env e c) = queued_events c" "ack_target (acknowledge env e c) = ack_target c"
  by (simp_all add: acknowledge_def split: option.splits)

lemma read_envelope_takes:
  "read_envelope env c = (Ok e, c') \<Longrightarrow> stream_size (incoming c') < stream_size (incoming c)"
  by (auto simp: read_envelope_def dest: decode_text_frame_takes split: prod.splits result.splits)

function read_response_envelope ::
  "WsEnv \<Rightarrow> string \<Rightarrow> ControlWsClient \<Rightarrow> (Envelope, fault) result \<times> ControlWsClient" where
  "read_response_envelope env expected_type c =
     (case read_envelope env c of
        (Err e, c') \<Rightarrow> (Err e, c')
      | (Ok response, c') \<Rightarrow>
          if msg_type response = ''error'' then (Err (Fail (format_control_error env (payload response))), c')
          else if msg_type response = expected_type then (Ok response, c')
          else (case decode_control_ws_event env response of
             Ok event \<Rightarrow> read_response_envelope env expected_type (c'\<lparr>queued_events := queued_events c' @ [event]\<rparr>)
           | Err _ \<Rightarrow> (Err (Fail (''unexpected control ws response while waiting for '' @ expected_type)), c')))"
  by pat_completeness auto
termination
  by (relation "measure (\<lambda>(env, t, c). stream_size (incoming c))") (auto dest!: read_envelope_takes [OF sym])

declare read_response_envelope.simps [simp del]

section \<open>Requests\<close>

definition request :: "string \<Rightarrow> string \<Rightarrow> json \<Rightarrow> Envelope" where
  "request t rid v = \<lparr>msg_type = t, request_id = Some rid, message_id = None, payload = v\<rparr>"

definition decode_network_map_response :: "WsEnv \<Rightarrow> json \<Rightarrow> (NetworkMap, fault) result" where
  "decode_network_map_response env v =
     decode_as env ''network_map_response'' (de_object (de_field de_network_map ''map'')) v"

definition bootstrap_session ::
  "WsEnv \<Rightarrow> ControlWsConfig \<Rightarrow> ControlWsClient \<Rightarrow> (ControlSessionBootstrap, fault) result \<times> ControlWsClient" where
  "bootstrap_session env cfg c =
     (case send_envelope env (request ''node_hello'' ''node-hello'' (se_node_hello cfg)) c of
        (Err e, c1) \<Rightarrow> (Err e, c1)
      | (Ok _, c1) \<Rightarrow> (case read_response_envelope env ''node_hello_ack'' c1 of
          (Err e, c2) \<Rightarrow> (Err e, c2)
        | (Ok ack_env, c2) \<Rightarrow>
            if msg_type ack_env \<noteq> ''node_hello_ack''
            then (Err (Fail (''unexpected control ws response: '' @ msg_type ack_env)), c2)
            else (case decode_as env ''node_hello_ack'' de_hello_ack (payload ack_env) of
              Err e \<Rightarrow> (Err e, c2)
            | Ok hello \<Rightarrow> (case read_response_envelope env ''network_map_response'' c2 of
                (Err e, c3) \<Rightarrow> (Err e, c3)
              | (Ok network_env, c3) \<Rightarrow>
                  if msg_type network_env \<noteq> ''network_map_response''
                  then (Err (Fail (''unexpected control ws response after node_hello_ack: '' @ msg_type network_env)), c3)
                  else (map_ok (\<lambda>m. \<lparr>ack = hello, network_map = m\<rparr>)
                          (decode_network_map_response env (payload network_env)), c3)))))"

definition request_network_map_since ::
  "WsEnv \<Rightarrow> string \<Rightarrow> u64 \<Rightarrow> ControlWsClient \<Rightarrow> (NetworkMap, fault) result \<times> ControlWsClient" where
  "request_network_map_since env network last_revision c =
     (case send_envelope env (request ''network_map_request'' ''network-map''
             (JObj [(''networkId'', JStr network), (''lastRevision'', JNum (uint last_revision))])) c of
        (Err e, c1) \<Rightarrow> (Err e, c1)
      | (Ok _, c1) \<Rightarrow> (case read_response_envelope env ''network_map_response'' c1 of
          (Err e, c2) \<Rightarrow> (Err e, c2)
        | (Ok response, c2) \<Rightarrow>
            if msg_type response \<noteq> ''network_map_response''
            then (Err (Fail (''unexpected network map response: '' @ msg_type response)), c2)
            else (decode_network_map_response env (payload response), c2)))"

definition request_network_map ::
  "WsEnv \<Rightarrow> string \<Rightarrow> ControlWsClient \<Rightarrow> (NetworkMap, fault) result \<times> ControlWsClient" where
  "request_network_map env network c = request_network_map_since env network 0 c"

definition ping :: "WsEnv \<Rightarrow> int \<Rightarrow> ControlWsClient \<Rightarrow> (Pong, fault) result \<times> ControlWsClient" where
  "ping env t c =
     (case send_envelope env (request ''ping'' ''ping'' (JObj [(''timestamp'', JNum t)])) c of
        (Err e, c1) \<Rightarrow> (Err e, c1)
      | (Ok _, c1) \<Rightarrow> (case read_response_envelope env ''pong'' c1 of
          (Err e, c2) \<Rightarrow> (Err e, c2)
        | (Ok response, c2) \<Rightarrow>
            if msg_type response \<noteq> ''pong''
            then (Err (Fail (''unexpected control ws response to ping: '' @ msg_type response)), c2)
            else (decode_as env ''pong'' de_pong (payload response), c2)))"

definition send_connection_state ::
  "WsEnv \<Rightarrow> ControlWsConnectionStateReport \<Rightarrow> ControlWsClient \<Rightarrow> (unit, fault) result \<times> ControlWsClient" where
  "send_connection_state env report c =
     send_envelope env (request ''connection_state'' ''connection-state'' (se_connection_state report)) c"

definition send_path_health_report ::
  "WsEnv \<Rightarrow> ControlWsPathHealthReport \<Rightarrow> ControlWsClient \<Rightarrow> (unit, fault) result \<times> ControlWsClient" where
  "send_path_health_report env report c =
     send_envelope env (request ''path_health_report'' ''path-health'' (se_path_health report)) c"

section \<open>Events\<close>

definition read_event :: "WsEnv \<Rightarrow> ControlWsClient \<Rightarrow> (ControlWsEvent, fault) result \<times> ControlWsClient" where
  "read_event env c =
     (case queued_events c of
        event # rest \<Rightarrow> (Ok event, c\<lparr>queued_events := rest\<rparr>)
      | [] \<Rightarrow> (case read_envelope env c of
          (Err e, c') \<Rightarrow> (Err e, c')
        | (Ok response, c') \<Rightarrow>
            if msg_type response = ''error'' then (Err (Fail (format_control_error env (payload response))), c')
            else (decode_control_ws_event env response, c')))"

definition is_control_ws_timeout_error :: "string \<Rightarrow> bool" where
  "is_control_ws_timeout_error e \<longleftrightarrow>
     (let lower = to_ascii_lowercase e
      in contains lower ''timed out'' \<or> contains lower ''would block''
         \<or> contains lower ''resource temporarily unavailable'' \<or> contains lower ''os error 35'')"

text \<open>The loop: events until the limit, a timeout, or an error.\<close>

fun drain_loop ::
  "WsEnv \<Rightarrow> nat \<Rightarrow> ControlWsEvent list \<Rightarrow> ControlWsClient \<Rightarrow> (ControlWsEvent list, fault) result \<times> ControlWsClient" where
  "drain_loop env 0 events c = (Ok events, c)"
| "drain_loop env (Suc n) events c =
     (case read_event env c of
        (Ok event, c') \<Rightarrow> drain_loop env n (events @ [event]) c'
      | (Err (Fail e), c') \<Rightarrow> if is_control_ws_timeout_error e then (Ok events, c') else (Err (Fail e), c')
      | (Err (Panic p), c') \<Rightarrow> (Err (Panic p), c'))"

definition drain_pending_events ::
  "WsEnv \<Rightarrow> nat \<Rightarrow> nat \<Rightarrow> ControlWsClient \<Rightarrow> (ControlWsEvent list, fault) result \<times> ControlWsClient" where
  "drain_pending_events env timeout limit c =
     (case set_read_timeout env timeout of
        Err e \<Rightarrow> (Err (Fail (''set drain read timeout: '' @ e)), c)
      | Ok _ \<Rightarrow> (case drain_loop env limit [] c of
          (Ok events, c') \<Rightarrow> (case set_read_timeout env default_io_timeout of
              Err e \<Rightarrow> (Err (Fail (''reset read timeout: '' @ e)), c')
            | Ok _ \<Rightarrow> (Ok events, c'))
        | (Err (Fail e), c') \<Rightarrow> (case set_read_timeout env default_io_timeout of
              Err e' \<Rightarrow> (Err (Fail (''reset read timeout after error: '' @ e')), c')
            | Ok _ \<Rightarrow> (Err (Fail e), c'))
        | (Err (Panic p), c') \<Rightarrow> (Err (Panic p), c')))"

definition display_bootstrap :: "ControlSessionBootstrap \<Rightarrow> string" where
  "display_bootstrap b =
     ''control session '' @ control_session_id (ack b) @ '' heartbeat ''
     @ show_nat (unat (NodeHelloAck.heartbeat_seconds (ack b)))
     @ '' peers '' @ show_nat (length (NetworkMap.peers (network_map b)))"

end
