(* ===== verification/Control_Ws_Order.thy ===== *)
theory Control_Ws_Order
  imports Control_Ws
begin

text \<open>
  What the control channel guarantees: waiting for a response keeps the events that come before it,
  in order and acknowledged, draining hands them out in that order, and what a timeout in the middle
  of a frame does.
\<close>

text \<open>
  A message the server sends: its bytes, the envelope they decode to, and the event of that
  envelope.
\<close>

definition event_message :: "WsEnv \<Rightarrow> string \<Rightarrow> u8 list \<Rightarrow> Envelope \<Rightarrow> ControlWsEvent \<Rightarrow> bool" where
  "event_message env expected_type bytes e ev \<longleftrightarrow>
     length bytes < 2 ^ 63 \<and> envelope_from_slice env bytes = Ok e \<and>
     msg_type e \<noteq> ''error'' \<and> msg_type e \<noteq> expected_type \<and> decode_control_ws_event env e = Ok ev"

definition acks_for :: "WsEnv \<Rightarrow> AckTarget option \<Rightarrow> Envelope list \<Rightarrow> (string \<times> (unit, string) result) list" where
  "acks_for env target es =
     (case target of
        None \<Rightarrow> []
      | Some t \<Rightarrow> map (\<lambda>mid. (mid, ack_control_message env t mid)) (List.map_filter message_id es))"

lemma acks_for_Cons: "acks_for env t (e # es) = acks_for env t [e] @ acks_for env t es"
  by (simp add: acks_for_def map_filter_simps split: option.splits)

lemma acknowledge_acks: "acks (acknowledge env e c) = acks c @ acks_for env (ack_target c) [e]"
  by (simp add: acknowledge_def acks_for_def map_filter_simps split: option.splits)

lemma read_envelope_Ok:
  assumes "length bytes < 2 ^ 63" and "arriving (incoming c) = server_frame bytes @ rest"
    and "envelope_from_slice env bytes = Ok e"
  obtains c' where "read_envelope env c = (Ok e, c')" and "arriving (incoming c') = rest"
    and "queued_events c' = queued_events c" and "written c' = written c" and "ack_target c' = ack_target c"
    and "acks c' = acks c @ acks_for env (ack_target c) [e]"
proof -
  obtain s where "decode_text_frame (incoming c) = (Ok bytes, s)" "arriving s = rest"
    using decode_server_frame [OF assms(1,2)] by blast
  with that [of "acknowledge env e (c\<lparr>incoming := s\<rparr>)"] assms(3) show thesis
    by (simp add: read_envelope_def acknowledge_acks)
qed

lemma read_response_keeps:
  assumes "\<forall>(bytes, e, ev) \<in> set msgs. event_message env expected_type bytes e ev"
    and "length rbytes < 2 ^ 63" and "envelope_from_slice env rbytes = Ok r"
    and "msg_type r = expected_type" and "expected_type \<noteq> ''error''"
    and "arriving (incoming c) = concat (map (server_frame \<circ> fst) msgs) @ server_frame rbytes @ rest"
  shows "\<exists>c'. read_response_envelope env expected_type c = (Ok r, c') \<and> arriving (incoming c') = rest \<and>
    queued_events c' = queued_events c @ map (snd \<circ> snd) msgs \<and>
    acks c' = acks c @ acks_for env (ack_target c) (map (fst \<circ> snd) msgs @ [r])"
  using assms
proof (induction msgs arbitrary: c)
  case Nil
  obtain c' where "read_envelope env c = (Ok r, c')" "arriving (incoming c') = rest"
      "queued_events c' = queued_events c" "acks c' = acks c @ acks_for env (ack_target c) [r]"
    using read_envelope_Ok [OF Nil(2) _ Nil(3), of c rest] Nil(6) by auto
  with Nil show ?case
    by (subst read_response_envelope.simps) simp
next
  case (Cons m msgs)
  obtain bytes e ev where m: "m = (bytes, e, ev)" by (cases m) auto
  have ev: "event_message env expected_type bytes e ev"
    using Cons.prems(1) m by simp
  obtain c1 where c1: "read_envelope env c = (Ok e, c1)"
      "arriving (incoming c1) = concat (map (server_frame \<circ> fst) msgs) @ server_frame rbytes @ rest"
      "queued_events c1 = queued_events c" "ack_target c1 = ack_target c"
      "acks c1 = acks c @ acks_for env (ack_target c) [e]"
  proof -
    have "arriving (incoming c) = server_frame bytes @ concat (map (server_frame \<circ> fst) msgs) @ server_frame rbytes @ rest"
      using Cons.prems(6) by (simp add: m o_def)
    moreover have "length bytes < 2 ^ 63" "envelope_from_slice env bytes = Ok e"
      using ev by (simp_all add: event_message_def)
    ultimately show thesis
      using that read_envelope_Ok by blast
  qed
  let ?c2 = "c1\<lparr>queued_events := queued_events c1 @ [ev]\<rparr>"
  have step: "read_response_envelope env expected_type c = read_response_envelope env expected_type ?c2"
    using c1(1) ev by (subst read_response_envelope.simps) (simp add: event_message_def)
  obtain c' where "read_response_envelope env expected_type ?c2 = (Ok r, c')" "arriving (incoming c') = rest"
      "queued_events c' = queued_events ?c2 @ map (snd \<circ> snd) msgs"
      "acks c' = acks ?c2 @ acks_for env (ack_target ?c2) (map (fst \<circ> snd) msgs @ [r])"
  proof -
    have "\<forall>(bytes, e, ev) \<in> set msgs. event_message env expected_type bytes e ev"
      using Cons.prems(1) by simp
    moreover have "arriving (incoming ?c2) = concat (map (server_frame \<circ> fst) msgs) @ server_frame rbytes @ rest"
      using c1(2) by simp
    ultimately show thesis
      using Cons.IH [OF _ Cons.prems(2-5)] that by blast
  qed
  then show ?case
    using step c1 m acks_for_Cons [of env "ack_target c" e "map (fst \<circ> snd) msgs @ [r]"]
    by (simp add: o_def)
qed

lemma drain_queue:
  "drain_loop env (length evs) acc (c\<lparr>queued_events := evs @ q\<rparr>) = (Ok (acc @ evs), c\<lparr>queued_events := q\<rparr>)"
  by (induction evs arbitrary: acc) (simp_all add: read_event_def)

text \<open>
  C25: events that the server sends before the response a request waits for are not lost: the request
  returns the response, every envelope with a message id has been acknowledged once and in order, and
  draining afterwards returns exactly these events, in the order they were sent, without touching what
  follows on the connection.
\<close>

theorem events_before_response_kept:
  assumes "\<forall>(bytes, e, ev) \<in> set msgs. event_message env expected_type bytes e ev"
    and "length rbytes < 2 ^ 63" and "envelope_from_slice env rbytes = Ok r"
    and "msg_type r = expected_type" and "expected_type \<noteq> ''error''"
    and "arriving (incoming c) = concat (map (server_frame \<circ> fst) msgs) @ server_frame rbytes @ rest"
    and "queued_events c = []" and "set_read_timeout env = (\<lambda>_. Ok ())"
  shows "\<exists>c1 c2. read_response_envelope env expected_type c = (Ok r, c1) \<and>
    acks c1 = acks c @ acks_for env (ack_target c) (map (fst \<circ> snd) msgs @ [r]) \<and>
    drain_pending_events env timeout (length msgs) c1 = (Ok (map (snd \<circ> snd) msgs), c2) \<and>
    arriving (incoming c2) = rest"
proof -
  obtain c1 where c1: "read_response_envelope env expected_type c = (Ok r, c1)" "arriving (incoming c1) = rest"
      "queued_events c1 = map (snd \<circ> snd) msgs"
      "acks c1 = acks c @ acks_for env (ack_target c) (map (fst \<circ> snd) msgs @ [r])"
    using read_response_keeps [OF assms(1-6)] assms(7) by auto
  have "drain_loop env (length msgs) [] c1 = (Ok (map (snd \<circ> snd) msgs), c1\<lparr>queued_events := []\<rparr>)"
    using drain_queue [of env "map (snd \<circ> snd) msgs" "[]" "[]" c1] c1(3)
    by (metis ControlWsClient.surjective ControlWsClient.update_convs(5) append.right_neutral append_Nil length_map)
  then have "drain_pending_events env timeout (length msgs) c1 = (Ok (map (snd \<circ> snd) msgs), c1\<lparr>queued_events := []\<rparr>)"
    using assms(8) by (simp add: drain_pending_events_def)
  with c1 show ?thesis by auto
qed

text \<open>
  A timeout inside a frame is reported as nothing pending, but the bytes already read are gone:
  after the first byte of a frame and a timeout, draining returns no event and no error, and the next
  read starts at the second byte of the frame.
\<close>

theorem timeout_inside_frame:
  assumes "queued_events c = []" and "incoming c = Segment [b] # ReadError e # rest"
    and "is_control_ws_timeout_error (''read websocket frame header: '' @ e)"
    and "set_read_timeout env = (\<lambda>_. Ok ())"
  shows "drain_pending_events env timeout (Suc n) c = (Ok [], c\<lparr>incoming := rest\<rparr>)"
proof -
  have "read_exact 2 (incoming c) = (Err e, rest)"
    by (simp add: assms(2) numeral_2_eq_2)
  then have "decode_text_frame (incoming c) = (Err (Fail (''read websocket frame header: '' @ e)), rest)"
    by (simp add: decode_text_frame_def read_io_def)
  then have "read_event env c = (Err (Fail (''read websocket frame header: '' @ e)), c\<lparr>incoming := rest\<rparr>)"
    by (simp add: read_event_def assms(1) read_envelope_def)
  then show ?thesis
    using assms(3,4) by (simp add: drain_pending_events_def)
qed

section \<open>Witnesses\<close>

text \<open>An environment whose JSON texts are single bytes that stand for documents.\<close>

definition demo_remove :: json where
  "demo_remove = JObj [(''type'', JStr ''peer_remove''), (''messageId'', JStr ''m1''),
     (''payload'', JObj [(''networkId'', JStr ''n1''), (''revision'', JNum 4), (''peerNodeId'', JStr ''p1'')])]"

definition demo_pong :: json where
  "demo_pong = JObj [(''type'', JStr ''pong''), (''payload'', JObj [(''timestamp'', JNum 9)])]"

definition demo_ws_env :: WsEnv where
  "demo_ws_env =
     \<lparr>dial = (\<lambda>_. Ok []), write_all = (\<lambda>_. Ok ()), flush = Ok (), set_read_timeout = (\<lambda>_. Ok ()),
      set_write_timeout = (\<lambda>_. Ok ()), resolve = (\<lambda>_. Err ''unreachable''), dial_addr = (\<lambda>_. Err ''refused''),
      parse_json = (\<lambda>b. if b = [1] then Ok demo_remove else if b = [2] then Ok demo_pong else Err ''expected value''),
      print_json = (\<lambda>_. Ok [0]), serde_error = (\<lambda>_. ''invalid''), json_text = (\<lambda>_. ''null'')\<rparr>"

definition demo_ws :: ControlWsClient where
  "demo_ws = \<lparr>incoming = [Segment (server_frame [1] @ server_frame [2])], written = [], ack_target = None, acks = [],
     queued_events = []\<rparr>"

theorem events_before_response_kept_witness:
  "\<exists>r c1 c2. read_response_envelope demo_ws_env ''pong'' demo_ws = (Ok r, c1) \<and>
     drain_pending_events demo_ws_env 1 1 c1 =
       (Ok [PeerRemove \<lparr>ControlWsPeerRemove.network_id = ''n1'', revision = 4, peer_node_id = ''p1''\<rparr>], c2)"
proof -
  let ?e = "\<lparr>msg_type = ''peer_remove'', request_id = None, message_id = Some ''m1'',
     payload = JObj [(''networkId'', JStr ''n1''), (''revision'', JNum 4), (''peerNodeId'', JStr ''p1'')]\<rparr>"
  let ?r = "\<lparr>msg_type = ''pong'', request_id = None, message_id = None, payload = JObj [(''timestamp'', JNum 9)]\<rparr>"
  let ?ev = "PeerRemove \<lparr>ControlWsPeerRemove.network_id = ''n1'', revision = 4, peer_node_id = ''p1''\<rparr>"
  have r: "envelope_from_slice demo_ws_env [2] = Ok ?r" and e: "envelope_from_slice demo_ws_env [1] = Ok ?e"
      and ev: "decode_control_ws_event demo_ws_env ?e = Ok ?ev"
    by code_simp+
  have "event_message demo_ws_env ''pong'' [1] ?e ?ev"
    using e ev by (simp add: event_message_def)
  with events_before_response_kept [of "[([1], ?e, ?ev)]" demo_ws_env "''pong''" "[2]" ?r demo_ws "[]" 1] r
  show ?thesis
    by (fastforce simp: demo_ws_def demo_ws_env_def)
qed

theorem timeout_inside_frame_witness:
  "drain_pending_events demo_ws_env 1 1 (demo_ws\<lparr>incoming :=
     [Segment [0x81], ReadError ''Connection timed out'', Segment [0x01, 0x02]]\<rparr>) =
   (Ok [], demo_ws\<lparr>incoming := [Segment [0x01, 0x02]]\<rparr>)"
proof -
  have "is_control_ws_timeout_error (''read websocket frame header: '' @ ''Connection timed out'')"
    by code_simp
  then show ?thesis
    using timeout_inside_frame [of "demo_ws\<lparr>incoming := [Segment [0x81], ReadError ''Connection timed out'', Segment [0x01, 0x02]]\<rparr>"
        "0x81" "''Connection timed out''" "[Segment [0x01, 0x02]]" demo_ws_env 1 0]
    by (simp add: demo_ws_def demo_ws_env_def)
qed

end
