(* ===== verification/Derp_Client.thy ===== *)
theory Derp_Client
  imports Sockets
begin

text \<open>
  \<open>SocketDerpClient\<close> of crate \<open>relay-client\<close>: one connection to a DERP node, with the ticket attached
  to it.  The trait \<open>DerpClient\<close> is a record of operations, each taking the answers of the environment
  for that call; the locale \<open>derp_client\<close> states what the pool relies on, and the socket client is
  shown to provide it.
\<close>

section \<open>The client\<close>

record DerpClientState =
  meta :: "DerpNodeMeta option"
  ticket :: "RelayTicket option"
  active_socket :: "ActiveSocket option"
  last_probe_at_ms :: u64
  last_recv_at_ms :: u64
  closed :: bool

record SocketDerpClient =
  client_state :: "DerpClientState mutex"

definition derp_client_default :: SocketDerpClient where
  "derp_client_default =
     \<lparr>client_state = Healthy \<lparr>meta = None, ticket = None, active_socket = None,
        last_probe_at_ms = 0, last_recv_at_ms = 0, closed = False\<rparr>\<rparr>"

definition authority :: "DerpNodeMeta \<Rightarrow> string" where
  "authority m = DerpNodeMeta.host m @ '':'' @ show_nat (unat (DerpNodeMeta.port m))"

definition derp_connect_tcp :: "SocketEnv \<Rightarrow> DerpNodeMeta \<Rightarrow> (ActiveSocket, string) result" where
  "derp_connect_tcp env m =
     (case resolve env (authority m) of
        Err e \<Rightarrow> Err (''resolve derp tcp endpoint '' @ authority m @ '': '' @ e)
      | Ok [] \<Rightarrow> Err (''no derp tcp address resolved for '' @ authority m)
      | Ok (addr # _) \<Rightarrow>
          (case tcp_connect env addr of
             Err e \<Rightarrow> Err (''tcp derp connect to '' @ authority m @ '' failed: '' @ e)
           | Ok s \<Rightarrow> Ok (TcpSocket s)))"

definition derp_connect_udp :: "SocketEnv \<Rightarrow> DerpNodeMeta \<Rightarrow> (ActiveSocket, string) result" where
  "derp_connect_udp env m =
     (let bind_addr = (if contains (DerpNodeMeta.host m) '':'' then ''[::]:0'' else ''0.0.0.0:0'')
      in case udp_bind env bind_addr of
           Err e \<Rightarrow> Err (''bind udp socket failed: '' @ e)
         | Ok s \<Rightarrow>
             (case udp_connect env s (authority m) of
                Err e \<Rightarrow> Err (''udp derp connect to '' @ authority m @ '' failed: '' @ e)
              | Ok _ \<Rightarrow> Ok (UdpSocket s)))"

definition require_ready_state :: "DerpClientState \<Rightarrow> (DerpNodeMeta \<times> RelayTicket, string) result" where
  "require_ready_state st =
     (case meta st of
        None \<Rightarrow> Err ''derp client has no connected node''
      | Some m \<Rightarrow> (case ticket st of
          None \<Rightarrow> Err ''derp client has no attached ticket''
        | Some t \<Rightarrow> if closed st then Err ''derp client is closed'' else Ok (m, t)))"

abbreviation derp_poisoned :: string where
  "derp_poisoned \<equiv> ''derp client state poisoned''"

definition derp_connect_node ::
  "SocketEnv \<Rightarrow> SocketDerpClient \<Rightarrow> DerpNodeMeta \<Rightarrow> (unit, string) result \<times> SocketDerpClient" where
  "derp_connect_node env c m =
     (case (case DerpNodeMeta.transport m of
              DerpTransport.Tcp \<Rightarrow> derp_connect_tcp env m
            | DerpTransport.Udp \<Rightarrow> derp_connect_udp env m
            | DerpTransport.Quic \<Rightarrow>
                Err (''quic derp transport not implemented for '' @ DerpNodeMeta.node_id m)) of
        Err e \<Rightarrow> (Err e, c)
      | Ok socket \<Rightarrow>
          (case lock (client_state c) of
             None \<Rightarrow> (Err derp_poisoned, c)
           | Some st \<Rightarrow>
               (Ok (), c\<lparr>client_state := Healthy (st\<lparr>meta := Some m, active_socket := Some socket,
                  closed := False, last_recv_at_ms := now_ms env\<rparr>)\<rparr>)))"

definition derp_attach_ticket ::
  "SocketDerpClient \<Rightarrow> RelayTicket \<Rightarrow> (unit, string) result \<times> SocketDerpClient" where
  "derp_attach_ticket c t =
     (case lock (client_state c) of
        None \<Rightarrow> (Err derp_poisoned, c)
      | Some st \<Rightarrow> (case meta st of
          None \<Rightarrow> (Err ''derp client has no connected node'', c)
        | Some m \<Rightarrow>
            if (case derp_cluster_id t of None \<Rightarrow> False | Some cl \<Rightarrow> cl \<noteq> DerpNodeMeta.cluster_id m) then
              (Err (''relay ticket cluster '' @ the (derp_cluster_id t)
                    @ '' does not match derp node cluster '' @ DerpNodeMeta.cluster_id m), c)
            else if allowed_derp_node_ids t \<noteq> []
                    \<and> DerpNodeMeta.node_id m \<notin> set (allowed_derp_node_ids t) then
              (Err (''relay ticket does not allow derp node '' @ DerpNodeMeta.node_id m), c)
            else (Ok (), c\<lparr>client_state := Healthy (st\<lparr>ticket := Some t, closed := False\<rparr>)\<rparr>)))"

definition derp_send_transport_packet ::
  "SocketEnv \<Rightarrow> SocketDerpClient \<Rightarrow> u8 list \<Rightarrow> (unit, string) result" where
  "derp_send_transport_packet env c packet =
     (if packet = [] then Err ''cannot send empty packet to derp node''
      else case lock (client_state c) of
        None \<Rightarrow> Err derp_poisoned
      | Some st \<Rightarrow> (case require_ready_state st of
          Err e \<Rightarrow> Err e
        | Ok _ \<Rightarrow> (case active_socket st of
            None \<Rightarrow> Err ''derp client has no active socket''
          | Some (TcpSocket s) \<Rightarrow>
              map_err (\<lambda>e. ''send packet to derp tcp socket failed: '' @ e) (tcp_write_all env s packet)
          | Some (UdpSocket s) \<Rightarrow>
              (case udp_send env s packet of
                 Err e \<Rightarrow> Err (''send packet to derp udp socket failed: '' @ e)
               | Ok _ \<Rightarrow> Ok ()))))"

text \<open>Reading, and the arrival time noted when a packet was read.\<close>

definition note_received ::
  "SocketEnv \<Rightarrow> SocketDerpClient \<Rightarrow> DerpClientState \<Rightarrow> (u8 list option, string) result \<Rightarrow> SocketDerpClient" where
  "note_received env c st r =
     (case r of
        Ok (Some _) \<Rightarrow> c\<lparr>client_state := Healthy (st\<lparr>last_recv_at_ms := now_ms env\<rparr>)\<rparr>
      | _ \<Rightarrow> c)"

definition derp_poll_transport_packet ::
  "SocketEnv \<Rightarrow> SocketDerpClient \<Rightarrow> (u8 list option, string) result \<times> SocketDerpClient" where
  "derp_poll_transport_packet env c =
     (case lock (client_state c) of
        None \<Rightarrow> (Err derp_poisoned, c)
      | Some st \<Rightarrow> (case require_ready_state st of
          Err e \<Rightarrow> (Err e, c)
        | Ok _ \<Rightarrow> (case active_socket st of
            None \<Rightarrow> (Err ''derp client has no active socket'', c)
          | Some (TcpSocket s) \<Rightarrow>
              (case set_nonblocking env s True of
                 Err e \<Rightarrow> (Err (''set derp tcp socket nonblocking failed: '' @ e), c)
               | Ok _ \<Rightarrow>
                   let r = tcp_poll env s ''read derp tcp socket failed: ''
                   in (r, note_received env c st r))
          | Some (UdpSocket s) \<Rightarrow>
              (case set_nonblocking env s True of
                 Err e \<Rightarrow> (Err (''set derp udp socket nonblocking failed: '' @ e), c)
               | Ok _ \<Rightarrow>
                   let r = (case udp_recv env s of
                              Ok b \<Rightarrow> Ok (Some (take 2048 b))
                            | Err e \<Rightarrow> if kind e = WouldBlock then Ok None
                                       else Err (''read derp udp socket failed: '' @ text_of e));
                       c' = note_received env c st r
                   in case set_nonblocking env s False of
                        Err e \<Rightarrow> (Err (''reset derp udp socket nonblocking failed: '' @ e), c')
                      | Ok _ \<Rightarrow> (r, c')))))"

definition derp_probe ::
  "SocketEnv \<Rightarrow> SocketDerpClient \<Rightarrow> (ProbeSample, string) result \<times> SocketDerpClient" where
  "derp_probe env c =
     (case lock (client_state c) of
        None \<Rightarrow> (Err derp_poisoned, c)
      | Some st \<Rightarrow> (case require_ready_state st of
          Err e \<Rightarrow> (Err e, c)
        | Ok _ \<Rightarrow>
            (Ok \<lparr>rtt_ms = 0, timed_out = False, packet_loss_ppm = 0, sampled_at_ms = now_ms env\<rparr>,
             c\<lparr>client_state := Healthy (st\<lparr>last_probe_at_ms := now_ms env\<rparr>)\<rparr>)))"

definition empty_meta :: DerpNodeMeta where
  "empty_meta =
     \<lparr>DerpNodeMeta.cluster_id = '''', region_id = '''', country_code = None, country_name = None,
      city_code = None, city_name = None, node_id = '''', host = '''', port = 0,
      transport = DerpTransport.Udp, priority = 0, tags = []\<rparr>"

definition derp_snapshot :: "SocketEnv \<Rightarrow> SocketDerpClient \<Rightarrow> DerpLinkSnapshot" where
  "derp_snapshot env c =
     (case lock (client_state c) of
        None \<Rightarrow>
          \<lparr>DerpLinkSnapshot.meta = empty_meta, state = DerpLinkState.Failed,
           health = \<lparr>rtt_ms_ewma = 0, loss_ppm = 0, timeout_count = 0, consecutive_failures = 0,
             last_probe_at_ms = now_ms env, last_recv_at_ms = now_ms env, score = - 1\<rparr>,
           is_active = False\<rparr>
      | Some st \<Rightarrow>
          let m = (case meta st of Some m \<Rightarrow> m | None \<Rightarrow> empty_meta);
              link_state =
                (if closed st then DerpLinkState.Closed
                 else if active_socket st = None then DerpLinkState.Connecting
                 else if ticket st = None then DerpLinkState.Connecting
                 else DerpLinkState.Ready)
          in \<lparr>DerpLinkSnapshot.meta = m, state = link_state,
              health = \<lparr>rtt_ms_ewma = 0, loss_ppm = 0, timeout_count = 0, consecutive_failures = 0,
                last_probe_at_ms = DerpClientState.last_probe_at_ms st,
                last_recv_at_ms = DerpClientState.last_recv_at_ms st,
                score = DerpNodeMeta.priority m\<rparr>,
              is_active = False\<rparr>)"

definition derp_close :: "SocketDerpClient \<Rightarrow> (unit, string) result \<times> SocketDerpClient" where
  "derp_close c =
     (case lock (client_state c) of
        None \<Rightarrow> (Err derp_poisoned, c)
      | Some st \<Rightarrow>
          (Ok (), c\<lparr>client_state := Healthy (st\<lparr>active_socket := None, ticket := None, closed := True\<rparr>)\<rparr>))"

section \<open>The trait\<close>

record ('e, 'c) DerpClient =
  connect_node_op :: "'e \<Rightarrow> 'c \<Rightarrow> DerpNodeMeta \<Rightarrow> (unit, string) result \<times> 'c"
  attach_ticket_op :: "'e \<Rightarrow> 'c \<Rightarrow> RelayTicket \<Rightarrow> (unit, string) result \<times> 'c"
  send_transport_packet_op :: "'e \<Rightarrow> 'c \<Rightarrow> u8 list \<Rightarrow> (unit, string) result \<times> 'c"
  poll_transport_packet_op :: "'e \<Rightarrow> 'c \<Rightarrow> (u8 list option, string) result \<times> 'c"
  probe_op :: "'e \<Rightarrow> 'c \<Rightarrow> (ProbeSample, string) result \<times> 'c"
  snapshot_op :: "'e \<Rightarrow> 'c \<Rightarrow> DerpLinkSnapshot"
  close_op :: "'e \<Rightarrow> 'c \<Rightarrow> (unit, string) result \<times> 'c"

definition socket_derp_client :: "(SocketEnv, SocketDerpClient) DerpClient" where
  "socket_derp_client =
     \<lparr>connect_node_op = derp_connect_node,
      attach_ticket_op = (\<lambda>env. derp_attach_ticket),
      send_transport_packet_op = (\<lambda>env c p. (derp_send_transport_packet env c p, c)),
      poll_transport_packet_op = derp_poll_transport_packet,
      probe_op = derp_probe, snapshot_op = derp_snapshot, close_op = (\<lambda>env. derp_close)\<rparr>"

section \<open>What the socket client guarantees\<close>

text \<open>The nodes a ticket may be attached to: its cluster and its list of nodes, where it has them.\<close>

definition ticket_allows :: "RelayTicket \<Rightarrow> DerpNodeMeta \<Rightarrow> bool" where
  "ticket_allows t m \<longleftrightarrow>
     derp_cluster_id t \<in> {None, Some (DerpNodeMeta.cluster_id m)} \<and>
     (allowed_derp_node_ids t = [] \<or> DerpNodeMeta.node_id m \<in> set (allowed_derp_node_ids t))"

definition client_ok :: "SocketDerpClient \<Rightarrow> bool" where
  "client_ok c \<longleftrightarrow> (\<exists>st. client_state c = Healthy st)"

lemmas derp_ops = derp_connect_node_def derp_attach_ticket_def derp_send_transport_packet_def
  derp_poll_transport_packet_def derp_probe_def derp_close_def note_received_def

lemma derp_attach_ticket_Ok_iff:
  "fst (derp_attach_ticket c t) = Ok () \<longleftrightarrow>
   (\<exists>st m. client_state c = Healthy st \<and> meta st = Some m \<and> ticket_allows t m)"
  by (cases "client_state c") (auto simp: derp_attach_ticket_def ticket_allows_def split: option.splits)

lemma derp_attach_ticket_state:
  "derp_attach_ticket c t = (Ok (), c') \<Longrightarrow>
   \<exists>st. client_state c = Healthy st \<and> client_state c' = Healthy (st\<lparr>ticket := Some t, closed := False\<rparr>)"
  by (cases "client_state c") (auto simp: derp_attach_ticket_def split: option.splits if_splits)

lemma derp_connect_node_state:
  "derp_connect_node env c m = (Ok (), c') \<Longrightarrow>
   \<exists>st s. client_state c = Healthy st \<and>
     client_state c' = Healthy (st\<lparr>meta := Some m, active_socket := Some s, closed := False,
                                  last_recv_at_ms := now_ms env\<rparr>)"
  by (cases "client_state c") (auto simp: derp_connect_node_def split: result.splits)

lemma derp_connect_node_error: "derp_connect_node env c m = (Err e, c') \<Longrightarrow> c' = c"
  by (auto simp: derp_connect_node_def split: result.splits option.splits)

lemma derp_snapshot_Ready_iff:
  "DerpLinkSnapshot.state (derp_snapshot env c) = DerpLinkState.Ready \<longleftrightarrow>
   (\<exists>st. client_state c = Healthy st \<and> \<not> closed st \<and> active_socket st \<noteq> None \<and> ticket st \<noteq> None)"
  by (cases "client_state c") (auto simp: derp_snapshot_def Let_def)

lemma derp_snapshot_usable_iff:
  "usable (DerpLinkSnapshot.state (derp_snapshot env c)) \<longleftrightarrow>
   DerpLinkSnapshot.state (derp_snapshot env c) = DerpLinkState.Ready"
  by (cases "client_state c") (auto simp: derp_snapshot_def Let_def usable_def)

text \<open>A ready client whose node was set by a connect passes the checks of every transport operation.\<close>

definition client_inv :: "SocketDerpClient \<Rightarrow> bool" where
  "client_inv c \<longleftrightarrow>
     (\<exists>st. client_state c = Healthy st \<and> (active_socket st \<noteq> None \<longrightarrow> meta st \<noteq> None) \<and>
           (ticket st \<noteq> None \<longrightarrow> meta st \<noteq> None))"

lemma client_inv_default: "client_inv derp_client_default"
  by (simp add: client_inv_def derp_client_default_def)

lemma client_inv_connect: "client_inv c \<Longrightarrow> client_inv (snd (derp_connect_node env c m))"
  by (auto simp: client_inv_def derp_connect_node_def split: result.splits)

lemma client_inv_attach: "client_inv c \<Longrightarrow> client_inv (snd (derp_attach_ticket c t))"
  by (auto simp: client_inv_def derp_attach_ticket_def split: option.splits)

lemma client_inv_poll: "client_inv c \<Longrightarrow> client_inv (snd (derp_poll_transport_packet env c))"
  by (auto simp: client_inv_def derp_poll_transport_packet_def note_received_def Let_def
      split: option.splits result.splits ActiveSocket.splits)

lemma client_inv_probe: "client_inv c \<Longrightarrow> client_inv (snd (derp_probe env c))"
  by (auto simp: client_inv_def derp_probe_def split: result.splits)

lemma client_inv_close: "client_inv c \<Longrightarrow> client_inv (snd (derp_close c))"
  by (auto simp: client_inv_def derp_close_def)

lemma client_inv_Ready:
  assumes "client_inv c" and "DerpLinkSnapshot.state (derp_snapshot env c) = DerpLinkState.Ready"
  obtains st m t s where "client_state c = Healthy st" "meta st = Some m" "ticket st = Some t"
    "active_socket st = Some s" "require_ready_state st = Ok (m, t)"
  using assms by (auto simp: client_inv_def derp_snapshot_Ready_iff require_ready_state_def)

section \<open>The contract of a DERP client\<close>

text \<open>
  What the pool relies on: a client on which connecting to a node and attaching a ticket both
  succeed is usable, and the ticket allows the node; a probe of a usable client keeps it usable; a
  closed client is not usable; operations keep clients valid.
\<close>

locale derp_client =
  fixes ops :: "('e, 'c) DerpClient"
    and valid :: "'c \<Rightarrow> bool"
  assumes connect_valid: "valid c \<Longrightarrow> valid (snd (connect_node_op ops e c m))"
    and attach_valid: "valid c \<Longrightarrow> valid (snd (attach_ticket_op ops e c t))"
    and probe_valid: "valid c \<Longrightarrow> valid (snd (probe_op ops e c))"
    and close_valid: "valid c \<Longrightarrow> valid (snd (close_op ops e c))"
    and attached_usable:
      "valid c \<Longrightarrow> connect_node_op ops e c m = (Ok (), c1) \<Longrightarrow> attach_ticket_op ops e' c1 t = (Ok (), c2) \<Longrightarrow>
       usable (DerpLinkSnapshot.state (snapshot_op ops e'' c2))"
    and attached_allows:
      "valid c \<Longrightarrow> connect_node_op ops e c m = (Ok (), c1) \<Longrightarrow> attach_ticket_op ops e' c1 t = (Ok (), c2) \<Longrightarrow>
       ticket_allows t m"
    and close_ok: "valid c \<Longrightarrow> fst (close_op ops e c) = Ok ()"
    and close_unusable:
      "valid c \<Longrightarrow> \<not> usable (DerpLinkSnapshot.state (snapshot_op ops e' (snd (close_op ops e c))))"
    and snapshot_state:
      "valid c \<Longrightarrow> DerpLinkSnapshot.state (snapshot_op ops e c) = DerpLinkSnapshot.state (snapshot_op ops e' c)"
    and probe_usable:
      "valid c \<Longrightarrow> usable (DerpLinkSnapshot.state (snapshot_op ops e c)) \<Longrightarrow>
       usable (DerpLinkSnapshot.state (snapshot_op ops e'' (snd (probe_op ops e' c))))"

interpretation socket_client: derp_client socket_derp_client client_inv
proof
  fix c c1 c2 :: SocketDerpClient and e e' e'' :: SocketEnv and m :: DerpNodeMeta and t :: RelayTicket
  assume inv: "client_inv c"
  show "client_inv (snd (connect_node_op socket_derp_client e c m))"
    using inv by (simp add: socket_derp_client_def client_inv_connect)
  show "client_inv (snd (attach_ticket_op socket_derp_client e c t))"
    using inv by (simp add: socket_derp_client_def client_inv_attach)
  show "client_inv (snd (probe_op socket_derp_client e c))"
    using inv by (simp add: socket_derp_client_def client_inv_probe)
  show "client_inv (snd (close_op socket_derp_client e c))"
    using inv by (simp add: socket_derp_client_def client_inv_close)
  show "fst (close_op socket_derp_client e c) = Ok ()"
    using inv by (auto simp: socket_derp_client_def client_inv_def derp_close_def)
  show "\<not> usable (DerpLinkSnapshot.state (snapshot_op socket_derp_client e' (snd (close_op socket_derp_client e c))))"
    using inv by (auto simp: socket_derp_client_def client_inv_def derp_close_def derp_snapshot_usable_iff
        derp_snapshot_Ready_iff)
  show "DerpLinkSnapshot.state (snapshot_op socket_derp_client e c) = DerpLinkSnapshot.state (snapshot_op socket_derp_client e' c)"
    using inv by (auto simp: socket_derp_client_def client_inv_def derp_snapshot_def Let_def)
  show "usable (DerpLinkSnapshot.state (snapshot_op socket_derp_client e'' (snd (probe_op socket_derp_client e' c))))"
    if "usable (DerpLinkSnapshot.state (snapshot_op socket_derp_client e c))"
    using inv that by (auto simp: socket_derp_client_def derp_snapshot_usable_iff derp_snapshot_Ready_iff
        derp_probe_def client_inv_def split: result.splits)
  assume connect: "connect_node_op socket_derp_client e c m = (Ok (), c1)"
    and attach: "attach_ticket_op socket_derp_client e' c1 t = (Ok (), c2)"
  then have "derp_connect_node e c m = (Ok (), c1)"
    by (simp add: socket_derp_client_def)
  from derp_connect_node_state [OF this] obtain st s where c1: "client_state c1 = Healthy (st\<lparr>meta := Some m, active_socket := Some s,
      closed := False, last_recv_at_ms := now_ms e\<rparr>)"
    by blast
  have a: "derp_attach_ticket c1 t = (Ok (), c2)"
    using attach by (simp add: socket_derp_client_def)
  show "usable (DerpLinkSnapshot.state (snapshot_op socket_derp_client e'' c2))"
    using derp_attach_ticket_state [OF a] c1
    by (auto simp: socket_derp_client_def derp_snapshot_usable_iff derp_snapshot_Ready_iff)
  show "ticket_allows t m"
    using derp_attach_ticket_Ok_iff [of c1 t] a c1 by auto
qed

end
