(* ===== verification/Derp_Pool.thy ===== *)
theory Derp_Pool
  imports Derp_Client "HOL-Library.Product_Lexorder"
begin

text \<open>
  \<open>InMemoryDerpPool\<close> of crate \<open>relay-client\<close>: the links to the nodes of one DERP cluster, which of them
  is active, and the health bookkeeping that decides.  The pool is generic in the client it manages
  (\<open>Box<dyn DerpClient>\<close>): it takes the record of operations and, for each link, the answers of the
  environment.  Lemmas about any lawful client are proved in the locale \<open>derp_client\<close> and used for the
  socket client.
\<close>

section \<open>The pool\<close>

record 'c ManagedLink =
  meta :: DerpNodeMeta
  client :: 'c
  last_probe :: "ProbeSample option"
  timeout_count :: u32
  consecutive_failures :: u32
  last_error :: "string option"

record 'c PoolState =
  cluster_id :: string
  session_id :: string
  ticket :: "RelayTicket option"
  active_node_id :: "string option"
  links :: "'c ManagedLink list"
  switch_epoch :: u64

type_synonym 'c InMemoryDerpPool = "'c PoolState mutex"

definition pool_new :: "'c InMemoryDerpPool" where
  "pool_new = Healthy \<lparr>PoolState.cluster_id = '''', session_id = '''', ticket = None,
     active_node_id = None, links = [], switch_epoch = 0\<rparr>"

abbreviation pool_poisoned :: string where
  "pool_poisoned \<equiv> ''derp pool state poisoned''"

text \<open>The score adds with \<open>+\<close> on \<open>u32\<close>, which wraps around in a release build.\<close>

definition link_score :: "'c ManagedLink \<Rightarrow> u32" where
  "link_score link =
     DerpNodeMeta.priority (ManagedLink.meta link)
     + (case last_probe link of
          None \<Rightarrow> 0
        | Some probe \<Rightarrow> saturating_add (rtt_ms probe) (packet_loss_ppm probe div 1000))
     + saturating_mul (ManagedLink.timeout_count link) 1000
     + saturating_mul (ManagedLink.consecutive_failures link) 100"

definition link_state :: "'c ManagedLink \<Rightarrow> DerpLinkState \<Rightarrow> DerpLinkState" where
  "link_state link st0 =
     (let st1 = (if last_error link \<noteq> None \<and> st0 = DerpLinkState.Connecting
                 then DerpLinkState.Failed else st0)
      in if st1 = DerpLinkState.Ready
            \<and> (ManagedLink.timeout_count link > 0
               \<or> (case last_probe link of None \<Rightarrow> False | Some probe \<Rightarrow> timed_out probe))
         then DerpLinkState.Suspect else st1)"

definition build_snapshot :: "('e, 'c) DerpClient \<Rightarrow> 'e \<Rightarrow> 'c ManagedLink \<Rightarrow> bool \<Rightarrow> DerpLinkSnapshot" where
  "build_snapshot ops env link active =
     (let snap = snapshot_op ops env (client link);
          h0 = DerpLinkSnapshot.health snap;
          h1 = h0\<lparr>DerpHealth.timeout_count := ManagedLink.timeout_count link,
                  DerpHealth.consecutive_failures := ManagedLink.consecutive_failures link,
                  score := link_score link\<rparr>;
          h2 = (case last_probe link of
                  None \<Rightarrow> h1
                | Some probe \<Rightarrow> h1\<lparr>rtt_ms_ewma := rtt_ms probe, loss_ppm := packet_loss_ppm probe,
                                   DerpHealth.last_probe_at_ms := sampled_at_ms probe\<rparr>)
      in snap\<lparr>DerpLinkSnapshot.meta := ManagedLink.meta link,
              DerpLinkSnapshot.state := link_state link (DerpLinkSnapshot.state snap),
              health := h2, is_active := active\<rparr>)"

definition collect_snapshots :: "('e, 'c) DerpClient \<Rightarrow> 'e \<Rightarrow> 'c PoolState \<Rightarrow> DerpLinkSnapshot list" where
  "collect_snapshots ops env st =
     map (\<lambda>link. build_snapshot ops env link
            (PoolState.active_node_id st = Some (DerpNodeMeta.node_id (ManagedLink.meta link))))
         (PoolState.links st)"

text \<open>\<open>Iterator::min_by_key\<close> keeps the first of several minimal elements.\<close>

fun min_by_key :: "('a \<Rightarrow> 'k::linorder) \<Rightarrow> 'a list \<Rightarrow> 'a option" where
  "min_by_key k [] = None"
| "min_by_key k (x # xs) =
     (case min_by_key k xs of
        None \<Rightarrow> Some x
      | Some y \<Rightarrow> if k y < k x then Some y else Some x)"

definition link_key :: "DerpLinkSnapshot \<Rightarrow> u32 \<times> u32" where
  "link_key l = (score (health l), DerpNodeMeta.priority (DerpLinkSnapshot.meta l))"

definition choose_active_index :: "DerpLinkSnapshot list \<Rightarrow> nat option" where
  "choose_active_index ls =
     map_option fst
       (min_by_key (\<lambda>(_, l). link_key l)
          (filter (\<lambda>(_, l). usable (DerpLinkSnapshot.state l)) (enumerate 0 ls)))"

definition ensure_link_ready ::
  "('e, 'c) DerpClient \<Rightarrow> 'e \<Rightarrow> 'c ManagedLink \<Rightarrow> RelayTicket \<Rightarrow> (unit, string) result \<times> 'c ManagedLink" where
  "ensure_link_ready ops env link t =
     (if usable (DerpLinkSnapshot.state (snapshot_op ops env (client link)))
      then (Ok (), link\<lparr>last_error := None\<rparr>)
      else case connect_node_op ops env (client link) (ManagedLink.meta link) of
        (Err e, c) \<Rightarrow> (Err e, link\<lparr>client := c\<rparr>)
      | (Ok _, c) \<Rightarrow>
          (case attach_ticket_op ops env c t of
             (Err e, c') \<Rightarrow> (Err e, link\<lparr>client := c'\<rparr>)
           | (Ok _, c') \<Rightarrow> (Ok (), link\<lparr>client := c', last_error := None\<rparr>)))"

definition managed_link :: "'c \<Rightarrow> u64 \<Rightarrow> DerpNodeMeta \<Rightarrow> 'c ManagedLink" where
  "managed_link fresh now m =
     \<lparr>ManagedLink.meta = m, client = fresh,
      last_probe = Some \<lparr>rtt_ms = 0, timed_out = False, packet_loss_ppm = 0, sampled_at_ms = now\<rparr>,
      timeout_count = 0, consecutive_failures = 0, last_error = None\<rparr>"

text \<open>
  \<open>install_cluster\<close> closes the old clients and ignores the outcome; the closed clients are dropped
  with their links.
\<close>

definition install_cluster ::
  "'c \<Rightarrow> u64 \<Rightarrow> 'c InMemoryDerpPool \<Rightarrow> string \<Rightarrow> DerpNodeMeta list \<Rightarrow> RelayTicket \<Rightarrow>
   (unit, string) result \<times> 'c InMemoryDerpPool" where
  "install_cluster fresh now pool cluster ns t =
     (case lock pool of
        None \<Rightarrow> (Err pool_poisoned, pool)
      | Some st \<Rightarrow>
          (Ok (), Healthy (st\<lparr>PoolState.cluster_id := cluster,
             PoolState.session_id := RelayTicket.session_id t, PoolState.ticket := Some t,
             PoolState.active_node_id := None, PoolState.links := map (managed_link fresh now) ns,
             PoolState.switch_epoch := 0\<rparr>)))"

fun warm_links ::
  "('e, 'c) DerpClient \<Rightarrow> (nat \<Rightarrow> 'e) \<Rightarrow> RelayTicket \<Rightarrow> nat \<Rightarrow> nat \<Rightarrow> 'c ManagedLink list \<Rightarrow>
   (unit, string) result \<times> 'c ManagedLink list" where
  "warm_links ops envs t warm idx [] = (Ok (), [])"
| "warm_links ops envs t warm idx (link # rest) =
     (if idx < warm then
        (case ensure_link_ready ops (envs idx) link t of
           (Err e, link') \<Rightarrow> (Err e, link'\<lparr>last_error := Some e\<rparr> # rest)
         | (Ok _, link') \<Rightarrow>
             (case warm_links ops envs t warm (Suc idx) rest of (r, rest') \<Rightarrow> (r, link' # rest')))
      else
        (case close_op ops (envs idx) (client link) of
           (_, c) \<Rightarrow>
             (case warm_links ops envs t warm (Suc idx) rest of
                (r, rest') \<Rightarrow> (r, link\<lparr>client := c, last_error := None\<rparr> # rest'))))"

definition select_active :: "('e, 'c) DerpClient \<Rightarrow> 'e \<Rightarrow> 'c PoolState \<Rightarrow> 'c PoolState" where
  "select_active ops env st =
     st\<lparr>PoolState.active_node_id :=
        map_option (\<lambda>idx. DerpNodeMeta.node_id (ManagedLink.meta (PoolState.links st ! idx)))
          (choose_active_index (collect_snapshots ops env st))\<rparr>"

definition warm_up ::
  "('e, 'c) DerpClient \<Rightarrow> (nat \<Rightarrow> 'e) \<Rightarrow> 'e \<Rightarrow> 'c InMemoryDerpPool \<Rightarrow> nat \<Rightarrow> (unit, string) result \<times> 'c InMemoryDerpPool" where
  "warm_up ops envs env pool fanout =
     (case lock pool of
        None \<Rightarrow> (Err pool_poisoned, pool)
      | Some st \<Rightarrow>
          if PoolState.links st = [] then (Err ''derp pool has no installed cluster'', pool)
          else case PoolState.ticket st of
            None \<Rightarrow> (Err ''derp pool has no installed ticket'', pool)
          | Some t \<Rightarrow>
              let warm_count = min (max fanout 1) (length (PoolState.links st));
                  (r, ls) = warm_links ops envs t warm_count 0 (PoolState.links st);
                  st1 = st\<lparr>PoolState.links := ls\<rparr>
              in case r of
                   Err e \<Rightarrow> (Err e, Healthy st1)
                 | Ok _ \<Rightarrow> (Ok (), Healthy (select_active ops env st1)))"

definition active_link :: "('e, 'c) DerpClient \<Rightarrow> 'e \<Rightarrow> 'c InMemoryDerpPool \<Rightarrow> DerpLinkSnapshot option" where
  "active_link ops env pool =
     (case lock pool of
        None \<Rightarrow> None
      | Some st \<Rightarrow> find is_active (collect_snapshots ops env st))"

text \<open>\<open>iter_mut().find(..)\<close>: the first link of the node, updated in place.\<close>

fun update_first :: "('a \<Rightarrow> bool) \<Rightarrow> ('a \<Rightarrow> 'r \<times> 'a) \<Rightarrow> 'a list \<Rightarrow> ('r \<times> 'a list) option" where
  "update_first p f [] = None"
| "update_first p f (x # xs) =
     (if p x then (case f x of (r, x') \<Rightarrow> Some (r, x' # xs))
      else map_option (\<lambda>(r, xs'). (r, x # xs')) (update_first p f xs))"

definition with_active_client ::
  "('c \<Rightarrow> ('r, string) result \<times> 'c) \<Rightarrow> 'c PoolState \<Rightarrow> ('r, string) result \<times> 'c PoolState" where
  "with_active_client f st =
     (case PoolState.active_node_id st of
        None \<Rightarrow> (Err ''derp pool has no active link'', st)
      | Some n \<Rightarrow>
          (case update_first (\<lambda>l. DerpNodeMeta.node_id (ManagedLink.meta l) = n)
                  (\<lambda>l. case f (client l) of (r, c) \<Rightarrow> (r, l\<lparr>client := c\<rparr>)) (PoolState.links st) of
             None \<Rightarrow> (Err ''derp pool active node missing'', st)
           | Some (r, ls) \<Rightarrow> (r, st\<lparr>PoolState.links := ls\<rparr>)))"

definition send_transport_packet_via_active ::
  "('e, 'c) DerpClient \<Rightarrow> 'e \<Rightarrow> 'c InMemoryDerpPool \<Rightarrow> u8 list \<Rightarrow> (unit, string) result \<times> 'c InMemoryDerpPool" where
  "send_transport_packet_via_active ops env pool packet =
     (if packet = [] then (Err ''cannot send empty packet via derp active link'', pool)
      else case lock pool of
        None \<Rightarrow> (Err pool_poisoned, pool)
      | Some st \<Rightarrow>
          (case with_active_client (\<lambda>c. send_transport_packet_op ops env c packet) st of
             (r, st') \<Rightarrow> (r, Healthy st')))"

definition poll_transport_packet_via_active ::
  "('e, 'c) DerpClient \<Rightarrow> 'e \<Rightarrow> 'c InMemoryDerpPool \<Rightarrow> (u8 list option, string) result \<times> 'c InMemoryDerpPool" where
  "poll_transport_packet_via_active ops env pool =
     (case lock pool of
        None \<Rightarrow> (Err pool_poisoned, pool)
      | Some st \<Rightarrow>
          (case with_active_client (poll_transport_packet_op ops env) st of
             (r, st') \<Rightarrow> (r, Healthy st')))"

definition check_link :: "('e, 'c) DerpClient \<Rightarrow> 'e \<Rightarrow> 'c ManagedLink \<Rightarrow> 'c ManagedLink" where
  "check_link ops env link =
     (if \<not> usable (DerpLinkSnapshot.state (snapshot_op ops env (client link))) then link
      else case probe_op ops env (client link) of
        (Ok probe, c) \<Rightarrow>
          (if timed_out probe
           then link\<lparr>client := c,
                  timeout_count := saturating_add (ManagedLink.timeout_count link) 1,
                  consecutive_failures := saturating_add (ManagedLink.consecutive_failures link) 1,
                  last_probe := Some probe, last_error := None\<rparr>
           else link\<lparr>client := c, consecutive_failures := 0, last_probe := Some probe, last_error := None\<rparr>)
      | (Err e, c) \<Rightarrow>
          link\<lparr>client := c,
               timeout_count := saturating_add (ManagedLink.timeout_count link) 1,
               consecutive_failures := saturating_add (ManagedLink.consecutive_failures link) 1,
               last_error := Some e\<rparr>)"

definition tick_health_check ::
  "('e, 'c) DerpClient \<Rightarrow> (nat \<Rightarrow> 'e) \<Rightarrow> 'c InMemoryDerpPool \<Rightarrow> (unit, string) result \<times> 'c InMemoryDerpPool" where
  "tick_health_check ops envs pool =
     (case lock pool of
        None \<Rightarrow> (Err pool_poisoned, pool)
      | Some st \<Rightarrow>
          (Ok (), Healthy (st\<lparr>PoolState.links :=
             map (\<lambda>(i, l). check_link ops (envs i) l) (enumerate 0 (PoolState.links st))\<rparr>)))"

definition switch_to :: "string \<Rightarrow> 'c PoolState \<Rightarrow> 'c PoolState" where
  "switch_to n st = st\<lparr>PoolState.active_node_id := Some n, PoolState.switch_epoch := PoolState.switch_epoch st + 1\<rparr>"

definition switch_event :: "'c PoolState \<Rightarrow> string \<Rightarrow> SwitchReason \<Rightarrow> u64 \<Rightarrow> DerpSwitchEvent" where
  "switch_event st n why now =
     \<lparr>DerpSwitchEvent.cluster_id = PoolState.cluster_id st, from_node_id = PoolState.active_node_id st,
      to_node_id = n, reason = why, happened_at_ms = now\<rparr>"

definition maybe_switch ::
  "('e, 'c) DerpClient \<Rightarrow> 'e \<Rightarrow> u64 \<Rightarrow> 'c InMemoryDerpPool \<Rightarrow> (DerpSwitchEvent option, string) result \<times> 'c InMemoryDerpPool" where
  "maybe_switch ops env now pool =
     (case lock pool of
        None \<Rightarrow> (Err pool_poisoned, pool)
      | Some st \<Rightarrow>
          (case choose_active_index (collect_snapshots ops env st) of
             None \<Rightarrow> (Ok None, pool)
           | Some idx \<Rightarrow>
               let target = DerpNodeMeta.node_id (ManagedLink.meta (PoolState.links st ! idx))
               in if PoolState.active_node_id st = Some target then (Ok None, pool)
                  else (Ok (Some (switch_event st target BootstrapPreferred now)),
                        Healthy (switch_to target st))))"

definition pool_state :: "('e, 'c) DerpClient \<Rightarrow> 'e \<Rightarrow> 'c InMemoryDerpPool \<Rightarrow> DerpPoolState" where
  "pool_state ops env pool =
     (case lock pool of
        Some st \<Rightarrow>
          \<lparr>DerpPoolState.cluster_id = PoolState.cluster_id st, session_id = PoolState.session_id st,
           active_node_id = PoolState.active_node_id st, links = collect_snapshots ops env st,
           switch_epoch = PoolState.switch_epoch st\<rparr>
      | None \<Rightarrow>
          \<lparr>DerpPoolState.cluster_id = '''', session_id = '''', active_node_id = None, links = [],
           switch_epoch = 0\<rparr>)"

fun position :: "('a \<Rightarrow> bool) \<Rightarrow> 'a list \<Rightarrow> nat option" where
  "position p [] = None"
| "position p (x # xs) = (if p x then Some 0 else map_option Suc (position p xs))"

definition force_switch ::
  "('e, 'c) DerpClient \<Rightarrow> 'e \<Rightarrow> u64 \<Rightarrow> 'c InMemoryDerpPool \<Rightarrow> string \<Rightarrow> SwitchReason \<Rightarrow>
   (DerpSwitchEvent, string) result \<times> 'c InMemoryDerpPool" where
  "force_switch ops env now pool target why =
     (case lock pool of
        None \<Rightarrow> (Err pool_poisoned, pool)
      | Some st \<Rightarrow> (case PoolState.ticket st of
          None \<Rightarrow> (Err ''derp pool has no installed ticket'', pool)
        | Some t \<Rightarrow>
            (case position (\<lambda>l. DerpNodeMeta.node_id (ManagedLink.meta l) = target) (PoolState.links st) of
               None \<Rightarrow> (Err (''derp node not found: '' @ target), pool)
             | Some idx \<Rightarrow>
                 (case ensure_link_ready ops env (PoolState.links st ! idx) t of
                    (r, link') \<Rightarrow>
                      let st1 = st\<lparr>PoolState.links := (PoolState.links st)[idx := link']\<rparr>
                      in case r of
                           Err e \<Rightarrow> (Err e, Healthy st1)
                         | Ok _ \<Rightarrow> (Ok (switch_event st1 target why now), Healthy (switch_to target st1))))))"

fun close_links ::
  "('e, 'c) DerpClient \<Rightarrow> (nat \<Rightarrow> 'e) \<Rightarrow> nat \<Rightarrow> 'c ManagedLink list \<Rightarrow> (unit, string) result \<times> 'c ManagedLink list" where
  "close_links ops envs idx [] = (Ok (), [])"
| "close_links ops envs idx (link # rest) =
     (case close_op ops (envs idx) (client link) of
        (Err e, c) \<Rightarrow> (Err e, link\<lparr>client := c\<rparr> # rest)
      | (Ok _, c) \<Rightarrow>
          (case close_links ops envs (Suc idx) rest of
             (r, rest') \<Rightarrow> (r, link\<lparr>client := c, last_error := None\<rparr> # rest')))"

definition pool_close ::
  "('e, 'c) DerpClient \<Rightarrow> (nat \<Rightarrow> 'e) \<Rightarrow> 'c InMemoryDerpPool \<Rightarrow> (unit, string) result \<times> 'c InMemoryDerpPool" where
  "pool_close ops envs pool =
     (case lock pool of
        None \<Rightarrow> (Err pool_poisoned, pool)
      | Some st \<Rightarrow>
          (case close_links ops envs 0 (PoolState.links st) of
             (Err e, ls) \<Rightarrow> (Err e, Healthy (st\<lparr>PoolState.links := ls\<rparr>))
           | (Ok _, ls) \<Rightarrow>
               (Ok (), Healthy (st\<lparr>PoolState.links := ls, PoolState.active_node_id := None\<rparr>))))"

section \<open>Choosing the active link\<close>

lemma min_by_key_None [simp]: "min_by_key k xs = None \<longleftrightarrow> xs = []"
  by (cases xs) (auto split: option.splits)

lemma min_by_key_Some:
  assumes "min_by_key k xs = Some x"
  shows "\<exists>us vs. xs = us @ x # vs \<and> (\<forall>y \<in> set us. k x < k y) \<and> (\<forall>y \<in> set vs. k x \<le> k y)"
  using assms
proof (induction xs arbitrary: x)
  case (Cons z zs)
  show ?case
  proof (cases "min_by_key k zs")
    case None
    with Cons.prems show ?thesis
      by (intro exI [of _ "[]"] exI [of _ "[]"]) auto
  next
    case (Some y)
    with Cons.IH obtain us vs where zs: "zs = us @ y # vs" "\<forall>u \<in> set us. k y < k u" "\<forall>v \<in> set vs. k y \<le> k v"
      by blast
    show ?thesis
    proof (cases "k y < k z")
      case True
      with Cons.prems Some have "x = y" by simp
      with True zs show ?thesis
        by (intro exI [of _ "z # us"] exI [of _ vs]) auto
    next
      case False
      with Cons.prems Some have "x = z" by simp
      with False zs show ?thesis
        by (intro exI [of _ "[]"] exI [of _ zs]) (auto simp: not_less intro: order.trans less_imp_le)
    qed
  qed
qed simp

lemma min_by_key_least:
  "min_by_key k xs = Some x \<Longrightarrow> x \<in> set xs \<and> (\<forall>y \<in> set xs. k x \<le> k y)"
  by (drule min_by_key_Some) (fastforce intro: less_imp_le)

text \<open>
  What the choice guarantees, for the proofs about the pool.
\<close>

lemma choose_active_index_spec:
  "case choose_active_index ls of
     None \<Rightarrow> \<forall>l \<in> set ls. \<not> usable (DerpLinkSnapshot.state l)
   | Some i \<Rightarrow> i < length ls \<and> usable (DerpLinkSnapshot.state (ls ! i)) \<and>
       (\<forall>j < length ls. usable (DerpLinkSnapshot.state (ls ! j)) \<longrightarrow>
          link_key (ls ! i) \<le> link_key (ls ! j) \<and> (j < i \<longrightarrow> link_key (ls ! i) < link_key (ls ! j)))"
proof -
  let ?xs = "filter (\<lambda>(_, l). usable (DerpLinkSnapshot.state l)) (enumerate 0 ls)"
  let ?k = "\<lambda>(_ :: nat, l). link_key l"
  have mem: "(j, l) \<in> set ?xs \<longleftrightarrow> j < length ls \<and> l = ls ! j \<and> usable (DerpLinkSnapshot.state l)" for j l
    by (auto simp: in_set_enumerate)
  show ?thesis
  proof (cases "min_by_key ?k ?xs")
    case None
    then have "?xs = []" by simp
    then have "\<not> usable (DerpLinkSnapshot.state (ls ! j))" if "j < length ls" for j
      using that mem [of j "ls ! j"] by auto
    then have "\<forall>l \<in> set ls. \<not> usable (DerpLinkSnapshot.state l)"
      by (auto simp: in_set_conv_nth)
    with None show ?thesis by (simp add: choose_active_index_def)
  next
    case (Some p)
    obtain i l where p: "p = (i, l)" by fastforce
    obtain us vs where split: "?xs = us @ (i, l) # vs" "\<forall>y \<in> set us. ?k (i, l) < ?k y" "\<forall>y \<in> set vs. ?k (i, l) \<le> ?k y"
      using min_by_key_Some [OF Some] p by blast
    have "(i, l) \<in> set ?xs"
      using split(1) by simp
    then have i: "i < length ls" "l = ls ! i" "usable (DerpLinkSnapshot.state (ls ! i))"
      unfolding mem by auto
    have sorted: "sorted (map fst ?xs)"
      by (rule sorted_filter) (simp add: enumerate_eq_zip)
    have "link_key (ls ! i) \<le> link_key (ls ! j) \<and> (j < i \<longrightarrow> link_key (ls ! i) < link_key (ls ! j))"
      if j: "j < length ls" "usable (DerpLinkSnapshot.state (ls ! j))" for j
    proof -
      have "(j, ls ! j) \<in> set ?xs"
        unfolding mem using j by simp
      then consider "(j, ls ! j) \<in> set us" | "j = i" | "(j, ls ! j) \<in> set vs"
        by (auto simp: split(1))
      then show ?thesis
      proof cases
        case 1
        with split(2) i show ?thesis by (auto intro: less_imp_le)
      next
        case 3
        moreover have "i \<le> j"
          using sorted 3 by (force simp: split(1) sorted_append)
        ultimately show ?thesis
          using split(3) i by auto
      qed simp
    qed
    with Some p i show ?thesis by (simp add: choose_active_index_def)
  qed
qed

text \<open>
  C17: the link chosen as active is one that can carry packets, no link that can has a smaller pair of
  score and priority, and among equals the earlier one wins; none is chosen exactly when none can.
\<close>

theorem choose_active_index_best:
  "case choose_active_index ls of
     None \<Rightarrow> \<forall>l \<in> set ls. \<not> usable (DerpLinkSnapshot.state l)
   | Some i \<Rightarrow> i < length ls \<and> usable (DerpLinkSnapshot.state (ls ! i)) \<and>
       (\<forall>j < length ls. usable (DerpLinkSnapshot.state (ls ! j)) \<longrightarrow>
          link_key (ls ! i) \<le> link_key (ls ! j) \<and> (j < i \<longrightarrow> link_key (ls ! i) < link_key (ls ! j)))"
  by (rule choose_active_index_spec)

lemma min_by_key_map: "min_by_key k (map f xs) = map_option f (min_by_key (k \<circ> f) xs)"
  by (induction xs) (auto split: option.splits)

text \<open>The choice depends on the states and keys only.\<close>

lemma choose_active_index_key:
  "choose_active_index ls =
   map_option fst (min_by_key (\<lambda>(_, _, k). k)
     (filter (\<lambda>(_, u, _). u) (enumerate 0 (map (\<lambda>l. (usable (DerpLinkSnapshot.state l), link_key l)) ls))))"
proof -
  let ?g = "\<lambda>(i :: nat, l). (i, usable (DerpLinkSnapshot.state l), link_key l)"
  have "enumerate 0 (map (\<lambda>l. (usable (DerpLinkSnapshot.state l), link_key l)) ls) = map ?g (enumerate 0 ls)"
    by (simp add: enumerate_eq_zip zip_map2)
  then show ?thesis
    by (simp add: choose_active_index_def filter_map min_by_key_map comp_def case_prod_unfold option.map_comp)
qed

lemma choose_active_index_cong:
  "map (\<lambda>l. (usable (DerpLinkSnapshot.state l), link_key l)) ls =
   map (\<lambda>l. (usable (DerpLinkSnapshot.state l), link_key l)) ls' \<Longrightarrow>
   choose_active_index ls = choose_active_index ls'"
  by (simp only: choose_active_index_key)

lemma choose_active_index_Some:
  "choose_active_index ls = Some i \<Longrightarrow> i < length ls \<and> usable (DerpLinkSnapshot.state (ls ! i))"
  by (auto simp: choose_active_index_def in_set_enumerate dest!: min_by_key_least)

section \<open>Operations on the links\<close>

abbreviation link_node :: "'c ManagedLink \<Rightarrow> string" where
  "link_node l \<equiv> DerpNodeMeta.node_id (ManagedLink.meta l)"

lemma usable_link_state [simp]: "usable (link_state link s) \<longleftrightarrow> usable s"
  by (cases s) (auto simp: link_state_def usable_def Let_def)

lemma build_snapshot_sel [simp]:
  "DerpLinkSnapshot.meta (build_snapshot ops env link a) = ManagedLink.meta link"
  "is_active (build_snapshot ops env link a) = a"
  "score (health (build_snapshot ops env link a)) = link_score link"
  "usable (DerpLinkSnapshot.state (build_snapshot ops env link a)) \<longleftrightarrow>
   usable (DerpLinkSnapshot.state (snapshot_op ops env (client link)))"
  by (simp_all add: build_snapshot_def Let_def split: option.split)

lemma length_collect_snapshots [simp]: "length (collect_snapshots ops env st) = length (PoolState.links st)"
  by (simp add: collect_snapshots_def)

lemma collect_snapshots_nth:
  "i < length (PoolState.links st) \<Longrightarrow>
   usable (DerpLinkSnapshot.state (collect_snapshots ops env st ! i)) \<longleftrightarrow>
   usable (DerpLinkSnapshot.state (snapshot_op ops env (client (PoolState.links st ! i))))"
  by (simp add: collect_snapshots_def)

definition pool_inv :: "('c \<Rightarrow> bool) \<Rightarrow> 'c InMemoryDerpPool \<Rightarrow> bool" where
  "pool_inv valid pool \<longleftrightarrow>
     (\<exists>st. pool = Healthy st \<and> (\<forall>l \<in> set (PoolState.links st). valid (client l)) \<and>
        (\<forall>n. PoolState.active_node_id st = Some n \<longrightarrow> n \<in> link_node ` set (PoolState.links st)))"

lemma position_Some: "position p xs = Some i \<Longrightarrow> i < length xs \<and> p (xs ! i)"
  by (induction xs arbitrary: i) (auto split: if_splits)

lemma position_None: "position p xs = None \<longleftrightarrow> (\<forall>x \<in> set xs. \<not> p x)"
  by (induction xs) auto

context derp_client
begin

abbreviation link_usable :: "'c ManagedLink \<Rightarrow> bool" where
  "link_usable l \<equiv> \<forall>e. usable (DerpLinkSnapshot.state (snapshot_op ops e (client l)))"

lemma ensure_link_ready_ok:
  assumes v: "valid (client l)" and "ensure_link_ready ops e l t = (r, l')"
  shows "valid (client l') \<and> ManagedLink.meta l' = ManagedLink.meta l \<and> (r = Ok () \<longrightarrow> link_usable l')"
proof (cases "usable (DerpLinkSnapshot.state (snapshot_op ops e (client l)))")
  case True
  with assms have "r = Ok ()" "l' = l\<lparr>last_error := None\<rparr>"
    by (simp_all add: ensure_link_ready_def)
  with v True show ?thesis
    using snapshot_state [OF v] by (metis ManagedLink.select_convs(1,2) ManagedLink.surjective ManagedLink.update_convs(6))
next
  case False
  obtain r1 c1 where c1: "connect_node_op ops e (client l) (ManagedLink.meta l) = (r1, c1)"
    by fastforce
  obtain r2 c2 where c2: "attach_ticket_op ops e c1 t = (r2, c2)"
    by fastforce
  have "valid c1" "valid c2"
    using connect_valid [OF v, of e "ManagedLink.meta l"] attach_valid [of c1 e t] c1 c2 by simp_all
  with assms False c1 c2 attached_usable [OF v] show ?thesis
    by (cases r1; cases r2) (auto simp: ensure_link_ready_def)
qed

lemma close_link_ok:
  assumes "valid (client l)" and "close_op ops e (client l) = (r, c)"
  shows "valid c \<and> r = Ok () \<and> \<not> usable (DerpLinkSnapshot.state (snapshot_op ops e' c))"
  using close_valid [OF assms(1), of e] close_ok [OF assms(1), of e] close_unusable [OF assms(1), of e' e] assms(2)
  by simp

lemma warm_links_meta:
  assumes "\<forall>l \<in> set ls. valid (client l)" and "warm_links ops envs t warm idx ls = (r, ls')"
  shows "map ManagedLink.meta ls' = map ManagedLink.meta ls \<and> (\<forall>l \<in> set ls'. valid (client l))"
  using assms
proof (induction ls arbitrary: idx r ls')
  case (Cons l ls)
  obtain r1 l1 where 1: "ensure_link_ready ops (envs idx) l t = (r1, l1)" by fastforce
  obtain r2 c2 where 2: "close_op ops (envs idx) (client l) = (r2, c2)" by fastforce
  obtain r3 ls3 where 3: "warm_links ops envs t warm (Suc idx) ls = (r3, ls3)" by fastforce
  have IH: "map ManagedLink.meta ls3 = map ManagedLink.meta ls \<and> (\<forall>l \<in> set ls3. valid (client l))"
    using Cons.IH [OF _ 3] Cons.prems(1) by simp
  have v: "valid (client l)" using Cons.prems(1) by simp
  show ?case
    using Cons.prems IH ensure_link_ready_ok [OF v 1] close_link_ok [OF v 2]
    by (cases r1) (auto simp: 1 2 3 split: if_splits)
qed simp

lemma warm_links_usable:
  assumes "\<forall>l \<in> set ls. valid (client l)" and "warm_links ops envs t warm idx ls = (Ok (), ls')"
    and "i < length ls"
  shows "if idx + i < warm then link_usable (ls' ! i) else \<not> link_usable (ls' ! i)"
  using assms
proof (induction ls arbitrary: idx ls' i)
  case (Cons l ls)
  obtain r1 l1 where 1: "ensure_link_ready ops (envs idx) l t = (r1, l1)" by fastforce
  obtain r2 c2 where 2: "close_op ops (envs idx) (client l) = (r2, c2)" by fastforce
  obtain r3 ls3 where 3: "warm_links ops envs t warm (Suc idx) ls = (r3, ls3)" by fastforce
  have v: "valid (client l)" using Cons.prems(1) by simp
  have r: "r3 = Ok ()" "ls' = (if idx < warm then l1 else l\<lparr>client := c2, last_error := None\<rparr>) # ls3"
      "idx < warm \<Longrightarrow> r1 = Ok ()"
    using Cons.prems(2) by (cases r1; auto simp: 1 2 3 split: if_splits)+
  show ?case
  proof (cases i)
    case 0
    with r show ?thesis
      using ensure_link_ready_ok [OF v 1] close_link_ok [OF v 2] by auto
  next
    case (Suc j)
    with Cons.IH [of "Suc idx" ls3 j] Cons.prems r 3 show ?thesis by simp
  qed
qed simp

end

section \<open>What the pool guarantees for socket clients\<close>

abbreviation socket_usable :: "SocketDerpClient ManagedLink \<Rightarrow> bool" where
  "socket_usable l \<equiv> \<forall>e. usable (DerpLinkSnapshot.state (derp_snapshot e (client l)))"

abbreviation socket_pool_inv :: "SocketDerpClient InMemoryDerpPool \<Rightarrow> bool" where
  "socket_pool_inv \<equiv> pool_inv client_inv"

lemma socket_ops_simps [simp]:
  "snapshot_op socket_derp_client = derp_snapshot"
  "close_op socket_derp_client = (\<lambda>env. derp_close)"
  "probe_op socket_derp_client = derp_probe"
  "poll_transport_packet_op socket_derp_client = derp_poll_transport_packet"
  "send_transport_packet_op socket_derp_client = (\<lambda>env c p. (derp_send_transport_packet env c p, c))"
  by (simp_all add: socket_derp_client_def)

lemma warm_up_Ok:
  assumes inv: "socket_pool_inv (Healthy st)"
    and w: "warm_up socket_derp_client envs env (Healthy st) fanout = (Ok (), pool')"
  obtains ls' t where "PoolState.ticket st = Some t" "length ls' = length (PoolState.links st)"
    "map ManagedLink.meta ls' = map ManagedLink.meta (PoolState.links st)"
    "\<forall>l \<in> set ls'. client_inv (client l)"
    "\<And>i. i < length ls' \<Longrightarrow> socket_usable (ls' ! i) \<longleftrightarrow> i < max fanout 1"
    "ls' \<noteq> []" "pool' = Healthy (select_active socket_derp_client env (st\<lparr>PoolState.links := ls'\<rparr>))"
proof -
  let ?warm = "min (max fanout 1) (length (PoolState.links st))"
  obtain t where t: "PoolState.ticket st = Some t" and ne: "PoolState.links st \<noteq> []"
    using w by (auto simp: warm_up_def split: if_splits option.splits)
  obtain r ls' where ls: "warm_links socket_derp_client envs t ?warm 0 (PoolState.links st) = (r, ls')"
    by fastforce
  have r: "r = Ok ()" and pool': "pool' = Healthy (select_active socket_derp_client env (st\<lparr>PoolState.links := ls'\<rparr>))"
    using w unfolding warm_up_def
    by (simp_all add: t ne ls Let_def del: One_nat_def split: result.splits)
  have valid: "\<forall>l \<in> set (PoolState.links st). client_inv (client l)"
    using inv by (auto simp: pool_inv_def)
  note m = socket_client.warm_links_meta [OF valid ls]
  then have len: "length ls' = length (PoolState.links st)"
    by (metis length_map)
  have "socket_usable (ls' ! i) \<longleftrightarrow> i < max fanout 1" if "i < length ls'" for i
    using socket_client.warm_links_usable [OF valid ls [unfolded r], of i] that len
    by (auto split: if_splits)
  moreover have "ls' \<noteq> []"
    using len ne by auto
  ultimately show ?thesis
    using that t len m pool' by simp
qed

text \<open>
  When warming up succeeds, exactly the first \<open>max fanout 1\<close> links can carry packets, the others
  are closed, and the active node is the node of one of the warm links.
\<close>

theorem warm_up_activates:
  assumes "socket_pool_inv (Healthy st)"
    and "warm_up socket_derp_client envs env (Healthy st) fanout = (Ok (), pool')"
  shows "\<exists>st' i. pool' = Healthy st' \<and> i < min (max fanout 1) (length (PoolState.links st))
    \<and> PoolState.active_node_id st' = Some (link_node (PoolState.links st ! i))
    \<and> length (PoolState.links st') = length (PoolState.links st)
    \<and> (\<forall>j < length (PoolState.links st). socket_usable (PoolState.links st' ! j) \<longleftrightarrow> j < max fanout 1)"
  using assms
proof (rule warm_up_Ok)
  fix ls' t
  assume len: "length ls' = length (PoolState.links st)"
    and m: "map ManagedLink.meta ls' = map ManagedLink.meta (PoolState.links st)"
    and u: "\<And>i. i < length ls' \<Longrightarrow> socket_usable (ls' ! i) \<longleftrightarrow> i < max fanout 1"
    and inv: "\<forall>l \<in> set ls'. client_inv (client l)"
    and ne: "ls' \<noteq> []" and pool': "pool' = Healthy (select_active socket_derp_client env (st\<lparr>PoolState.links := ls'\<rparr>))"
  let ?snaps = "collect_snapshots socket_derp_client env (st\<lparr>PoolState.links := ls'\<rparr>)"
  have "socket_usable (ls' ! 0)"
    using u [of 0] ne by simp
  then have "usable (DerpLinkSnapshot.state (?snaps ! 0))"
    using ne by (simp add: collect_snapshots_nth)
  then have "choose_active_index ?snaps \<noteq> None"
    using choose_active_index_spec [of ?snaps] ne by (force split: option.splits)
  then obtain i where i: "choose_active_index ?snaps = Some i"
    by blast
  then have il: "i < length ls'" and "usable (DerpLinkSnapshot.state (derp_snapshot env (client (ls' ! i))))"
    using choose_active_index_Some [OF i] collect_snapshots_nth [of i "st\<lparr>PoolState.links := ls'\<rparr>" socket_derp_client env]
    by auto
  then have "socket_usable (ls' ! i)"
    using socket_client.snapshot_state [of "client (ls' ! i)" env] inv nth_mem [OF il]
    by (metis socket_ops_simps(1))
  then have "i < max fanout 1"
    using u il by simp
  moreover have "ManagedLink.meta (ls' ! i) = ManagedLink.meta (PoolState.links st ! i)"
    using m il len by (metis nth_map)
  ultimately show ?thesis
    using pool' i il len u by (auto simp: select_active_def)
qed

definition demo_meta :: "string \<Rightarrow> u32 \<Rightarrow> DerpNodeMeta" where
  "demo_meta n p = empty_meta\<lparr>DerpNodeMeta.cluster_id := ''c1'', DerpNodeMeta.node_id := n,
     DerpNodeMeta.host := ''h'', DerpNodeMeta.priority := p\<rparr>"

definition demo_pool :: "SocketDerpClient PoolState" where
  "demo_pool = protected (snd (install_cluster derp_client_default 5 pool_new ''c1''
     [demo_meta ''d1'' 20, demo_meta ''d2'' 10, demo_meta ''d3'' 5] demo_derp_ticket))"

lemma demo_pool_inv: "socket_pool_inv (Healthy demo_pool)"
  by (simp add: demo_pool_def install_cluster_def pool_new_def pool_inv_def managed_link_def client_inv_default)

lemma demo_warm_up: "fst (warm_up socket_derp_client (\<lambda>_. demo_env) demo_env (Healthy demo_pool) 2) = Ok ()"
  by code_simp

theorem warm_up_activates_witness:
  "\<exists>st' i. snd (warm_up socket_derp_client (\<lambda>_. demo_env) demo_env (Healthy demo_pool) 2) = Healthy st' \<and> i < 2
    \<and> PoolState.active_node_id st' = Some (link_node (PoolState.links demo_pool ! i))"
proof -
  have w: "warm_up socket_derp_client (\<lambda>_. demo_env) demo_env (Healthy demo_pool) 2
      = (Ok (), snd (warm_up socket_derp_client (\<lambda>_. demo_env) demo_env (Healthy demo_pool) 2))"
    using demo_warm_up by (metis prod.collapse)
  have "length (PoolState.links demo_pool) = 3"
    by code_simp
  then show ?thesis
    using warm_up_activates [OF demo_pool_inv w] by (auto simp: numeral_2_eq_2)
qed

section \<open>Switching\<close>

text \<open>
  C18: after \<open>maybe_switch\<close> the active node is the best usable one, if there is any; an event is
  reported exactly when the active node changed, the epoch then grows by one, and a second call
  changes nothing.
\<close>

theorem maybe_switch_effect:
  assumes "maybe_switch ops env now (Healthy st) = (r, pool')"
  shows "\<exists>ev st'. r = Ok ev \<and> pool' = Healthy st' \<and>
    (case choose_active_index (collect_snapshots ops env st) of
       None \<Rightarrow> ev = None \<and> st' = st
     | Some i \<Rightarrow> PoolState.active_node_id st' = Some (link_node (PoolState.links st ! i)) \<and>
         PoolState.links st' = PoolState.links st) \<and>
    (ev \<noteq> None \<longleftrightarrow> PoolState.active_node_id st' \<noteq> PoolState.active_node_id st) \<and>
    PoolState.switch_epoch st' = PoolState.switch_epoch st + (if ev = None then 0 else 1) \<and>
    (\<forall>e. ev = Some e \<longrightarrow> from_node_id e = PoolState.active_node_id st \<and> Some (to_node_id e) = PoolState.active_node_id st') \<and>
    maybe_switch ops env now' pool' = (Ok None, pool')"
proof -
  have sel: "choose_active_index (collect_snapshots ops env (switch_to n st)) =
      choose_active_index (collect_snapshots ops env st)" for n
  proof -
    have *: "map (\<lambda>l. (usable (DerpLinkSnapshot.state l), link_key l)) (collect_snapshots ops env (switch_to n st)) =
        map (\<lambda>l. (usable (DerpLinkSnapshot.state l), link_key l)) (collect_snapshots ops env st)"
      by (simp add: collect_snapshots_def switch_to_def link_key_def)
    show ?thesis by (rule choose_active_index_cong [OF *])
  qed
  show ?thesis
  proof (cases "choose_active_index (collect_snapshots ops env st)")
    case None
    with assms show ?thesis by (auto simp: maybe_switch_def)
  next
    case (Some i)
    let ?n = "link_node (PoolState.links st ! i)"
    show ?thesis
    proof (cases "PoolState.active_node_id st = Some ?n")
      case True
      with Some assms show ?thesis by (auto simp: maybe_switch_def)
    next
      case False
      with Some assms have "r = Ok (Some (switch_event st ?n BootstrapPreferred now))" "pool' = Healthy (switch_to ?n st)"
        by (simp_all add: maybe_switch_def Let_def)
      moreover have "maybe_switch ops env now' (Healthy (switch_to ?n st)) = (Ok None, Healthy (switch_to ?n st))"
        using Some by (simp add: maybe_switch_def sel) (simp add: switch_to_def)
      ultimately show ?thesis
        using Some False by (simp add: switch_to_def switch_event_def)
    qed
  qed
qed

definition demo_warm :: "SocketDerpClient PoolState" where
  "demo_warm = (protected (snd (warm_up socket_derp_client (\<lambda>_. demo_env) demo_env (Healthy demo_pool) 2)))
     \<lparr>PoolState.active_node_id := Some ''d1''\<rparr>"

theorem maybe_switch_effect_witness:
  "\<exists>ev st'. maybe_switch socket_derp_client demo_env 9 (Healthy demo_warm) = (Ok ev, Healthy st') \<and>
     PoolState.active_node_id st' = Some ''d2'' \<and> ev \<noteq> None \<and> PoolState.switch_epoch st' = 1"
proof -
  have i: "choose_active_index (collect_snapshots socket_derp_client demo_env demo_warm) = Some 1"
    by code_simp
  have n: "link_node (PoolState.links demo_warm ! 1) = ''d2''" "PoolState.active_node_id demo_warm = Some ''d1''"
      "PoolState.switch_epoch demo_warm = 0"
    by code_simp+
  show ?thesis
    using maybe_switch_effect [OF prod.collapse [symmetric], of socket_derp_client demo_env 9 demo_warm 9] i n
    by (cases "maybe_switch socket_derp_client demo_env 9 (Healthy demo_warm)") auto
qed

theorem choose_active_index_best_witness:
  "link_key (collect_snapshots socket_derp_client demo_env demo_warm ! 1)
     < link_key (collect_snapshots socket_derp_client demo_env demo_warm ! 0)"
proof -
  let ?ls = "collect_snapshots socket_derp_client demo_env demo_warm"
  have "choose_active_index ?ls = Some 1" "length ?ls = 3" "usable (DerpLinkSnapshot.state (?ls ! 0))"
    by code_simp+
  then show ?thesis
    using choose_active_index_best [of ?ls] by (auto dest: spec [of _ 0])
qed

text \<open>
  A forced switch succeeds only for an installed node; it then makes that node active on a link
  that can carry packets and raises the epoch by one, and when it fails the active node and the
  epoch stay what they were.
\<close>

theorem force_switch_effect:
  assumes inv: "socket_pool_inv (Healthy st)"
    and f: "force_switch socket_derp_client env now (Healthy st) target why = (r, pool')"
  shows "\<exists>st'. pool' = Healthy st' \<and>
    (case r of
       Err e \<Rightarrow> PoolState.active_node_id st' = PoolState.active_node_id st \<and>
                PoolState.switch_epoch st' = PoolState.switch_epoch st
     | Ok ev \<Rightarrow> to_node_id ev = target \<and> from_node_id ev = PoolState.active_node_id st \<and>
                PoolState.active_node_id st' = Some target \<and>
                PoolState.switch_epoch st' = PoolState.switch_epoch st + 1 \<and>
                (\<exists>l \<in> set (PoolState.links st'). link_node l = target \<and> socket_usable l))"
proof (cases "PoolState.ticket st")
  case None
  with f show ?thesis by (auto simp: force_switch_def)
next
  case (Some t)
  show ?thesis
  proof (cases "position (\<lambda>l. link_node l = target) (PoolState.links st)")
    case None
    with Some f show ?thesis by (auto simp: force_switch_def)
  next
    case (Some i)
    then have i: "i < length (PoolState.links st)" "link_node (PoolState.links st ! i) = target"
      using position_Some by blast+
    obtain r0 l' where e: "ensure_link_ready socket_derp_client env (PoolState.links st ! i) t = (r0, l')"
      by fastforce
    have v: "client_inv (client (PoolState.links st ! i))"
      using inv i by (auto simp: pool_inv_def)
    note ok = socket_client.ensure_link_ready_ok [OF v e]
    have "l' \<in> set ((PoolState.links st)[i := l'])"
      using i by (simp add: set_update_memI)
    then have "\<exists>l \<in> set ((PoolState.links st)[i := l']). link_node l = target \<and> (r0 = Ok () \<longrightarrow> socket_usable l)"
      using ok i by (intro bexI [of _ l']) auto
    with f \<open>PoolState.ticket st = Some t\<close> Some e show ?thesis
      by (cases r0) (auto simp: force_switch_def switch_to_def switch_event_def Let_def)
  qed
qed

theorem force_switch_effect_witness:
  "\<exists>st' l. snd (force_switch socket_derp_client demo_env 9 (Healthy demo_pool) ''d2'' Manual) = Healthy st' \<and>
     PoolState.active_node_id st' = Some ''d2'' \<and> l \<in> set (PoolState.links st') \<and> link_node l = ''d2'' \<and> socket_usable l"
proof -
  let ?f = "force_switch socket_derp_client demo_env 9 (Healthy demo_pool) ''d2'' Manual"
  have "is_ok (fst ?f)" by code_simp
  then obtain ev where ev: "fst ?f = Ok ev"
    by (auto simp: result_simps)
  have f: "?f = (Ok ev, snd ?f)"
    using ev by (metis prod.collapse)
  show ?thesis
    using force_switch_effect [OF demo_pool_inv f] by auto
qed

section \<open>The score\<close>

text \<open>The score is the plain sum of its parts as long as that fits \<open>u32\<close>.\<close>

lemma link_score_exact:
  fixes link :: "'c ManagedLink"
  defines "parts \<equiv> unat (DerpNodeMeta.priority (ManagedLink.meta link))
    + (case last_probe link of None \<Rightarrow> 0
       | Some p \<Rightarrow> unat (saturating_add (rtt_ms p) (packet_loss_ppm p div 1000)))
    + unat (saturating_mul (ManagedLink.timeout_count link) 1000)
    + unat (saturating_mul (ManagedLink.consecutive_failures link) 100)"
  assumes "parts < 2 ^ 32"
  shows "unat (link_score link) = parts"
  using assms by (auto simp: link_score_def unat_word_ariths split: option.splits)

text \<open>
  The sum is not saturating, so it wraps: with timeouts that saturate their term and one failed
  probe, a link scores 99 and is preferred to a healthy link of priority 100.
\<close>

theorem link_score_wraps:
  assumes "DerpNodeMeta.priority (ManagedLink.meta link) = 0" and "last_probe link = None"
    and "ManagedLink.timeout_count link = 4294968" and "ManagedLink.consecutive_failures link = 1"
    and "DerpNodeMeta.priority (ManagedLink.meta healthy) = 100" and "last_probe healthy = None"
    and "ManagedLink.timeout_count healthy = 0" and "ManagedLink.consecutive_failures healthy = 0"
  shows "link_score link = 99 \<and> link_score link < link_score healthy"
  using assms by (simp add: link_score_def saturating_mul_def)

theorem link_score_wraps_witness:
  "link_score ((managed_link () 0 (demo_meta ''d1'' 0))
     \<lparr>last_probe := None, timeout_count := 4294968, consecutive_failures := 1\<rparr>) = 99 \<and>
   link_score ((managed_link () 0 (demo_meta ''d1'' 0))
     \<lparr>last_probe := None, timeout_count := 4294968, consecutive_failures := 1\<rparr>)
   < link_score ((managed_link () 0 (demo_meta ''d2'' 100))\<lparr>last_probe := None\<rparr>)"
  by (rule link_score_wraps) (simp_all add: managed_link_def demo_meta_def)

end
