(* ===== verification/Derp_Pool_Inv.thy ===== *)
theory Derp_Pool_Inv
  imports Derp_Pool
begin

text \<open>
  The invariant of the DERP pool over socket clients: it holds of a new pool and every operation
  keeps it, whatever the network answers.
\<close>

section \<open>Reachable pools\<close>

text \<open>The pools that sequences of calls produce, under any answers of the environment.\<close>

inductive pool_reachable :: "SocketDerpClient InMemoryDerpPool \<Rightarrow> bool" where
  new: "pool_reachable pool_new"
| install: "pool_reachable p \<Longrightarrow> pool_reachable (snd (install_cluster derp_client_default now p c ns t))"
| warm: "pool_reachable p \<Longrightarrow> pool_reachable (snd (warm_up socket_derp_client envs env p fanout))"
| send: "pool_reachable p \<Longrightarrow> pool_reachable (snd (send_transport_packet_via_active socket_derp_client env p b))"
| poll: "pool_reachable p \<Longrightarrow> pool_reachable (snd (poll_transport_packet_via_active socket_derp_client env p))"
| tick: "pool_reachable p \<Longrightarrow> pool_reachable (snd (tick_health_check socket_derp_client envs p))"
| maybe: "pool_reachable p \<Longrightarrow> pool_reachable (snd (maybe_switch socket_derp_client env now p))"
| force: "pool_reachable p \<Longrightarrow> pool_reachable (snd (force_switch socket_derp_client env now p n why))"
| close: "pool_reachable p \<Longrightarrow> pool_reachable (snd (pool_close socket_derp_client envs p))"

lemma pool_invI:
  "\<forall>l \<in> set (PoolState.links st). valid (client l) \<Longrightarrow>
   (\<And>n. PoolState.active_node_id st = Some n \<Longrightarrow> n \<in> link_node ` set (PoolState.links st)) \<Longrightarrow>
   pool_inv valid (Healthy st)"
  by (auto simp: pool_inv_def)

lemma link_nodes_eq: "map ManagedLink.meta ls' = map ManagedLink.meta ls \<Longrightarrow> link_node ` set ls' = link_node ` set ls"
  by (metis image_image list.set_map)

lemma install_inv: "socket_pool_inv p \<Longrightarrow> socket_pool_inv (snd (install_cluster derp_client_default now p c ns t))"
  by (auto simp: pool_inv_def install_cluster_def managed_link_def client_inv_default)

lemma select_active_inv:
  assumes "\<forall>l \<in> set (PoolState.links st). client_inv (client l)"
  shows "socket_pool_inv (Healthy (select_active socket_derp_client env st))"
proof (rule pool_invI)
  fix n
  assume "PoolState.active_node_id (select_active socket_derp_client env st) = Some n"
  then show "n \<in> link_node ` set (PoolState.links (select_active socket_derp_client env st))"
    by (auto simp: select_active_def dest!: choose_active_index_Some)
qed (use assms in \<open>simp add: select_active_def\<close>)

lemma warm_inv:
  assumes "socket_pool_inv p"
  shows "socket_pool_inv (snd (warm_up socket_derp_client envs env p fanout))"
proof -
  obtain st where p: "p = Healthy st" and v: "\<forall>l \<in> set (PoolState.links st). client_inv (client l)"
      and a: "\<And>n. PoolState.active_node_id st = Some n \<Longrightarrow> n \<in> link_node ` set (PoolState.links st)"
    using assms by (auto simp: pool_inv_def)
  show ?thesis
  proof (cases "PoolState.links st = [] \<or> PoolState.ticket st = None")
    case True
    with assms p show ?thesis by (auto simp: warm_up_def split: option.splits)
  next
    case False
    then obtain t where t: "PoolState.ticket st = Some t" by auto
    let ?warm = "min (max fanout 1) (length (PoolState.links st))"
    obtain r ls where ls: "warm_links socket_derp_client envs t ?warm 0 (PoolState.links st) = (r, ls)"
      by fastforce
    note m = socket_client.warm_links_meta [OF v ls]
    have "socket_pool_inv (Healthy (st\<lparr>PoolState.links := ls\<rparr>))"
      using m a link_nodes_eq [of ls "PoolState.links st"] by (intro pool_invI) auto
    moreover have "socket_pool_inv (Healthy (select_active socket_derp_client env (st\<lparr>PoolState.links := ls\<rparr>)))"
      using m by (intro select_active_inv) simp
    ultimately show ?thesis
      using False p t ls unfolding warm_up_def
      by (simp add: Let_def del: One_nat_def split: result.split)
  qed
qed

lemma update_first_links:
  assumes "update_first p f xs = Some (r, ys)"
    and "\<forall>x \<in> set xs. g (snd (f x)) = g x \<and> Q (snd (f x))" and "\<forall>x \<in> set xs. Q x"
  shows "map g ys = map g xs \<and> (\<forall>y \<in> set ys. Q y)"
  using assms
proof (induction xs arbitrary: ys)
  case (Cons x xs)
  show ?case
  proof (cases "p x")
    case True
    obtain r0 x' where f: "f x = (r0, x')" by fastforce
    with True Cons.prems(1) have "ys = x' # xs" by simp
    with f Cons.prems(2,3) show ?thesis by simp
  next
    case False
    with Cons.prems(1) obtain zs where "ys = x # zs" "update_first p f xs = Some (r, zs)"
      by auto
    with Cons.IH [of zs] Cons.prems(2,3) show ?thesis by simp
  qed
qed simp

lemma update_first_found:
  assumes "x \<in> set xs" and "p x"
  shows "\<exists>y r y' ys. f y = (r, y') \<and> p y \<and> update_first p f xs = Some (r, ys)"
  using assms
proof (induction xs)
  case (Cons a xs)
  show ?case
  proof (cases "p a")
    case True
    then show ?thesis by (cases "f a") auto
  next
    case False
    with Cons obtain y r y' ys where "f y = (r, y')" "p y" "update_first p f xs = Some (r, ys)"
      by auto
    with False show ?thesis by auto
  qed
qed simp

lemma with_active_client_inv:
  assumes inv: "socket_pool_inv (Healthy st)" and f: "\<And>c. client_inv c \<Longrightarrow> client_inv (snd (f c))"
  shows "socket_pool_inv (Healthy (snd (with_active_client f st)))"
proof (cases "PoolState.active_node_id st")
  case None
  with inv show ?thesis by (simp add: with_active_client_def)
next
  case (Some n)
  let ?p = "\<lambda>l. link_node l = n"
  let ?f = "\<lambda>l. case f (client l) of (r, c) \<Rightarrow> (r, l\<lparr>client := c\<rparr>)"
  show ?thesis
  proof (cases "update_first ?p ?f (PoolState.links st)")
    case None
    with Some inv show ?thesis by (simp add: with_active_client_def)
  next
    case upd: (Some a)
    obtain r ls where ls: "update_first ?p ?f (PoolState.links st) = Some (r, ls)"
      using upd by (cases a) auto
    have v: "\<forall>l \<in> set (PoolState.links st). client_inv (client l)"
      using inv by (auto simp: pool_inv_def)
    have "map ManagedLink.meta ls = map ManagedLink.meta (PoolState.links st) \<and> (\<forall>l \<in> set ls. client_inv (client l))"
    proof (rule update_first_links [OF ls])
      show "\<forall>l \<in> set (PoolState.links st). ManagedLink.meta (snd (?f l)) = ManagedLink.meta l \<and>
          client_inv (client (snd (?f l)))"
        using v f by (force split: prod.splits)
    qed (use v in simp)
    then have "socket_pool_inv (Healthy (st\<lparr>PoolState.links := ls\<rparr>))"
      using inv link_nodes_eq [of ls "PoolState.links st"] by (auto simp: pool_inv_def)
    then show ?thesis
      using Some ls by (simp add: with_active_client_def)
  qed
qed

lemma check_link_ok:
  "client_inv (client l) \<Longrightarrow>
   client_inv (client (check_link socket_derp_client env l)) \<and> ManagedLink.meta (check_link socket_derp_client env l) = ManagedLink.meta l"
  using client_inv_probe [of "client l" env]
  by (auto simp: check_link_def split: prod.splits result.splits)

lemma tick_inv:
  assumes "socket_pool_inv p"
  shows "socket_pool_inv (snd (tick_health_check socket_derp_client envs p))"
proof -
  obtain st where p: "p = Healthy st" and v: "\<forall>l \<in> set (PoolState.links st). client_inv (client l)"
    using assms by (auto simp: pool_inv_def)
  let ?ls = "map (\<lambda>(i, l). check_link socket_derp_client (envs i) l) (enumerate 0 (PoolState.links st))"
  have "\<forall>l \<in> set ?ls. client_inv (client l)"
    using v check_link_ok by (auto simp: in_set_enumerate)
  moreover have "map ManagedLink.meta ?ls = map ManagedLink.meta (PoolState.links st)"
    using v check_link_ok by (auto simp: list_eq_iff_nth_eq nth_enumerate_eq)
  ultimately show ?thesis
    using assms p link_nodes_eq [of ?ls "PoolState.links st"]
    by (auto simp: tick_health_check_def pool_inv_def)
qed

lemma maybe_inv:
  assumes "socket_pool_inv p"
  shows "socket_pool_inv (snd (maybe_switch socket_derp_client env now p))"
proof -
  obtain st where p: "p = Healthy st" using assms by (auto simp: pool_inv_def)
  show ?thesis
    using assms choose_active_index_Some [of "collect_snapshots socket_derp_client env st"]
    by (auto simp: p maybe_switch_def switch_to_def pool_inv_def Let_def split: option.splits if_splits)
qed

lemma force_inv:
  assumes "socket_pool_inv p"
  shows "socket_pool_inv (snd (force_switch socket_derp_client env now p n why))"
proof -
  obtain st where p: "p = Healthy st" and v: "\<forall>l \<in> set (PoolState.links st). client_inv (client l)"
    using assms by (auto simp: pool_inv_def)
  show ?thesis
  proof (cases "PoolState.ticket st = None \<or> position (\<lambda>l. link_node l = n) (PoolState.links st) = None")
    case True
    with assms p show ?thesis by (auto simp: force_switch_def split: option.splits)
  next
    case False
    then obtain t i where t: "PoolState.ticket st = Some t"
        and i: "position (\<lambda>l. link_node l = n) (PoolState.links st) = Some i"
      by auto
    obtain r l' where e: "ensure_link_ready socket_derp_client env (PoolState.links st ! i) t = (r, l')"
      by fastforce
    have il: "i < length (PoolState.links st)" "link_node (PoolState.links st ! i) = n"
      using position_Some [OF i] by auto
    then have ok: "client_inv (client l')" "ManagedLink.meta l' = ManagedLink.meta (PoolState.links st ! i)"
      using socket_client.ensure_link_ready_ok [OF _ e] v by auto
    let ?ls = "(PoolState.links st)[i := l']"
    have m: "map ManagedLink.meta ?ls = map ManagedLink.meta (PoolState.links st)"
      using ok il by (simp add: map_update list_update_same_conv)
    have v': "\<forall>l \<in> set ?ls. client_inv (client l)"
      using v ok by (auto dest: set_update_subset_insert [THEN subsetD])
    have "n \<in> link_node ` set (PoolState.links st)"
      using il by (metis image_eqI nth_mem)
    with m v' assms p t i e show ?thesis
      using link_nodes_eq [OF m]
      by (cases r) (auto simp: force_switch_def switch_to_def pool_inv_def Let_def)
  qed
qed

lemma close_links_ok:
  "\<forall>l \<in> set ls. client_inv (client l) \<Longrightarrow>
   \<exists>ls'. close_links socket_derp_client envs idx ls = (Ok (), ls') \<and> (\<forall>l \<in> set ls'. client_inv (client l) \<and> \<not> socket_usable l)"
proof (induction ls arbitrary: idx)
  case (Cons l ls)
  obtain r c where c: "derp_close (client l) = (r, c)" by fastforce
  have "client_inv c \<and> r = Ok () \<and> \<not> usable (DerpLinkSnapshot.state (derp_snapshot e c))" for e
    using socket_client.close_link_ok [of l undefined r c e] Cons.prems c by simp
  with Cons.IH [of "Suc idx"] Cons.prems c show ?case by auto
qed simp

lemma close_inv:
  assumes "socket_pool_inv p"
  shows "socket_pool_inv (snd (pool_close socket_derp_client envs p))"
proof -
  obtain st where p: "p = Healthy st" and v: "\<forall>l \<in> set (PoolState.links st). client_inv (client l)"
    using assms by (auto simp: pool_inv_def)
  from close_links_ok [OF v, of envs 0] p show ?thesis
    by (auto simp: pool_close_def pool_inv_def)
qed

lemma send_inv:
  assumes "socket_pool_inv p"
  shows "socket_pool_inv (snd (send_transport_packet_via_active socket_derp_client env p b))"
proof -
  obtain st where p: "p = Healthy st" using assms by (auto simp: pool_inv_def)
  let ?f = "\<lambda>c. (derp_send_transport_packet env c b, c)"
  have "snd (send_transport_packet_via_active socket_derp_client env p b) \<in>
      {p, Healthy (snd (with_active_client ?f st))}"
    by (simp add: p send_transport_packet_via_active_def case_prod_unfold)
  with assms p with_active_client_inv [of st ?f] show ?thesis by auto
qed

lemma poll_inv:
  assumes "socket_pool_inv p"
  shows "socket_pool_inv (snd (poll_transport_packet_via_active socket_derp_client env p))"
proof -
  obtain st where p: "p = Healthy st" using assms by (auto simp: pool_inv_def)
  have "snd (poll_transport_packet_via_active socket_derp_client env p) =
      Healthy (snd (with_active_client (derp_poll_transport_packet env) st))"
    by (simp add: p poll_transport_packet_via_active_def case_prod_unfold)
  with assms p with_active_client_inv [of st "derp_poll_transport_packet env"] client_inv_poll
  show ?thesis by simp
qed

lemma pool_reachable_inv: "pool_reachable p \<Longrightarrow> socket_pool_inv p"
proof (induction rule: pool_reachable.induct)
  case new
  show ?case by (simp add: pool_inv_def pool_new_def)
qed (simp_all only: install_inv warm_inv send_inv poll_inv tick_inv maybe_inv force_inv close_inv)

text \<open>
  C15: whatever sequence of calls a pool has seen and however the network answered, its lock is
  healthy and its active node, if any, is the node of an installed link, so sending never fails
  because the active node is missing.
\<close>

theorem pool_active_installed:
  assumes "pool_reachable p"
  shows "\<exists>st. p = Healthy st \<and>
    (\<forall>n. PoolState.active_node_id st = Some n \<longrightarrow> (\<exists>l \<in> set (PoolState.links st). link_node l = n)) \<and>
    fst (send_transport_packet_via_active socket_derp_client env p b) \<noteq> Err ''derp pool active node missing''"
proof -
  obtain st where p: "p = Healthy st"
      and a: "\<And>n. PoolState.active_node_id st = Some n \<Longrightarrow> n \<in> link_node ` set (PoolState.links st)"
    using pool_reachable_inv [OF assms] by (auto simp: pool_inv_def)
  have "fst (send_transport_packet_via_active socket_derp_client env p b) \<noteq> Err ''derp pool active node missing''"
  proof (cases "PoolState.active_node_id st")
    case None
    then show ?thesis by (simp add: p send_transport_packet_via_active_def with_active_client_def)
  next
    case (Some n)
    let ?f = "\<lambda>l :: SocketDerpClient ManagedLink. (derp_send_transport_packet env (client l) b, l\<lparr>client := client l\<rparr>)"
    obtain x where x: "x \<in> set (PoolState.links st)" "link_node x = n"
      using a [OF Some] by auto
    obtain y r y' ls where y: "?f y = (r, y')"
        and u: "update_first (\<lambda>l. link_node l = n) ?f (PoolState.links st) = Some (r, ls)"
    proof -
      from update_first_found [of x "PoolState.links st" "\<lambda>l. link_node l = n" ?f, OF x]
      show thesis by (elim exE conjE) (rule that)
    qed
    have r: "r = derp_send_transport_packet env (client y) b"
      using y by auto
    have "derp_send_transport_packet env (client y) b \<noteq> Err ''derp pool active node missing''"
      by (auto simp: derp_send_transport_packet_def require_ready_state_def
          split: option.splits result.splits ActiveSocket.splits)
    with u r show ?thesis
      using Some by (simp add: p send_transport_packet_via_active_def with_active_client_def)
  qed
  with p a show ?thesis by (auto simp: image_iff)
qed

theorem pool_active_installed_witness:
  "\<exists>st. snd (install_cluster derp_client_default 0 pool_new ''c'' [] demo_derp_ticket) = Healthy st \<and>
     fst (send_transport_packet_via_active socket_derp_client demo_env
       (snd (install_cluster derp_client_default 0 pool_new ''c'' [] demo_derp_ticket)) [1]) \<noteq> Err ''derp pool active node missing''"
  using pool_active_installed [OF pool_reachable.install [OF pool_reachable.new],
      of 0 "''c''" "[]" demo_derp_ticket demo_env "[1]"] by blast

end
