(* ===== verification/P2p.thy ===== *)
theory P2p
  imports Sockets
begin

text \<open>
  Crate \<open>p2p\<close>: the direct connection to a peer over TCP.  A connect that fails is a state, not an
  error; only a poisoned lock is an error.
\<close>

record PeerCandidate =
  peer_node_id :: string
  endpoint :: string
  candidate_type :: string

record P2PState =
  active_stream :: "handle option"
  peer_node_id :: "string option"

record SocketP2PConnector =
  connect_timeout :: nat  \<comment> \<open>in milliseconds\<close>
  p2p_state :: "P2PState mutex"

definition p2p_new :: "nat \<Rightarrow> SocketP2PConnector" where
  "p2p_new timeout =
     \<lparr>connect_timeout = timeout, p2p_state = Healthy \<lparr>active_stream = None, peer_node_id = None\<rparr>\<rparr>"

definition p2p_default :: SocketP2PConnector where
  "p2p_default = p2p_new 1000"

definition p2p_connect_tcp :: "SocketEnv \<Rightarrow> string \<Rightarrow> (handle, string) result" where
  "p2p_connect_tcp env ep =
     (case resolve env ep of
        Err e \<Rightarrow> Err (''resolve tcp endpoint '' @ ep @ '': '' @ e)
      | Ok [] \<Rightarrow> Err (''no tcp address resolved for '' @ ep)
      | Ok (addr # _) \<Rightarrow>
          map_err (\<lambda>e. ''tcp connect to '' @ ep @ '' failed: '' @ e) (tcp_connect env addr))"

definition p2p_connect ::
  "SocketEnv \<Rightarrow> SocketP2PConnector \<Rightarrow> PeerCandidate \<Rightarrow> (ConnectionState, string) result \<times> SocketP2PConnector" where
  "p2p_connect env c peer =
     (if candidate_type peer = ''tcp'' then
        (case p2p_connect_tcp env (endpoint peer) of
           Ok stream \<Rightarrow>
             (case lock (p2p_state c) of
                None \<Rightarrow> (Err ''p2p state poisoned'', c)
              | Some st \<Rightarrow>
                  (Ok (ConnectionState.Connected ConnectionPath.P2P),
                   c\<lparr>p2p_state := Healthy (st\<lparr>active_stream := Some stream,
                      P2PState.peer_node_id := Some (PeerCandidate.peer_node_id peer)\<rparr>)\<rparr>))
         | Err why \<Rightarrow> (Ok (ConnectionState.Failed why), c))
      else if candidate_type peer = ''udp'' then
        (Ok (ConnectionState.Failed (''udp p2p connect not implemented for ''
               @ PeerCandidate.peer_node_id peer @ '' via '' @ endpoint peer)), c)
      else
        (Ok (ConnectionState.Failed (''unsupported p2p candidate type for ''
               @ PeerCandidate.peer_node_id peer @ '': '' @ candidate_type peer)), c))"

definition p2p_send_transport_packet :: "SocketEnv \<Rightarrow> SocketP2PConnector \<Rightarrow> u8 list \<Rightarrow> (unit, string) result" where
  "p2p_send_transport_packet env c packet =
     (if packet = [] then Err ''cannot send empty packet via p2p''
      else case lock (p2p_state c) of
        None \<Rightarrow> Err ''p2p state poisoned''
      | Some st \<Rightarrow> (case active_stream st of
          None \<Rightarrow> Err ''p2p connector has no active connection''
        | Some s \<Rightarrow> map_err (\<lambda>e. ''send packet to p2p socket failed: '' @ e) (tcp_write_all env s packet)))"

definition p2p_poll_transport_packet :: "SocketEnv \<Rightarrow> SocketP2PConnector \<Rightarrow> (u8 list option, string) result" where
  "p2p_poll_transport_packet env c =
     (case lock (p2p_state c) of
        None \<Rightarrow> Err ''p2p state poisoned''
      | Some st \<Rightarrow> (case active_stream st of
          None \<Rightarrow> Err ''p2p connector has no active connection''
        | Some s \<Rightarrow>
            (case set_nonblocking env s True of
               Err e \<Rightarrow> Err (''set p2p socket nonblocking failed: '' @ e)
             | Ok _ \<Rightarrow> tcp_poll env s ''read p2p socket failed: '')))"

section \<open>Properties\<close>

text \<open>A failed connect leaves the connection that was there before in place.\<close>

lemma p2p_connect_failed_keeps:
  "p2p_connect env c peer = (Ok (ConnectionState.Failed why), c') \<Longrightarrow> c' = c"
  by (auto simp: p2p_connect_def split: if_splits result.splits option.splits)

lemma p2p_connect_connected_iff:
  assumes "p2p_state c = Healthy st"
  shows "fst (p2p_connect env c peer) = Ok (ConnectionState.Connected ConnectionPath.P2P) \<longleftrightarrow>
    candidate_type peer = ''tcp'' \<and>
    (\<exists>addr rest s. resolve env (endpoint peer) = Ok (addr # rest) \<and> tcp_connect env addr = Ok s)"
  using assms
  by (auto simp: p2p_connect_def p2p_connect_tcp_def split: result.splits list.splits)

text \<open>
  On a healthy connector a connect never reports an error; it is connected exactly for a TCP
  candidate whose first resolved address accepts, and then packets go to the new stream.
\<close>

theorem p2p_connect_effect:
  assumes "p2p_state c = Healthy st" and "p2p_connect env c peer = (r, c')"
  shows "(\<exists>why. r = Ok (ConnectionState.Failed why) \<and> c' = c) \<or>
    (\<exists>addr rest s. r = Ok (ConnectionState.Connected ConnectionPath.P2P) \<and> candidate_type peer = ''tcp'' \<and>
       resolve env (endpoint peer) = Ok (addr # rest) \<and> tcp_connect env addr = Ok s \<and>
       (\<forall>env' b. b \<noteq> [] \<longrightarrow> p2p_send_transport_packet env' c' b =
          map_err (\<lambda>e. ''send packet to p2p socket failed: '' @ e) (tcp_write_all env' s b)))"
proof (cases "candidate_type peer = ''tcp'' \<and> is_ok (p2p_connect_tcp env (endpoint peer))")
  case False
  with assms have "\<exists>why. r = Ok (ConnectionState.Failed why) \<and> c' = c"
    by (auto simp: p2p_connect_def result_simps split: if_splits result.splits)
  then show ?thesis ..
next
  case True
  then obtain addr rest s where s: "resolve env (endpoint peer) = Ok (addr # rest)" "tcp_connect env addr = Ok s"
    by (auto simp: p2p_connect_tcp_def result_simps split: result.splits list.splits)
  with True assms have "r = Ok (ConnectionState.Connected ConnectionPath.P2P)"
      and c': "c' = c\<lparr>p2p_state := Healthy (st\<lparr>active_stream := Some s,
        P2PState.peer_node_id := Some (PeerCandidate.peer_node_id peer)\<rparr>)\<rparr>"
    by (simp_all add: p2p_connect_def p2p_connect_tcp_def)
  moreover have "p2p_send_transport_packet env' c' b =
      map_err (\<lambda>e. ''send packet to p2p socket failed: '' @ e) (tcp_write_all env' s b)" if "b \<noteq> []" for env' b
    using that by (cases "tcp_write_all env' s b") (simp_all add: c' p2p_send_transport_packet_def)
  ultimately show ?thesis
    using True s by blast
qed

theorem p2p_connect_effect_witness:
  "fst (p2p_connect demo_env p2p_default \<lparr>PeerCandidate.peer_node_id = ''n'', endpoint = ''h:1'', candidate_type = ''tcp''\<rparr>)
     = Ok (ConnectionState.Connected ConnectionPath.P2P)"
proof -
  have st: "p2p_state p2p_default = Healthy \<lparr>active_stream = None, P2PState.peer_node_id = None\<rparr>"
    by (simp add: p2p_default_def p2p_new_def)
  have "\<not> (\<exists>why. fst (p2p_connect demo_env p2p_default
      \<lparr>PeerCandidate.peer_node_id = ''n'', endpoint = ''h:1'', candidate_type = ''tcp''\<rparr>) = Ok (ConnectionState.Failed why))"
    by (simp add: p2p_connect_def p2p_connect_tcp_def demo_env_def st)
  then show ?thesis
    using p2p_connect_effect [OF st prod.collapse [symmetric]] by metis
qed

end
