(* ===== verification/Path_Manager.thy ===== *)
theory Path_Manager
  imports Derp_Pool_Inv Relay_Client P2p
begin

text \<open>
  \<open>InMemoryPathManager\<close> of crate \<open>relay-client\<close>: it remembers which path carries the packets to a peer
  (direct, DERP or relay) and hands packets to the transport of that path.  It is generic in the
  three transports, each a record of the operations it calls.
\<close>

section \<open>The path manager\<close>

record ('e, 'd) DerpPool =
  active_link_op :: "'e \<Rightarrow> 'd \<Rightarrow> DerpLinkSnapshot option"
  send_via_active_op :: "'e \<Rightarrow> 'd \<Rightarrow> u8 list \<Rightarrow> (unit, string) result \<times> 'd"
  poll_via_active_op :: "'e \<Rightarrow> 'd \<Rightarrow> (u8 list option, string) result \<times> 'd"

record ('e, 'r) RelayClient =
  relay_send_op :: "'e \<Rightarrow> 'r \<Rightarrow> u8 list \<Rightarrow> (unit, RelayClientError) result \<times> 'r"
  relay_poll_op :: "'e \<Rightarrow> 'r \<Rightarrow> (u8 list option, RelayClientError) result \<times> 'r"

record ('e, 'p) P2PConnector =
  p2p_send_op :: "'e \<Rightarrow> 'p \<Rightarrow> u8 list \<Rightarrow> (unit, string) result \<times> 'p"
  p2p_poll_op :: "'e \<Rightarrow> 'p \<Rightarrow> (u8 list option, string) result \<times> 'p"

record PathManagerError =
  code :: "string option"
  message :: string

definition path_error_new :: "string option \<Rightarrow> string \<Rightarrow> PathManagerError" where
  "path_error_new c m = \<lparr>PathManagerError.code = c, message = m\<rparr>"

definition path_error_message :: "string \<Rightarrow> PathManagerError" where
  "path_error_message m = path_error_new None m"

definition display_path_error :: "PathManagerError \<Rightarrow> string" where
  "display_path_error e =
     (case PathManagerError.code e of
        Some c \<Rightarrow> if \<not> blank c then ''['' @ c @ ''] '' @ PathManagerError.message e
                  else PathManagerError.message e
      | None \<Rightarrow> PathManagerError.message e)"

record PathState =
  active_path :: ActivePath
  last_peer_node_id :: "string option"
  last_failure_reason :: "string option"

record ('d, 'r, 'p) InMemoryPathManager =
  derp_pool :: 'd
  relay_client :: 'r
  p2p_connector :: 'p
  path_state :: "PathState mutex"

definition path_manager_new :: "'d \<Rightarrow> 'r \<Rightarrow> 'p \<Rightarrow> ('d, 'r, 'p) InMemoryPathManager" where
  "path_manager_new d r p =
     \<lparr>derp_pool = d, relay_client = r, p2p_connector = p,
      path_state = Healthy \<lparr>active_path = NoPath, last_peer_node_id = None, last_failure_reason = None\<rparr>\<rparr>"

abbreviation path_poisoned :: PathManagerError where
  "path_poisoned \<equiv> path_error_message ''path manager state poisoned''"

definition on_p2p_failed ::
  "('e, 'd) DerpPool \<Rightarrow> 'e \<Rightarrow> ('d, 'r, 'p) InMemoryPathManager \<Rightarrow> string \<Rightarrow> string \<Rightarrow>
   (unit, PathManagerError) result \<times> ('d, 'r, 'p) InMemoryPathManager" where
  "on_p2p_failed dp env pm peer why =
     (let fallback = (case active_link_op dp env (derp_pool pm) of
            Some link \<Rightarrow> ActivePath.Derp (DerpNodeMeta.cluster_id (DerpLinkSnapshot.meta link))
                           (DerpNodeMeta.node_id (DerpLinkSnapshot.meta link))
          | None \<Rightarrow> ActivePath.Relay peer)
      in case lock (path_state pm) of
           None \<Rightarrow> (Err path_poisoned, pm)
         | Some st \<Rightarrow>
             (Ok (), pm\<lparr>path_state := Healthy (st\<lparr>active_path := fallback,
                last_peer_node_id := Some peer, last_failure_reason := Some why\<rparr>)\<rparr>))"

definition on_p2p_recovered ::
  "('d, 'r, 'p) InMemoryPathManager \<Rightarrow> string \<Rightarrow> (unit, PathManagerError) result \<times> ('d, 'r, 'p) InMemoryPathManager" where
  "on_p2p_recovered pm peer =
     (case lock (path_state pm) of
        None \<Rightarrow> (Err path_poisoned, pm)
      | Some st \<Rightarrow>
          (Ok (), pm\<lparr>path_state := Healthy (st\<lparr>active_path := ActivePath.P2P peer,
             last_peer_node_id := Some peer, last_failure_reason := None\<rparr>)\<rparr>))"

definition current_path :: "('d, 'r, 'p) InMemoryPathManager \<Rightarrow> ActivePath" where
  "current_path pm = (case lock (path_state pm) of Some st \<Rightarrow> active_path st | None \<Rightarrow> NoPath)"

definition from_relay_error :: "RelayClientError \<Rightarrow> PathManagerError" where
  "from_relay_error e = path_error_new (RelayClientError.code e) (display_client_error e)"

definition path_send ::
  "('e, 'd) DerpPool \<Rightarrow> ('e, 'r) RelayClient \<Rightarrow> ('e, 'p) P2PConnector \<Rightarrow> 'e \<Rightarrow>
   ('d, 'r, 'p) InMemoryPathManager \<Rightarrow> u8 list \<Rightarrow> (unit, PathManagerError) result \<times> ('d, 'r, 'p) InMemoryPathManager" where
  "path_send dp rc pc env pm packet =
     (if packet = [] then (Err (path_error_message ''cannot send empty packet through path manager''), pm)
      else case lock (path_state pm) of
        None \<Rightarrow> (Err path_poisoned, pm)
      | Some st \<Rightarrow>
          (case active_path st of
             ActivePath.Derp _ _ \<Rightarrow>
               (case send_via_active_op dp env (derp_pool pm) packet of
                  (r, d) \<Rightarrow> (map_err path_error_message r, pm\<lparr>derp_pool := d\<rparr>))
           | ActivePath.P2P _ \<Rightarrow>
               (case p2p_send_op pc env (p2p_connector pm) packet of
                  (r, p) \<Rightarrow> (map_err path_error_message r, pm\<lparr>p2p_connector := p\<rparr>))
           | ActivePath.Relay _ \<Rightarrow>
               (case relay_send_op rc env (relay_client pm) packet of
                  (r, c) \<Rightarrow> (map_err from_relay_error r, pm\<lparr>relay_client := c\<rparr>))
           | NoPath \<Rightarrow> (Err (path_error_message ''no active path selected''), pm)))"

definition path_poll ::
  "('e, 'd) DerpPool \<Rightarrow> ('e, 'r) RelayClient \<Rightarrow> ('e, 'p) P2PConnector \<Rightarrow> 'e \<Rightarrow>
   ('d, 'r, 'p) InMemoryPathManager \<Rightarrow> (u8 list option, PathManagerError) result \<times> ('d, 'r, 'p) InMemoryPathManager" where
  "path_poll dp rc pc env pm =
     (case lock (path_state pm) of
        None \<Rightarrow> (Err path_poisoned, pm)
      | Some st \<Rightarrow>
          (case active_path st of
             ActivePath.Derp _ _ \<Rightarrow>
               (case poll_via_active_op dp env (derp_pool pm) of
                  (r, d) \<Rightarrow> (map_err path_error_message r, pm\<lparr>derp_pool := d\<rparr>))
           | ActivePath.P2P _ \<Rightarrow>
               (case p2p_poll_op pc env (p2p_connector pm) of
                  (r, p) \<Rightarrow> (map_err path_error_message r, pm\<lparr>p2p_connector := p\<rparr>))
           | ActivePath.Relay _ \<Rightarrow>
               (case relay_poll_op rc env (relay_client pm) of
                  (r, c) \<Rightarrow> (map_err from_relay_error r, pm\<lparr>relay_client := c\<rparr>))
           | NoPath \<Rightarrow> (Err (path_error_message ''no active path selected''), pm)))"

section \<open>The transports of the client\<close>

definition socket_pool :: "(SocketEnv, SocketDerpClient InMemoryDerpPool) DerpPool" where
  "socket_pool =
     \<lparr>active_link_op = active_link socket_derp_client,
      send_via_active_op = send_transport_packet_via_active socket_derp_client,
      poll_via_active_op = poll_transport_packet_via_active socket_derp_client\<rparr>"

definition socket_relay :: "RelayCodec \<Rightarrow> (SocketEnv, SocketRelayClient) RelayClient" where
  "socket_relay codec =
     \<lparr>relay_send_op = (\<lambda>env c b. (relay_send_transport_packet env codec c b, c)),
      relay_poll_op = (\<lambda>env c. (relay_poll_transport_packet env codec c, c))\<rparr>"

definition socket_p2p :: "(SocketEnv, SocketP2PConnector) P2PConnector" where
  "socket_p2p =
     \<lparr>p2p_send_op = (\<lambda>env c b. (p2p_send_transport_packet env c b, c)),
      p2p_poll_op = (\<lambda>env c. (p2p_poll_transport_packet env c, c))\<rparr>"

section \<open>Properties\<close>

lemma find_first_link:
  assumes "n \<in> link_node ` set ls"
  shows "\<exists>l \<in> set ls. link_node l = n \<and> find (\<lambda>l. link_node l = n) ls = Some l"
  using assms by (induction ls) auto

lemma update_first_find:
  "find p xs = Some x \<Longrightarrow> f x = (r, x') \<Longrightarrow> \<exists>ys. update_first p f xs = Some (r, ys)"
  by (induction xs) (auto split: if_splits)

lemma find_map: "find p (map f xs) = map_option f (find (p \<circ> f) xs)"
  by (induction xs) auto

lemma active_link_find:
  "active_link ops env (Healthy st) =
   (case PoolState.active_node_id st of
      None \<Rightarrow> None
    | Some n \<Rightarrow> map_option (\<lambda>l. build_snapshot ops env l True) (find (\<lambda>l. link_node l = n) (PoolState.links st)))"
proof (cases "PoolState.active_node_id st")
  case None
  then show ?thesis
    by (simp add: active_link_def collect_snapshots_def find_map comp_def find_None_iff)
next
  case (Some n)
  have "find (\<lambda>l. n = link_node l) ls = find (\<lambda>l. link_node l = n) ls" for ls :: "'b ManagedLink list"
    by (rule find_cong) auto
  moreover have "map_option (\<lambda>l. build_snapshot ops env l (n = link_node l)) (find (\<lambda>l. link_node l = n) ls) =
      map_option (\<lambda>l. build_snapshot ops env l True) (find (\<lambda>l. link_node l = n) ls)" for ls
    by (rule option.map_cong) (auto simp: find_Some_iff)
  ultimately show ?thesis
    using Some by (simp add: active_link_def collect_snapshots_def find_map comp_def)
qed

lemma socket_send_find:
  assumes "PoolState.active_node_id st = Some n" and "find (\<lambda>l. link_node l = n) (PoolState.links st) = Some l"
    and "packet \<noteq> []"
  shows "fst (send_transport_packet_via_active socket_derp_client env (Healthy st) packet) =
    derp_send_transport_packet env (client l) packet"
proof -
  let ?f = "\<lambda>l :: SocketDerpClient ManagedLink. (derp_send_transport_packet env (client l) packet, l\<lparr>client := client l\<rparr>)"
  obtain ys where "update_first (\<lambda>l. link_node l = n) ?f (PoolState.links st) =
      Some (derp_send_transport_packet env (client l) packet, ys)"
    using update_first_find [OF assms(2), of ?f] by auto
  then show ?thesis
    using assms(1,3) by (simp add: send_transport_packet_via_active_def with_active_client_def)
qed

text \<open>
  C16: when the direct connection to a peer fails, the path falls back to the active DERP link, if
  the pool has one, and to the relay otherwise; packets sent from then on go to the client of
  exactly that link, or through the relay client.
\<close>

theorem p2p_failure_fallback:
  assumes pool: "pool_reachable (Healthy st)" "derp_pool pm = Healthy st"
    and ps: "path_state pm = Healthy ps"
    and f: "on_p2p_failed socket_pool env pm peer why = (r, pm')"
    and packet: "packet \<noteq> []"
  shows "r = Ok () \<and>
    (case PoolState.active_node_id st of
       None \<Rightarrow> current_path pm' = ActivePath.Relay peer \<and>
         fst (path_send socket_pool (socket_relay codec) socket_p2p env' pm' packet) =
           map_err from_relay_error (relay_send_transport_packet env' codec (relay_client pm) packet)
     | Some n \<Rightarrow> \<exists>l \<in> set (PoolState.links st). link_node l = n \<and>
         current_path pm' = ActivePath.Derp (DerpNodeMeta.cluster_id (ManagedLink.meta l)) n \<and>
         fst (path_send socket_pool (socket_relay codec) socket_p2p env' pm' packet) =
           map_err path_error_message (derp_send_transport_packet env' (client l) packet))"
proof (cases "PoolState.active_node_id st")
  case None
  then have "active_link socket_derp_client env (Healthy st) = None"
    by (simp add: active_link_find)
  with f pool(2) ps have "r = Ok ()" "pm' = pm\<lparr>path_state := Healthy (ps\<lparr>active_path := ActivePath.Relay peer,
      last_peer_node_id := Some peer, last_failure_reason := Some why\<rparr>)\<rparr>"
    by (simp_all add: on_p2p_failed_def socket_pool_def)
  with None packet show ?thesis
    by (simp add: current_path_def path_send_def socket_relay_def)
next
  case (Some n)
  have "n \<in> link_node ` set (PoolState.links st)"
    using pool_reachable_inv [OF pool(1)] Some by (simp add: pool_inv_def)
  then obtain l where l: "l \<in> set (PoolState.links st)" "link_node l = n"
      "find (\<lambda>l. link_node l = n) (PoolState.links st) = Some l"
    using find_first_link by blast
  then have "active_link socket_derp_client env (Healthy st) = Some (build_snapshot socket_derp_client env l True)"
    using Some by (simp add: active_link_find)
  with f pool(2) ps l(2) have r: "r = Ok ()" and pm': "pm' = pm\<lparr>path_state := Healthy (ps\<lparr>active_path :=
      ActivePath.Derp (DerpNodeMeta.cluster_id (ManagedLink.meta l)) n,
      last_peer_node_id := Some peer, last_failure_reason := Some why\<rparr>)\<rparr>"
    by (simp_all add: on_p2p_failed_def socket_pool_def)
  have "fst (path_send socket_pool (socket_relay codec) socket_p2p env' pm' packet) =
      map_err path_error_message (fst (send_transport_packet_via_active socket_derp_client env' (Healthy st) packet))"
    using packet pool(2) by (simp add: pm' path_send_def socket_pool_def case_prod_unfold)
  moreover have "current_path pm' = ActivePath.Derp (DerpNodeMeta.cluster_id (ManagedLink.meta l)) n"
    by (simp add: pm' current_path_def)
  ultimately show ?thesis
    using Some l r socket_send_find [OF Some l(3) packet] by auto
qed

theorem p2p_failure_fallback_witness:
  "current_path (snd (on_p2p_failed socket_pool demo_env
     (path_manager_new pool_new relay_client_default p2p_default) ''peer'' ''timeout'')) = ActivePath.Relay ''peer''"
proof -
  let ?pm = "path_manager_new pool_new relay_client_default p2p_default"
  let ?st = "protected pool_new :: SocketDerpClient PoolState"
  have new: "pool_new = Healthy ?st" "PoolState.active_node_id ?st = None"
    by (simp_all add: pool_new_def)
  have pool: "pool_reachable (Healthy ?st)" "derp_pool ?pm = Healthy ?st"
    using pool_reachable.new new(1) by (simp_all add: path_manager_new_def)
  have ps: "path_state ?pm = Healthy \<lparr>active_path = NoPath, last_peer_node_id = None, last_failure_reason = None\<rparr>"
    by (simp add: path_manager_new_def)
  show ?thesis
    using p2p_failure_fallback [OF pool ps prod.collapse [symmetric], of "[1]" demo_env "''peer''" "''timeout''"] new(2)
    by simp
qed

text \<open>The code of a relay error reaches the caller of the path manager.\<close>

lemma path_send_relay_code:
  assumes "path_state pm = Healthy ps" and "active_path ps = ActivePath.Relay peer" and "packet \<noteq> []"
    and "relay_send_transport_packet env codec (relay_client pm) packet = Err e"
  shows "fst (path_send socket_pool (socket_relay codec) socket_p2p env pm packet) =
    Err (path_error_new (RelayClientError.code e) (display_client_error e))"
  using assms by (simp add: path_send_def socket_relay_def from_relay_error_def)

end
