(* ===== verification/Facade_State.thy ===== *)
theory Facade_State
  imports Path_Manager Control_Ws Tunnel_Platform
begin

text \<open>
  Crate \<open>ffi-bridge\<close>, below the facade: the views it returns (\<open>facade.rs\<close>), the snapshot of the
  application (\<open>snapshot.rs\<close>, \<open>snapshot_updates.rs\<close>), key providers (\<open>key_provider.rs\<close>), the tunnel of
  the current connection (\<open>state_helpers.rs\<close>, \<open>tunnel_runtime.rs\<close>, \<open>connect_runtime.rs\<close>) and the
  classification of data-plane errors (\<open>diagnostics.rs\<close>).  Components that have their own state live in
  a world \<open>'w\<close> that every call passes on.
\<close>

type_synonym ('a, 'w) call = "'w \<Rightarrow> ('a, string) result \<times> 'w"

section \<open>Views\<close>

datatype TunnelState = Disconnected | Configured

record TunnelRuntimeView =
  state :: TunnelState
  transport :: TunnelTransport
  peer_virtual_ip :: string
  peer_public_key :: string
  selected_endpoint :: "string option"
  interface_name :: "string option"

record DataPlaneProbe =
  probe_id :: string
  sampled_at_ms :: u64
  active_path :: ActivePath
  bytes_sent :: nat
  reply_observed :: bool
  reply_bytes_received :: "nat option"
  reply_sampled_at_ms :: "u64 option"
  reply_rtt_ms :: "u64 option"
  tunnel_peer_virtual_ip :: "string option"
  observed_rtt_ms :: "u32 option"
  packet_loss_ppm :: "u32 option"
  path_score :: "u32 option"
  derp_cluster_id :: "string option"
  derp_node_id :: "string option"

datatype DataPlaneErrorCode =
  Timeout | Transport | RelayAuth | RelaySession | RelayProtocol | UnsupportedPath | Unknown

fun data_plane_code_as_str :: "DataPlaneErrorCode \<Rightarrow> string" where
  "data_plane_code_as_str Timeout = ''probe_timeout''"
| "data_plane_code_as_str Transport = ''probe_transport_error''"
| "data_plane_code_as_str RelayAuth = ''probe_relay_auth_error''"
| "data_plane_code_as_str RelaySession = ''probe_relay_session_error''"
| "data_plane_code_as_str RelayProtocol = ''probe_relay_protocol_error''"
| "data_plane_code_as_str UnsupportedPath = ''probe_unsupported_path''"
| "data_plane_code_as_str Unknown = ''probe_failed''"

record DataPlaneError =
  code :: DataPlaneErrorCode
  message :: string

definition data_plane_error_new :: "DataPlaneErrorCode \<Rightarrow> string \<Rightarrow> DataPlaneError" where
  "data_plane_error_new c m = \<lparr>DataPlaneError.code = c, message = m\<rparr>"

record ControlPathOptionView =
  path_type :: string
  endpoint :: string
  priority :: int

record ControlConnectPlanView =
  peer_node_id :: string
  prefer_direct :: bool
  path_count :: nat
  preferred_path :: "ControlPathOptionView option"
  derp_cluster_id :: "string option"
  preferred_derp_node_ids :: "string list"
  relay_ticket_id :: "string option"

record ControlStatusView =
  status :: string
  ws_url :: "string option"
  heartbeat_seconds :: "u32 option"
  session_token_present :: bool
  network_map_present :: bool
  network_id :: "string option"
  node_id :: "string option"
  device_id :: "string option"
  peer_count :: nat
  connect_plan_count :: nat
  connect_plans :: "ControlConnectPlanView list"

section \<open>The snapshot\<close>

record AppCoreSnapshot =
  session :: "Session option"
  current_device :: "Device option"
  current_node :: "Node option"
  tunnel_key_material :: "TunnelKeyMaterial option"
  current_bootstrap :: "BootstrapConfig option"
  current_network_id :: "string option"
  connection_state :: "ConnectionState option"
  current_connect_plans :: "(string, ControlWsConnectPlan) HashMap"
  active_path :: "ActivePath option"
  tunnel_peer_virtual_ip :: "string option"
  tunnel_runtime :: "TunnelRuntimeView option"
  last_data_plane_error :: "DataPlaneError option"
  last_probe :: "DataPlaneProbe option"

definition snapshot_default :: AppCoreSnapshot where
  "snapshot_default =
     \<lparr>session = None, current_device = None, current_node = None, tunnel_key_material = None,
      current_bootstrap = None, current_network_id = None, connection_state = None,
      current_connect_plans = fmempty, active_path = None, tunnel_peer_virtual_ip = None,
      tunnel_runtime = None, last_data_plane_error = None, last_probe = None\<rparr>"

abbreviation state_poisoned :: string where
  "state_poisoned \<equiv> ''app core state poisoned''"

definition update_connected_snapshot ::
  "ConnectionState \<Rightarrow> ActivePath \<Rightarrow> string option \<Rightarrow> TunnelRuntimeView option \<Rightarrow> (unit, AppCoreSnapshot mutex) call" where
  "update_connected_snapshot conn p ip rt m =
     (case lock m of
        None \<Rightarrow> (Err state_poisoned, m)
      | Some s \<Rightarrow>
          (Ok (), Healthy (s\<lparr>connection_state := Some conn, AppCoreSnapshot.active_path := Some p,
             AppCoreSnapshot.tunnel_peer_virtual_ip := ip, tunnel_runtime := rt,
             last_data_plane_error := None, last_probe := None\<rparr>)))"

definition update_disconnected_snapshot :: "(unit, AppCoreSnapshot mutex) call" where
  "update_disconnected_snapshot m =
     (case lock m of
        None \<Rightarrow> (Err state_poisoned, m)
      | Some s \<Rightarrow>
          (Ok (), Healthy (s\<lparr>connection_state := Some ConnectionState.Disconnected,
             AppCoreSnapshot.active_path := None, AppCoreSnapshot.tunnel_peer_virtual_ip := None,
             tunnel_runtime := None, last_data_plane_error := None, last_probe := None\<rparr>)))"

definition record_probe_result ::
  "DataPlaneProbe \<Rightarrow> AppCoreSnapshot mutex \<Rightarrow> (DataPlaneProbe, DataPlaneError) result \<times> AppCoreSnapshot mutex" where
  "record_probe_result probe m =
     (case lock m of
        None \<Rightarrow> (Err (data_plane_error_new Unknown state_poisoned), m)
      | Some s \<Rightarrow> (Ok probe, Healthy (s\<lparr>last_data_plane_error := None, last_probe := Some probe\<rparr>)))"

definition remember_data_plane_error ::
  "DataPlaneError \<Rightarrow> AppCoreSnapshot mutex \<Rightarrow> (unit, DataPlaneError) result \<times> AppCoreSnapshot mutex" where
  "remember_data_plane_error e m =
     (case lock m of
        None \<Rightarrow> (Err (data_plane_error_new Unknown state_poisoned), m)
      | Some s \<Rightarrow> (Ok (), Healthy (s\<lparr>last_data_plane_error := Some e\<rparr>)))"

section \<open>Data-plane errors\<close>

definition relay_code_class :: "string \<Rightarrow> DataPlaneErrorCode option" where
  "relay_code_class c =
     (if c \<in> {''ticket_expired'', ''invalid_signature'', ''invalid_ticket'', ''invalid_timestamp'',
              ''unauthorized_peer'', ''participant_not_in_ticket'', ''clock_skew''} then Some RelayAuth
      else if c \<in> {''session_not_found'', ''session_already_exists'', ''session_conflict'',
              ''session_not_attached'', ''participant_not_attached'', ''participant_address_mismatch'',
              ''peer_not_attached''} then Some RelaySession
      else if c = ''empty_payload'' then Some UnsupportedPath
      else if c \<in> {''invalid_payload_b64'', ''store_error''} then Some RelayProtocol
      else None)"

definition text_class :: "string \<Rightarrow> DataPlaneErrorCode" where
  "text_class e =
     (let normalized = to_ascii_lowercase e
      in if contains normalized ''timed out'' \<or> contains normalized ''timeout'' then Timeout
         else if contains normalized ''unsupported'' then UnsupportedPath
         else if contains normalized ''transport'' \<or> contains normalized ''socket'' \<or> contains normalized ''connection''
         then Transport
         else Unknown)"

definition classify_data_plane_error_parts :: "string option \<Rightarrow> string \<Rightarrow> DataPlaneError" where
  "classify_data_plane_error_parts c e =
     (case Option.bind c relay_code_class of
        Some class \<Rightarrow> data_plane_error_new class e
      | None \<Rightarrow> data_plane_error_new (text_class e) e)"

definition classify_path_manager_error :: "PathManagerError \<Rightarrow> DataPlaneError" where
  "classify_path_manager_error e =
     classify_data_plane_error_parts (PathManagerError.code e) (display_path_error e)"

section \<open>Tunnel keys\<close>

type_synonym 'w key_provider = "string \<Rightarrow> string option \<Rightarrow> string \<Rightarrow> u64 \<Rightarrow> (TunnelKeyMaterial, 'w) call"

definition in_memory_generate :: "'w key_provider" where
  "in_memory_generate dev node peer_id created w =
     (let suffix = dev @ ''-'' @ (case node of None \<Rightarrow> peer_id | Some n \<Rightarrow> n) @ ''-'' @ show_word created
      in (Ok \<lparr>TunnelKeyMaterial.device_id = Some dev, node_id = node,
              key_pair = \<lparr>WireGuardKeyPair.public_key = ''wg-pub-'' @ suffix, private_key = ''wg-priv-'' @ suffix\<rparr>,
              created_at_ms = created\<rparr>, w))"

text \<open>The file of a \<open>FileTunnelKeyProvider\<close>, and the text of its JSON store.\<close>

datatype file_read = Contents "u8 list" | NotFound | ReadFailed string

record 'w FileEnv =
  read_file :: "string \<Rightarrow> 'w \<Rightarrow> file_read"
  create_dir_all :: "string \<Rightarrow> (unit, 'w) call"
  write_file :: "string \<Rightarrow> u8 list \<Rightarrow> (unit, 'w) call"
  parent_dir :: "string \<Rightarrow> string option"
  parse_store :: "u8 list \<Rightarrow> (TunnelKeyMaterial list, string) result"
  print_store :: "TunnelKeyMaterial list \<Rightarrow> (u8 list, string) result"

definition load_store :: "'w FileEnv \<Rightarrow> string \<Rightarrow> 'w \<Rightarrow> (TunnelKeyMaterial list, string) result" where
  "load_store env p w =
     (case read_file env p w of
        Contents bytes \<Rightarrow> map_err (\<lambda>e. ''parse tunnel key store '' @ p @ '': '' @ e) (parse_store env bytes)
      | NotFound \<Rightarrow> Ok []
      | ReadFailed e \<Rightarrow> Err (''read tunnel key store '' @ p @ '': '' @ e))"

definition save_store :: "'w FileEnv \<Rightarrow> string \<Rightarrow> TunnelKeyMaterial list \<Rightarrow> (unit, 'w) call" where
  "save_store env p entries w =
     (case (case parent_dir env p of
              None \<Rightarrow> (Ok (), w)
            | Some parent \<Rightarrow>
                apfst (map_err (\<lambda>e. ''create tunnel key store dir '' @ parent @ '': '' @ e)) (create_dir_all env parent w)) of
        (Err e, w') \<Rightarrow> (Err e, w')
      | (Ok _, w') \<Rightarrow>
          (case print_store env entries of
             Err e \<Rightarrow> (Err (''serialize tunnel key store '' @ p @ '': '' @ e), w')
           | Ok bytes \<Rightarrow>
               apfst (map_err (\<lambda>e. ''write tunnel key store '' @ p @ '': '' @ e)) (write_file env p bytes w')))"

definition file_generate :: "'w FileEnv \<Rightarrow> string \<Rightarrow> 'w key_provider" where
  "file_generate env p dev node peer_id created w =
     (case load_store env p w of
        Err e \<Rightarrow> (Err e, w)
      | Ok entries \<Rightarrow>
          (case find (\<lambda>m. TunnelKeyMaterial.device_id m = Some dev \<and> TunnelKeyMaterial.node_id m = node) entries of
             Some existing \<Rightarrow> (Ok existing, w)
           | None \<Rightarrow>
               (case in_memory_generate dev node peer_id created w of
                  (Err e, w1) \<Rightarrow> (Err e, w1)
                | (Ok material, w1) \<Rightarrow>
                    (case save_store env p (entries @ [material]) w1 of
                       (Err e, w2) \<Rightarrow> (Err e, w2)
                     | (Ok _, w2) \<Rightarrow> (Ok material, w2)))))"

text \<open>The keys of a device for a node are kept until one of the two changes.\<close>

definition ensure_tunnel_key_pair ::
  "'w key_provider \<Rightarrow> string \<Rightarrow> string \<Rightarrow> u64 \<Rightarrow> (WireGuardKeyPair, AppCoreSnapshot mutex \<times> 'w) call" where
  "ensure_tunnel_key_pair generate dev peer_id created mw =
     (case mw of (m, w) \<Rightarrow>
        (case lock m of
           None \<Rightarrow> (Err state_poisoned, m, w)
         | Some s \<Rightarrow>
             let node = map_option Node.node_id (current_node s)
             in (case tunnel_key_material s of
                   Some material \<Rightarrow>
                     if TunnelKeyMaterial.device_id material = Some dev \<and> TunnelKeyMaterial.node_id material = node
                     then (Ok (TunnelKeyMaterial.key_pair material), m, w)
                     else (case generate dev node peer_id created w of
                        (Err e, w') \<Rightarrow> (Err e, m, w')
                      | (Ok fresh, w') \<Rightarrow>
                          (Ok (TunnelKeyMaterial.key_pair fresh), Healthy (s\<lparr>tunnel_key_material := Some fresh\<rparr>), w'))
                 | None \<Rightarrow> (case generate dev node peer_id created w of
                        (Err e, w') \<Rightarrow> (Err e, m, w')
                      | (Ok fresh, w') \<Rightarrow>
                          (Ok (TunnelKeyMaterial.key_pair fresh), Healthy (s\<lparr>tunnel_key_material := Some fresh\<rparr>), w')))))"

section \<open>The tunnel of the connection\<close>

definition connection_state_from_active_path :: "ActivePath \<Rightarrow> ConnectionState" where
  "connection_state_from_active_path p =
     (case p of
        NoPath \<Rightarrow> ConnectionState.Disconnected
      | ActivePath.P2P _ \<Rightarrow> ConnectionState.Connected ConnectionPath.P2P
      | ActivePath.Relay _ \<Rightarrow> ConnectionState.Connected ConnectionPath.Relay
      | ActivePath.Derp _ _ \<Rightarrow> ConnectionState.Connected ConnectionPath.Derp)"

definition transport_from_active_path :: "ActivePath \<Rightarrow> TunnelTransport option" where
  "transport_from_active_path p =
     (case p of
        ActivePath.P2P _ \<Rightarrow> Some TunnelTransport.P2P
      | ActivePath.Relay _ \<Rightarrow> Some TunnelTransport.Relay
      | ActivePath.Derp _ _ \<Rightarrow> Some TunnelTransport.Derp
      | NoPath \<Rightarrow> None)"

fun first :: "'a list \<Rightarrow> 'a option" where
  "first [] = None"
| "first (x # xs) = Some x"

text \<open>The cast of the MTU to \<open>u16\<close> truncates.\<close>

definition build_tunnel_config ::
  "ActivePath \<Rightarrow> BootstrapConfig \<Rightarrow> Peer \<Rightarrow> WireGuardKeyPair \<Rightarrow> TunnelConfig option" where
  "build_tunnel_config p boot pr kp = do {
     t \<leftarrow> transport_from_active_path p;
     local_ip \<leftarrow> Device.virtual_ip (device boot);
     peer_ip \<leftarrow> first (virtual_ips pr);
     Some \<lparr>TunnelConfig.transport = t, local_virtual_ip = local_ip, peer_virtual_ip = peer_ip,
       wireguard_interface =
         \<lparr>WireGuardInterfaceConfig.interface_name = None, key_pair = kp, listen_port = None,
          mtu = map_option (\<lambda>m. ucast m) (Option.bind (BootstrapConfig.network_map boot) NetworkMap.mtu),
          addresses = [local_ip @ ''/32''],
          dns_servers = (case BootstrapConfig.network_map boot of None \<Rightarrow> [] | Some m \<Rightarrow> servers (dns m)),
          peers = []\<rparr>,
       wireguard_peer =
         \<lparr>WireGuardPeerConfig.peer_node_id = Some (Peer.node_id pr), public_key = Peer.public_key pr,
          preshared_key = None, endpoint = map_option Endpoint.address (first (Peer.endpoints pr)),
          allowed_ips = [\<lparr>AllowedIp.cidr = peer_ip @ ''/32''\<rparr>], persistent_keepalive_seconds = None\<rparr>\<rparr> }"

definition build_tunnel_runtime :: "TunnelConfig \<Rightarrow> TunnelRuntimeView" where
  "build_tunnel_runtime cfg =
     \<lparr>TunnelRuntimeView.state = Configured, transport = TunnelConfig.transport cfg,
      peer_virtual_ip = TunnelConfig.peer_virtual_ip cfg,
      peer_public_key = WireGuardPeerConfig.public_key (wireguard_peer cfg),
      selected_endpoint = WireGuardPeerConfig.endpoint (wireguard_peer cfg),
      interface_name = WireGuardInterfaceConfig.interface_name (wireguard_interface cfg)\<rparr>"

text \<open>
  The tunnel in use is replaced by the one of a configuration: another peer's tunnel is closed first,
  and nothing is established when the peer stays the same.
\<close>

definition replace_tunnel :: "'w TunnelBackend \<Rightarrow> TunnelConfig option \<Rightarrow> (unit, string option mutex \<times> 'w) call" where
  "replace_tunnel mgr cfg mw =
     (case mw of (m, w) \<Rightarrow>
        (case lock m of
           None \<Rightarrow> (Err ''app core tunnel state poisoned'', m, w)
         | Some current \<Rightarrow>
             (case (case current of
                      Some ip \<Rightarrow>
                        if Some ip \<noteq> map_option TunnelConfig.peer_virtual_ip cfg then
                          (case close mgr ip w of
                             (Err e, w') \<Rightarrow> (Err e, current, w')
                           | (Ok _, w') \<Rightarrow> (Ok (), None, w'))
                        else (Ok (), current, w)
                    | None \<Rightarrow> (Ok (), current, w)) of
                (Err e, current', w') \<Rightarrow> (Err e, Healthy current', w')
              | (Ok _, current', w') \<Rightarrow>
                  (case cfg of
                     None \<Rightarrow> (Ok (), Healthy current', w')
                   | Some c \<Rightarrow>
                       if current' \<noteq> Some (TunnelConfig.peer_virtual_ip c) then
                         (case establish mgr c w' of
                            (Err e, w'') \<Rightarrow> (Err e, Healthy current', w'')
                          | (Ok _, w'') \<Rightarrow> (Ok (), Healthy (Some (TunnelConfig.peer_virtual_ip c)), w''))
                       else (Ok (), Healthy current', w')))))"

section \<open>Connecting\<close>

record ConnectContext =
  bootstrap :: BootstrapConfig
  src_node_id :: string
  peer :: Peer

definition resolve_connect_context :: "AppCoreSnapshot mutex \<Rightarrow> string \<Rightarrow> (ConnectContext, string) result" where
  "resolve_connect_context m peer_node =
     (case lock m of
        None \<Rightarrow> Err state_poisoned
      | Some s \<Rightarrow> (case current_bootstrap s of
          None \<Rightarrow> Err ''missing bootstrap config, call bootstrap first''
        | Some boot \<Rightarrow> (case current_node s of
            None \<Rightarrow> Err ''missing current node, register node first''
          | Some n \<Rightarrow> (case BootstrapConfig.network_map boot of
              None \<Rightarrow> Err ''missing network map in bootstrap config''
            | Some nm \<Rightarrow> (case find (\<lambda>p. Peer.node_id p = peer_node) (NetworkMap.peers nm) of
                None \<Rightarrow> Err (''peer node not found in network map: '' @ peer_node)
              | Some p \<Rightarrow> Ok \<lparr>bootstrap = boot, ConnectContext.src_node_id = Node.node_id n, peer = p\<rparr>)))))"

definition finalize_connected_path ::
  "'w TunnelBackend \<Rightarrow> ConnectionState \<Rightarrow> ActivePath \<Rightarrow> TunnelConfig option \<Rightarrow>
   (unit, AppCoreSnapshot mutex \<times> string option mutex \<times> 'w) call" where
  "finalize_connected_path mgr conn p cfg mtw =
     (case mtw of (m, t, w) \<Rightarrow>
        let rt = map_option build_tunnel_runtime cfg
        in (case replace_tunnel mgr cfg (t, w) of
              (Err e, t', w') \<Rightarrow> (Err e, m, t', w')
            | (Ok _, t', w') \<Rightarrow>
                (case lock t' of
                   None \<Rightarrow> (Err ''app core tunnel state poisoned'', m, t', w')
                 | Some ip \<Rightarrow>
                     (case update_connected_snapshot conn p ip rt m of
                        (r, m') \<Rightarrow> (r, m', t', w')))))"

end
