(* ===== verification/Facade.thy ===== *)
theory Facade
  imports Facade_State
begin

text \<open>
  Crate \<open>ffi-bridge\<close>: \<open>DefaultAppCoreFacade\<close>, what the application calls.  It is generic in the controller,
  the direct connector, the relay client, the DERP pool, the path manager, the tunnel manager and the
  key provider; their operations are a record \<open>Services\<close> over a world \<open>'w\<close> that holds their states (the
  path manager shares the transports with the facade).  The control channel is the client of
  \<open>Control_Ws\<close>.
\<close>

section \<open>The controller\<close>

record RegisterRequest =
  email :: string
  password :: string

record LoginRequest =
  email :: string
  password :: string

record RegisterDeviceRequest =
  name :: string
  platform :: string
  machine_id :: string
  public_key :: string

record RegisterNodeRequest =
  device_id :: string
  node_id :: string
  node_public_key :: string
  capabilities :: "string list"

record CreateNetworkRequest =
  name :: string
  cidr :: string

record JoinNetworkRequest =
  network_id :: string
  device_id :: string

record DeactivateNetworkRequest =
  network_id :: string
  device_id :: string

record RelayTicketRequest =
  network_id :: string
  src_node_id :: string
  dst_node_id :: string
  derp_cluster_id :: "string option"
  preferred_derp_node_ids :: "string list"
  reason :: string

record 'w ControllerClient =
  register_op :: "RegisterRequest \<Rightarrow> (Session, 'w) call"
  login_op :: "LoginRequest \<Rightarrow> (Session, 'w) call"
  register_device_op :: "string \<Rightarrow> RegisterDeviceRequest \<Rightarrow> (Device, 'w) call"
  register_node_op :: "string \<Rightarrow> RegisterNodeRequest \<Rightarrow> (Node, 'w) call"
  list_networks_op :: "string \<Rightarrow> (Network list, 'w) call"
  create_network_op :: "string \<Rightarrow> CreateNetworkRequest \<Rightarrow> (Network, 'w) call"
  join_network_op :: "string \<Rightarrow> JoinNetworkRequest \<Rightarrow> (unit, 'w) call"
  activate_network_op :: "string \<Rightarrow> JoinNetworkRequest \<Rightarrow> (unit, 'w) call"
  deactivate_network_op :: "string \<Rightarrow> DeactivateNetworkRequest \<Rightarrow> (unit, 'w) call"
  bootstrap_op :: "string \<Rightarrow> string \<Rightarrow> string \<Rightarrow> (BootstrapConfig, 'w) call"
  issue_relay_ticket_op :: "string \<Rightarrow> RelayTicketRequest \<Rightarrow> (RelayTicket, 'w) call"

section \<open>The facade\<close>

record 'w Services =
  controller :: "'w ControllerClient"
  p2p_connect_op :: "PeerCandidate \<Rightarrow> (ConnectionState, 'w) call"
  relay_connect_op :: "RelayTicket \<Rightarrow> 'w \<Rightarrow> (ConnectionState, RelayClientError) result \<times> 'w"
  install_cluster_op :: "string \<Rightarrow> DerpNodeMeta list \<Rightarrow> RelayTicket \<Rightarrow> (unit, 'w) call"
  warm_up_op :: "nat \<Rightarrow> (unit, 'w) call"
  tick_health_check_op :: "(unit, 'w) call"
  maybe_switch_op :: "(DerpSwitchEvent option, 'w) call"
  pool_active_link_op :: "'w \<Rightarrow> DerpLinkSnapshot option"
  on_p2p_failed_op :: "string \<Rightarrow> string \<Rightarrow> 'w \<Rightarrow> (unit, PathManagerError) result \<times> 'w"
  on_p2p_recovered_op :: "string \<Rightarrow> 'w \<Rightarrow> (unit, PathManagerError) result \<times> 'w"
  current_path_op :: "'w \<Rightarrow> ActivePath"
  send_packet_op :: "u8 list \<Rightarrow> 'w \<Rightarrow> (unit, PathManagerError) result \<times> 'w"
  poll_packet_op :: "'w \<Rightarrow> (u8 list option, PathManagerError) result \<times> 'w"
  tunnel_manager :: "'w TunnelBackend"
  generate_keys :: "'w key_provider"
  clock_ms :: "'w \<Rightarrow> u64"
  sleep_ms :: "u64 \<Rightarrow> 'w \<Rightarrow> 'w"
  ws_env :: "'w \<Rightarrow> WsEnv"

record 'w DefaultAppCoreFacade =
  world :: 'w
  snap :: "AppCoreSnapshot mutex"
  control_ws :: "ControlWsClient option mutex"
  current_tunnel_peer_virtual_ip :: "string option mutex"
  probe_sequence :: "u64 mutex"
  default_probe_reply_timeout_ms :: u64

type_synonym ('a, 'w) facade_op = "'w DefaultAppCoreFacade \<Rightarrow> ('a, string) result \<times> 'w DefaultAppCoreFacade"

definition new_with_probe_reply_timeout :: "'w \<Rightarrow> u64 \<Rightarrow> 'w DefaultAppCoreFacade" where
  "new_with_probe_reply_timeout w timeout =
     \<lparr>world = w, snap = Healthy snapshot_default, control_ws = Healthy None,
      current_tunnel_peer_virtual_ip = Healthy None, probe_sequence = Healthy 0,
      default_probe_reply_timeout_ms = timeout\<rparr>"

definition facade_new :: "'w \<Rightarrow> 'w DefaultAppCoreFacade" where
  "facade_new w = new_with_probe_reply_timeout w 25"

definition poll_interval_ms :: u64 where
  "poll_interval_ms = 2"

text \<open>A call of a component on the world of the facade.\<close>

definition on_world :: "('w \<Rightarrow> 'r \<times> 'w) \<Rightarrow> 'w DefaultAppCoreFacade \<Rightarrow> 'r \<times> 'w DefaultAppCoreFacade" where
  "on_world f fac = (case f (world fac) of (r, w) \<Rightarrow> (r, fac\<lparr>world := w\<rparr>))"

definition with_access_token :: "'w DefaultAppCoreFacade \<Rightarrow> (string, string) result" where
  "with_access_token f =
     (case lock (snap f) of
        None \<Rightarrow> Err state_poisoned
      | Some s \<Rightarrow> ok_or (map_option Session.access_token (session s)) ''missing session, login first'')"

definition current_node_id :: "'w DefaultAppCoreFacade \<Rightarrow> (string, string) result" where
  "current_node_id f =
     (case lock (snap f) of
        None \<Rightarrow> Err state_poisoned
      | Some s \<Rightarrow> ok_or (map_option Node.node_id (current_node s)) ''missing current node, register node first'')"

definition take_snapshot :: "'w DefaultAppCoreFacade \<Rightarrow> (AppCoreSnapshot, string) result" where
  "take_snapshot f = ok_or (lock (snap f)) state_poisoned"

definition restore_snapshot :: "AppCoreSnapshot \<Rightarrow> (unit, 'w) facade_op" where
  "restore_snapshot s f =
     (case lock (control_ws f) of
        None \<Rightarrow> (Err ''app core control ws state poisoned'', f)
      | Some _ \<Rightarrow>
          let f1 = f\<lparr>control_ws := Healthy None\<rparr>
          in (case lock (current_tunnel_peer_virtual_ip f1) of
                None \<Rightarrow> (Err ''app core tunnel state poisoned'', f1)
              | Some _ \<Rightarrow>
                  let f2 = f1\<lparr>current_tunnel_peer_virtual_ip := Healthy (AppCoreSnapshot.tunnel_peer_virtual_ip s)\<rparr>
                  in (case lock (snap f2) of
                        None \<Rightarrow> (Err state_poisoned, f2)
                      | Some _ \<Rightarrow> (Ok (), f2\<lparr>snap := Healthy s\<rparr>))))"

text \<open>A call of the controller that needs the session.\<close>

definition authorised :: "(string \<Rightarrow> ('a, 'w) call) \<Rightarrow> ('a, 'w) facade_op" where
  "authorised f fac =
     (case with_access_token fac of
        Err e \<Rightarrow> (Err e, fac)
      | Ok token \<Rightarrow> on_world (f token) fac)"

text \<open>The state changes once the controller has answered.\<close>

definition remember :: "('a \<Rightarrow> AppCoreSnapshot \<Rightarrow> AppCoreSnapshot) \<Rightarrow> ('a, string) result \<times> 'w DefaultAppCoreFacade \<Rightarrow>
    ('a, string) result \<times> 'w DefaultAppCoreFacade" where
  "remember upd rf =
     (case rf of
        (Err e, f) \<Rightarrow> (Err e, f)
      | (Ok x, f) \<Rightarrow>
          (case lock (snap f) of
             None \<Rightarrow> (Err state_poisoned, f)
           | Some s \<Rightarrow> (Ok x, f\<lparr>snap := Healthy (upd x s)\<rparr>)))"

section \<open>Identity and networks\<close>

definition facade_register :: "'w Services \<Rightarrow> string \<Rightarrow> string \<Rightarrow> (Session, 'w) facade_op" where
  "facade_register svc mail pw f =
     remember (\<lambda>x s. s\<lparr>session := Some x\<rparr>)
       (on_world (register_op (controller svc) \<lparr>RegisterRequest.email = mail, password = pw\<rparr>) f)"

definition facade_login :: "'w Services \<Rightarrow> string \<Rightarrow> string \<Rightarrow> (Session, 'w) facade_op" where
  "facade_login svc mail pw f =
     remember (\<lambda>x s. s\<lparr>session := Some x\<rparr>)
       (on_world (login_op (controller svc) \<lparr>LoginRequest.email = mail, password = pw\<rparr>) f)"

definition facade_register_device ::
  "'w Services \<Rightarrow> string \<Rightarrow> string \<Rightarrow> string \<Rightarrow> string \<Rightarrow> (Device, 'w) facade_op" where
  "facade_register_device svc n p mid key f =
     remember (\<lambda>x s. s\<lparr>current_device := Some x, tunnel_key_material := None\<rparr>)
       (authorised (\<lambda>token. register_device_op (controller svc) token
          \<lparr>RegisterDeviceRequest.name = n, platform = p, machine_id = mid, public_key = key\<rparr>) f)"

definition facade_register_node ::
  "'w Services \<Rightarrow> string \<Rightarrow> string \<Rightarrow> string \<Rightarrow> string list \<Rightarrow> (Node, 'w) facade_op" where
  "facade_register_node svc d n key caps f =
     remember (\<lambda>x s. s\<lparr>current_node := Some x, tunnel_key_material := None\<rparr>)
       (authorised (\<lambda>token. register_node_op (controller svc) token
          \<lparr>RegisterNodeRequest.device_id = d, node_id = n, node_public_key = key, capabilities = caps\<rparr>) f)"

definition facade_list_networks :: "'w Services \<Rightarrow> (Network list, 'w) facade_op" where
  "facade_list_networks svc f = authorised (list_networks_op (controller svc)) f"

definition facade_create_network :: "'w Services \<Rightarrow> string \<Rightarrow> string \<Rightarrow> (Network, 'w) facade_op" where
  "facade_create_network svc n c f =
     authorised (\<lambda>token. create_network_op (controller svc) token \<lparr>CreateNetworkRequest.name = n, cidr = c\<rparr>) f"

definition facade_join_network :: "'w Services \<Rightarrow> string \<Rightarrow> string \<Rightarrow> (unit, 'w) facade_op" where
  "facade_join_network svc n d f =
     authorised (\<lambda>token. join_network_op (controller svc) token \<lparr>JoinNetworkRequest.network_id = n, device_id = d\<rparr>) f"

definition facade_activate_network :: "'w Services \<Rightarrow> string \<Rightarrow> string \<Rightarrow> (unit, 'w) facade_op" where
  "facade_activate_network svc n d f =
     authorised (\<lambda>token. activate_network_op (controller svc) token \<lparr>JoinNetworkRequest.network_id = n, device_id = d\<rparr>) f"

definition facade_deactivate_network :: "'w Services \<Rightarrow> string \<Rightarrow> string \<Rightarrow> (unit, 'w) facade_op" where
  "facade_deactivate_network svc n d f =
     authorised (\<lambda>token. deactivate_network_op (controller svc) token
       \<lparr>DeactivateNetworkRequest.network_id = n, device_id = d\<rparr>) f"

definition facade_bootstrap :: "'w Services \<Rightarrow> string \<Rightarrow> string \<Rightarrow> (BootstrapConfig, 'w) facade_op" where
  "facade_bootstrap svc n network f =
     remember (\<lambda>x s. s\<lparr>current_bootstrap := Some x, current_network_id := Some network, current_connect_plans := fmempty\<rparr>)
       (authorised (\<lambda>token. bootstrap_op (controller svc) token n network) f)"

definition issue_relay_ticket_with_options ::
  "'w Services \<Rightarrow> string \<Rightarrow> string \<Rightarrow> string \<Rightarrow> string option \<Rightarrow> string list \<Rightarrow> string \<Rightarrow> (RelayTicket, 'w) facade_op" where
  "issue_relay_ticket_with_options svc network src dst cluster preferred why f =
     authorised (\<lambda>token. issue_relay_ticket_op (controller svc) token
       \<lparr>RelayTicketRequest.network_id = network, src_node_id = src, dst_node_id = dst, derp_cluster_id = cluster,
        preferred_derp_node_ids = preferred, reason = why\<rparr>) f"

definition facade_issue_relay_ticket ::
  "'w Services \<Rightarrow> string \<Rightarrow> string \<Rightarrow> string \<Rightarrow> string \<Rightarrow> (RelayTicket, 'w) facade_op" where
  "facade_issue_relay_ticket svc network src dst why f =
     issue_relay_ticket_with_options svc network src dst None [] why f"

section \<open>Connecting to a peer\<close>

definition select_derp_cluster :: "BootstrapConfig \<Rightarrow> DerpCluster option" where
  "select_derp_cluster boot =
     (case derp_map boot of
        None \<Rightarrow> None
      | Some m \<Rightarrow> find (\<lambda>c. DerpCluster.nodes c \<noteq> []) (DerpMap.clusters m))"

definition connect_via_derp_pool ::
  "'w Services \<Rightarrow> BootstrapConfig \<Rightarrow> string \<Rightarrow> string \<Rightarrow> string \<Rightarrow> (ConnectionState option, 'w) facade_op" where
  "connect_via_derp_pool svc boot network src dst f =
     (case select_derp_cluster boot of
        None \<Rightarrow> (Ok None, f)
      | Some c \<Rightarrow>
          (case issue_relay_ticket_with_options svc network src dst (Some (DerpCluster.cluster_id c))
                  (map DerpNodeMeta.node_id (DerpCluster.nodes c)) ''p2p_failed'' f of
             (Err e, f1) \<Rightarrow> (Err e, f1)
           | (Ok tkt, f1) \<Rightarrow>
          (case on_world (install_cluster_op svc (DerpCluster.cluster_id c) (DerpCluster.nodes c) tkt) f1 of
             (Err e, f2) \<Rightarrow> (Err e, f2)
           | (Ok _, f2) \<Rightarrow>
          (case on_world (warm_up_op svc (unat (max (recommended_fanout c) 1))) f2 of
             (Err e, f3) \<Rightarrow> (Err e, f3)
           | (Ok _, f3) \<Rightarrow>
          (case on_world (tick_health_check_op svc) f3 of
             (Err e, f4) \<Rightarrow> (Err e, f4)
           | (Ok _, f4) \<Rightarrow>
          (case on_world (maybe_switch_op svc) f4 of
             (Err e, f5) \<Rightarrow> (Err e, f5)
           | (Ok _, f5) \<Rightarrow>
          (case pool_active_link_op svc (world f5) of
             None \<Rightarrow> (Err ''derp pool has no active link after warm up'', f5)
           | Some _ \<Rightarrow> (Ok (Some (ConnectionState.Connected ConnectionPath.Derp)), f5))))))))"

definition facade_build_tunnel_config ::
  "'w Services \<Rightarrow> ActivePath \<Rightarrow> BootstrapConfig \<Rightarrow> Peer \<Rightarrow> (TunnelConfig option, 'w) facade_op" where
  "facade_build_tunnel_config svc p boot pr f =
     (case ensure_tunnel_key_pair (generate_keys svc) (Device.device_id (device boot)) (Peer.node_id pr)
             (clock_ms svc (world f)) (snap f, world f) of
        (r, m, w) \<Rightarrow>
          (case r of
             Err e \<Rightarrow> (Err e, f\<lparr>snap := m, world := w\<rparr>)
           | Ok kp \<Rightarrow> (Ok (build_tunnel_config p boot pr kp), f\<lparr>snap := m, world := w\<rparr>)))"

definition connect_plan_for_peer :: "'w DefaultAppCoreFacade \<Rightarrow> string \<Rightarrow> (ControlWsConnectPlan option, string) result" where
  "connect_plan_for_peer f p =
     (case lock (snap f) of
        None \<Rightarrow> Err state_poisoned
      | Some s \<Rightarrow> Ok (fmlookup (current_connect_plans s) p))"

definition direct_path_to :: "Endpoint \<Rightarrow> ControlWsPathOption \<Rightarrow> bool" where
  "direct_path_to e p \<longleftrightarrow>
     ControlWsPathOption.endpoint p = Endpoint.address e \<and>
     \<not> contains (ControlWsPathOption.path_type p) ''relay'' \<and> \<not> contains (ControlWsPathOption.path_type p) ''derp''"

definition endpoint_rank :: "ControlWsConnectPlan \<Rightarrow> Endpoint \<Rightarrow> u64" where
  "endpoint_rank plan e =
     (case position (direct_path_to e) (paths plan) of None \<Rightarrow> - 1 | Some i \<Rightarrow> of_nat i)"

text \<open>\<open>sort_by_key\<close> is stable, as is \<open>sort_key\<close>.\<close>

definition ordered_peer_endpoints :: "Peer \<Rightarrow> ControlWsConnectPlan option \<Rightarrow> Endpoint list" where
  "ordered_peer_endpoints pr plan =
     (case plan of
        None \<Rightarrow> Peer.endpoints pr
      | Some p \<Rightarrow> sort_key (endpoint_rank p) (Peer.endpoints pr))"

definition relay_ticket_from_plan ::
  "'w Services \<Rightarrow> string \<Rightarrow> string \<Rightarrow> string \<Rightarrow> ControlWsConnectPlan option \<Rightarrow> (RelayTicket, 'w) facade_op" where
  "relay_ticket_from_plan svc network src dst plan f =
     (case Option.bind plan relay_ticket of
        Some t \<Rightarrow> (Ok t, f)
      | None \<Rightarrow>
          issue_relay_ticket_with_options svc network src dst
            (Option.bind plan (\<lambda>p. let v = trim (ControlWsConnectPlan.derp_cluster_id p) in if v = [] then None else Some v))
            (case plan of None \<Rightarrow> [] | Some p \<Rightarrow> ControlWsConnectPlan.preferred_derp_node_ids p)
            ''p2p_failed'' f)"

definition facade_finalize ::
  "'w Services \<Rightarrow> ConnectionState \<Rightarrow> ActivePath \<Rightarrow> TunnelConfig option \<Rightarrow> (unit, 'w) facade_op" where
  "facade_finalize svc conn p cfg f =
     (case finalize_connected_path (tunnel_manager svc) conn p cfg
             (snap f, current_tunnel_peer_virtual_ip f, world f) of
        (r, m, t, w) \<Rightarrow> (r, f\<lparr>snap := m, current_tunnel_peer_virtual_ip := t, world := w\<rparr>))"

text \<open>The tail of a connect: the tunnel follows the path.\<close>

definition connect_over ::
  "'w Services \<Rightarrow> ConnectionState \<Rightarrow> BootstrapConfig \<Rightarrow> Peer \<Rightarrow> (ConnectionState, 'w) facade_op" where
  "connect_over svc conn boot pr f =
     (let p = current_path_op svc (world f)
      in (case facade_build_tunnel_config svc p boot pr f of
            (Err e, f1) \<Rightarrow> (Err e, f1)
          | (Ok cfg, f1) \<Rightarrow>
              (case facade_finalize svc conn p cfg f1 of
                 (Err e, f2) \<Rightarrow> (Err e, f2)
               | (Ok _, f2) \<Rightarrow> (Ok conn, f2))))"

definition report_failed :: "'w Services \<Rightarrow> string \<Rightarrow> string \<Rightarrow> (unit, 'w) facade_op" where
  "report_failed svc p why f = on_world (\<lambda>w. apfst (map_err display_path_error) (on_p2p_failed_op svc p why w)) f"

text \<open>The fallback: the DERP pool if the bootstrap names a cluster, and the relay otherwise.\<close>

definition connect_fallback ::
  "'w Services \<Rightarrow> string \<Rightarrow> ConnectContext \<Rightarrow> ControlWsConnectPlan option \<Rightarrow> (ConnectionState, 'w) facade_op" where
  "connect_fallback svc network ctx plan f =
     (let pr = ConnectContext.peer ctx; src = ConnectContext.src_node_id ctx
      in (case connect_via_derp_pool svc (ConnectContext.bootstrap ctx) network src (Peer.node_id pr) f of
            (Err e, f1) \<Rightarrow> (Err e, f1)
          | (Ok (Some conn), f1) \<Rightarrow> (Ok conn, f1)
          | (Ok None, f1) \<Rightarrow>
              (case relay_ticket_from_plan svc network src (Peer.node_id pr) plan f1 of
                 (Err e, f2) \<Rightarrow> (Err e, f2)
               | (Ok tkt, f2) \<Rightarrow>
                   (case on_world (\<lambda>w. apfst (map_err display_client_error) (relay_connect_op svc tkt w)) f2 of
                      (Err e, f3) \<Rightarrow> (Err e, f3)
                    | (Ok conn, f3) \<Rightarrow>
                        if conn = ConnectionState.Connected ConnectionPath.Relay then
                          (case report_failed svc (Peer.node_id pr) ''relay_fallback'' f3 of
                             (Err e, f4) \<Rightarrow> (Err e, f4)
                           | (Ok _, f4) \<Rightarrow> (Ok conn, f4))
                        else (Ok conn, f3)))))"

definition connect_relayed ::
  "'w Services \<Rightarrow> string \<Rightarrow> ConnectContext \<Rightarrow> ControlWsConnectPlan option \<Rightarrow> (ConnectionState, 'w) facade_op" where
  "connect_relayed svc network ctx plan f =
     (let pr = ConnectContext.peer ctx
      in if \<not> relay_allowed pr then
           (Err (''peer '' @ Peer.node_id pr @ '' does not allow relay fallback''), f)
         else (case connect_fallback svc network ctx plan f of
            (Err e, f1) \<Rightarrow> (Err e, f1)
          | (Ok fallback, f1) \<Rightarrow>
              (case (if fallback = ConnectionState.Connected ConnectionPath.Derp
                     then report_failed svc (Peer.node_id pr) ''derp_fallback'' f1 else (Ok (), f1)) of
                 (Err e, f2) \<Rightarrow> (Err e, f2)
               | (Ok _, f2) \<Rightarrow>
                   let managed = connection_state_from_active_path (current_path_op svc (world f2))
                   in (case managed of
                         ConnectionState.Connected _ \<Rightarrow> connect_over svc managed (ConnectContext.bootstrap ctx) pr f2
                       | _ \<Rightarrow>
                           (case update_connected_snapshot managed (current_path_op svc (world f2)) None None (snap f2) of
                              (Err e, m) \<Rightarrow> (Err e, f2\<lparr>snap := m\<rparr>)
                            | (Ok _, m) \<Rightarrow> (Ok managed, f2\<lparr>snap := m\<rparr>))))))"

definition facade_connect :: "'w Services \<Rightarrow> string \<Rightarrow> string \<Rightarrow> (ConnectionState, 'w) facade_op" where
  "facade_connect svc network peer_node f =
     (case resolve_connect_context (snap f) peer_node of
        Err e \<Rightarrow> (Err e, f)
      | Ok ctx \<Rightarrow>
          let pr = ConnectContext.peer ctx in
          (case connect_plan_for_peer f (Peer.node_id pr) of
             Err e \<Rightarrow> (Err e, f)
           | Ok plan \<Rightarrow>
               (case ordered_peer_endpoints pr plan of
                  [] \<Rightarrow> connect_relayed svc network ctx plan f
                | e # _ \<Rightarrow>
                    (case on_world (p2p_connect_op svc
                            \<lparr>PeerCandidate.peer_node_id = Peer.node_id pr, endpoint = Endpoint.address e,
                             candidate_type = endpoint_type e\<rparr>) f of
                       (Err err, f1) \<Rightarrow> (Err err, f1)
                     | (Ok conn, f1) \<Rightarrow>
                         if conn = ConnectionState.Connected ConnectionPath.P2P then
                           (case on_world (\<lambda>w. apfst (map_err display_path_error)
                                    (on_p2p_recovered_op svc (Peer.node_id pr) w)) f1 of
                              (Err err, f2) \<Rightarrow> (Err err, f2)
                            | (Ok _, f2) \<Rightarrow> connect_over svc conn (ConnectContext.bootstrap ctx) pr f2)
                         else (case conn of
                             ConnectionState.Failed why \<Rightarrow>
                               (case report_failed svc (Peer.node_id pr) why f1 of
                                  (Err err, f2) \<Rightarrow> (Err err, f2)
                                | (Ok _, f2) \<Rightarrow> connect_relayed svc network ctx plan f2)
                           | _ \<Rightarrow> connect_relayed svc network ctx plan f1)))))"

section \<open>Disconnecting\<close>

definition facade_disconnect :: "'w Services \<Rightarrow> (unit, 'w) facade_op" where
  "facade_disconnect svc f =
     (case lock (control_ws f) of
        None \<Rightarrow> (Err ''app core control ws state poisoned'', f)
      | Some _ \<Rightarrow>
          let f1 = f\<lparr>control_ws := Healthy None\<rparr>
          in (case lock (current_tunnel_peer_virtual_ip f1) of
                None \<Rightarrow> (Err ''app core tunnel state poisoned'', f1)
              | Some current \<Rightarrow>
                  let f2 = f1\<lparr>current_tunnel_peer_virtual_ip := Healthy None\<rparr>
                  in (case (case current of
                             None \<Rightarrow> (Ok (), f2)
                           | Some ip \<Rightarrow> on_world (close (tunnel_manager svc) ip) f2) of
                        (Err e, f3) \<Rightarrow> (Err e, f3)
                      | (Ok _, f3) \<Rightarrow>
                          (case update_disconnected_snapshot (snap f3) of
                             (r, m) \<Rightarrow> (r, f3\<lparr>snap := m\<rparr>)))))"

end
