(* ===== verification/Facade_Control.thy ===== *)
theory Facade_Control
  imports Facade
begin

text \<open>
  Crate \<open>ffi-bridge\<close>: probing the data plane (\<open>probe_with_timeout\<close>, \<open>probe_runtime.rs\<close>), the view of the
  control plane (\<open>control_status\<close>) and the synchronisation with it (\<open>control_sync\<close>,
  \<open>apply_control_ws_event\<close>).
\<close>

section \<open>Probes\<close>

definition next_probe_id :: "u64 \<Rightarrow> (string, 'w) facade_op" where
  "next_probe_id sampled f =
     (case lock (probe_sequence f) of
        None \<Rightarrow> (Err ''app core probe state poisoned'', f)
      | Some n \<Rightarrow>
          (Ok (''probe-'' @ show_word sampled @ ''-'' @ show_word (n + 1)), f\<lparr>probe_sequence := Healthy (n + 1)\<rparr>))"

definition probe_health_from_active_path ::
  "'w Services \<Rightarrow> 'w \<Rightarrow> ActivePath \<Rightarrow> u32 option \<times> u32 option \<times> u32 option \<times> string option \<times> string option" where
  "probe_health_from_active_path svc w p =
     (case p of
        ActivePath.Derp _ _ \<Rightarrow>
          (case pool_active_link_op svc w of
             None \<Rightarrow> (None, None, None, None, None)
           | Some link \<Rightarrow>
               (Some (rtt_ms_ewma (health link)), Some (loss_ppm (health link)), Some (score (health link)),
                Some (DerpNodeMeta.cluster_id (DerpLinkSnapshot.meta link)),
                Some (DerpNodeMeta.node_id (DerpLinkSnapshot.meta link))))
      | _ \<Rightarrow> (None, None, None, None, None))"

text \<open>The loop ends when a packet arrives, an error occurs, or the clock passes the deadline.\<close>

partial_function (option) poll_loop ::
  "'w Services \<Rightarrow> u64 \<Rightarrow> 'w \<Rightarrow> (((nat \<times> u64) option, PathManagerError) result \<times> 'w) option" where
  "poll_loop svc deadline w =
     (case poll_packet_op svc w of
        (Err e, w1) \<Rightarrow> Some (Err e, w1)
      | (Ok (Some reply), w1) \<Rightarrow> Some (Ok (Some (length reply, clock_ms svc w1)), w1)
      | (Ok None, w1) \<Rightarrow>
          if deadline \<le> clock_ms svc w1 then Some (Ok None, w1)
          else poll_loop svc deadline (sleep_ms svc poll_interval_ms w1))"

definition poll_reply_until_timeout ::
  "'w Services \<Rightarrow> u64 \<Rightarrow> 'w \<Rightarrow> (((nat \<times> u64) option, PathManagerError) result \<times> 'w) option" where
  "poll_reply_until_timeout svc timeout w = poll_loop svc (saturating_add (clock_ms svc w) timeout) w"

type_synonym 'w probe_outcome = "((DataPlaneProbe, DataPlaneError) result \<times> 'w DefaultAppCoreFacade) option"

definition finish_probe ::
  "'w Services \<Rightarrow> ActivePath \<Rightarrow> nat \<Rightarrow> u64 \<Rightarrow> string \<Rightarrow> (nat \<times> u64) option \<Rightarrow> 'w DefaultAppCoreFacade \<Rightarrow>
   (DataPlaneProbe, DataPlaneError) result \<times> 'w DefaultAppCoreFacade" where
  "finish_probe svc p sent sampled pid reply f =
     (case probe_health_from_active_path svc (world f) p of
        (rtt, loss, sc, cluster, dnode) \<Rightarrow>
          (case lock (current_tunnel_peer_virtual_ip f) of
             None \<Rightarrow> (Err (data_plane_error_new Unknown ''app core tunnel state poisoned''), f)
           | Some ip \<Rightarrow>
               (case record_probe_result
                  \<lparr>probe_id = pid, DataPlaneProbe.sampled_at_ms = sampled, active_path = p, bytes_sent = sent,
                   reply_observed = (reply \<noteq> None), reply_bytes_received = map_option fst reply,
                   reply_sampled_at_ms = map_option snd reply,
                   reply_rtt_ms = map_option (\<lambda>r. saturating_sub (snd r) sampled) reply,
                   tunnel_peer_virtual_ip = ip, observed_rtt_ms = rtt, packet_loss_ppm = loss, path_score = sc,
                   derp_cluster_id = cluster, derp_node_id = dnode\<rparr> (snap f) of
                  (r, m) \<Rightarrow> (r, f\<lparr>snap := m\<rparr>))))"

definition probe_with_timeout :: "'w Services \<Rightarrow> u8 list \<Rightarrow> u64 option \<Rightarrow> 'w DefaultAppCoreFacade \<Rightarrow> 'w probe_outcome" where
  "probe_with_timeout svc packet timeout f =
     (let p = current_path_op svc (world f) in
      case on_world (send_packet_op svc packet) f of
        (Err e, f1) \<Rightarrow>
          (let err = classify_path_manager_error e
           in Some (Err err, f1\<lparr>snap := snd (remember_data_plane_error err (snap f1))\<rparr>))
      | (Ok _, f1) \<Rightarrow>
          let sampled = clock_ms svc (world f1) in
          (case next_probe_id sampled f1 of
             (Err e, f2) \<Rightarrow> Some (Err (data_plane_error_new Unknown e), f2)
           | (Ok pid, f2) \<Rightarrow>
               (case poll_reply_until_timeout svc
                        (case timeout of None \<Rightarrow> default_probe_reply_timeout_ms f2 | Some t \<Rightarrow> t) (world f2) of
                  None \<Rightarrow> None
                | Some (Err e, w) \<Rightarrow> Some (Err (classify_path_manager_error e), f2\<lparr>world := w\<rparr>)
                | Some (Ok reply, w) \<Rightarrow>
                    Some (finish_probe svc p (length packet) sampled pid reply (f2\<lparr>world := w\<rparr>)))))"

definition facade_probe :: "'w Services \<Rightarrow> u8 list \<Rightarrow> 'w DefaultAppCoreFacade \<Rightarrow> 'w probe_outcome" where
  "facade_probe svc packet f = probe_with_timeout svc packet None f"

definition facade_send ::
  "'w Services \<Rightarrow> u8 list \<Rightarrow> 'w DefaultAppCoreFacade \<Rightarrow> ((nat, DataPlaneError) result \<times> 'w DefaultAppCoreFacade) option" where
  "facade_send svc packet f = map_option (apfst (map_ok bytes_sent)) (facade_probe svc packet f)"

section \<open>The view of the control plane\<close>

definition connect_plan_view :: "string \<Rightarrow> ControlWsConnectPlan \<Rightarrow> ControlConnectPlanView" where
  "connect_plan_view p plan =
     \<lparr>ControlConnectPlanView.peer_node_id = p, prefer_direct = ControlWsConnectPlan.prefer_direct plan,
      path_count = length (paths plan),
      preferred_path = map_option (\<lambda>opt. \<lparr>ControlPathOptionView.path_type = ControlWsPathOption.path_type opt,
         endpoint = ControlWsPathOption.endpoint opt, priority = ControlWsPathOption.priority opt\<rparr>) (first (paths plan)),
      derp_cluster_id = (if blank (ControlWsConnectPlan.derp_cluster_id plan) then None
                         else Some (ControlWsConnectPlan.derp_cluster_id plan)),
      preferred_derp_node_ids = ControlWsConnectPlan.preferred_derp_node_ids plan,
      relay_ticket_id = map_option ticket_id (relay_ticket plan)\<rparr>"

text \<open>The views are sorted by the peer, and a map has one plan per peer.\<close>

definition connect_plan_views :: "(string, ControlWsConnectPlan) HashMap \<Rightarrow> ControlConnectPlanView list" where
  "connect_plan_views plans =
     map (\<lambda>p. connect_plan_view p (the (fmlookup plans p))) (sorted_list_of_fset (fmdom plans))"

fun or_else :: "'a option \<Rightarrow> 'a option \<Rightarrow> 'a option" where
  "or_else (Some x) y = Some x"
| "or_else None y = y"

definition control_status :: "'w DefaultAppCoreFacade \<Rightarrow> (ControlStatusView, string) result" where
  "control_status f =
     (case lock (snap f) of
        None \<Rightarrow> Err state_poisoned
      | Some s \<Rightarrow>
          Ok (case current_bootstrap s of
            None \<Rightarrow>
              \<lparr>ControlStatusView.status = ''none'', ws_url = None, heartbeat_seconds = None,
               session_token_present = False, network_map_present = False, network_id = current_network_id s,
               node_id = map_option Node.node_id (current_node s),
               device_id = map_option Device.device_id (current_device s), peer_count = 0,
               connect_plan_count = fcard (fmdom (current_connect_plans s)), connect_plans = []\<rparr>
          | Some boot \<Rightarrow>
              let nm = BootstrapConfig.network_map boot; views = connect_plan_views (current_connect_plans s)
              in \<lparr>ControlStatusView.status = ''configured'', ws_url = Some (ControlPlaneConfig.ws_url (control_plane boot)),
                  heartbeat_seconds = Some (ControlPlaneConfig.heartbeat_seconds (control_plane boot)),
                  session_token_present = (ControlPlaneConfig.session_token (control_plane boot) \<noteq> None),
                  network_map_present = (nm \<noteq> None),
                  network_id = or_else (current_network_id s) (map_option NetworkMap.network_id nm),
                  node_id = or_else (map_option Node.node_id (current_node s)) (map_option self_node_id nm),
                  device_id = or_else (map_option Device.device_id (current_device s)) (map_option self_device_id nm),
                  peer_count = (case nm of None \<Rightarrow> 0 | Some m \<Rightarrow> length (NetworkMap.peers m)),
                  connect_plan_count = length views, connect_plans = views\<rparr>))"

section \<open>Events of the control channel\<close>

record SyncState =
  sync_map :: NetworkMap
  sync_plans :: "(string, ControlWsConnectPlan) HashMap"
  sync_ip_updates :: "ControlWsDeviceIPReassigned list"
  sync_enabled :: "ControlWsActiveNetworkEnabled option"

text \<open>The first peer that satisfies the condition is replaced.\<close>

fun replace_first :: "('a \<Rightarrow> bool) \<Rightarrow> 'a \<Rightarrow> 'a list \<Rightarrow> 'a list" where
  "replace_first c y [] = []"
| "replace_first c y (x # xs) = (if c x then y # xs else x # replace_first c y xs)"

definition upsert_peer :: "Peer \<Rightarrow> Peer list \<Rightarrow> Peer list" where
  "upsert_peer pr ps =
     (if \<exists>p \<in> set ps. Peer.node_id p = Peer.node_id pr
      then replace_first (\<lambda>p. Peer.node_id p = Peer.node_id pr) pr ps
      else ps @ [pr])"

fun apply_control_ws_event :: "ControlWsEvent \<Rightarrow> SyncState \<Rightarrow> SyncState" where
  "apply_control_ws_event (PeerUpdate u) st =
     st\<lparr>sync_map := (sync_map st)
          \<lparr>NetworkMap.revision := max (NetworkMap.revision (sync_map st)) (ControlWsPeerUpdate.revision u),
           NetworkMap.peers := upsert_peer (ControlWsPeerUpdate.peer u) (NetworkMap.peers (sync_map st))\<rparr>\<rparr>"
| "apply_control_ws_event (PeerRemove r) st =
     st\<lparr>sync_map := (sync_map st)
          \<lparr>NetworkMap.revision := max (NetworkMap.revision (sync_map st)) (ControlWsPeerRemove.revision r),
           NetworkMap.peers := filter (\<lambda>p. Peer.node_id p \<noteq> ControlWsPeerRemove.peer_node_id r)
             (NetworkMap.peers (sync_map st))\<rparr>,
        sync_plans := fmdrop (ControlWsPeerRemove.peer_node_id r) (sync_plans st)\<rparr>"
| "apply_control_ws_event (ConnectPlan plan) st =
     st\<lparr>sync_plans := fmupd (ControlWsConnectPlan.peer_node_id plan) plan (sync_plans st)\<rparr>"
| "apply_control_ws_event (NetworkRestartRequired _) st = st"
| "apply_control_ws_event (DeviceIPReassigned u) st =
     (let st1 = (if ControlWsDeviceIPReassigned.network_id u = NetworkMap.network_id (sync_map st)
            then st\<lparr>sync_map := (sync_map st)\<lparr>NetworkMap.peers :=
                map (\<lambda>p. if Peer.device_id p = ControlWsDeviceIPReassigned.device_id u
                          then p\<lparr>virtual_ips := [ControlWsDeviceIPReassigned.virtual_ip u]\<rparr> else p)
                  (NetworkMap.peers (sync_map st))\<rparr>\<rparr>
            else st)
      in st1\<lparr>sync_ip_updates := sync_ip_updates st1 @ [u]\<rparr>)"
| "apply_control_ws_event (ActiveNetworkEnabled e) st = st\<lparr>sync_enabled := Some e\<rparr>"

definition apply_events :: "ControlWsEvent list \<Rightarrow> SyncState \<Rightarrow> SyncState" where
  "apply_events evs st = fold apply_control_ws_event evs st"

section \<open>Synchronisation\<close>

definition control_ws_config :: "'w DefaultAppCoreFacade \<Rightarrow> (ControlWsConfig, string) result" where
  "control_ws_config f =
     (case lock (snap f) of
        None \<Rightarrow> Err state_poisoned
      | Some s \<Rightarrow> (case current_bootstrap s of
          None \<Rightarrow> Err ''missing bootstrap config, call bootstrap first''
        | Some boot \<Rightarrow> (case BootstrapConfig.network_map boot of
            None \<Rightarrow> Err ''missing network map in bootstrap config, call bootstrap first''
          | Some nm \<Rightarrow> (case ControlPlaneConfig.session_token (control_plane boot) of
              None \<Rightarrow> Err ''missing control session token in bootstrap config''
            | Some token \<Rightarrow> (case current_node s of
                None \<Rightarrow> Err ''missing current node, register node first''
              | Some n \<Rightarrow> (case session s of
                  None \<Rightarrow> Err ''missing session access token''
                | Some ses \<Rightarrow>
                    Ok \<lparr>ControlWsConfig.ws_url = ControlPlaneConfig.ws_url (control_plane boot),
                        access_token = Session.access_token ses, session_token = token,
                        user_id = Session.user_id ses,
                        device_id = (case current_device s of None \<Rightarrow> self_device_id nm | Some d \<Rightarrow> Device.device_id d),
                        node_id = Node.node_id n, node_public_key = Node.node_public_key n,
                        network_id = (case current_network_id s of None \<Rightarrow> NetworkMap.network_id nm | Some i \<Rightarrow> i),
                        capabilities = Node.capabilities n\<rparr>))))))"

definition infer_control_report_peer_node_id :: "AppCoreSnapshot \<Rightarrow> string option" where
  "infer_control_report_peer_node_id s =
     (case AppCoreSnapshot.active_path s of
        Some (ActivePath.P2P p) \<Rightarrow> Some p
      | Some (ActivePath.Relay p) \<Rightarrow> Some p
      | _ \<Rightarrow> (case sorted_list_of_fset (fmdom (current_connect_plans s)) of [p] \<Rightarrow> Some p | _ \<Rightarrow> None))"

definition control_report_endpoint_for_peer :: "AppCoreSnapshot \<Rightarrow> string \<Rightarrow> string option" where
  "control_report_endpoint_for_peer s p =
     map_option ControlWsPathOption.endpoint
       (Option.bind (fmlookup (current_connect_plans s) p) (\<lambda>plan. first (paths plan)))"

fun connection_report :: "ConnectionState \<Rightarrow> string \<times> string \<times> string option" where
  "connection_report ConnectionState.Disconnected = (''none'', ''closed'', None)"
| "connection_report ConnectionState.Connecting = (''connecting'', ''connecting'', None)"
| "connection_report (ConnectionState.Connected ConnectionPath.P2P) = (''p2p'', ''connected'', None)"
| "connection_report (ConnectionState.Connected ConnectionPath.Relay) = (''relay'', ''connected'', None)"
| "connection_report (ConnectionState.Connected ConnectionPath.Derp) = (''derp'', ''connected'', None)"
| "connection_report (ConnectionState.Failed why) = (''failed'', ''failed'', Some why)"

fun path_type_text :: "ActivePath \<Rightarrow> string" where
  "path_type_text NoPath = ''none''"
| "path_type_text (ActivePath.P2P _) = ''p2p''"
| "path_type_text (ActivePath.Relay _) = ''relay''"
| "path_type_text (ActivePath.Derp _ _) = ''derp''"

definition emit_control_observations ::
  "WsEnv \<Rightarrow> AppCoreSnapshot \<Rightarrow> ControlWsConfig \<Rightarrow> ControlWsClient \<Rightarrow> (unit, fault) result \<times> ControlWsClient" where
  "emit_control_observations env s cfg c =
     (case infer_control_report_peer_node_id s of
        None \<Rightarrow> (Ok (), c)
      | Some p \<Rightarrow>
          (case (case connection_state s of
                   None \<Rightarrow> (Ok (), c)
                 | Some conn \<Rightarrow>
                     (case connection_report conn of (how, st, why) \<Rightarrow>
                        send_connection_state env
                          \<lparr>ControlWsConnectionStateReport.network_id = ControlWsConfig.network_id cfg,
                           peer_node_id = p, path = how, state = st, reason = why,
                           observed_rtt_ms = Option.bind (last_probe s) DataPlaneProbe.observed_rtt_ms,
                           packet_loss_ppm = Option.bind (last_probe s) DataPlaneProbe.packet_loss_ppm,
                           path_score = Option.bind (last_probe s) DataPlaneProbe.path_score,
                           derp_node_id = Option.bind (last_probe s) DataPlaneProbe.derp_node_id\<rparr> c)) of
             (Err e, c1) \<Rightarrow> (Err e, c1)
           | (Ok _, c1) \<Rightarrow>
               (case last_probe s of
                  None \<Rightarrow> (Ok (), c1)
                | Some probe \<Rightarrow>
                    send_path_health_report env
                      \<lparr>ControlWsPathHealthReport.network_id = ControlWsConfig.network_id cfg, peer_node_id = p,
                       path_type = path_type_text (DataPlaneProbe.active_path probe),
                       endpoint = control_report_endpoint_for_peer s p,
                       derp_node_id = DataPlaneProbe.derp_node_id probe,
                       observed_rtt_ms = DataPlaneProbe.observed_rtt_ms probe,
                       packet_loss_ppm = DataPlaneProbe.packet_loss_ppm probe,
                       path_score = DataPlaneProbe.path_score probe,
                       sampled_at_ms = DataPlaneProbe.sampled_at_ms probe\<rparr> c1)))"

record ControlWsBootstrapUpdate =
  bootstrap_override :: "BootstrapConfig option"
  network_map :: NetworkMap
  heartbeat_seconds :: u32
  connect_plans :: "(string, ControlWsConnectPlan) HashMap"
  device_ip_updates :: "ControlWsDeviceIPReassigned list"
  active_network_enabled :: "ControlWsActiveNetworkEnabled option"

definition sync_update :: "u32 \<Rightarrow> SyncState \<Rightarrow> ControlWsBootstrapUpdate" where
  "sync_update hb st =
     \<lparr>bootstrap_override = None, ControlWsBootstrapUpdate.network_map = sync_map st, heartbeat_seconds = hb,
      connect_plans = sync_plans st, device_ip_updates = sync_ip_updates st, active_network_enabled = sync_enabled st\<rparr>"

definition drain_timeout_ms :: nat where
  "drain_timeout_ms = 200"

text \<open>A new session: connect, say hello, report, and apply what is pending.\<close>

definition fresh_session ::
  "WsEnv \<Rightarrow> ControlWsConfig \<Rightarrow> AppCoreSnapshot mutex \<Rightarrow> (ControlWsClient \<times> ControlWsBootstrapUpdate, fault) result" where
  "fresh_session env cfg m =
     (case ws_connect env cfg of
        Err e \<Rightarrow> Err (Fail e)
      | Ok c0 \<Rightarrow> (case bootstrap_session env cfg c0 of
          (Err e, _) \<Rightarrow> Err e
        | (Ok boot, c1) \<Rightarrow> (case lock m of
            None \<Rightarrow> Err (Fail state_poisoned)
          | Some s \<Rightarrow> (case emit_control_observations env s cfg c1 of
              (Err e, _) \<Rightarrow> Err e
            | (Ok _, c2) \<Rightarrow> (case drain_pending_events env drain_timeout_ms 32 c2 of
                (Err e, _) \<Rightarrow> Err e
              | (Ok evs, c3) \<Rightarrow>
                  Ok (c3, sync_update (NodeHelloAck.heartbeat_seconds (ack boot))
                    (apply_events evs \<lparr>sync_map = ControlSessionBootstrap.network_map boot, sync_plans = fmempty,
                       sync_ip_updates = [], sync_enabled = None\<rparr>)))))))"

text \<open>An open session: ping, report, and ask for the changes since the revision.\<close>

definition resume_session ::
  "WsEnv \<Rightarrow> int \<Rightarrow> ControlWsConfig \<Rightarrow> u64 \<Rightarrow> AppCoreSnapshot mutex \<Rightarrow> ControlWsClient \<Rightarrow> (NetworkMap, fault) result \<times> ControlWsClient" where
  "resume_session env now cfg since m c =
     (case ping env now c of
        (Err e, c1) \<Rightarrow> (Err e, c1)
      | (Ok _, c1) \<Rightarrow> (case lock m of
          None \<Rightarrow> (Err (Fail state_poisoned), c1)
        | Some s \<Rightarrow> (case emit_control_observations env s cfg c1 of
            (Err e, c2) \<Rightarrow> (Err e, c2)
          | (Ok _, c2) \<Rightarrow> request_network_map_since env (ControlWsConfig.network_id cfg) since c2)))"

definition replace_session ::
  "WsEnv \<Rightarrow> ControlWsConfig \<Rightarrow> AppCoreSnapshot mutex \<Rightarrow> ControlWsClient option \<Rightarrow>
   (ControlWsBootstrapUpdate, fault) result \<times> ControlWsClient option mutex" where
  "replace_session env cfg m old =
     (case fresh_session env cfg m of
        Err (Fail e) \<Rightarrow> (Err (Fail e), Healthy old)
      | Err (Panic p) \<Rightarrow> (Err (Panic p), Poisoned old)
      | Ok (c, upd) \<Rightarrow> (Ok upd, Healthy (Some c)))"

text \<open>A panic while the lock of the control channel is held poisons it.\<close>

definition sync_channel ::
  "WsEnv \<Rightarrow> int \<Rightarrow> ControlWsConfig \<Rightarrow> u64 \<Rightarrow> AppCoreSnapshot mutex \<Rightarrow> ControlWsClient option \<Rightarrow>
   (ControlWsBootstrapUpdate, fault) result \<times> ControlWsClient option mutex" where
  "sync_channel env now cfg since m open_client =
     (case open_client of
        None \<Rightarrow> replace_session env cfg m None
      | Some c \<Rightarrow>
          (case resume_session env now cfg since m c of
             (Err (Panic p), c1) \<Rightarrow> (Err (Panic p), Poisoned (Some c1))
           | (Err (Fail _), c1) \<Rightarrow> replace_session env cfg m (Some c1)
           | (Ok nm, c1) \<Rightarrow>
               (case lock m of
                  None \<Rightarrow> (Err (Fail state_poisoned), Healthy (Some c1))
                | Some s \<Rightarrow>
                    (case drain_pending_events env drain_timeout_ms 32 c1 of
                       (Err (Panic p), c2) \<Rightarrow> (Err (Panic p), Poisoned (Some c2))
                     | (Err (Fail e), c2) \<Rightarrow> (Err (Fail e), Healthy (Some c2))
                     | (Ok evs, c2) \<Rightarrow>
                         (Ok (sync_update 0 (apply_events evs \<lparr>sync_map = nm, sync_plans = current_connect_plans s,
                                sync_ip_updates = [], sync_enabled = None\<rparr>)), Healthy (Some c2))))))"

text \<open>Another network has been activated for the user: activate it here and load its bootstrap.\<close>

definition switch_network ::
  "'w Services \<Rightarrow> ControlWsConfig \<Rightarrow> ControlWsBootstrapUpdate \<Rightarrow> (ControlWsBootstrapUpdate, 'w) facade_op" where
  "switch_network svc cfg upd f =
     (case active_network_enabled upd of
        None \<Rightarrow> (Ok upd, f)
      | Some en \<Rightarrow>
          (case lock (snap f) of
             None \<Rightarrow> (Err state_poisoned, f)
           | Some s \<Rightarrow>
               if current_network_id s = Some (ControlWsActiveNetworkEnabled.network_id en) then (Ok upd, f)
               else (case with_access_token f of
                  Err e \<Rightarrow> (Err e, f)
                | Ok token \<Rightarrow> (case current_device s of
                    None \<Rightarrow> (Err ''missing current device, register device first'', f)
                  | Some d \<Rightarrow>
                      (case on_world (activate_network_op (controller svc) token
                              \<lparr>JoinNetworkRequest.network_id = ControlWsActiveNetworkEnabled.network_id en,
                               device_id = Device.device_id d\<rparr>) f of
                         (Err e, f1) \<Rightarrow> (Err e, f1)
                       | (Ok _, f1) \<Rightarrow>
                           (case on_world (bootstrap_op (controller svc) token (ControlWsConfig.node_id cfg)
                                   (ControlWsActiveNetworkEnabled.network_id en)) f1 of
                              (Err e, f2) \<Rightarrow> (Err e, f2)
                            | (Ok refreshed, f2) \<Rightarrow>
                                (case BootstrapConfig.network_map refreshed of
                                   None \<Rightarrow> (Err ''missing network map after active network enable'', f2)
                                 | Some nm \<Rightarrow>
                                     (Ok \<lparr>bootstrap_override = Some refreshed, ControlWsBootstrapUpdate.network_map = nm,
                                        heartbeat_seconds = ControlPlaneConfig.heartbeat_seconds (control_plane refreshed),
                                        connect_plans = fmempty, device_ip_updates = [],
                                        active_network_enabled = Some en\<rparr>, f2))))))))"

section \<open>Applying an update\<close>

definition peer_in :: "NetworkMap option \<Rightarrow> string \<Rightarrow> Peer option" where
  "peer_in nm p = Option.bind nm (\<lambda>m. find (\<lambda>q. Peer.node_id q = p) (NetworkMap.peers m))"

text \<open>The addresses of the own device, from the updates of the current network.\<close>

fun own_ip_updates ::
  "string \<Rightarrow> string option \<Rightarrow> ControlWsDeviceIPReassigned list \<Rightarrow> BootstrapConfig \<times> bool \<times> string option \<Rightarrow>
   BootstrapConfig \<times> bool \<times> string option" where
  "own_ip_updates network dev [] acc = acc"
| "own_ip_updates network dev (u # us) (cb, re, ip) =
     own_ip_updates network dev us
       (if ControlWsDeviceIPReassigned.network_id u \<noteq> network then (cb, re, ip)
        else (if Device.device_id (device cb) = ControlWsDeviceIPReassigned.device_id u
              then cb\<lparr>device := (device cb)\<lparr>Device.virtual_ip := Some (ControlWsDeviceIPReassigned.virtual_ip u)\<rparr>\<rparr> else cb,
              re \<or> Device.device_id (device cb) = ControlWsDeviceIPReassigned.device_id u,
              if dev = Some (ControlWsDeviceIPReassigned.device_id u)
              then Some (ControlWsDeviceIPReassigned.virtual_ip u) else ip))"

definition tunnel_reapply ::
  "ControlWsDeviceIPReassigned list \<Rightarrow> bool \<Rightarrow> ActivePath option \<Rightarrow> NetworkMap option \<Rightarrow> BootstrapConfig \<Rightarrow>
   (ActivePath \<times> BootstrapConfig \<times> Peer) option" where
  "tunnel_reapply updates re p previous boot =
     (case (case p of Some (ActivePath.P2P n) \<Rightarrow> Some n | Some (ActivePath.Relay n) \<Rightarrow> Some n | _ \<Rightarrow> None) of
        None \<Rightarrow> None
      | Some n \<Rightarrow>
          let found = or_else (peer_in (BootstrapConfig.network_map boot) n) (peer_in previous n);
              peer_update = find (\<lambda>u. map_option Peer.device_id found = Some (ControlWsDeviceIPReassigned.device_id u)) updates
          in (case found of
                None \<Rightarrow> None
              | Some q \<Rightarrow>
                  let pr = (case peer_update of
                        None \<Rightarrow> q | Some u \<Rightarrow> q\<lparr>virtual_ips := [ControlWsDeviceIPReassigned.virtual_ip u]\<rparr>)
                  in if re \<or> peer_update \<noteq> None
                        \<or> (\<exists>u \<in> set updates. ControlWsDeviceIPReassigned.device_id u = Peer.device_id pr)
                     then Some (the p, boot, pr) else None))"

definition apply_update ::
  "ControlWsBootstrapUpdate \<Rightarrow> AppCoreSnapshot \<Rightarrow>
   ((BootstrapConfig \<times> (ActivePath \<times> BootstrapConfig \<times> Peer) option), string) result \<times> AppCoreSnapshot" where
  "apply_update upd s =
     (case current_bootstrap s of
        None \<Rightarrow> (Err ''missing bootstrap config, call bootstrap first'', s)
      | Some cb0 \<Rightarrow>
          let cb1 = (case bootstrap_override upd of Some b \<Rightarrow> b | None \<Rightarrow> cb0);
              cb2 = (if 0 < ControlWsBootstrapUpdate.heartbeat_seconds upd
                then cb1\<lparr>control_plane := (control_plane cb1)
                  \<lparr>ControlPlaneConfig.heartbeat_seconds := ControlWsBootstrapUpdate.heartbeat_seconds upd\<rparr>\<rparr> else cb1);
              cb3 = cb2\<lparr>BootstrapConfig.network_map := Some (ControlWsBootstrapUpdate.network_map upd)\<rparr>
          in (case own_ip_updates (NetworkMap.network_id (ControlWsBootstrapUpdate.network_map upd))
                    (map_option Device.device_id (current_device s)) (device_ip_updates upd) (cb3, False, None) of
                (cb4, re, own_ip) \<Rightarrow>
                  let reapply = tunnel_reapply (device_ip_updates upd) re (AppCoreSnapshot.active_path s)
                        (BootstrapConfig.network_map cb1) cb4;
                      dev = (case own_ip of
                          Some ip \<Rightarrow> map_option (\<lambda>d. d\<lparr>Device.virtual_ip := Some ip\<rparr>) (current_device s)
                        | None \<Rightarrow> if bootstrap_override upd \<noteq> None then Some (device cb1) else current_device s)
                  in (Ok (cb4, reapply),
                      s\<lparr>current_bootstrap := Some cb4, current_device := dev,
                        current_network_id := Some (NetworkMap.network_id (ControlWsBootstrapUpdate.network_map upd)),
                        current_connect_plans := ControlWsBootstrapUpdate.connect_plans upd\<rparr>)))"

definition reapply_tunnel :: "'w Services \<Rightarrow> ActivePath \<times> BootstrapConfig \<times> Peer \<Rightarrow> (unit, 'w) facade_op" where
  "reapply_tunnel svc t f =
     (case t of (p, boot, pr) \<Rightarrow>
        (case facade_build_tunnel_config svc p boot pr f of
           (Err e, f1) \<Rightarrow> (Err e, f1)
         | (Ok None, f1) \<Rightarrow> (Ok (), f1)
         | (Ok (Some cfg), f1) \<Rightarrow>
             (case replace_tunnel (tunnel_manager svc) (Some cfg) (current_tunnel_peer_virtual_ip f1, world f1) of
                (r, tun, w) \<Rightarrow>
                  let f2 = f1\<lparr>current_tunnel_peer_virtual_ip := tun, world := w\<rparr>
                  in (case r of
                        Err e \<Rightarrow> (Err e, f2)
                      | Ok _ \<Rightarrow>
                          (case lock (snap f2) of
                             None \<Rightarrow> (Err state_poisoned, f2)
                           | Some s \<Rightarrow>
                               (Ok (), f2\<lparr>snap := Healthy (s
                                  \<lparr>AppCoreSnapshot.tunnel_peer_virtual_ip := Some (TunnelConfig.peer_virtual_ip cfg),
                                   tunnel_runtime := Some (build_tunnel_runtime cfg)\<rparr>)\<rparr>))))))"

definition current_revision :: "AppCoreSnapshot \<Rightarrow> u64" where
  "current_revision s =
     (case Option.bind (current_bootstrap s) BootstrapConfig.network_map of
        None \<Rightarrow> 0 | Some m \<Rightarrow> NetworkMap.revision m)"

definition finish_sync :: "'w Services \<Rightarrow> ControlWsConfig \<Rightarrow> ControlWsBootstrapUpdate \<Rightarrow> (BootstrapConfig, 'w) facade_op" where
  "finish_sync svc cfg upd0 f =
     (case switch_network svc cfg upd0 f of
        (Err e, f1) \<Rightarrow> (Err e, f1)
      | (Ok upd, f1) \<Rightarrow>
          (case lock (snap f1) of
             None \<Rightarrow> (Err state_poisoned, f1)
           | Some s \<Rightarrow>
               (case apply_update upd s of
                  (Err e, s') \<Rightarrow> (Err e, f1\<lparr>snap := Healthy s'\<rparr>)
                | (Ok (boot, reapply), s') \<Rightarrow>
                    let f2 = f1\<lparr>snap := Healthy s'\<rparr>
                    in (case reapply of
                          None \<Rightarrow> (Ok boot, f2)
                        | Some t \<Rightarrow>
                            (case reapply_tunnel svc t f2 of
                               (Err e, f3) \<Rightarrow> (Err e, f3)
                             | (Ok _, f3) \<Rightarrow> (Ok boot, f3))))))"

definition control_sync :: "'w Services \<Rightarrow> 'w DefaultAppCoreFacade \<Rightarrow> (BootstrapConfig, fault) result \<times> 'w DefaultAppCoreFacade" where
  "control_sync svc f =
     (case control_ws_config f of
        Err e \<Rightarrow> (Err (Fail e), f)
      | Ok cfg \<Rightarrow> (case lock (snap f) of
          None \<Rightarrow> (Err (Fail state_poisoned), f)
        | Some s \<Rightarrow> (case lock (control_ws f) of
            None \<Rightarrow> (Err (Fail ''app core control ws state poisoned''), f)
          | Some open_client \<Rightarrow>
              (case sync_channel (ws_env svc (world f)) (sint (clock_ms svc (world f))) cfg (current_revision s)
                      (snap f) open_client of
                 (Err e, ws) \<Rightarrow> (Err e, f\<lparr>control_ws := ws\<rparr>)
               | (Ok upd, ws) \<Rightarrow> apfst (map_err Fail) (finish_sync svc cfg upd (f\<lparr>control_ws := ws\<rparr>))))))"

end
