(* ===== verification/Client_App.thy ===== *)
theory Client_App
  imports Facade_Control
begin

text \<open>
  The client as the command-line tool puts it together (crate \<open>app-core-cli\<close>, \<open>build_facade\<close>): the facade
  over the socket transports, the path manager that shares them, the tunnel manager of the platform
  and a key store in a file.  What lies outside (the network, processes, files and the clock) is a
  state \<open>'x\<close> that moves on with every call; the HTTP client of the controller is a parameter, as it is
  for the facade.
\<close>

section \<open>The world of the client\<close>

type_synonym client_paths =
  "(SocketDerpClient InMemoryDerpPool, SocketRelayClient, SocketP2PConnector) InMemoryPathManager"

record ('x, 't) ClientWorldOf =
  outside :: 'x
  path_mgr :: client_paths
  tunnels :: 't

type_synonym 'x ClientWorld = "('x, 'x platform_manager) ClientWorldOf"

record 'x ClientEnv =
  sockets :: "'x \<Rightarrow> SocketEnv"
  link_sockets :: "'x \<Rightarrow> nat \<Rightarrow> SocketEnv"
  pass_by :: "'x \<Rightarrow> 'x"
  clock :: "'x \<Rightarrow> u64"
  sleeping :: "u64 \<Rightarrow> 'x \<Rightarrow> 'x"
  processes :: "'x ProcessEnv"
  files :: "'x FileEnv"
  codec :: RelayCodec
  http_controller :: "'x ControllerClient"
  web_socket :: "'x \<Rightarrow> WsEnv"

text \<open>Calls of a part of the client, on the whole.\<close>

definition via_outside :: "('x \<Rightarrow> 'r \<times> 'x) \<Rightarrow> ('x, 't) ClientWorldOf \<Rightarrow> 'r \<times> ('x, 't) ClientWorldOf" where
  "via_outside g w = (case g (outside w) of (r, x) \<Rightarrow> (r, w\<lparr>outside := x\<rparr>))"

definition via_paths ::
  "'x ClientEnv \<Rightarrow> ('x \<Rightarrow> client_paths \<Rightarrow> 'r \<times> client_paths) \<Rightarrow> ('x, 't) ClientWorldOf \<Rightarrow> 'r \<times> ('x, 't) ClientWorldOf" where
  "via_paths env g w =
     (case g (outside w) (path_mgr w) of (r, p) \<Rightarrow> (r, w\<lparr>outside := pass_by env (outside w), path_mgr := p\<rparr>))"

definition via_pool ::
  "'x ClientEnv \<Rightarrow> ('x \<Rightarrow> SocketDerpClient InMemoryDerpPool \<Rightarrow> 'r \<times> SocketDerpClient InMemoryDerpPool) \<Rightarrow>
   ('x, 't) ClientWorldOf \<Rightarrow> 'r \<times> ('x, 't) ClientWorldOf" where
  "via_pool env g =
     via_paths env (\<lambda>x p. case g x (derp_pool p) of (r, d) \<Rightarrow> (r, p\<lparr>derp_pool := d\<rparr>))"

definition via_tunnels ::
  "(('x \<times> 't) \<Rightarrow> 'r \<times> 'x \<times> 't) \<Rightarrow> ('x, 't) ClientWorldOf \<Rightarrow> 'r \<times> ('x, 't) ClientWorldOf" where
  "via_tunnels g w = (case g (outside w, tunnels w) of (r, x, t) \<Rightarrow> (r, w\<lparr>outside := x, tunnels := t\<rparr>))"

definition cli_controller :: "'x ControllerClient \<Rightarrow> ('x, 't) ClientWorldOf ControllerClient" where
  "cli_controller c =
     \<lparr>register_op = (\<lambda>r. via_outside (register_op c r)),
      login_op = (\<lambda>r. via_outside (login_op c r)),
      register_device_op = (\<lambda>token r. via_outside (register_device_op c token r)),
      register_node_op = (\<lambda>token r. via_outside (register_node_op c token r)),
      list_networks_op = (\<lambda>token. via_outside (list_networks_op c token)),
      create_network_op = (\<lambda>token r. via_outside (create_network_op c token r)),
      join_network_op = (\<lambda>token r. via_outside (join_network_op c token r)),
      activate_network_op = (\<lambda>token r. via_outside (activate_network_op c token r)),
      deactivate_network_op = (\<lambda>token r. via_outside (deactivate_network_op c token r)),
      bootstrap_op = (\<lambda>token n net. via_outside (bootstrap_op c token n net)),
      issue_relay_ticket_op = (\<lambda>token r. via_outside (issue_relay_ticket_op c token r))\<rparr>"

definition client_services ::
  "'x ClientEnv \<Rightarrow> 'x key_provider \<Rightarrow> ('x \<times> 't) TunnelBackend \<Rightarrow> ('x, 't) ClientWorldOf Services" where
  "client_services env keys mgr =
     \<lparr>controller = cli_controller (http_controller env),
      p2p_connect_op = (\<lambda>cand. via_paths env (\<lambda>x p.
        case p2p_connect (sockets env x) (p2p_connector p) cand of (r, c) \<Rightarrow> (r, p\<lparr>p2p_connector := c\<rparr>))),
      relay_connect_op = (\<lambda>t. via_paths env (\<lambda>x p.
        case relay_connect (sockets env x) (codec env) (relay_client p) t of (r, c) \<Rightarrow> (r, p\<lparr>relay_client := c\<rparr>))),
      install_cluster_op = (\<lambda>cluster ns t. via_pool env (\<lambda>x d.
        install_cluster derp_client_default (clock env x) d cluster ns t)),
      warm_up_op = (\<lambda>fanout. via_pool env (\<lambda>x d.
        warm_up socket_derp_client (link_sockets env x) (sockets env x) d fanout)),
      tick_health_check_op = via_pool env (\<lambda>x d. tick_health_check socket_derp_client (link_sockets env x) d),
      maybe_switch_op = via_pool env (\<lambda>x d. maybe_switch socket_derp_client (sockets env x) (clock env x) d),
      pool_active_link_op = (\<lambda>w. active_link socket_derp_client (sockets env (outside w)) (derp_pool (path_mgr w))),
      on_p2p_failed_op = (\<lambda>p why. via_paths env (\<lambda>x pm. on_p2p_failed socket_pool (sockets env x) pm p why)),
      on_p2p_recovered_op = (\<lambda>p. via_paths env (\<lambda>x pm. on_p2p_recovered pm p)),
      current_path_op = (\<lambda>w. current_path (path_mgr w)),
      send_packet_op = (\<lambda>packet. via_paths env (\<lambda>x pm.
        path_send socket_pool (socket_relay (codec env)) socket_p2p (sockets env x) pm packet)),
      poll_packet_op = via_paths env (\<lambda>x pm.
        path_poll socket_pool (socket_relay (codec env)) socket_p2p (sockets env x) pm),
      tunnel_manager =
        \<lparr>establish = (\<lambda>cfg. via_tunnels (establish mgr cfg)),
         close = (\<lambda>ip. via_tunnels (close mgr ip))\<rparr>,
      generate_keys = (\<lambda>dev n p created. via_outside (keys dev n p created)),
      clock_ms = (\<lambda>w. clock env (outside w)),
      sleep_ms = (\<lambda>d w. w\<lparr>outside := sleeping env d (outside w)\<rparr>),
      ws_env = (\<lambda>w. web_socket env (outside w))\<rparr>"

definition cli_services :: "'x ClientEnv \<Rightarrow> string \<Rightarrow> 'x ClientWorld Services" where
  "cli_services env key_file =
     client_services env (file_generate (files env) key_file) (platform_ops (processes env))"

definition detect_tunnel_driver :: "'x ProcessEnv \<Rightarrow> (TunnelDriverSelection, string) result" where
  "detect_tunnel_driver env =
     (let dry = (case env_var env ''SLAN_TUNNEL_DRY_RUN'' of
            None \<Rightarrow> False | Some v \<Rightarrow> v \<in> {''1'', ''true'', ''TRUE'', ''yes'', ''on''})
      in detect_platform_tunnel_driver env (env_var env ''SLAN_TUNNEL_DRIVER'') dry)"

definition build_tunnel_manager :: "'x ProcessEnv \<Rightarrow> ('x platform_manager, string) result" where
  "build_tunnel_manager env =
     (case detect_tunnel_driver env of
        Err e \<Rightarrow> Err e
      | Ok report \<Rightarrow> build_platform_tunnel_manager env report)"

definition build_facade :: "'x ClientEnv \<Rightarrow> 'x \<Rightarrow> ('x ClientWorld DefaultAppCoreFacade, string) result" where
  "build_facade env x =
     (case build_tunnel_manager (processes env) of
        Err e \<Rightarrow> Err e
      | Ok mgr \<Rightarrow>
          Ok (facade_new \<lparr>outside = x, path_mgr = path_manager_new pool_new relay_client_default p2p_default,
                tunnels = mgr\<rparr>))"

section \<open>A client for examples\<close>

text \<open>
  A world that only counts the milliseconds: programs succeed, every TCP connection is accepted, and the
  controller knows one network with one peer.
\<close>

definition demo_peer :: Peer where
  "demo_peer =
     \<lparr>Peer.node_id = ''peer'', device_id = ''d2'', public_key = ''key'', status = ''online'', relay_allowed = False,
      virtual_ips = [''10.0.0.2''],
      endpoints = [\<lparr>Endpoint.endpoint_type = ''tcp'', address = ''peer:1'', updated_at = 0\<rparr>], allowed_routes = []\<rparr>"

definition demo_network_map :: NetworkMap where
  "demo_network_map =
     \<lparr>NetworkMap.self_user_id = ''u'', self_device_id = ''d1'', self_node_id = ''me'', network_id = ''net'', revision = 1,
      heartbeat_seconds = 30, stun_servers = [], peers = [demo_peer], routes = [], relay_regions = [],
      dns = \<lparr>DnsConfig.servers = [], search_domains = []\<rparr>, mtu = None\<rparr>"

definition demo_bootstrap :: BootstrapConfig where
  "demo_bootstrap =
     \<lparr>BootstrapConfig.device = \<lparr>Device.device_id = ''d1'', name = ''pc'', platform = ''linux'', status = ''online'',
        virtual_ip = Some ''10.0.0.1'', public_key = None\<rparr>,
      networks = [], control_plane = \<lparr>ControlPlaneConfig.ws_url = ''ws://c'', session_token = None, heartbeat_seconds = 30\<rparr>,
      stun_servers = [], relay = \<lparr>RelayConfig.default_cluster_id = [], countries = []\<rparr>, derp_map = None,
      network_map = Some demo_network_map\<rparr>"

definition demo_controller :: "u64 ControllerClient" where
  "demo_controller =
     \<lparr>register_op = (\<lambda>_ x. (Err ''offline'', x)),
      login_op = (\<lambda>_ x. (Ok \<lparr>Session.user_id = ''u'', access_token = ''tok'', refresh_token = None, expires_in = 60,
        device_id = None\<rparr>, x)),
      register_device_op = (\<lambda>_ _ x. (Err ''offline'', x)),
      register_node_op = (\<lambda>_ r x. (Ok \<lparr>Node.node_id = RegisterNodeRequest.node_id r,
        device_id = RegisterNodeRequest.device_id r, node_public_key = RegisterNodeRequest.node_public_key r,
        network_ids = [], capabilities = []\<rparr>, x)),
      list_networks_op = (\<lambda>_ x. (Ok [], x)), create_network_op = (\<lambda>_ _ x. (Err ''offline'', x)),
      join_network_op = (\<lambda>_ _ x. (Ok (), x)), activate_network_op = (\<lambda>_ _ x. (Ok (), x)),
      deactivate_network_op = (\<lambda>_ _ x. (Ok (), x)), bootstrap_op = (\<lambda>_ _ _ x. (Ok demo_bootstrap, x)),
      issue_relay_ticket_op = (\<lambda>_ _ x. (Err ''offline'', x))\<rparr>"

definition demo_files :: "u64 FileEnv" where
  "demo_files =
     \<lparr>read_file = (\<lambda>_ _. NotFound), create_dir_all = (\<lambda>_ x. (Ok (), x)), write_file = (\<lambda>_ _ x. (Ok (), x)),
      parent_dir = (\<lambda>_. None), parse_store = (\<lambda>_. Ok []), print_store = (\<lambda>_. Ok [])\<rparr>"

definition demo_processes :: "u64 ProcessEnv" where
  "demo_processes =
     \<lparr>run_process = (\<lambda>_ _ _ x. (Exited True ''exit status: 0'' [] [], x)),
      env_var = (\<lambda>k. if k = ''SLAN_TUNNEL_DRIVER'' then Some ''memory'' else None),
      target_os = Linux, now_ms = 1000\<rparr>"

definition demo_codec :: RelayCodec where
  "demo_codec =
     \<lparr>request_to_vec = (\<lambda>_. Ok []), response_from_slice = (\<lambda>_. Err ''expected value''),
      debug_response = (\<lambda>_. []), b64_encode = (\<lambda>_. []), b64_decode = (\<lambda>_. Err ''invalid'')\<rparr>"

definition demo_web_socket :: WsEnv where
  "demo_web_socket =
     \<lparr>dial = (\<lambda>_. Err ''refused''), write_all = (\<lambda>_. Ok ()), flush = Ok (), set_read_timeout = (\<lambda>_. Ok ()),
      set_write_timeout = (\<lambda>_. Ok ()), resolve = (\<lambda>_. Ok []), dial_addr = (\<lambda>_. Err ''refused''),
      parse_json = (\<lambda>_. Err ''expected value''), print_json = (\<lambda>_. Ok []), serde_error = (\<lambda>_. []), json_text = (\<lambda>_. [])\<rparr>"

definition demo_client_env :: "u64 ClientEnv" where
  "demo_client_env =
     \<lparr>sockets = (\<lambda>_. demo_env), link_sockets = (\<lambda>_ _. demo_env), pass_by = id, clock = id,
      sleeping = (\<lambda>d x. saturating_add x d), processes = demo_processes, files = demo_files,
      codec = demo_codec, http_controller = demo_controller, web_socket = (\<lambda>_. demo_web_socket)\<rparr>"

abbreviation demo_services :: "u64 ClientWorld Services" where
  "demo_services \<equiv> cli_services demo_client_env ''keys.json''"

definition demo_facade :: "u64 ClientWorld DefaultAppCoreFacade" where
  "demo_facade =
     facade_new \<lparr>outside = 0, path_mgr = path_manager_new pool_new relay_client_default p2p_default,
       tunnels = MemoryManager InMemoryTunnelManager_default\<rparr>"

lemma demo_build: "build_facade demo_client_env 0 = Ok demo_facade"
  by (simp add: build_facade_def build_tunnel_manager_def detect_tunnel_driver_def detect_platform_tunnel_driver_def
      demo_client_env_def demo_processes_def demo_facade_def driver_parse_def trim_id visible_def
      build_platform_tunnel_manager_def Let_def)

end
