(* ===== verification/Facade_Safety.thy ===== *)
theory Facade_Safety
  imports Client_App
begin

text \<open>
  What the facade keeps, whatever services it is built on: the locale \<open>facade_services\<close> states what it
  relies on (the contract of the tunnel manager, and that nothing else touches the tunnels), and the
  services of the command-line client satisfy it.
\<close>

section \<open>Calls of the application\<close>

datatype facade_call =
    CallRegister string string
  | CallLogin string string
  | CallRegisterDevice string string string string
  | CallRegisterNode string string string "string list"
  | CallListNetworks
  | CallCreateNetwork string string
  | CallJoinNetwork string string
  | CallActivateNetwork string string
  | CallDeactivateNetwork string string
  | CallBootstrap string string
  | CallIssueRelayTicket string string string string
  | CallConnect string string
  | CallProbe "u8 list" "u64 option"
  | CallControlSync
  | CallDisconnect

fun facade_apply ::
  "'w Services \<Rightarrow> facade_call \<Rightarrow> 'w DefaultAppCoreFacade \<Rightarrow> (bool \<times> 'w DefaultAppCoreFacade) option" where
  "facade_apply svc (CallRegister e p) f = Some (apfst is_ok (facade_register svc e p f))"
| "facade_apply svc (CallLogin e p) f = Some (apfst is_ok (facade_login svc e p f))"
| "facade_apply svc (CallRegisterDevice n p mid k) f = Some (apfst is_ok (facade_register_device svc n p mid k f))"
| "facade_apply svc (CallRegisterNode d n k cs) f = Some (apfst is_ok (facade_register_node svc d n k cs f))"
| "facade_apply svc CallListNetworks f = Some (apfst is_ok (facade_list_networks svc f))"
| "facade_apply svc (CallCreateNetwork n c) f = Some (apfst is_ok (facade_create_network svc n c f))"
| "facade_apply svc (CallJoinNetwork n d) f = Some (apfst is_ok (facade_join_network svc n d f))"
| "facade_apply svc (CallActivateNetwork n d) f = Some (apfst is_ok (facade_activate_network svc n d f))"
| "facade_apply svc (CallDeactivateNetwork n d) f = Some (apfst is_ok (facade_deactivate_network svc n d f))"
| "facade_apply svc (CallBootstrap n net) f = Some (apfst is_ok (facade_bootstrap svc n net f))"
| "facade_apply svc (CallIssueRelayTicket net s d why) f = Some (apfst is_ok (facade_issue_relay_ticket svc net s d why f))"
| "facade_apply svc (CallConnect net p) f = Some (apfst is_ok (facade_connect svc net p f))"
| "facade_apply svc (CallProbe b t) f = map_option (apfst is_ok) (probe_with_timeout svc b t f)"
| "facade_apply svc CallControlSync f = Some (apfst is_ok (control_sync svc f))"
| "facade_apply svc CallDisconnect f = Some (apfst is_ok (facade_disconnect svc f))"

fun facade_run ::
  "'w Services \<Rightarrow> facade_call list \<Rightarrow> 'w DefaultAppCoreFacade \<Rightarrow> (bool list \<times> 'w DefaultAppCoreFacade) option" where
  "facade_run svc [] f = Some ([], f)"
| "facade_run svc (c # cs) f = do {
     (ok, f1) \<leftarrow> facade_apply svc c f;
     (oks, f2) \<leftarrow> facade_run svc cs f1;
     Some (ok # oks, f2) }"

text \<open>The calls that open and close tunnels.\<close>

fun moves_tunnel :: "facade_call \<Rightarrow> bool" where
  "moves_tunnel (CallConnect _ _) = True"
| "moves_tunnel CallControlSync = True"
| "moves_tunnel CallDisconnect = True"
| "moves_tunnel _ = False"

section \<open>Invariants\<close>

text \<open>The tunnels that are open are at most the one the facade knows of.\<close>

definition synced :: "('w \<Rightarrow> peer_table) \<Rightarrow> ('w \<Rightarrow> bool) \<Rightarrow> 'w DefaultAppCoreFacade \<Rightarrow> bool" where
  "synced table good f \<longleftrightarrow> good (world f) \<and>
     (\<exists>cur. current_tunnel_peer_virtual_ip f = Healthy cur \<and> dom (table (world f)) \<subseteq> set_option cur)"

text \<open>The parts of a snapshot agree with each other.\<close>

definition snapshot_wf :: "AppCoreSnapshot \<Rightarrow> bool" where
  "snapshot_wf s \<longleftrightarrow>
     map_option TunnelRuntimeView.peer_virtual_ip (tunnel_runtime s) = AppCoreSnapshot.tunnel_peer_virtual_ip s \<and>
     (\<forall>c. connection_state s = Some c \<and> c \<noteq> ConnectionState.Disconnected \<longrightarrow>
        map_option connection_state_from_active_path (AppCoreSnapshot.active_path s) = Some c)"

lemma snapshot_wf_frame [simp]:
  "snapshot_wf (s\<lparr>session := a\<rparr>) = snapshot_wf s"
  "snapshot_wf (s\<lparr>current_device := b\<rparr>) = snapshot_wf s"
  "snapshot_wf (s\<lparr>current_node := c\<rparr>) = snapshot_wf s"
  "snapshot_wf (s\<lparr>tunnel_key_material := d\<rparr>) = snapshot_wf s"
  "snapshot_wf (s\<lparr>current_bootstrap := e\<rparr>) = snapshot_wf s"
  "snapshot_wf (s\<lparr>current_network_id := i\<rparr>) = snapshot_wf s"
  "snapshot_wf (s\<lparr>current_connect_plans := j\<rparr>) = snapshot_wf s"
  "snapshot_wf (s\<lparr>last_data_plane_error := k\<rparr>) = snapshot_wf s"
  "snapshot_wf (s\<lparr>AppCoreSnapshot.last_probe := l\<rparr>) = snapshot_wf s"
  by (simp_all add: snapshot_wf_def)

definition snap_ok :: "'w DefaultAppCoreFacade \<Rightarrow> bool" where
  "snap_ok f \<longleftrightarrow> (\<exists>s. snap f = Healthy s \<and> snapshot_wf s)"

definition quiet :: "('w \<Rightarrow> peer_table) \<Rightarrow> ('w \<Rightarrow> bool) \<Rightarrow> ('w \<Rightarrow> 'r \<times> 'w) \<Rightarrow> bool" where
  "quiet table good g \<longleftrightarrow> (\<forall>w r w'. good w \<longrightarrow> g w = (r, w') \<longrightarrow> good w' \<and> table w' = table w)"

text \<open>
  A call that keeps both, and a call that may move the tunnel: it keeps the snapshot and a good world in any
  case, and the tunnels when it succeeds.
\<close>

definition keeps ::
  "('w \<Rightarrow> peer_table) \<Rightarrow> ('w \<Rightarrow> bool) \<Rightarrow> 'w DefaultAppCoreFacade \<Rightarrow> 'w DefaultAppCoreFacade \<Rightarrow> bool" where
  "keeps table good f f' \<longleftrightarrow>
     (good (world f) \<longrightarrow> good (world f') \<and> table (world f') = table (world f)) \<and>
     current_tunnel_peer_virtual_ip f' = current_tunnel_peer_virtual_ip f \<and> (snap_ok f \<longrightarrow> snap_ok f')"

definition moves ::
  "('w \<Rightarrow> peer_table) \<Rightarrow> ('w \<Rightarrow> bool) \<Rightarrow> ('a, 'e) result \<Rightarrow> 'w DefaultAppCoreFacade \<Rightarrow> 'w DefaultAppCoreFacade \<Rightarrow> bool" where
  "moves table good r f f' \<longleftrightarrow>
     (is_ok r \<longrightarrow> synced table good f \<longrightarrow> synced table good f') \<and> (snap_ok f \<longrightarrow> snap_ok f') \<and>
     (good (world f) \<longrightarrow> good (world f'))"

lemma keeps_refl [simp]: "keeps table good f f"
  by (simp add: keeps_def)

lemma keeps_trans: "keeps table good f g \<Longrightarrow> keeps table good g h \<Longrightarrow> keeps table good f h"
  by (auto simp: keeps_def)

lemma keeps_moves: "keeps table good f f' \<Longrightarrow> moves table good r f f'"
  by (auto simp: keeps_def moves_def synced_def)

lemma keeps_moves_trans: "keeps table good f g \<Longrightarrow> moves table good r g h \<Longrightarrow> moves table good r f h"
  by (auto simp: keeps_def moves_def synced_def)

lemma apfst_eq: "apfst g x = (a, b) \<longleftrightarrow> (\<exists>r. x = (r, b) \<and> a = g r)"
  by (cases x) auto

lemma keeps_snap:
  "keeps table good f f' \<Longrightarrow> (snap_ok f' \<Longrightarrow> snap_ok (f'\<lparr>snap := m\<rparr>)) \<Longrightarrow> keeps table good f (f'\<lparr>snap := m\<rparr>)"
  by (simp add: keeps_def)

lemma snap_ok_cong: "snap f' = snap f \<Longrightarrow> snap_ok f' = snap_ok f"
  by (simp add: snap_ok_def)

lemma on_world_keeps: "quiet table good g \<Longrightarrow> on_world g f = (r, f') \<Longrightarrow> keeps table good f f'"
  by (auto simp: on_world_def quiet_def keeps_def snap_ok_def split: prod.splits)

lemma authorised_keeps:
  "(\<And>token. quiet table good (g token)) \<Longrightarrow> authorised g f = (r, f') \<Longrightarrow> keeps table good f f'"
  by (auto simp: authorised_def split: result.splits dest: on_world_keeps)

lemma remember_keeps:
  assumes "remember upd rf = (r', f')" and "keeps table good f0 (snd rf)"
    and "\<And>x s. snapshot_wf s \<Longrightarrow> snapshot_wf (upd x s)"
  shows "keeps table good f0 f'"
  using assms by (cases rf) (auto simp: remember_def keeps_def snap_ok_def split: result.splits option.splits)

lemma quiet_map: "quiet table good g \<Longrightarrow> quiet table good (\<lambda>w. apfst h (g w))"
  by (auto simp: quiet_def apfst_def map_prod_def split: prod.splits)

text \<open>The cases of \<open>replace_tunnel\<close>.\<close>

lemma replace_tunnel_none:
  "replace_tunnel mgr cfg (Healthy None, w) =
     (case cfg of
        None \<Rightarrow> (Ok (), Healthy None, w)
      | Some c \<Rightarrow>
          (case establish mgr c w of
             (Err e, w') \<Rightarrow> (Err e, Healthy None, w')
           | (Ok _, w') \<Rightarrow> (Ok (), Healthy (Some (TunnelConfig.peer_virtual_ip c)), w')))"
  by (cases cfg) (simp_all add: replace_tunnel_def)

lemma replace_tunnel_same:
  "replace_tunnel mgr (Some c) (Healthy (Some (TunnelConfig.peer_virtual_ip c)), w) =
     (Ok (), Healthy (Some (TunnelConfig.peer_virtual_ip c)), w)"
  by (simp add: replace_tunnel_def)

lemma replace_tunnel_other:
  "map_option TunnelConfig.peer_virtual_ip cfg \<noteq> Some ip \<Longrightarrow>
   replace_tunnel mgr cfg (Healthy (Some ip), w) =
     (case close mgr ip w of
        (Err e, w') \<Rightarrow> (Err e, Healthy (Some ip), w')
      | (Ok _, w') \<Rightarrow> replace_tunnel mgr cfg (Healthy None, w'))"
  by (cases "close mgr ip w"; cases "fst (close mgr ip w)"; cases cfg) (auto simp: replace_tunnel_def)

text \<open>When a replacement succeeds, the tunnel of the configuration is the one in use.\<close>

lemma replace_tunnel_none_ip:
  "replace_tunnel mgr cfg (Healthy None, w) = (Ok u, t, w') \<Longrightarrow> t = Healthy (map_option TunnelConfig.peer_virtual_ip cfg)"
  by (auto simp: replace_tunnel_none split: option.splits prod.splits result.splits)

lemma replace_tunnel_ip:
  assumes "replace_tunnel mgr cfg (m, w) = (Ok u, t, w')"
  shows "t = Healthy (map_option TunnelConfig.peer_virtual_ip cfg)"
proof (cases m)
  case (Healthy cur)
  show ?thesis
  proof (cases cur)
    case None
    with Healthy assms show ?thesis by (auto dest: replace_tunnel_none_ip)
  next
    case (Some ip)
    show ?thesis
    proof (cases "map_option TunnelConfig.peer_virtual_ip cfg = Some ip")
      case True
      then show ?thesis
        using Healthy Some assms by (auto simp: replace_tunnel_same)
    next
      case False
      then show ?thesis
        using Healthy Some assms
        by (auto simp: replace_tunnel_other split: prod.splits result.splits dest: replace_tunnel_none_ip)
    qed
  qed
qed (use assms in \<open>simp add: replace_tunnel_def\<close>)

lemma connected_snapshot_wf:
  assumes "map_option TunnelRuntimeView.peer_virtual_ip rt = ip"
    and "conn = ConnectionState.Disconnected \<or> connection_state_from_active_path p = conn"
  shows "snapshot_wf (s\<lparr>connection_state := Some conn, AppCoreSnapshot.active_path := Some p,
     AppCoreSnapshot.tunnel_peer_virtual_ip := ip, tunnel_runtime := rt\<rparr>)"
  using assms by (auto simp: snapshot_wf_def)

lemma build_tunnel_runtime_ip [simp]:
  "TunnelRuntimeView.peer_virtual_ip (build_tunnel_runtime c) = TunnelConfig.peer_virtual_ip c"
  by (simp add: build_tunnel_runtime_def)

lemma poll_loop_frame:
  fixes good :: "'w \<Rightarrow> bool"
  assumes "poll_loop svc deadline w = Some y" and "good w" and "quiet table good (poll_packet_op svc)"
    and "\<And>v d. good v \<Longrightarrow> good (sleep_ms svc d v) \<and> table (sleep_ms svc d v) = table v"
  shows "good (snd y) \<and> table (snd y) = table w"
proof -
  have "good w \<longrightarrow> quiet table good (poll_packet_op svc) \<longrightarrow>
      (\<forall>v d. good v \<longrightarrow> good (sleep_ms svc d v) \<and> table (sleep_ms svc d v) = table v) \<longrightarrow>
      good (snd y) \<and> table (snd y) = table w"
    using assms(1)
  proof (rule poll_loop.raw_induct [rotated])
    fix loop and svc :: "'w Services" and deadline w y
    assume ih: "\<And>svc deadline w y. loop svc deadline w = Some y \<Longrightarrow> good w \<longrightarrow> quiet table good (poll_packet_op svc) \<longrightarrow>
        (\<forall>v d. good v \<longrightarrow> good (sleep_ms svc d v) \<and> table (sleep_ms svc d v) = table v) \<longrightarrow>
        good (snd y) \<and> table (snd y) = table w"
      and step: "(case poll_packet_op svc w of
        (Err e, w1) \<Rightarrow> Some (Err e, w1)
      | (Ok (Some reply), w1) \<Rightarrow> Some (Ok (Some (length reply, clock_ms svc w1)), w1)
      | (Ok None, w1) \<Rightarrow>
          if deadline \<le> clock_ms svc w1 then Some (Ok None, w1)
          else loop svc deadline (sleep_ms svc poll_interval_ms w1)) = Some y"
    obtain r w1 where p: "poll_packet_op svc w = (r, w1)" by fastforce
    show "good w \<longrightarrow> quiet table good (poll_packet_op svc) \<longrightarrow>
        (\<forall>v d. good v \<longrightarrow> good (sleep_ms svc d v) \<and> table (sleep_ms svc d v) = table v) \<longrightarrow>
        good (snd y) \<and> table (snd y) = table w"
    proof (intro impI)
      assume g: "good w" and q: "quiet table good (poll_packet_op svc)"
        and sl: "\<forall>v d. good v \<longrightarrow> good (sleep_ms svc d v) \<and> table (sleep_ms svc d v) = table v"
      have w1: "good w1" "table w1 = table w"
        using q g p by (auto simp: quiet_def)
      then show "good (snd y) \<and> table (snd y) = table w"
        using step p ih q sl by (auto split: result.splits option.splits if_splits)
    qed
  qed
  with assms show ?thesis by blast
qed

section \<open>The services a facade relies on\<close>

locale facade_services = tunnel_backend "tunnel_manager svc" table good
  for svc :: "'w Services" and table :: "'w \<Rightarrow> peer_table" and good :: "'w \<Rightarrow> bool" +
  assumes quiet_register: "quiet table good (register_op (controller svc) rr)"
    and quiet_login: "quiet table good (login_op (controller svc) lr)"
    and quiet_register_device: "quiet table good (register_device_op (controller svc) token dr)"
    and quiet_register_node: "quiet table good (register_node_op (controller svc) token nr)"
    and quiet_list_networks: "quiet table good (list_networks_op (controller svc) token)"
    and quiet_create_network: "quiet table good (create_network_op (controller svc) token cr)"
    and quiet_join_network: "quiet table good (join_network_op (controller svc) token jr)"
    and quiet_activate_network: "quiet table good (activate_network_op (controller svc) token jr)"
    and quiet_deactivate_network: "quiet table good (deactivate_network_op (controller svc) token xr)"
    and quiet_bootstrap: "quiet table good (bootstrap_op (controller svc) token n net)"
    and quiet_issue_relay_ticket: "quiet table good (issue_relay_ticket_op (controller svc) token tr)"
    and quiet_p2p_connect: "quiet table good (p2p_connect_op svc cand)"
    and quiet_relay_connect: "quiet table good (relay_connect_op svc t)"
    and quiet_install_cluster: "quiet table good (install_cluster_op svc cluster ns t)"
    and quiet_warm_up: "quiet table good (warm_up_op svc fanout)"
    and quiet_tick: "quiet table good (tick_health_check_op svc)"
    and quiet_maybe_switch: "quiet table good (maybe_switch_op svc)"
    and quiet_failed: "quiet table good (on_p2p_failed_op svc p why)"
    and quiet_recovered: "quiet table good (on_p2p_recovered_op svc p)"
    and quiet_send: "quiet table good (send_packet_op svc packet)"
    and quiet_poll: "quiet table good (poll_packet_op svc)"
    and quiet_keys: "quiet table good (generate_keys svc dev node p created)"
    and quiet_sleep: "good w \<Longrightarrow> good (sleep_ms svc d w) \<and> table (sleep_ms svc d w) = table w"
    and recovered_path: "on_p2p_recovered_op svc p w = (Ok u, w') \<Longrightarrow> current_path_op svc w' = ActivePath.P2P p"
begin

lemmas quiet_calls =
  quiet_register quiet_login quiet_register_device quiet_register_node quiet_list_networks quiet_create_network
  quiet_join_network quiet_activate_network quiet_deactivate_network quiet_bootstrap quiet_issue_relay_ticket
  quiet_p2p_connect quiet_relay_connect quiet_install_cluster quiet_warm_up quiet_tick quiet_maybe_switch
  quiet_failed quiet_recovered quiet_send quiet_poll quiet_keys

lemmas world_keeps = quiet_calls [THEN on_world_keeps] quiet_calls [THEN quiet_map, THEN on_world_keeps]

lemma issue_keeps:
  "issue_relay_ticket_with_options svc network src dst cluster preferred why f = (r, f') \<Longrightarrow> keeps table good f f'"
  unfolding issue_relay_ticket_with_options_def by (rule authorised_keeps) (rule quiet_calls)

lemma derp_keeps:
  assumes "connect_via_derp_pool svc boot network src dst f = (r, f')"
  shows "keeps table good f f'"
  using assms unfolding connect_via_derp_pool_def
  by (auto split: option.splits prod.splits result.splits dest!: issue_keeps world_keeps intro: keeps_trans)
    (meson keeps_trans)+

lemma ticket_keeps: "relay_ticket_from_plan svc network src dst plan f = (r, f') \<Longrightarrow> keeps table good f f'"
  by (auto simp: relay_ticket_from_plan_def split: option.splits dest: issue_keeps)

lemma report_keeps: "report_failed svc p why f = (r, f') \<Longrightarrow> keeps table good f f'"
  by (auto simp: report_failed_def dest: world_keeps)

lemma fallback_keeps:
  assumes "connect_fallback svc network ctx plan f = (r, f')"
  shows "keeps table good f f'"
  using assms unfolding connect_fallback_def Let_def
  by (auto split: option.splits prod.splits result.splits if_splits
      dest!: derp_keeps ticket_keeps report_keeps world_keeps intro: keeps_trans)

lemma build_config_keeps:
  assumes "facade_build_tunnel_config svc p boot pr f = (r, f')"
  shows "keeps table good f f'"
proof -
  obtain r0 m w where e: "ensure_tunnel_key_pair (generate_keys svc) (Device.device_id (device boot)) (Peer.node_id pr)
      (clock_ms svc (world f)) (snap f, world f) = (r0, m, w)"
    by (metis surj_pair)
  then have w: "good (world f) \<Longrightarrow> good w \<and> table w = table (world f)"
    using quiet_keys by (auto simp: ensure_tunnel_key_pair_def quiet_def Let_def split: option.splits if_splits prod.splits result.splits)
  have m: "\<exists>s. m = Healthy s \<and> snapshot_wf s" if ok: "snap_ok f"
  proof -
    obtain s where s: "snap f = Healthy s" "snapshot_wf s"
      using ok by (auto simp: snap_ok_def)
    from e [unfolded s(1)] s(2) show ?thesis
      by (auto simp: ensure_tunnel_key_pair_def Let_def split: option.splits if_splits prod.splits result.splits)
  qed
  have f': "f' = f\<lparr>snap := m, world := w\<rparr>"
    using assms e by (auto simp: facade_build_tunnel_config_def split: result.splits)
  show ?thesis
    unfolding f' keeps_def using w m by (auto simp: snap_ok_def)
qed

lemma close_step:
  assumes "close (tunnel_manager svc) ip v = (Ok u, v')" and "good v"
  shows "good v' \<and> dom (table v') \<subseteq> dom (table v) - {ip}"
  using op_spec [of v "Close ip" "Ok u" v'] op_inv [of v "Close ip" "Ok u" v'] assms
  by (auto simp: spec_step_def)

lemma close_only:
  assumes "close (tunnel_manager svc) ip v = (Ok u, v')" and "good v" and "dom (table v) \<subseteq> {ip}"
  shows "good v' \<and> table v' = Map.empty"
proof -
  have "dom (table v') = {}"
    using close_step [OF assms(1,2)] assms(3) by blast
  then show ?thesis
    using close_step [OF assms(1,2)] by simp
qed

lemma establish_step:
  assumes "establish (tunnel_manager svc) c v = (Ok u, v')" and "good v"
  shows "good v' \<and> dom (table v') \<subseteq> insert (TunnelConfig.peer_virtual_ip c) (dom (table v))"
  using op_spec [of v "Establish c" "Ok u" v'] op_inv [of v "Establish c" "Ok u" v'] assms
  by (auto simp: spec_step_def split: if_splits)

lemma tunnel_op_good:
  "establish (tunnel_manager svc) c v = (r, v') \<Longrightarrow> good v \<Longrightarrow> good v'"
  "close (tunnel_manager svc) ip v = (r, v') \<Longrightarrow> good v \<Longrightarrow> good v'"
  using op_inv [of v "Establish c" r v'] op_inv [of v "Close ip" r v'] by simp_all

lemma replace_tunnel_good:
  "replace_tunnel (tunnel_manager svc) cfg (m, w) = (r, t, w') \<Longrightarrow> good w \<Longrightarrow> good w'"
  by (auto simp: replace_tunnel_def split: option.splits result.splits prod.splits if_splits dest: tunnel_op_good)

lemma replace_none_synced:
  assumes "replace_tunnel (tunnel_manager svc) cfg (Healthy None, w) = (Ok u, t, w')"
    and "good w" and "table w = Map.empty"
  shows "good w' \<and> dom (table w') \<subseteq> set_option (map_option TunnelConfig.peer_virtual_ip cfg)"
proof (cases cfg)
  case (Some c)
  then obtain v where "establish (tunnel_manager svc) c w = (Ok v, w')"
    using assms(1) by (auto simp: replace_tunnel_none split: prod.splits result.splits)
  from establish_step [OF this assms(2)] Some assms(3) show ?thesis
    by simp
qed (use assms in \<open>auto simp: replace_tunnel_none\<close>)

lemma replace_tunnel_synced:
  assumes "replace_tunnel (tunnel_manager svc) cfg (Healthy cur, w) = (Ok u, t, w')"
    and "good w" and "dom (table w) \<subseteq> set_option cur"
  shows "good w' \<and> dom (table w') \<subseteq> set_option (map_option TunnelConfig.peer_virtual_ip cfg)"
proof (cases cur)
  case None
  with assms show ?thesis by (intro replace_none_synced) auto
next
  case (Some ip)
  show ?thesis
  proof (cases "map_option TunnelConfig.peer_virtual_ip cfg = Some ip")
    case True
    then obtain c where "cfg = Some c" "ip = TunnelConfig.peer_virtual_ip c"
      by auto
    then show ?thesis
      using assms Some by (simp add: replace_tunnel_same)
  next
    case False
    then obtain v x where v: "close (tunnel_manager svc) ip w = (Ok x, v)"
        "replace_tunnel (tunnel_manager svc) cfg (Healthy None, v) = (Ok u, t, w')"
      using assms(1) Some by (auto simp: replace_tunnel_other split: prod.splits result.splits)
    have "good v \<and> table v = Map.empty"
      using close_only [OF v(1) assms(2)] assms(3) Some by simp
    then show ?thesis
      using replace_none_synced [OF v(2)] by simp
  qed
qed

text \<open>The tail of a connect: the snapshot gets the path and the tunnel that is in use.\<close>

lemma connect_over_moves:
  assumes "connect_over svc conn boot pr f = (r, f')"
    and path: "connection_state_from_active_path (current_path_op svc (world f)) = conn"
  shows "moves table good r f f'"
proof -
  let ?p = "current_path_op svc (world f)"
  obtain r1 f1 where b: "facade_build_tunnel_config svc ?p boot pr f = (r1, f1)"
    by fastforce
  then have k: "keeps table good f f1"
    by (rule build_config_keeps)
  show ?thesis
  proof (cases r1)
    case (Err e)
    with assms(1) b have "f' = f1" by (simp add: connect_over_def)
    with k show ?thesis by (simp add: keeps_moves)
  next
    case (Ok cfg)
    obtain r2 t w where rt: "replace_tunnel (tunnel_manager svc) cfg (current_tunnel_peer_virtual_ip f1, world f1) = (r2, t, w)"
      by (metis surj_pair)
    show ?thesis
    proof (cases r2)
      case (Err e)
      with assms(1) b Ok rt have "r = Err e" "snap f' = snap f1" "world f' = w"
        by (auto simp: connect_over_def facade_finalize_def finalize_connected_path_def)
      with k replace_tunnel_good [OF rt] show ?thesis
        by (simp add: moves_def keeps_def snap_ok_def)
    next
      case u: (Ok u)
      have t: "t = Healthy (map_option TunnelConfig.peer_virtual_ip cfg)"
        using replace_tunnel_ip [OF rt [unfolded u]] .
      have f': "world f' = w" "current_tunnel_peer_virtual_ip f' = t"
          "snap f' = snd (update_connected_snapshot conn ?p (map_option TunnelConfig.peer_virtual_ip cfg)
             (map_option build_tunnel_runtime cfg) (snap f1))"
        using assms(1) b Ok rt u t
        by (auto simp: connect_over_def facade_finalize_def finalize_connected_path_def
            split: result.splits prod.splits)
      have "moves table good r f1 f'"
        unfolding moves_def
      proof (intro conjI impI)
        assume "synced table good f1"
        then obtain cur where cur: "current_tunnel_peer_virtual_ip f1 = Healthy cur" "good (world f1)"
            "dom (table (world f1)) \<subseteq> set_option cur"
          by (auto simp: synced_def)
        then show "synced table good f'"
          using replace_tunnel_synced [of cfg cur "world f1" u t w] rt u t f'(1,2) by (simp add: synced_def)
      next
        assume "snap_ok f1"
        with f'(3) path show "snap_ok f'"
          by (auto simp: snap_ok_def update_connected_snapshot_def option.map_comp o_def intro!: connected_snapshot_wf)
      next
        assume "good (world f1)"
        then show "good (world f')"
          using replace_tunnel_good [OF rt] f'(1) by simp
      qed
      with k show ?thesis by (rule keeps_moves_trans)
    qed
  qed
qed

lemma connect_relayed_moves:
  assumes "connect_relayed svc network ctx plan f = (r, f')"
  shows "moves table good r f f'"
proof (cases "relay_allowed (ConnectContext.peer ctx)")
  case False
  with assms show ?thesis
    by (simp add: connect_relayed_def Let_def keeps_moves)
next
  case True
  let ?pr = "ConnectContext.peer ctx"
  obtain r1 f1 where 1: "connect_fallback svc network ctx plan f = (r1, f1)" by fastforce
  show ?thesis
  proof (cases r1)
    case (Err e)
    with assms True 1 show ?thesis
      by (auto simp: connect_relayed_def Let_def intro: keeps_moves fallback_keeps)
  next
    case fb: (Ok fallback)
    obtain r2 f2 where 2: "(if fallback = ConnectionState.Connected ConnectionPath.Derp
        then report_failed svc (Peer.node_id ?pr) ''derp_fallback'' f1 else (Ok (), f1)) = (r2, f2)"
      by fastforce
    then have k: "keeps table good f f2"
      using fallback_keeps [OF 1] report_keeps keeps_trans by (auto split: if_splits) blast
    let ?managed = "connection_state_from_active_path (current_path_op svc (world f2))"
    have rest: "(r, f') = (case r2 of Err e \<Rightarrow> (Err e, f2) | Ok _ \<Rightarrow>
        (case ?managed of
           ConnectionState.Connected _ \<Rightarrow> connect_over svc ?managed (ConnectContext.bootstrap ctx) ?pr f2
         | _ \<Rightarrow> (case update_connected_snapshot ?managed (current_path_op svc (world f2)) None None (snap f2) of
              (Err e, m) \<Rightarrow> (Err e, f2\<lparr>snap := m\<rparr>)
            | (Ok _, m) \<Rightarrow> (Ok ?managed, f2\<lparr>snap := m\<rparr>))))"
      using assms True 1 fb 2 by (simp add: connect_relayed_def Let_def split: result.splits)
    have "moves table good r f2 f'"
    proof (cases r2)
      case (Err e)
      with rest show ?thesis by (simp add: keeps_moves)
    next
      case (Ok u)
      show ?thesis
      proof (cases "\<exists>k. ?managed = ConnectionState.Connected k")
        case True
        with rest Ok show ?thesis
          by (auto intro!: connect_over_moves)
      next
        case False
        with rest Ok have "(r, f') = (case update_connected_snapshot ?managed (current_path_op svc (world f2)) None None (snap f2) of
              (Err e, m) \<Rightarrow> (Err e, f2\<lparr>snap := m\<rparr>)
            | (Ok _, m) \<Rightarrow> (Ok ?managed, f2\<lparr>snap := m\<rparr>))"
          by (cases ?managed) auto
        then have "keeps table good f2 f'"
          by (auto simp: keeps_def snap_ok_def update_connected_snapshot_def intro!: connected_snapshot_wf
              split: option.splits)
        then show ?thesis by (rule keeps_moves)
      qed
    qed
    with k show ?thesis by (rule keeps_moves_trans)
  qed
qed

lemma recovered_moves:
  assumes "(case on_world (\<lambda>w. apfst (map_err display_path_error) (on_p2p_recovered_op svc p w)) f of
      (Err e, f2) \<Rightarrow> (Err e, f2) | (Ok _, f2) \<Rightarrow> connect_over svc conn boot pr f2) = (r, f')"
    and "conn = ConnectionState.Connected ConnectionPath.P2P"
  shows "moves table good r f f'"
proof -
  obtain r2 w2 where 2: "on_p2p_recovered_op svc p (world f) = (r2, w2)" by fastforce
  have k: "keeps table good f (f\<lparr>world := w2\<rparr>)"
    using on_world_keeps [OF quiet_recovered, of p f] 2 by (simp add: on_world_def)
  have "moves table good r (f\<lparr>world := w2\<rparr>) f'"
  proof (cases r2)
    case (Err e)
    with assms(1) 2 show ?thesis
      by (auto simp: on_world_def keeps_moves)
  next
    case (Ok u)
    then have "connection_state_from_active_path (current_path_op svc w2) = conn"
      using recovered_path 2 assms(2) by (simp add: connection_state_from_active_path_def)
    moreover have "connect_over svc conn boot pr (f\<lparr>world := w2\<rparr>) = (r, f')"
      using assms(1) 2 Ok by (simp add: on_world_def)
    ultimately show ?thesis by (auto intro: connect_over_moves)
  qed
  with k show ?thesis by (rule keeps_moves_trans)
qed

lemma connect_moves:
  assumes "facade_connect svc network p f = (r, f')"
  shows "moves table good r f f'"
proof (cases "resolve_connect_context (snap f) p")
  case (Err e)
  with assms show ?thesis by (simp add: facade_connect_def keeps_moves)
next
  case ctx: (Ok ctx)
  let ?pr = "ConnectContext.peer ctx"
  show ?thesis
  proof (cases "connect_plan_for_peer f (Peer.node_id ?pr)")
    case (Err e)
    with assms ctx show ?thesis by (simp add: facade_connect_def keeps_moves)
  next
    case plan: (Ok plan)
    show ?thesis
    proof (cases "ordered_peer_endpoints ?pr plan")
      case Nil
      with assms ctx plan show ?thesis
        by (simp add: facade_connect_def connect_relayed_moves)
    next
      case (Cons e es)
      let ?cand = "\<lparr>PeerCandidate.peer_node_id = Peer.node_id ?pr, endpoint = Endpoint.address e, candidate_type = endpoint_type e\<rparr>"
      obtain r1 f1 where 1: "on_world (p2p_connect_op svc ?cand) f = (r1, f1)" by fastforce
      then have k: "keeps table good f f1" by (rule world_keeps)
      have "moves table good r f1 f'"
      proof (cases r1)
        case (Err e)
        with assms ctx plan Cons 1 show ?thesis by (simp add: facade_connect_def keeps_moves)
      next
        case (Ok conn)
        show ?thesis
        proof (cases "conn = ConnectionState.Connected ConnectionPath.P2P")
          case True
          with assms ctx plan Cons 1 Ok show ?thesis
            by (auto simp: facade_connect_def Let_def intro!: recovered_moves)
        next
          case False
          with assms ctx plan Cons 1 Ok show ?thesis
            by (auto simp: facade_connect_def split: ConnectionState.splits result.splits prod.splits
                intro: keeps_moves connect_relayed_moves keeps_moves_trans dest!: report_keeps)
        qed
      qed
      with k show ?thesis by (rule keeps_moves_trans)
    qed
  qed
qed

lemma disconnect_moves:
  assumes "facade_disconnect svc f = (r, f')"
  shows "moves table good r f f'"
proof -
  have snap: "snap_ok f'" if "snap_ok f"
    using assms that
    by (auto simp: facade_disconnect_def snap_ok_def update_disconnected_snapshot_def on_world_def snapshot_wf_def Let_def
        split: option.splits result.splits prod.splits)
  have "synced table good f'" if ok: "is_ok r" and s: "synced table good f"
  proof -
    obtain cur where cur: "current_tunnel_peer_virtual_ip f = Healthy cur" "good (world f)"
        "dom (table (world f)) \<subseteq> set_option cur"
      using s by (auto simp: synced_def)
    show ?thesis
    proof (cases cur)
      case None
      with assms ok cur show ?thesis
        by (auto simp: facade_disconnect_def synced_def update_disconnected_snapshot_def Let_def split: option.splits)
    next
      case (Some ip)
      then obtain u v where v: "close (tunnel_manager svc) ip (world f) = (Ok u, v)" "world f' = v"
          "current_tunnel_peer_virtual_ip f' = Healthy None"
        using assms ok cur(1)
        by (auto simp: facade_disconnect_def on_world_def Let_def split: option.splits result.splits prod.splits)
      then show ?thesis
        using close_only [OF v(1) cur(2)] cur(3) Some by (auto simp: synced_def)
    qed
  qed
  moreover have "good (world f')" if "good (world f)"
    using assms that
    by (auto simp: facade_disconnect_def on_world_def Let_def split: option.splits result.splits prod.splits dest: tunnel_op_good)
  ultimately show ?thesis
    using snap by (simp add: moves_def)
qed

lemma switch_keeps: "switch_network svc cfg upd f = (r, f') \<Longrightarrow> keeps table good f f'"
  by (auto simp: switch_network_def split: option.splits result.splits prod.splits if_splits
      dest!: world_keeps intro: keeps_trans)

lemma reapply_moves:
  assumes "reapply_tunnel svc t f = (r, f')"
  shows "moves table good r f f'"
proof -
  obtain p boot pr where t: "t = (p, boot, pr)" by (cases t)
  obtain r1 f1 where b: "facade_build_tunnel_config svc p boot pr f = (r1, f1)" by fastforce
  then have k: "keeps table good f f1" by (rule build_config_keeps)
  show ?thesis
  proof (cases "\<exists>c. r1 = Ok (Some c)")
    case False
    then have "f' = f1"
      using assms t b by (auto simp: reapply_tunnel_def split: result.splits option.splits)
    with k show ?thesis by (simp add: keeps_moves)
  next
    case True
    then obtain c where c: "r1 = Ok (Some c)" by blast
    obtain r2 m w where rt: "replace_tunnel (tunnel_manager svc) (Some c) (current_tunnel_peer_virtual_ip f1, world f1) = (r2, m, w)"
      by (metis surj_pair)
    have "synced table good f'" if "is_ok r" and s: "synced table good f1"
    proof -
      obtain cur where cur: "current_tunnel_peer_virtual_ip f1 = Healthy cur" "good (world f1)"
          "dom (table (world f1)) \<subseteq> set_option cur"
        using s by (auto simp: synced_def)
      obtain u where u: "r2 = Ok u" and f': "world f' = w" "current_tunnel_peer_virtual_ip f' = m"
        using assms t b c rt \<open>is_ok r\<close> by (auto simp: reapply_tunnel_def Let_def split: result.splits option.splits)
      then show ?thesis
        using replace_tunnel_synced [of "Some c" cur "world f1" u m w] replace_tunnel_ip [OF rt [unfolded u]] rt cur
        by (simp add: synced_def)
    qed
    moreover have "snap_ok f'" if "snap_ok f1"
      using that assms t b c rt
      by (auto simp: reapply_tunnel_def snap_ok_def snapshot_wf_def Let_def split: result.splits option.splits)
    moreover have "good (world f')" if "good (world f1)"
      using that assms t b c rt replace_tunnel_good [OF rt]
      by (auto simp: reapply_tunnel_def Let_def split: result.splits option.splits)
    ultimately show ?thesis
      using k by (auto simp: moves_def keeps_def synced_def)
  qed
qed

lemma apply_update_snap: "apply_update upd s = (r, s') \<Longrightarrow> snapshot_wf s \<Longrightarrow> snapshot_wf s'"
  by (auto simp: apply_update_def Let_def split: option.splits prod.splits)

lemma finish_sync_moves:
  assumes "finish_sync svc cfg upd f = (r, f')"
  shows "moves table good r f f'"
proof -
  obtain r1 f1 where 1: "switch_network svc cfg upd f = (r1, f1)" by fastforce
  have "moves table good r f1 f'"
  proof (cases "\<exists>u s. r1 = Ok u \<and> lock (snap f1) = Some s")
    case False
    with assms 1 have "f' = f1"
      by (auto simp: finish_sync_def split: result.splits option.splits)
    then show ?thesis by (simp add: keeps_moves)
  next
    case True
    then obtain upd1 s r2 s' where 2: "r1 = Ok upd1" "snap f1 = Healthy s" "apply_update upd1 s = (r2, s')"
      by (metis lock_eq_Some surj_pair)
    then have k: "keeps table good f1 (f1\<lparr>snap := Healthy s'\<rparr>)"
      using apply_update_snap by (auto simp: keeps_def snap_ok_def)
    have "moves table good r (f1\<lparr>snap := Healthy s'\<rparr>) f'"
      using assms 1 2 by (auto simp: finish_sync_def Let_def split: result.splits option.splits prod.splits
          intro: keeps_moves dest!: reapply_moves simp: moves_def)
    with k show ?thesis by (rule keeps_moves_trans)
  qed
  with switch_keeps [OF 1] show ?thesis by (rule keeps_moves_trans)
qed

lemma mapped_sync_moves:
  assumes "apfst (map_err h) (finish_sync svc cfg upd f) = (r, f')"
  shows "moves table good r f f'"
proof -
  obtain r1 where "finish_sync svc cfg upd f = (r1, f')" "r = map_err h r1"
    using assms by (cases "finish_sync svc cfg upd f") auto
  then show ?thesis
    using finish_sync_moves [of cfg upd f r1 f'] by (cases r1) (simp_all add: moves_def)
qed

lemma control_sync_moves:
  assumes "control_sync svc f = (r, f')"
  shows "moves table good r f f'"
proof -
  have ws: "keeps table good f (f\<lparr>control_ws := ws\<rparr>)" for ws
    by (simp add: keeps_def snap_ok_def)
  show ?thesis
    using assms
    by (auto simp: control_sync_def split: result.splits option.splits prod.splits
        intro: keeps_moves ws keeps_moves_trans [OF ws] mapped_sync_moves)
qed

text \<open>Probing does not touch the tunnels, however long it polls.\<close>

lemma poll_keeps:
  assumes "poll_reply_until_timeout svc timeout w = Some (r, w')" and "good w"
  shows "good w' \<and> table w' = table w"
  using poll_loop_frame [of svc _ w "(r, w')" good table] assms quiet_poll quiet_sleep
  by (auto simp: poll_reply_until_timeout_def)

lemma finish_probe_keeps: "finish_probe svc p sent sampled pid reply f = (r, f') \<Longrightarrow> keeps table good f f'"
  by (auto simp: finish_probe_def record_probe_result_def keeps_def snap_ok_def split: prod.splits option.splits)

lemma next_probe_id_keeps: "next_probe_id sampled f = (r, f') \<Longrightarrow> keeps table good f f'"
  by (auto simp: next_probe_id_def keeps_def snap_ok_def split: option.splits)

lemma probe_keeps:
  assumes "probe_with_timeout svc packet timeout f = Some (r, f')"
  shows "keeps table good f f'"
proof -
  obtain r1 f1 where 1: "on_world (send_packet_op svc packet) f = (r1, f1)" by fastforce
  then have k1: "keeps table good f f1" by (rule world_keeps)
  have "keeps table good f1 f'"
  proof (cases r1)
    case (Err e)
    with assms 1 show ?thesis
      by (auto simp: probe_with_timeout_def Let_def remember_data_plane_error_def keeps_def snap_ok_def
          split: option.splits)
  next
    case (Ok u)
    let ?t = "clock_ms svc (world f1)"
    obtain r2 f2 where 2: "next_probe_id ?t f1 = (r2, f2)" by fastforce
    note k2 = next_probe_id_keeps [OF 2]
    have w: "keeps table good f1 (f2\<lparr>world := w\<rparr>)"
      if "poll_reply_until_timeout svc t (world f2) = Some (x, w)" for x w t
      using k2 poll_keeps [OF that] by (auto simp: keeps_def snap_ok_def)
    show ?thesis
      using assms 1 Ok 2 k2
      by (auto simp: probe_with_timeout_def Let_def split: result.splits prod.splits option.splits
          dest!: w finish_probe_keeps intro: keeps_trans)
  qed
  with k1 show ?thesis by (rule keeps_trans)
qed

lemma identity_keeps:
  "facade_register svc e p f = (r1, f') \<Longrightarrow> keeps table good f f'"
  "facade_login svc e p f = (r1, f') \<Longrightarrow> keeps table good f f'"
  "facade_register_device svc n p mid k f = (r2, f') \<Longrightarrow> keeps table good f f'"
  "facade_register_node svc d n k cs f = (r3, f') \<Longrightarrow> keeps table good f f'"
  "facade_bootstrap svc n net f = (r4, f') \<Longrightarrow> keeps table good f f'"
  unfolding facade_register_def facade_login_def facade_register_device_def facade_register_node_def facade_bootstrap_def
  by (erule remember_keeps; auto intro: quiet_calls on_world_keeps [OF _ prod.collapse [symmetric]]
        authorised_keeps [OF _ prod.collapse [symmetric]])+

lemma network_keeps:
  "facade_list_networks svc f = (r1, f') \<Longrightarrow> keeps table good f f'"
  "facade_create_network svc n c f = (r2, f') \<Longrightarrow> keeps table good f f'"
  "facade_join_network svc n d f = (r3, f') \<Longrightarrow> keeps table good f f'"
  "facade_activate_network svc n d f = (r3, f') \<Longrightarrow> keeps table good f f'"
  "facade_deactivate_network svc n d f = (r3, f') \<Longrightarrow> keeps table good f f'"
  "facade_issue_relay_ticket svc net src dst why f = (r4, f') \<Longrightarrow> keeps table good f f'"
  unfolding facade_list_networks_def facade_create_network_def facade_join_network_def facade_activate_network_def
    facade_deactivate_network_def facade_issue_relay_ticket_def
  by (erule authorised_keeps [rotated] issue_keeps; rule quiet_calls)+

lemma apply_cases:
  assumes "facade_apply svc c f = Some (ok, f')"
  shows "keeps table good f f' \<or> moves_tunnel c \<and> moves table good (if ok then Ok () else Err ()) f f'"
  using assms
  by (cases c) (auto simp: apfst_eq moves_def dest: identity_keeps network_keeps probe_keeps
      dest!: connect_moves control_sync_moves disconnect_moves)

lemma apply_step:
  assumes "facade_apply svc c f = Some (ok, f')"
  shows "(snap_ok f \<longrightarrow> snap_ok f') \<and>
    ((moves_tunnel c \<longrightarrow> ok) \<longrightarrow> synced table good f \<longrightarrow> synced table good f') \<and>
    (good (world f) \<longrightarrow> good (world f'))"
  using apply_cases [OF assms] keeps_moves [of table good f f' "Ok ()"] by (auto simp: moves_def)

lemma run_steps:
  "facade_run svc cs f = Some (oks, f') \<Longrightarrow> (snap_ok f \<longrightarrow> snap_ok f') \<and>
    ((\<forall>(c, ok) \<in> set (zip cs oks). moves_tunnel c \<longrightarrow> ok) \<longrightarrow> synced table good f \<longrightarrow> synced table good f')"
proof (induction cs arbitrary: f oks)
  case (Cons c cs)
  obtain ok f1 oks1 where 1: "facade_apply svc c f = Some (ok, f1)" "facade_run svc cs f1 = Some (oks1, f')" "oks = ok # oks1"
    using Cons.prems by (auto split: Option.bind_splits)
  then show ?case
    using Cons.IH [OF 1(2)] apply_step [OF 1(1)] by auto
qed simp

end

section \<open>The services of the client\<close>

text \<open>
  A tunnel manager beside what lies outside: its table of peers is its own.  With such a manager the
  services of a client are services a facade can rely on.
\<close>

definition hosted :: "('x \<times> 't \<Rightarrow> 'a) \<Rightarrow> ('x, 't) ClientWorldOf \<Rightarrow> 'a" where
  "hosted g w = g (outside w, tunnels w)"

text \<open>What lies outside may have a property that every operation of a controller keeps.\<close>

definition keeps_outside :: "('x \<Rightarrow> bool) \<Rightarrow> ('x \<Rightarrow> 'r \<times> 'x) \<Rightarrow> bool" where
  "keeps_outside kept g \<longleftrightarrow> (\<forall>x. kept x \<longrightarrow> kept (snd (g x)))"

definition controller_keeps :: "('x \<Rightarrow> bool) \<Rightarrow> 'x ControllerClient \<Rightarrow> bool" where
  "controller_keeps kept c \<longleftrightarrow>
     (\<forall>r. keeps_outside kept (register_op c r)) \<and> (\<forall>r. keeps_outside kept (login_op c r)) \<and>
     (\<forall>t r. keeps_outside kept (register_device_op c t r)) \<and> (\<forall>t r. keeps_outside kept (register_node_op c t r)) \<and>
     (\<forall>t. keeps_outside kept (list_networks_op c t)) \<and> (\<forall>t r. keeps_outside kept (create_network_op c t r)) \<and>
     (\<forall>t r. keeps_outside kept (join_network_op c t r)) \<and> (\<forall>t r. keeps_outside kept (activate_network_op c t r)) \<and>
     (\<forall>t r. keeps_outside kept (deactivate_network_op c t r)) \<and> (\<forall>t n net. keeps_outside kept (bootstrap_op c t n net)) \<and>
     (\<forall>t r. keeps_outside kept (issue_relay_ticket_op c t r))"

definition hosted_good :: "('x \<times> 't \<Rightarrow> bool) \<Rightarrow> ('x \<Rightarrow> bool) \<Rightarrow> ('x, 't) ClientWorldOf \<Rightarrow> bool" where
  "hosted_good legal kept w \<longleftrightarrow> hosted legal w \<and> kept (outside w)"

locale hosted_tunnels = tunnel_backend mgr table inv
  for mgr :: "('x \<times> 't) TunnelBackend" and table :: "'x \<times> 't \<Rightarrow> peer_table" and inv :: "'x \<times> 't \<Rightarrow> bool" +
  assumes outside_table: "table (x, m) = table (y, m)"
    and outside_inv: "inv (x, m) = inv (y, m)"
begin

lemma hosted_frame:
  assumes "tunnels w' = tunnels w"
  shows "hosted table w' = hosted table w \<and> hosted inv w' = hosted inv w"
  unfolding hosted_def assms
  using outside_table [of "outside w'" "tunnels w" "outside w"] outside_inv [of "outside w'" "tunnels w" "outside w"] by simp

lemma quietI:
  "(\<And>w. tunnels (snd (g w)) = tunnels w) \<Longrightarrow> (\<And>w. kept (outside w) \<Longrightarrow> kept (outside (snd (g w)))) \<Longrightarrow>
   quiet (hosted table) (hosted_good inv kept) g"
  unfolding quiet_def hosted_good_def by (metis hosted_frame snd_conv)

lemma quiet_via_outside: "keeps_outside kept g \<Longrightarrow> quiet (hosted table) (hosted_good inv kept) (via_outside g)"
  by (rule quietI) (simp_all add: via_outside_def keeps_outside_def case_prod_unfold)

lemma quiet_via:
  assumes "\<And>x. kept x \<Longrightarrow> kept (pass_by env x)"
  shows "quiet (hosted table) (hosted_good inv kept) (via_paths env h)"
    and "quiet (hosted table) (hosted_good inv kept) (via_pool env k)"
  by (rule quietI; simp add: via_paths_def via_pool_def case_prod_unfold assms)+

lemma client_tunnel_op:
  "apply_op (tunnel_manager (client_services env keys mgr)) opn w = via_tunnels (apply_op mgr opn) w"
  by (cases opn) (simp_all add: client_services_def via_tunnels_def)

lemma services_keep:
  assumes tunnels: "\<And>x t opn r x' t'. inv (x, t) \<Longrightarrow> kept x \<Longrightarrow> apply_op mgr opn (x, t) = (r, x', t') \<Longrightarrow> kept x'"
    and passing: "\<And>x. kept x \<Longrightarrow> kept (pass_by env x)" "\<And>d x. kept x \<Longrightarrow> kept (sleeping env d x)"
    and keys: "\<And>dev n p created. keeps_outside kept (keys dev n p created)"
    and ctl: "controller_keeps kept (http_controller env)"
  shows "facade_services (client_services env keys mgr) (hosted table) (hosted_good inv kept)"
proof (unfold_locales)
  fix w w' :: "('x, 't) ClientWorldOf" and opn r
  assume good: "hosted_good inv kept w" and "apply_op (tunnel_manager (client_services env keys mgr)) opn w = (r, w')"
  then obtain x t where step: "apply_op mgr opn (outside w, tunnels w) = (r, x, t)"
      and w': "w' = w\<lparr>outside := x, tunnels := t\<rparr>"
    by (auto simp: client_tunnel_op via_tunnels_def split: prod.splits)
  have wf: "inv (outside w, tunnels w)" and "kept (outside w)"
    using good by (simp_all add: hosted_good_def hosted_def)
  then show "spec_step opn r (hosted table w) (hosted table w')"
    using op_spec [OF _ step] by (simp add: hosted_def w')
  show "hosted_good inv kept w'"
    using op_inv [OF wf step] tunnels [OF wf _ step] \<open>kept (outside w)\<close> by (simp add: hosted_good_def hosted_def w')
next
  fix d :: u64 and w :: "('x, 't) ClientWorldOf"
  assume "hosted_good inv kept w"
  then show "hosted_good inv kept (sleep_ms (client_services env keys mgr) d w) \<and>
      hosted table (sleep_ms (client_services env keys mgr) d w) = hosted table w"
    using hosted_frame [of "sleep_ms (client_services env keys mgr) d w" w]
    by (simp add: client_services_def hosted_good_def passing)
next
  fix p and w w' :: "('x, 't) ClientWorldOf" and u
  assume "on_p2p_recovered_op (client_services env keys mgr) p w = (Ok u, w')"
  then show "current_path_op (client_services env keys mgr) w' = ActivePath.P2P p"
    by (auto simp: client_services_def via_paths_def on_p2p_recovered_def current_path_def
        split: option.splits prod.splits)
qed (use ctl keys in \<open>simp_all add: client_services_def cli_controller_def controller_keeps_def quiet_via_outside
    quiet_via [of kept env, OF passing(1)]\<close>)

lemma services: "facade_services (client_services env keys mgr) (hosted table) (hosted inv)"
proof -
  have "hosted_good inv (\<lambda>_. True) = hosted inv"
    by (simp add: hosted_good_def fun_eq_iff)
  then show ?thesis
    using services_keep [of "\<lambda>_. True" env keys] by (simp add: keeps_outside_def controller_keeps_def)
qed

end

text \<open>The table of a platform is kept by the manager, not by what lies outside.\<close>

lemma platform_table_outside: "platform_table (x, m) = platform_table (y, m)"
  by (cases m) (simp_all add: platform_table_def linux_table_def windows_table_def)

lemma platform_inv_outside: "platform_inv (x, m) = platform_inv (y, m)"
  by (cases m) (simp_all add: platform_inv_def linux_inv_def windows_inv_def)

interpretation platform_hosted: hosted_tunnels "platform_ops env" platform_table platform_inv for env
  by unfold_locales (rule platform_table_outside, rule platform_inv_outside)

interpretation client: facade_services "cli_services env kf" "hosted platform_table" "hosted platform_inv" for env kf
  unfolding cli_services_def by (rule platform_hosted.services)

section \<open>Properties\<close>

lemma built_facade:
  assumes "build_facade env x = Ok f"
  shows "snap_ok f \<and> synced (hosted platform_table) (hosted platform_inv) f"
proof -
  obtain sel mgr where "build_platform_tunnel_manager (processes env) sel = Ok mgr"
      and f: "f = facade_new \<lparr>outside = x, path_mgr = path_manager_new pool_new relay_client_default p2p_default, tunnels = mgr\<rparr>"
    using assms by (auto simp: build_facade_def build_tunnel_manager_def split: result.splits)
  with built_manager_new [OF this(1), of x] show ?thesis
    by (simp add: snap_ok_def snapshot_wf_def synced_def hosted_def facade_new_def
        new_with_probe_reply_timeout_def snapshot_default_def)
qed

text \<open>
  C26: whatever the application calls on a new client, as long as its connects, synchronisations and
  disconnects succeed, the platform has at most one tunnel open: the one the facade knows of.
\<close>

theorem client_one_tunnel:
  assumes "build_facade env x = Ok f0"
    and "facade_run (cli_services env kf) calls f0 = Some (oks, f)"
    and "\<forall>(c, ok) \<in> set (zip calls oks). moves_tunnel c \<longrightarrow> ok"
  shows "\<exists>known. current_tunnel_peer_virtual_ip f = Healthy known \<and>
    dom (platform_table (outside (world f), tunnels (world f))) \<subseteq> set_option known"
  using client.run_steps [OF assms(2)] built_facade [OF assms(1)] assms(3)
  by (auto simp: synced_def hosted_def)

text \<open>
  C27: in every state a client reaches, whether its calls succeed or fail, the lock of the snapshot is
  healthy and the snapshot is consistent: the tunnel it shows has the address it shows, and a
  connection it shows has the kind of the path it shows.
\<close>

theorem client_snapshot_wf:
  assumes "build_facade env x = Ok f0"
    and "facade_run (cli_services env kf) calls f0 = Some (oks, f)"
  shows "\<exists>s. snap f = Healthy s \<and>
    map_option TunnelRuntimeView.peer_virtual_ip (tunnel_runtime s) = AppCoreSnapshot.tunnel_peer_virtual_ip s \<and>
    (\<forall>k. connection_state s = Some (ConnectionState.Connected k) \<longrightarrow>
       (\<exists>p. AppCoreSnapshot.active_path s = Some p \<and>
         connection_state_from_active_path p = ConnectionState.Connected k))"
  using client.run_steps [OF assms(2)] built_facade [OF assms(1)] by (auto simp: snap_ok_def snapshot_wf_def)

definition demo_calls :: "facade_call list" where
  "demo_calls = [CallLogin [] [], CallRegisterNode ''d1'' ''me'' [] [], CallBootstrap ''me'' ''net'', CallConnect ''net'' ''peer'']"

lemma demo_run:
  "\<exists>f. facade_run demo_services demo_calls demo_facade = Some ([True, True, True, True], f) \<and>
     current_tunnel_peer_virtual_ip f = Healthy (Some ''10.0.0.2'') \<and>
     lock (snap f) \<noteq> None \<and>
     connection_state (the (lock (snap f))) = Some (ConnectionState.Connected ConnectionPath.P2P)"
proof -
  have "map_option (\<lambda>(oks, f). (oks, current_tunnel_peer_virtual_ip f, map_option connection_state (lock (snap f))))
      (facade_run demo_services demo_calls demo_facade) =
    Some ([True, True, True, True], Healthy (Some ''10.0.0.2''), Some (Some (ConnectionState.Connected ConnectionPath.P2P)))"
    by code_simp
  then show ?thesis by auto
qed

theorem client_one_tunnel_witness:
  "\<exists>oks f. facade_run demo_services demo_calls demo_facade = Some (oks, f) \<and>
     dom (platform_table (outside (world f), tunnels (world f))) \<subseteq> {''10.0.0.2''}"
proof -
  obtain f where f: "facade_run demo_services demo_calls demo_facade = Some ([True, True, True, True], f)"
      "current_tunnel_peer_virtual_ip f = Healthy (Some ''10.0.0.2'')"
    using demo_run by blast
  with client_one_tunnel [OF demo_build f(1)] show ?thesis
    by (auto simp: demo_calls_def)
qed

theorem client_snapshot_wf_witness:
  "\<exists>oks f s p. facade_run demo_services demo_calls demo_facade = Some (oks, f) \<and> snap f = Healthy s \<and>
     AppCoreSnapshot.active_path s = Some p \<and>
     connection_state_from_active_path p = ConnectionState.Connected ConnectionPath.P2P"
proof -
  obtain f where f: "facade_run demo_services demo_calls demo_facade = Some ([True, True, True, True], f)"
      "connection_state (the (lock (snap f))) = Some (ConnectionState.Connected ConnectionPath.P2P)"
    using demo_run by blast
  obtain s where "snap f = Healthy s" "connection_state s = Some (ConnectionState.Connected ConnectionPath.P2P) \<longrightarrow>
      (\<exists>p. AppCoreSnapshot.active_path s = Some p \<and>
         connection_state_from_active_path p = ConnectionState.Connected ConnectionPath.P2P)"
    using client_snapshot_wf [OF demo_build f(1)] by auto
  with f show ?thesis by auto
qed

end
