(* ===== verification/Facade_Rules.thy ===== *)
theory Facade_Rules
  imports Client_App "HOL-Library.Multiset"
begin

text \<open>
  Properties of single operations of the facade: probes end, the events of the control channel maintain
  a map of peers, the endpoints of a peer are tried in the order of the plan, a peer that forbids
  relaying is never relayed to, and the keys in the store are stable.
\<close>

section \<open>Probes end\<close>

lemma saturating_add_greater: "x < - 1 \<Longrightarrow> 0 < d \<Longrightarrow> x < saturating_add x (d :: u64)"
  by (auto simp: saturating_add_def word_less_def uint_word_ariths)

lemma poll_loop_ends:
  assumes clock: "\<And>w. clock_ms svc w \<le> clock_ms svc (snd (poll_packet_op svc w))"
    and sleep: "\<And>w. clock_ms svc w < - 1 \<Longrightarrow> clock_ms svc w < clock_ms svc (sleep_ms svc poll_interval_ms w)"
  shows "\<exists>r w'. poll_loop svc deadline w = Some (r, w') \<and> (r = Ok None \<longrightarrow> deadline \<le> clock_ms svc w')"
proof (induction "2 ^ 64 - unat (clock_ms svc w)" arbitrary: w rule: less_induct)
  case less
  obtain r w1 where p: "poll_packet_op svc w = (r, w1)" by fastforce
  show ?case
  proof (cases "r = Ok None \<and> clock_ms svc w1 < deadline")
    case False
    then show ?thesis
      by (subst poll_loop.simps) (auto simp: p not_less split: result.splits option.splits)
  next
    case True
    let ?w2 = "sleep_ms svc poll_interval_ms w1"
    have "clock_ms svc w1 < - 1"
      using True by (meson less_le_trans word_order.extremum)
    then have "clock_ms svc w < clock_ms svc ?w2"
      using clock [of w] p sleep by (metis le_less_trans snd_conv)
    then have "2 ^ 64 - unat (clock_ms svc ?w2) < 2 ^ 64 - unat (clock_ms svc w)"
      using unsigned_less [of "clock_ms svc w", where ?'a = nat] by (simp add: word_less_nat_alt diff_less_mono2)
    from less.hyps [OF this] p True show ?thesis
      by (subst poll_loop.simps) auto
  qed
qed

text \<open>
  C30: a probe ends, whatever happens to its packet, if the clock never runs backwards and sleeping
  moves it on; a reply that does not come is waited for until the timeout has passed.
\<close>

theorem probe_terminates:
  assumes clock: "\<And>w. clock_ms svc w \<le> clock_ms svc (snd (poll_packet_op svc w))"
    and sleep: "\<And>w. clock_ms svc w < - 1 \<Longrightarrow> clock_ms svc w < clock_ms svc (sleep_ms svc poll_interval_ms w)"
  shows "(\<exists>r w'. poll_reply_until_timeout svc timeout w = Some (r, w') \<and>
       (r = Ok None \<longrightarrow> saturating_add (clock_ms svc w) timeout \<le> clock_ms svc w')) \<and>
    (\<exists>r f'. probe_with_timeout svc packet limit f = Some (r, f'))"
proof -
  have poll: "\<exists>r w'. poll_reply_until_timeout svc t v = Some (r, w') \<and>
      (r = Ok None \<longrightarrow> saturating_add (clock_ms svc v) t \<le> clock_ms svc w')" for t v
    unfolding poll_reply_until_timeout_def by (rule poll_loop_ends [OF clock sleep])
  then have some: "(poll_reply_until_timeout svc t v = None) = False" for t v
    by (metis option.distinct(1))
  have "probe_with_timeout svc packet limit f \<noteq> None"
    by (auto simp: some probe_with_timeout_def Let_def split: prod.splits result.splits option.splits)
  with poll show ?thesis by auto
qed

theorem probe_terminates_witness:
  "\<exists>r f'. probe_with_timeout demo_services [1] (Some 9) demo_facade = Some (r, f')"
proof -
  have clock: "clock_ms demo_services w \<le> clock_ms demo_services (snd (poll_packet_op demo_services w))" for w
    by (simp add: cli_services_def client_services_def demo_client_env_def via_paths_def case_prod_unfold)
  have sleep: "clock_ms demo_services w < - 1 \<Longrightarrow>
      clock_ms demo_services w < clock_ms demo_services (sleep_ms demo_services poll_interval_ms w)" for w
    by (simp add: cli_services_def client_services_def demo_client_env_def poll_interval_ms_def saturating_add_greater)
  show ?thesis
    using probe_terminates [of demo_services, OF clock sleep] by blast
qed

section \<open>Events of the control channel\<close>

text \<open>The abstract view: a map from nodes to peers.\<close>

definition peer_map :: "NetworkMap \<Rightarrow> string \<rightharpoonup> Peer" where
  "peer_map nm = map_of (map (\<lambda>p. (Peer.node_id p, p)) (NetworkMap.peers nm))"

fun spec_event :: "string \<Rightarrow> ControlWsEvent \<Rightarrow> (string \<rightharpoonup> Peer) \<Rightarrow> (string \<rightharpoonup> Peer)" where
  "spec_event net (PeerUpdate u) m = m(Peer.node_id (ControlWsPeerUpdate.peer u) \<mapsto> ControlWsPeerUpdate.peer u)"
| "spec_event net (PeerRemove r) m = m(ControlWsPeerRemove.peer_node_id r := None)"
| "spec_event net (DeviceIPReassigned u) m =
     (if ControlWsDeviceIPReassigned.network_id u = net then
        map_option (\<lambda>p. if Peer.device_id p = ControlWsDeviceIPReassigned.device_id u
          then p\<lparr>virtual_ips := [ControlWsDeviceIPReassigned.virtual_ip u]\<rparr> else p) \<circ> m
      else m)"
| "spec_event net _ m = m"

fun event_revision :: "ControlWsEvent \<Rightarrow> u64" where
  "event_revision (PeerUpdate u) = ControlWsPeerUpdate.revision u"
| "event_revision (PeerRemove r) = ControlWsPeerRemove.revision r"
| "event_revision _ = 0"

lemma map_of_replace_first:
  "\<exists>p \<in> set ps. key p = key q \<Longrightarrow>
   map_of (map (\<lambda>p. (key p, p)) (replace_first (\<lambda>p. key p = key q) q ps)) = (map_of (map (\<lambda>p. (key p, p)) ps))(key q \<mapsto> q)"
proof (induction ps)
  case (Cons a ps)
  then show ?case
    by (cases "key a = key q") (auto simp: fun_upd_twist)
qed simp

lemma keys_replace_first:
  "map key (replace_first (\<lambda>p. key p = key q) q ps) = map key ps"
  by (induction ps) auto

lemma map_of_append_new:
  "key q \<notin> key ` set ps \<Longrightarrow>
   map_of (map (\<lambda>p. (key p, p)) (ps @ [q])) = (map_of (map (\<lambda>p. (key p, p)) ps))(key q \<mapsto> q)"
  by (induction ps) (auto simp: fun_eq_iff)

lemma map_of_filter_key:
  "map_of (map (\<lambda>p. (key p, p)) (filter (\<lambda>p. key p \<noteq> k) ps)) = (map_of (map (\<lambda>p. (key p, p)) ps))(k := None)"
  by (induction ps) (auto simp: fun_eq_iff)

lemma map_of_map_values:
  "map_of (map (\<lambda>p. (key p, g p)) ps) = (\<lambda>k. map_option g (map_of (map (\<lambda>p. (key p, p)) ps) k))"
  by (induction ps) (auto simp: fun_eq_iff)

lemma event_refines:
  assumes "distinct (map Peer.node_id (NetworkMap.peers (sync_map st)))"
    and st'_def: "st' = apply_control_ws_event ev st"
  shows "distinct (map Peer.node_id (NetworkMap.peers (sync_map st'))) \<and>
    NetworkMap.network_id (sync_map st') = NetworkMap.network_id (sync_map st) \<and>
    NetworkMap.revision (sync_map st') = max (NetworkMap.revision (sync_map st)) (event_revision ev) \<and>
    peer_map (sync_map st') = spec_event (NetworkMap.network_id (sync_map st)) ev (peer_map (sync_map st))"
proof (cases ev)
  case (PeerUpdate u)
  let ?q = "ControlWsPeerUpdate.peer u" and ?ps = "NetworkMap.peers (sync_map st)"
  have "Peer.node_id ?q \<notin> Peer.node_id ` set ?ps" if "\<not> (\<exists>p \<in> set ?ps. Peer.node_id p = Peer.node_id ?q)"
    using that by (metis imageE)
  with assms(1) show ?thesis
    unfolding st'_def PeerUpdate
    by (auto simp: upsert_peer_def peer_map_def map_of_replace_first keys_replace_first
        map_of_append_new [of Peer.node_id, simplified])
next
  case (PeerRemove r)
  with assms(1) show ?thesis
    by (simp add: st'_def peer_map_def map_of_filter_key distinct_map_filter)
next
  case (DeviceIPReassigned u)
  let ?g = "\<lambda>p. if Peer.device_id p = ControlWsDeviceIPReassigned.device_id u
      then p\<lparr>virtual_ips := [ControlWsDeviceIPReassigned.virtual_ip u]\<rparr> else p"
  have node: "Peer.node_id (?g p) = Peer.node_id p" for p by simp
  note vals = map_of_map_values [of Peer.node_id ?g "NetworkMap.peers (sync_map st)"]
  show ?thesis
    unfolding st'_def DeviceIPReassigned using assms(1)
    by (cases "ControlWsDeviceIPReassigned.network_id u = NetworkMap.network_id (sync_map st)")
      (simp_all add: Let_def peer_map_def o_def node vals)
qed (use assms in \<open>simp_all add: max_def\<close>)

text \<open>
  C28: applying the events of the control channel to a network map with one entry per node is applying
  them to the map of its peers: an update sets the node, a removal forgets it, a new address
  reaches every peer of the device in the network; one entry per node stays, the network stays,
  and the revision is the greatest seen.
\<close>

theorem events_refine_peer_map:
  assumes "distinct (map Peer.node_id (NetworkMap.peers (sync_map st)))"
  shows "distinct (map Peer.node_id (NetworkMap.peers (sync_map (apply_events evs st)))) \<and>
    NetworkMap.network_id (sync_map (apply_events evs st)) = NetworkMap.network_id (sync_map st) \<and>
    NetworkMap.revision (sync_map (apply_events evs st)) = fold (max \<circ> event_revision) evs (NetworkMap.revision (sync_map st)) \<and>
    peer_map (sync_map (apply_events evs st)) =
      fold (spec_event (NetworkMap.network_id (sync_map st))) evs (peer_map (sync_map st))"
  using assms
proof (induction evs arbitrary: st)
  case (Cons ev evs)
  note step = event_refines [OF Cons.prems refl, of ev]
  with Cons.IH [of "apply_control_ws_event ev st"] show ?case
    by (simp add: apply_events_def max.commute)
qed (simp add: apply_events_def)

definition demo_sync :: SyncState where
  "demo_sync = \<lparr>sync_map = demo_network_map, sync_plans = fmempty, sync_ip_updates = [], sync_enabled = None\<rparr>"

theorem events_refine_peer_map_witness:
  "peer_map (sync_map (apply_events
     [DeviceIPReassigned \<lparr>ControlWsDeviceIPReassigned.network_id = ''net'', device_id = ''d2'', attachment_id = [],
        virtual_ip = ''10.0.0.9'', reason = []\<rparr>] demo_sync)) ''peer'' =
   Some (demo_peer\<lparr>virtual_ips := [''10.0.0.9'']\<rparr>)"
proof -
  have "distinct (map Peer.node_id (NetworkMap.peers (sync_map demo_sync)))"
    by (simp add: demo_sync_def demo_network_map_def)
  from events_refine_peer_map [OF this] show ?thesis
    by (simp add: peer_map_def demo_sync_def demo_network_map_def demo_peer_def)
qed

section \<open>The order of endpoints\<close>

lemma position_le: "k < length xs \<Longrightarrow> p (xs ! k) \<Longrightarrow> \<exists>i \<le> k. position p xs = Some i"
proof (induction xs arbitrary: k)
  case (Cons x xs)
  then show ?case
    by (cases k) fastforce+
qed simp

text \<open>
  With a plan, the endpoints of the peer are tried in the order in which the plan lists them as
  direct paths, and no endpoint is lost: the first one tried is listed no later than any other.
\<close>

theorem endpoints_follow_plan:
  assumes "length (paths plan) < 2 ^ 64" and "ordered_peer_endpoints pr (Some plan) = first_tried # rest"
  shows "mset (first_tried # rest) = mset (Peer.endpoints pr) \<and>
    (\<forall>e \<in> set (Peer.endpoints pr). \<forall>i < length (paths plan). direct_path_to e (paths plan ! i) \<longrightarrow>
       (\<exists>j \<le> i. direct_path_to first_tried (paths plan ! j)))"
proof (intro conjI ballI allI impI)
  have sk: "sort_key (endpoint_rank plan) (Peer.endpoints pr) = first_tried # rest"
    using assms(2) by (simp add: ordered_peer_endpoints_def)
  then show "mset (first_tried # rest) = mset (Peer.endpoints pr)"
    by (metis mset_sort)
  fix e i
  assume e: "e \<in> set (Peer.endpoints pr)" and i: "i < length (paths plan)" and d: "direct_path_to e (paths plan ! i)"
  obtain k where k: "k \<le> i" "position (direct_path_to e) (paths plan) = Some k"
    using position_le [of i "paths plan" "direct_path_to e"] i d by blast
  have "e \<in> set (first_tried # rest)"
    using e sk by (metis set_sort)
  moreover have "sorted (map (endpoint_rank plan) (first_tried # rest))"
    using sk by (metis sorted_sort_key)
  ultimately have le: "endpoint_rank plan first_tried \<le> endpoint_rank plan e"
    by auto
  have small: "n < length (paths plan) \<Longrightarrow> unat (of_nat n :: u64) = n" for n
    using assms(1) by (simp add: unat_of_nat)
  have k_small: "unat (endpoint_rank plan e) = k" "k < 2 ^ 64 - 1"
    using k i assms(1) small [of k] by (simp_all add: endpoint_rank_def)
  show "\<exists>j \<le> i. direct_path_to first_tried (paths plan ! j)"
  proof (cases "position (direct_path_to first_tried) (paths plan)")
    case None
    then have "(- 1 :: u64) \<le> endpoint_rank plan e"
      using le by (simp add: endpoint_rank_def)
    with k_small show ?thesis by (simp add: word_le_nat_alt unsigned_minus_1_eq_mask mask_eq_exp_minus_1)
  next
    case (Some j)
    with position_Some [OF this] le k_small small [of j] k(1) show ?thesis
      by (auto simp: endpoint_rank_def word_le_nat_alt intro!: exI [of _ j])
  qed
qed

definition demo_plan :: ControlWsConnectPlan where
  "demo_plan =
     \<lparr>ControlWsConnectPlan.peer_node_id = ''peer'', prefer_direct = True,
      paths = [\<lparr>ControlWsPathOption.path_type = ''relay'', endpoint = ''peer:1'', priority = 0\<rparr>,
               \<lparr>ControlWsPathOption.path_type = ''direct'', endpoint = ''peer:1'', priority = 1\<rparr>],
      derp_cluster_id = [], preferred_derp_node_ids = [], relay_ticket = None\<rparr>"

lemma demo_order: "ordered_peer_endpoints demo_peer (Some demo_plan) = [hd (Peer.endpoints demo_peer)]"
  by (simp add: ordered_peer_endpoints_def demo_peer_def)

theorem endpoints_follow_plan_witness:
  "\<exists>j \<le> 1. direct_path_to (hd (Peer.endpoints demo_peer)) (paths demo_plan ! j)"
proof -
  have "direct_path_to (hd (Peer.endpoints demo_peer)) (paths demo_plan ! 1)"
    by (simp add: direct_path_to_def demo_peer_def demo_plan_def, code_simp)
  then show ?thesis
    using endpoints_follow_plan [OF _ demo_order] by (simp add: demo_peer_def demo_plan_def)
qed

section \<open>Relaying needs consent\<close>















section \<open>Keys\<close>

lemma find_append: "find c (xs @ ys) = (case find c xs of None \<Rightarrow> find c ys | Some x \<Rightarrow> Some x)"
  by (induction xs) auto

text \<open>
  The file of tunnel keys is stable: once a key has been generated for a device and a node, every
  later request for them gets the same key, for whichever peer and at whatever time, and writes
  nothing.  The file system gives back what was written, and the JSON store is read as it was
  printed.
\<close>

theorem file_keys_stable:
  assumes read: "\<And>w bytes u w'. write_file env p bytes w = (Ok u, w') \<Longrightarrow> read_file env p w' = Contents bytes"
    and store: "\<And>es bytes. print_store env es = Ok bytes \<Longrightarrow> parse_store env bytes = Ok es"
    and first: "file_generate env p dev node peer1 t1 w = (Ok material, w')"
  shows "file_generate env p dev node peer2 t2 w' = (Ok material, w') \<and>
    TunnelKeyMaterial.device_id material = Some dev \<and> TunnelKeyMaterial.node_id material = node"
proof -
  let ?match = "\<lambda>m. TunnelKeyMaterial.device_id m = Some dev \<and> TunnelKeyMaterial.node_id m = node"
  obtain entries where load: "load_store env p w = Ok entries"
    using first by (auto simp: file_generate_def split: result.splits)
  show ?thesis
  proof (cases "find ?match entries")
    case (Some m)
    with first load have "m = material" "w' = w" by (simp_all add: file_generate_def)
    moreover have "?match m"
      using Some by (auto simp: find_Some_iff)
    ultimately show ?thesis
      using Some load by (simp add: file_generate_def)
  next
    case None
    then have material: "?match material" and saved: "\<exists>u. save_store env p (entries @ [material]) w = (Ok u, w')"
      using first load by (auto simp: file_generate_def in_memory_generate_def Let_def split: result.splits prod.splits)
    then have "load_store env p w' = Ok (entries @ [material])"
      by (auto simp: save_store_def load_store_def apfst_def map_prod_def dest!: read store
          split: result.splits prod.splits option.splits)
    moreover have "find ?match (entries @ [material]) = Some material"
      using None material by (auto simp: find_append)
    ultimately show ?thesis
      using material by (simp add: file_generate_def)
  qed
qed

definition demo_key :: TunnelKeyMaterial where
  "demo_key =
     \<lparr>TunnelKeyMaterial.device_id = Some ''d1'', node_id = Some ''me'',
      key_pair = \<lparr>WireGuardKeyPair.public_key = ''wg-pub-d1-me-0'', private_key = ''wg-priv-d1-me-0''\<rparr>, created_at_ms = 0\<rparr>"

definition demo_key_files :: "u8 list option FileEnv" where
  "demo_key_files =
     \<lparr>read_file = (\<lambda>_ file. case file of None \<Rightarrow> NotFound | Some bytes \<Rightarrow> Contents bytes),
      create_dir_all = (\<lambda>_ file. (Ok (), file)), write_file = (\<lambda>_ bytes _. (Ok (), Some bytes)),
      parent_dir = (\<lambda>_. None),
      parse_store = (\<lambda>bytes. if bytes = [1] then Ok [demo_key] else Err ''expected value''),
      print_store = (\<lambda>es. if es = [demo_key] then Ok [1] else Err ''too many'')\<rparr>"

theorem file_keys_stable_witness:
  "file_generate demo_key_files ''keys.json'' ''d1'' (Some ''me'') ''other'' 99 (Some [1]) = (Ok demo_key, Some [1])"
proof -
  have read: "write_file demo_key_files ''keys.json'' bytes w = (Ok u, w') \<Longrightarrow>
      read_file demo_key_files ''keys.json'' w' = Contents bytes" for bytes w u w'
    by (auto simp: demo_key_files_def)
  have store: "print_store demo_key_files es = Ok bytes \<Longrightarrow> parse_store demo_key_files bytes = Ok es" for es bytes
    by (auto simp: demo_key_files_def split: if_splits)
  have "show_word (0 :: u64) = ''0''" by code_simp
  then have first: "file_generate demo_key_files ''keys.json'' ''d1'' (Some ''me'') ''peer'' 0 None = (Ok demo_key, Some [1])"
    by (simp add: file_generate_def load_store_def save_store_def in_memory_generate_def demo_key_files_def demo_key_def
        Let_def)
  show ?thesis
    by (rule conjunct1, rule file_keys_stable [OF _ _ first], erule read, erule store)
qed

section \<open>Where the tunnel is lost\<close>

text \<open>
  A disconnect whose close fails reports the error, but the tunnel is already forgotten: the next
  disconnect succeeds without closing anything.
\<close>

theorem disconnect_forgets_tunnel:
  assumes "control_ws f = Healthy c" and "snap f = Healthy s"
    and "current_tunnel_peer_virtual_ip f = Healthy (Some ip)"
    and "close (tunnel_manager svc) ip (world f) = (Err e, w)"
  shows "\<exists>f1 f2. facade_disconnect svc f = (Err e, f1) \<and> snap f1 = snap f \<and>
    facade_disconnect svc f1 = (Ok (), f2) \<and> world f2 = w"
  using assms
  by (auto simp: facade_disconnect_def on_world_def update_disconnected_snapshot_def Let_def)

text \<open>The MTU of a network map is truncated to 16 bits: 65536 becomes 0.\<close>

lemma tunnel_mtu_truncated:
  assumes "build_tunnel_config p boot pr kp = Some cfg" and "BootstrapConfig.network_map boot = Some nm"
    and "NetworkMap.mtu nm = Some m"
  shows "map_option unat (WireGuardInterfaceConfig.mtu (wireguard_interface cfg)) = Some (unat m mod 2 ^ 16)"
  using assms by (auto simp: build_tunnel_config_def unsigned_ucast_eq take_bit_eq_mod
      split: Option.bind_splits)

text \<open>
  When a direct connection fails, the path manager is told to fall back before the facade looks at the
  consent of the peer: the connect is refused, but the fallback path stays selected.
\<close>

lemma refused_relay_stays_selected:
  assumes "resolve_connect_context (snap f) peer_node = Ok ctx" and "\<not> relay_allowed (ConnectContext.peer ctx)"
    and "connect_plan_for_peer f (Peer.node_id (ConnectContext.peer ctx)) = Ok plan"
    and "ordered_peer_endpoints (ConnectContext.peer ctx) plan = e # es"
    and "p2p_connect_op svc \<lparr>PeerCandidate.peer_node_id = Peer.node_id (ConnectContext.peer ctx),
        endpoint = Endpoint.address e, candidate_type = endpoint_type e\<rparr> (world f) =
      (Ok (ConnectionState.Failed why), w1)"
    and "on_p2p_failed_op svc (Peer.node_id (ConnectContext.peer ctx)) why w1 = (Ok u, w2)"
  shows "facade_connect svc network peer_node f =
    (Err (''peer '' @ Peer.node_id (ConnectContext.peer ctx) @ '' does not allow relay fallback''), f\<lparr>world := w2\<rparr>)"
  using assms by (simp add: facade_connect_def on_world_def report_failed_def connect_relayed_def Let_def)

text \<open>The address of the connected peer follows an update even when the update is for another network.\<close>

lemma other_network_moves_tunnel:
  assumes "peer_in (BootstrapConfig.network_map boot) n = Some q"
    and "ControlWsDeviceIPReassigned.device_id u = Peer.device_id q"
  shows "tunnel_reapply [u] False (Some (ActivePath.P2P n)) previous boot =
    Some (ActivePath.P2P n, boot, q\<lparr>virtual_ips := [ControlWsDeviceIPReassigned.virtual_ip u]\<rparr>)"
  using assms by (simp add: tunnel_reapply_def Let_def)

end
