(* ===== verification/App_Serde.thy ===== *)
theory App_Serde
  imports Facade Relay_Client
begin

text \<open>
  What \<open>derive(Serialize, Deserialize)\<close> writes and reads for the types of the crate \<open>app-core\<close> and for the
  views and the snapshot of \<open>ffi-bridge\<close>.  One contract covers all of them: a value that fits the integer
  widths of its type is read back from the document that is written for it.  Structs use camel case, except
  the snapshot; enums are tagged from outside and keep the names of the fields of a variant.
\<close>

named_theorems wire_simps

section \<open>The contract of a wire type\<close>

definition se_list :: "('a \<Rightarrow> json) \<Rightarrow> 'a list \<Rightarrow> json" where
  "se_list se xs = JArr (map se xs)"

locale wire_type =
  fixes se :: "'a \<Rightarrow> json"
    and de :: "json \<Rightarrow> 'a option"
    and fits :: "'a \<Rightarrow> bool"
  assumes read_back: "fits x \<Longrightarrow> de (se x) = Some x"
    and not_null: "se x \<noteq> JNull"
begin

lemma list_read_back: "list_all fits xs \<Longrightarrow> de_list de (se_list se xs) = Some xs"
  unfolding se_list_def by (induction xs) (simp_all add: read_back)

lemma option_read_back: "pred_option fits v \<Longrightarrow> de_option de (se_option se v) = Some v"
proof (cases v)
  case (Some x)
  assume "pred_option fits v"
  with Some have "de (se x) = Some x"
    by (simp add: read_back)
  moreover have "de_option de (se x) = map_option Some (de (se x))"
    using not_null[of x] by (cases "se x") auto
  ultimately show ?thesis
    by (simp add: Some)
qed simp

lemmas wire_laws = read_back list_read_back option_read_back

end

lemmas field_laws = de_field_def de_field_default_def de_optional_def de_strings_default_def

declare field_laws [wire_simps]
declare list.pred_True [wire_simps] option.pred_True [wire_simps]

section \<open>Scalars\<close>

definition se_word :: "'l::len word \<Rightarrow> json" where
  "se_word w = JNum (uint w)"

definition se_usize :: "nat \<Rightarrow> json" where
  "se_usize n = JNum (int n)"

definition de_usize :: "json \<Rightarrow> nat option" where
  "de_usize v = map_option nat (de_int 0 (2 ^ 64 - 1) v)"

definition fits_usize :: "nat \<Rightarrow> bool" where
  "fits_usize n \<longleftrightarrow> n < 2 ^ 64"

definition fits_i32 :: "int \<Rightarrow> bool" where
  "fits_i32 n \<longleftrightarrow> - (2 ^ 31) \<le> n \<and> n < 2 ^ 31"

definition fits_i64 :: "int \<Rightarrow> bool" where
  "fits_i64 n \<longleftrightarrow> - (2 ^ 63) \<le> n \<and> n < 2 ^ 63"

lemma de_word_se: "de_word (se_word w) = Some w"
proof -
  have "uint w < 2 ^ LENGTH('a)" "0 \<le> uint w" for w :: "'a::len word"
    by simp_all
  then show ?thesis
    by (simp add: de_word_def se_word_def de_int_def)
qed

interpretation string_wire: wire_type JStr de_string "\<lambda>_. True"
  by unfold_locales simp_all

interpretation bool_wire: wire_type JBool de_bool "\<lambda>_. True"
  by unfold_locales simp_all

interpretation word_wire: wire_type "se_word :: 'l::len word \<Rightarrow> json" de_word "\<lambda>_. True"
  by unfold_locales (simp_all add: de_word_se, simp add: se_word_def)

interpretation usize_wire: wire_type se_usize de_usize fits_usize
  by unfold_locales (simp_all add: se_usize_def de_usize_def fits_usize_def de_int_def)

interpretation i32_wire: wire_type JNum de_i32 fits_i32
  by unfold_locales (simp_all add: de_i32_def fits_i32_def de_int_def)

interpretation i64_wire: wire_type JNum de_i64 fits_i64
  by unfold_locales (simp_all add: de_i64_def fits_i64_def de_int_def)

declare string_wire.wire_laws [wire_simps] bool_wire.wire_laws [wire_simps] word_wire.wire_laws [wire_simps]
  usize_wire.wire_laws [wire_simps] i32_wire.wire_laws [wire_simps] i64_wire.wire_laws [wire_simps]

section \<open>Enums\<close>

fun se_DerpTransport :: "DerpTransport \<Rightarrow> json" where
  "se_DerpTransport DerpTransport.Udp = JStr ''udp''"
| "se_DerpTransport DerpTransport.Tcp = JStr ''tcp''"
| "se_DerpTransport DerpTransport.Quic = JStr ''quic''"

text \<open>A variant without fields: its name, or an object from the name to null.\<close>

fun unit_tag :: "json \<Rightarrow> string option" where
  "unit_tag (JStr t) = Some t"
| "unit_tag (JObj [(t, JNull)]) = Some t"
| "unit_tag _ = None"

definition de_DerpTransport :: "json \<Rightarrow> DerpTransport option" where
  "de_DerpTransport v = Option.bind (unit_tag v) (\<lambda>t.
     if t = ''udp'' then Some DerpTransport.Udp else if t = ''tcp'' then Some DerpTransport.Tcp
     else if t = ''quic'' then Some DerpTransport.Quic else None)"

fun se_TunnelTransport :: "TunnelTransport \<Rightarrow> json" where
  "se_TunnelTransport TunnelTransport.P2P = JStr ''p2p''"
| "se_TunnelTransport TunnelTransport.Relay = JStr ''relay''"
| "se_TunnelTransport TunnelTransport.Derp = JStr ''derp''"

definition de_TunnelTransport :: "json \<Rightarrow> TunnelTransport option" where
  "de_TunnelTransport v = Option.bind (unit_tag v) (\<lambda>t.
     if t = ''p2p'' then Some TunnelTransport.P2P else if t = ''relay'' then Some TunnelTransport.Relay
     else if t = ''derp'' then Some TunnelTransport.Derp else None)"

fun se_ConnectionPath :: "ConnectionPath \<Rightarrow> json" where
  "se_ConnectionPath ConnectionPath.P2P = JStr ''p2p''"
| "se_ConnectionPath ConnectionPath.Relay = JStr ''relay''"
| "se_ConnectionPath ConnectionPath.Derp = JStr ''derp''"

definition de_ConnectionPath :: "json \<Rightarrow> ConnectionPath option" where
  "de_ConnectionPath v = Option.bind (unit_tag v) (\<lambda>t.
     if t = ''p2p'' then Some ConnectionPath.P2P else if t = ''relay'' then Some ConnectionPath.Relay
     else if t = ''derp'' then Some ConnectionPath.Derp else None)"

fun se_TunnelState :: "TunnelState \<Rightarrow> json" where
  "se_TunnelState TunnelState.Disconnected = JStr ''disconnected''"
| "se_TunnelState TunnelState.Configured = JStr ''configured''"

definition de_TunnelState :: "json \<Rightarrow> TunnelState option" where
  "de_TunnelState v = Option.bind (unit_tag v) (\<lambda>t.
     if t = ''disconnected'' then Some TunnelState.Disconnected
     else if t = ''configured'' then Some TunnelState.Configured else None)"

fun se_DataPlaneErrorCode :: "DataPlaneErrorCode \<Rightarrow> json" where
  "se_DataPlaneErrorCode DataPlaneErrorCode.Timeout = JStr ''timeout''"
| "se_DataPlaneErrorCode DataPlaneErrorCode.Transport = JStr ''transport''"
| "se_DataPlaneErrorCode DataPlaneErrorCode.RelayAuth = JStr ''relay_auth''"
| "se_DataPlaneErrorCode DataPlaneErrorCode.RelaySession = JStr ''relay_session''"
| "se_DataPlaneErrorCode DataPlaneErrorCode.RelayProtocol = JStr ''relay_protocol''"
| "se_DataPlaneErrorCode DataPlaneErrorCode.UnsupportedPath = JStr ''unsupported_path''"
| "se_DataPlaneErrorCode DataPlaneErrorCode.Unknown = JStr ''unknown''"

definition de_DataPlaneErrorCode :: "json \<Rightarrow> DataPlaneErrorCode option" where
  "de_DataPlaneErrorCode v = Option.bind (unit_tag v) (\<lambda>t.
     if t = ''timeout'' then Some DataPlaneErrorCode.Timeout
     else if t = ''transport'' then Some DataPlaneErrorCode.Transport
     else if t = ''relay_auth'' then Some DataPlaneErrorCode.RelayAuth
     else if t = ''relay_session'' then Some DataPlaneErrorCode.RelaySession
     else if t = ''relay_protocol'' then Some DataPlaneErrorCode.RelayProtocol
     else if t = ''unsupported_path'' then Some DataPlaneErrorCode.UnsupportedPath
     else if t = ''unknown'' then Some DataPlaneErrorCode.Unknown else None)"

fun se_ConnectionState :: "ConnectionState \<Rightarrow> json" where
  "se_ConnectionState ConnectionState.Disconnected = JStr ''disconnected''"
| "se_ConnectionState ConnectionState.Connecting = JStr ''connecting''"
| "se_ConnectionState (ConnectionState.Connected p) = JObj [(''connected'', se_ConnectionPath p)]"
| "se_ConnectionState (ConnectionState.Failed why) = JObj [(''failed'', JStr why)]"

definition de_ConnectionState :: "json \<Rightarrow> ConnectionState option" where
  "de_ConnectionState v =
     (if unit_tag v = Some ''disconnected'' then Some ConnectionState.Disconnected
      else if unit_tag v = Some ''connecting'' then Some ConnectionState.Connecting
      else case v of
          JObj [(t, c)] \<Rightarrow>
            (if t = ''connected'' then map_option ConnectionState.Connected (de_ConnectionPath c)
             else if t = ''failed'' then map_option ConnectionState.Failed (de_string c)
             else None)
        | _ \<Rightarrow> None)"

fun se_ActivePath :: "ActivePath \<Rightarrow> json" where
  "se_ActivePath ActivePath.NoPath = JStr ''none''"
| "se_ActivePath (ActivePath.P2P p) = JObj [(''p2P'', JObj [(''peer_node_id'', JStr p)])]"
| "se_ActivePath (ActivePath.Relay p) = JObj [(''relay'', JObj [(''peer_node_id'', JStr p)])]"
| "se_ActivePath (ActivePath.Derp c n) = JObj [(''derp'', JObj [(''cluster_id'', JStr c), (''node_id'', JStr n)])]"

definition de_ActivePath :: "json \<Rightarrow> ActivePath option" where
  "de_ActivePath v =
     (if unit_tag v = Some ''none'' then Some ActivePath.NoPath
      else case v of
          JObj [(t, c)] \<Rightarrow>
            (if t = ''p2P'' then map_option ActivePath.P2P (de_object (de_field de_string ''peer_node_id'') c)
             else if t = ''relay'' then map_option ActivePath.Relay (de_object (de_field de_string ''peer_node_id'') c)
             else if t = ''derp'' then de_object (\<lambda>obj. do {
               k \<leftarrow> de_field de_string ''cluster_id'' obj;
               n \<leftarrow> de_field de_string ''node_id'' obj;
               Some (ActivePath.Derp k n) }) c
             else None)
        | _ \<Rightarrow> None)"

interpretation DerpTransport_wire: wire_type se_DerpTransport de_DerpTransport "\<lambda>_. True"
proof
  show "de_DerpTransport (se_DerpTransport x) = Some x" "se_DerpTransport x \<noteq> JNull" for x
    by (cases x; simp add: de_DerpTransport_def)+
qed

interpretation TunnelTransport_wire: wire_type se_TunnelTransport de_TunnelTransport "\<lambda>_. True"
proof
  show "de_TunnelTransport (se_TunnelTransport x) = Some x" "se_TunnelTransport x \<noteq> JNull" for x
    by (cases x; simp add: de_TunnelTransport_def)+
qed

interpretation ConnectionPath_wire: wire_type se_ConnectionPath de_ConnectionPath "\<lambda>_. True"
proof
  show "de_ConnectionPath (se_ConnectionPath x) = Some x" "se_ConnectionPath x \<noteq> JNull" for x
    by (cases x; simp add: de_ConnectionPath_def)+
qed

interpretation TunnelState_wire: wire_type se_TunnelState de_TunnelState "\<lambda>_. True"
proof
  show "de_TunnelState (se_TunnelState x) = Some x" "se_TunnelState x \<noteq> JNull" for x
    by (cases x; simp add: de_TunnelState_def)+
qed

interpretation DataPlaneErrorCode_wire: wire_type se_DataPlaneErrorCode de_DataPlaneErrorCode "\<lambda>_. True"
proof
  show "de_DataPlaneErrorCode (se_DataPlaneErrorCode x) = Some x" "se_DataPlaneErrorCode x \<noteq> JNull" for x
    by (cases x; simp add: de_DataPlaneErrorCode_def)+
qed

interpretation ConnectionState_wire: wire_type se_ConnectionState de_ConnectionState "\<lambda>_. True"
proof
  have "unit_tag (JObj [(t, se_ConnectionPath p)]) = None" for t p
    by (cases p) simp_all
  then show "de_ConnectionState (se_ConnectionState x) = Some x" for x
    by (cases x) (simp_all add: de_ConnectionState_def ConnectionPath_wire.read_back)
  show "se_ConnectionState x \<noteq> JNull" for x
    by (cases x) simp_all
qed

interpretation ActivePath_wire: wire_type se_ActivePath de_ActivePath "\<lambda>_. True"
proof
  show "de_ActivePath (se_ActivePath x) = Some x" "se_ActivePath x \<noteq> JNull" for x
    by (cases x; simp add: de_ActivePath_def de_field_def)+
qed

declare DerpTransport_wire.wire_laws [wire_simps] TunnelTransport_wire.wire_laws [wire_simps]
  TunnelState_wire.wire_laws [wire_simps] DataPlaneErrorCode_wire.wire_laws [wire_simps]
  ConnectionState_wire.wire_laws [wire_simps] ActivePath_wire.wire_laws [wire_simps]

section \<open>Identities\<close>

definition se_Session :: "Session \<Rightarrow> json" where
  "se_Session r =
     JObj [(''userId'', JStr (Session.user_id r)), (''accessToken'', JStr (Session.access_token r)),
           (''refreshToken'', se_option JStr (Session.refresh_token r)),
           (''expiresIn'', JNum (Session.expires_in r)), (''deviceId'', se_option JStr (Session.device_id r))]"

definition de_Session :: "json \<Rightarrow> Session option" where
  "de_Session = de_object (\<lambda>obj. do {
     x0 \<leftarrow> de_field de_string ''userId'' obj;
     x1 \<leftarrow> de_field de_string ''accessToken'' obj;
     x2 \<leftarrow> de_optional de_string ''refreshToken'' obj;
     x3 \<leftarrow> de_field de_i64 ''expiresIn'' obj;
     x4 \<leftarrow> de_optional de_string ''deviceId'' obj;
     Some \<lparr>Session.user_id = x0, access_token = x1, refresh_token = x2, expires_in = x3, device_id = x4\<rparr> })"

definition fits_Session :: "Session \<Rightarrow> bool" where
  "fits_Session r \<longleftrightarrow> fits_i64 (Session.expires_in r)"

interpretation Session_wire: wire_type se_Session de_Session "fits_Session"
  by unfold_locales (simp_all add: se_Session_def de_Session_def fits_Session_def wire_simps)

declare Session_wire.wire_laws [wire_simps]

definition se_Device :: "Device \<Rightarrow> json" where
  "se_Device r =
     JObj [(''deviceId'', JStr (Device.device_id r)), (''name'', JStr (Device.name r)),
           (''platform'', JStr (Device.platform r)), (''status'', JStr (Device.status r)),
           (''virtualIp'', se_option JStr (Device.virtual_ip r)),
           (''publicKey'', se_option JStr (Device.public_key r))]"

definition de_Device :: "json \<Rightarrow> Device option" where
  "de_Device = de_object (\<lambda>obj. do {
     x0 \<leftarrow> de_field de_string ''deviceId'' obj;
     x1 \<leftarrow> de_field de_string ''name'' obj;
     x2 \<leftarrow> de_field de_string ''platform'' obj;
     x3 \<leftarrow> de_field de_string ''status'' obj;
     x4 \<leftarrow> de_optional de_string ''virtualIp'' obj;
     x5 \<leftarrow> de_optional de_string ''publicKey'' obj;
     Some \<lparr>Device.device_id = x0, name = x1, platform = x2, status = x3, virtual_ip = x4, public_key = x5\<rparr> })"

interpretation Device_wire: wire_type se_Device de_Device "\<lambda>_. True"
  by unfold_locales (simp_all add: se_Device_def de_Device_def wire_simps)

declare Device_wire.wire_laws [wire_simps]

definition se_Node :: "Node \<Rightarrow> json" where
  "se_Node r =
     JObj [(''nodeId'', JStr (Node.node_id r)), (''deviceId'', JStr (Node.device_id r)),
           (''nodePublicKey'', JStr (Node.node_public_key r)),
           (''networkIds'', se_list JStr (Node.network_ids r)),
           (''capabilities'', se_list JStr (Node.capabilities r))]"

definition de_Node :: "json \<Rightarrow> Node option" where
  "de_Node = de_object (\<lambda>obj. do {
     x0 \<leftarrow> de_field de_string ''nodeId'' obj;
     x1 \<leftarrow> de_field de_string ''deviceId'' obj;
     x2 \<leftarrow> de_field de_string ''nodePublicKey'' obj;
     x3 \<leftarrow> de_field (de_list de_string) ''networkIds'' obj;
     x4 \<leftarrow> de_field (de_list de_string) ''capabilities'' obj;
     Some \<lparr>Node.node_id = x0, device_id = x1, node_public_key = x2, network_ids = x3, capabilities = x4\<rparr> })"

interpretation Node_wire: wire_type se_Node de_Node "\<lambda>_. True"
  by unfold_locales (simp_all add: se_Node_def de_Node_def wire_simps)

declare Node_wire.wire_laws [wire_simps]

section \<open>Networks\<close>

definition se_DnsConfig :: "DnsConfig \<Rightarrow> json" where
  "se_DnsConfig r =
     JObj [(''servers'', se_list JStr (DnsConfig.servers r)),
           (''searchDomains'', se_list JStr (DnsConfig.search_domains r))]"

definition de_DnsConfig :: "json \<Rightarrow> DnsConfig option" where
  "de_DnsConfig = de_object (\<lambda>obj. do {
     x0 \<leftarrow> de_field (de_list de_string) ''servers'' obj;
     x1 \<leftarrow> de_field (de_list de_string) ''searchDomains'' obj;
     Some \<lparr>DnsConfig.servers = x0, search_domains = x1\<rparr> })"

interpretation DnsConfig_wire: wire_type se_DnsConfig de_DnsConfig "\<lambda>_. True"
  by unfold_locales (simp_all add: se_DnsConfig_def de_DnsConfig_def wire_simps)

declare DnsConfig_wire.wire_laws [wire_simps]

definition se_ControlPlaneConfig :: "ControlPlaneConfig \<Rightarrow> json" where
  "se_ControlPlaneConfig r =
     JObj [(''wsUrl'', JStr (ControlPlaneConfig.ws_url r)),
           (''sessionToken'', se_option JStr (ControlPlaneConfig.session_token r)),
           (''heartbeatSeconds'', se_word (ControlPlaneConfig.heartbeat_seconds r))]"

definition de_ControlPlaneConfig :: "json \<Rightarrow> ControlPlaneConfig option" where
  "de_ControlPlaneConfig = de_object (\<lambda>obj. do {
     x0 \<leftarrow> de_field de_string ''wsUrl'' obj;
     x1 \<leftarrow> de_optional de_string ''sessionToken'' obj;
     x2 \<leftarrow> de_field de_word ''heartbeatSeconds'' obj;
     Some \<lparr>ControlPlaneConfig.ws_url = x0, session_token = x1, heartbeat_seconds = x2\<rparr> })"

interpretation ControlPlaneConfig_wire: wire_type se_ControlPlaneConfig de_ControlPlaneConfig "\<lambda>_. True"
  by unfold_locales (simp_all add: se_ControlPlaneConfig_def de_ControlPlaneConfig_def wire_simps)

declare ControlPlaneConfig_wire.wire_laws [wire_simps]

definition se_RelayEndpoint :: "RelayEndpoint \<Rightarrow> json" where
  "se_RelayEndpoint r =
     JObj [(''endpointId'', JStr (RelayEndpoint.endpoint_id r)),
           (''transport'', JStr (RelayEndpoint.transport r)), (''address'', JStr (RelayEndpoint.address r))]"

definition de_RelayEndpoint :: "json \<Rightarrow> RelayEndpoint option" where
  "de_RelayEndpoint = de_object (\<lambda>obj. do {
     x0 \<leftarrow> de_field de_string ''endpointId'' obj;
     x1 \<leftarrow> de_field de_string ''transport'' obj;
     x2 \<leftarrow> de_field de_string ''address'' obj;
     Some \<lparr>RelayEndpoint.endpoint_id = x0, transport = x1, address = x2\<rparr> })"

interpretation RelayEndpoint_wire: wire_type se_RelayEndpoint de_RelayEndpoint "\<lambda>_. True"
  by unfold_locales (simp_all add: se_RelayEndpoint_def de_RelayEndpoint_def wire_simps)

declare RelayEndpoint_wire.wire_laws [wire_simps]

definition se_RelayRegion :: "RelayRegion \<Rightarrow> json" where
  "se_RelayRegion r =
     JObj [(''regionId'', JStr (RelayRegion.region_id r)), (''regionName'', JStr (RelayRegion.region_name r)),
           (''countryCode'', se_option JStr (RelayRegion.country_code r)),
           (''countryName'', se_option JStr (RelayRegion.country_name r)),
           (''cityCode'', se_option JStr (RelayRegion.city_code r)),
           (''cityName'', se_option JStr (RelayRegion.city_name r)),
           (''clusterId'', se_option JStr (RelayRegion.cluster_id r)),
           (''clusterName'', se_option JStr (RelayRegion.cluster_name r)),
           (''endpoints'', se_list se_RelayEndpoint (RelayRegion.endpoints r))]"

definition de_RelayRegion :: "json \<Rightarrow> RelayRegion option" where
  "de_RelayRegion = de_object (\<lambda>obj. do {
     x0 \<leftarrow> de_field de_string ''regionId'' obj;
     x1 \<leftarrow> de_field de_string ''regionName'' obj;
     x2 \<leftarrow> de_optional de_string ''countryCode'' obj;
     x3 \<leftarrow> de_optional de_string ''countryName'' obj;
     x4 \<leftarrow> de_optional de_string ''cityCode'' obj;
     x5 \<leftarrow> de_optional de_string ''cityName'' obj;
     x6 \<leftarrow> de_optional de_string ''clusterId'' obj;
     x7 \<leftarrow> de_optional de_string ''clusterName'' obj;
     x8 \<leftarrow> de_field (de_list de_RelayEndpoint) ''endpoints'' obj;
     Some \<lparr>RelayRegion.region_id = x0, region_name = x1, country_code = x2, country_name = x3, city_code = x4,
           city_name = x5, cluster_id = x6, cluster_name = x7, endpoints = x8\<rparr> })"

interpretation RelayRegion_wire: wire_type se_RelayRegion de_RelayRegion "\<lambda>_. True"
  by unfold_locales (simp_all add: se_RelayRegion_def de_RelayRegion_def wire_simps)

declare RelayRegion_wire.wire_laws [wire_simps]

definition se_RelayNode :: "RelayNode \<Rightarrow> json" where
  "se_RelayNode r =
     JObj [(''nodeId'', JStr (RelayNode.node_id r)), (''transport'', JStr (RelayNode.transport r)),
           (''address'', JStr (RelayNode.address r)), (''priority'', se_word (RelayNode.priority r)),
           (''tags'', se_list JStr (RelayNode.tags r))]"

definition de_RelayNode :: "json \<Rightarrow> RelayNode option" where
  "de_RelayNode = de_object (\<lambda>obj. do {
     x0 \<leftarrow> de_field de_string ''nodeId'' obj;
     x1 \<leftarrow> de_field de_string ''transport'' obj;
     x2 \<leftarrow> de_field de_string ''address'' obj;
     x3 \<leftarrow> de_field de_word ''priority'' obj;
     x4 \<leftarrow> de_field (de_list de_string) ''tags'' obj;
     Some \<lparr>RelayNode.node_id = x0, transport = x1, address = x2, priority = x3, tags = x4\<rparr> })"

interpretation RelayNode_wire: wire_type se_RelayNode de_RelayNode "\<lambda>_. True"
  by unfold_locales (simp_all add: se_RelayNode_def de_RelayNode_def wire_simps)

declare RelayNode_wire.wire_laws [wire_simps]

definition se_RelayCluster :: "RelayCluster \<Rightarrow> json" where
  "se_RelayCluster r =
     JObj [(''clusterId'', JStr (RelayCluster.cluster_id r)),
           (''clusterName'', JStr (RelayCluster.cluster_name r)),
           (''nodes'', se_list se_RelayNode (RelayCluster.nodes r))]"

definition de_RelayCluster :: "json \<Rightarrow> RelayCluster option" where
  "de_RelayCluster = de_object (\<lambda>obj. do {
     x0 \<leftarrow> de_field de_string ''clusterId'' obj;
     x1 \<leftarrow> de_field de_string ''clusterName'' obj;
     x2 \<leftarrow> de_field (de_list de_RelayNode) ''nodes'' obj;
     Some \<lparr>RelayCluster.cluster_id = x0, cluster_name = x1, nodes = x2\<rparr> })"

interpretation RelayCluster_wire: wire_type se_RelayCluster de_RelayCluster "\<lambda>_. True"
  by unfold_locales (simp_all add: se_RelayCluster_def de_RelayCluster_def wire_simps)

declare RelayCluster_wire.wire_laws [wire_simps]

definition se_RelayCity :: "RelayCity \<Rightarrow> json" where
  "se_RelayCity r =
     JObj [(''cityCode'', JStr (RelayCity.city_code r)), (''cityName'', JStr (RelayCity.city_name r)),
           (''clusters'', se_list se_RelayCluster (RelayCity.clusters r))]"

definition de_RelayCity :: "json \<Rightarrow> RelayCity option" where
  "de_RelayCity = de_object (\<lambda>obj. do {
     x0 \<leftarrow> de_field de_string ''cityCode'' obj;
     x1 \<leftarrow> de_field de_string ''cityName'' obj;
     x2 \<leftarrow> de_field (de_list de_RelayCluster) ''clusters'' obj;
     Some \<lparr>RelayCity.city_code = x0, city_name = x1, clusters = x2\<rparr> })"

interpretation RelayCity_wire: wire_type se_RelayCity de_RelayCity "\<lambda>_. True"
  by unfold_locales (simp_all add: se_RelayCity_def de_RelayCity_def wire_simps)

declare RelayCity_wire.wire_laws [wire_simps]

definition se_RelayCountry :: "RelayCountry \<Rightarrow> json" where
  "se_RelayCountry r =
     JObj [(''countryCode'', JStr (RelayCountry.country_code r)),
           (''countryName'', JStr (RelayCountry.country_name r)),
           (''cities'', se_list se_RelayCity (RelayCountry.cities r))]"

definition de_RelayCountry :: "json \<Rightarrow> RelayCountry option" where
  "de_RelayCountry = de_object (\<lambda>obj. do {
     x0 \<leftarrow> de_field de_string ''countryCode'' obj;
     x1 \<leftarrow> de_field de_string ''countryName'' obj;
     x2 \<leftarrow> de_field (de_list de_RelayCity) ''cities'' obj;
     Some \<lparr>RelayCountry.country_code = x0, country_name = x1, cities = x2\<rparr> })"

interpretation RelayCountry_wire: wire_type se_RelayCountry de_RelayCountry "\<lambda>_. True"
  by unfold_locales (simp_all add: se_RelayCountry_def de_RelayCountry_def wire_simps)

declare RelayCountry_wire.wire_laws [wire_simps]

definition se_RelayConfig :: "RelayConfig \<Rightarrow> json" where
  "se_RelayConfig r =
     JObj [(''defaultClusterId'', JStr (RelayConfig.default_cluster_id r)),
           (''countries'', se_list se_RelayCountry (RelayConfig.countries r))]"

definition de_RelayConfig :: "json \<Rightarrow> RelayConfig option" where
  "de_RelayConfig = de_object (\<lambda>obj. do {
     x0 \<leftarrow> de_field de_string ''defaultClusterId'' obj;
     x1 \<leftarrow> de_field (de_list de_RelayCountry) ''countries'' obj;
     Some \<lparr>RelayConfig.default_cluster_id = x0, countries = x1\<rparr> })"

interpretation RelayConfig_wire: wire_type se_RelayConfig de_RelayConfig "\<lambda>_. True"
  by unfold_locales (simp_all add: se_RelayConfig_def de_RelayConfig_def wire_simps)

declare RelayConfig_wire.wire_laws [wire_simps]

definition se_NetworkMember :: "NetworkMember \<Rightarrow> json" where
  "se_NetworkMember r =
     JObj [(''deviceId'', JStr (NetworkMember.device_id r)), (''role'', JStr (NetworkMember.role r)),
           (''virtualIp'', se_option JStr (NetworkMember.virtual_ip r))]"

definition de_NetworkMember :: "json \<Rightarrow> NetworkMember option" where
  "de_NetworkMember = de_object (\<lambda>obj. do {
     x0 \<leftarrow> de_field de_string ''deviceId'' obj;
     x1 \<leftarrow> de_field de_string ''role'' obj;
     x2 \<leftarrow> de_optional de_string ''virtualIp'' obj;
     Some \<lparr>NetworkMember.device_id = x0, role = x1, virtual_ip = x2\<rparr> })"

interpretation NetworkMember_wire: wire_type se_NetworkMember de_NetworkMember "\<lambda>_. True"
  by unfold_locales (simp_all add: se_NetworkMember_def de_NetworkMember_def wire_simps)

declare NetworkMember_wire.wire_laws [wire_simps]

definition se_Network :: "Network \<Rightarrow> json" where
  "se_Network r =
     JObj [(''networkId'', JStr (Network.network_id r)), (''name'', JStr (Network.name r)),
           (''cidr'', JStr (Network.cidr r)), (''members'', se_list se_NetworkMember (Network.members r))]"

definition de_Network :: "json \<Rightarrow> Network option" where
  "de_Network = de_object (\<lambda>obj. do {
     x0 \<leftarrow> de_field de_string ''networkId'' obj;
     x1 \<leftarrow> de_field de_string ''name'' obj;
     x2 \<leftarrow> de_field de_string ''cidr'' obj;
     x3 \<leftarrow> de_field (de_list de_NetworkMember) ''members'' obj;
     Some \<lparr>Network.network_id = x0, name = x1, cidr = x2, members = x3\<rparr> })"

interpretation Network_wire: wire_type se_Network de_Network "\<lambda>_. True"
  by unfold_locales (simp_all add: se_Network_def de_Network_def wire_simps)

declare Network_wire.wire_laws [wire_simps]

definition se_Endpoint :: "Endpoint \<Rightarrow> json" where
  "se_Endpoint r =
     JObj [(''endpointType'', JStr (Endpoint.endpoint_type r)), (''address'', JStr (Endpoint.address r)),
           (''updatedAt'', JNum (Endpoint.updated_at r))]"

definition de_Endpoint :: "json \<Rightarrow> Endpoint option" where
  "de_Endpoint = de_object (\<lambda>obj. do {
     x0 \<leftarrow> de_field de_string ''endpointType'' obj;
     x1 \<leftarrow> de_field de_string ''address'' obj;
     x2 \<leftarrow> de_field de_i64 ''updatedAt'' obj;
     Some \<lparr>Endpoint.endpoint_type = x0, address = x1, updated_at = x2\<rparr> })"

definition fits_Endpoint :: "Endpoint \<Rightarrow> bool" where
  "fits_Endpoint r \<longleftrightarrow> fits_i64 (Endpoint.updated_at r)"

interpretation Endpoint_wire: wire_type se_Endpoint de_Endpoint "fits_Endpoint"
  by unfold_locales (simp_all add: se_Endpoint_def de_Endpoint_def fits_Endpoint_def wire_simps)

declare Endpoint_wire.wire_laws [wire_simps]

definition se_Peer :: "Peer \<Rightarrow> json" where
  "se_Peer r =
     JObj [(''nodeId'', JStr (Peer.node_id r)), (''deviceId'', JStr (Peer.device_id r)),
           (''publicKey'', JStr (Peer.public_key r)), (''status'', JStr (Peer.status r)),
           (''relayAllowed'', JBool (Peer.relay_allowed r)),
           (''virtualIps'', se_list JStr (Peer.virtual_ips r)),
           (''endpoints'', se_list se_Endpoint (Peer.endpoints r)),
           (''allowedRoutes'', se_list JStr (Peer.allowed_routes r))]"

definition de_Peer :: "json \<Rightarrow> Peer option" where
  "de_Peer = de_object (\<lambda>obj. do {
     x0 \<leftarrow> de_field de_string ''nodeId'' obj;
     x1 \<leftarrow> de_field de_string ''deviceId'' obj;
     x2 \<leftarrow> de_field de_string ''publicKey'' obj;
     x3 \<leftarrow> de_field de_string ''status'' obj;
     x4 \<leftarrow> de_field de_bool ''relayAllowed'' obj;
     x5 \<leftarrow> de_field (de_list de_string) ''virtualIps'' obj;
     x6 \<leftarrow> de_field (de_list de_Endpoint) ''endpoints'' obj;
     x7 \<leftarrow> de_field (de_list de_string) ''allowedRoutes'' obj;
     Some \<lparr>Peer.node_id = x0, device_id = x1, public_key = x2, status = x3, relay_allowed = x4,
           virtual_ips = x5, endpoints = x6, allowed_routes = x7\<rparr> })"

definition fits_Peer :: "Peer \<Rightarrow> bool" where
  "fits_Peer r \<longleftrightarrow> list_all fits_Endpoint (Peer.endpoints r)"

interpretation Peer_wire: wire_type se_Peer de_Peer "fits_Peer"
  by unfold_locales (simp_all add: se_Peer_def de_Peer_def fits_Peer_def wire_simps)

declare Peer_wire.wire_laws [wire_simps]

definition se_Route :: "Route \<Rightarrow> json" where
  "se_Route r =
     JObj [(''cidr'', JStr (Route.cidr r)), (''viaNodeId'', JStr (Route.via_node_id r)),
           (''metric'', se_option JStr (Route.metric r))]"

definition de_Route :: "json \<Rightarrow> Route option" where
  "de_Route = de_object (\<lambda>obj. do {
     x0 \<leftarrow> de_field de_string ''cidr'' obj;
     x1 \<leftarrow> de_field de_string ''viaNodeId'' obj;
     x2 \<leftarrow> de_optional de_string ''metric'' obj;
     Some \<lparr>Route.cidr = x0, via_node_id = x1, metric = x2\<rparr> })"

interpretation Route_wire: wire_type se_Route de_Route "\<lambda>_. True"
  by unfold_locales (simp_all add: se_Route_def de_Route_def wire_simps)

declare Route_wire.wire_laws [wire_simps]

definition se_NetworkMap :: "NetworkMap \<Rightarrow> json" where
  "se_NetworkMap r =
     JObj [(''selfUserId'', JStr (NetworkMap.self_user_id r)),
           (''selfDeviceId'', JStr (NetworkMap.self_device_id r)),
           (''selfNodeId'', JStr (NetworkMap.self_node_id r)), (''networkId'', JStr (NetworkMap.network_id r)),
           (''revision'', se_word (NetworkMap.revision r)),
           (''heartbeatSeconds'', se_word (NetworkMap.heartbeat_seconds r)),
           (''stunServers'', se_list JStr (NetworkMap.stun_servers r)),
           (''peers'', se_list se_Peer (NetworkMap.peers r)),
           (''routes'', se_list se_Route (NetworkMap.routes r)),
           (''relayRegions'', se_list se_RelayRegion (NetworkMap.relay_regions r)),
           (''dns'', se_DnsConfig (NetworkMap.dns r)), (''mtu'', se_option se_word (NetworkMap.mtu r))]"

definition de_NetworkMap :: "json \<Rightarrow> NetworkMap option" where
  "de_NetworkMap = de_object (\<lambda>obj. do {
     x0 \<leftarrow> de_field de_string ''selfUserId'' obj;
     x1 \<leftarrow> de_field de_string ''selfDeviceId'' obj;
     x2 \<leftarrow> de_field de_string ''selfNodeId'' obj;
     x3 \<leftarrow> de_field de_string ''networkId'' obj;
     x4 \<leftarrow> de_field de_word ''revision'' obj;
     x5 \<leftarrow> de_field de_word ''heartbeatSeconds'' obj;
     x6 \<leftarrow> de_field (de_list de_string) ''stunServers'' obj;
     x7 \<leftarrow> de_field (de_list de_Peer) ''peers'' obj;
     x8 \<leftarrow> de_field (de_list de_Route) ''routes'' obj;
     x9 \<leftarrow> de_field (de_list de_RelayRegion) ''relayRegions'' obj;
     x10 \<leftarrow> de_field de_DnsConfig ''dns'' obj;
     x11 \<leftarrow> de_optional de_word ''mtu'' obj;
     Some \<lparr>NetworkMap.self_user_id = x0, self_device_id = x1, self_node_id = x2, network_id = x3, revision = x4,
           heartbeat_seconds = x5, stun_servers = x6, peers = x7, routes = x8, relay_regions = x9, dns = x10,
           mtu = x11\<rparr> })"

definition fits_NetworkMap :: "NetworkMap \<Rightarrow> bool" where
  "fits_NetworkMap r \<longleftrightarrow> list_all fits_Peer (NetworkMap.peers r)"

interpretation NetworkMap_wire: wire_type se_NetworkMap de_NetworkMap "fits_NetworkMap"
  by unfold_locales (simp_all add: se_NetworkMap_def de_NetworkMap_def fits_NetworkMap_def wire_simps)

declare NetworkMap_wire.wire_laws [wire_simps]

section \<open>DERP and bootstrap\<close>

definition se_DerpNodeMeta :: "DerpNodeMeta \<Rightarrow> json" where
  "se_DerpNodeMeta r =
     JObj [(''clusterId'', JStr (DerpNodeMeta.cluster_id r)), (''regionId'', JStr (DerpNodeMeta.region_id r)),
           (''countryCode'', se_option JStr (DerpNodeMeta.country_code r)),
           (''countryName'', se_option JStr (DerpNodeMeta.country_name r)),
           (''cityCode'', se_option JStr (DerpNodeMeta.city_code r)),
           (''cityName'', se_option JStr (DerpNodeMeta.city_name r)),
           (''nodeId'', JStr (DerpNodeMeta.node_id r)), (''host'', JStr (DerpNodeMeta.host r)),
           (''port'', se_word (DerpNodeMeta.port r)),
           (''transport'', se_DerpTransport (DerpNodeMeta.transport r)),
           (''priority'', se_word (DerpNodeMeta.priority r)), (''tags'', se_list JStr (DerpNodeMeta.tags r))]"

definition de_DerpNodeMeta :: "json \<Rightarrow> DerpNodeMeta option" where
  "de_DerpNodeMeta = de_object (\<lambda>obj. do {
     x0 \<leftarrow> de_field de_string ''clusterId'' obj;
     x1 \<leftarrow> de_field de_string ''regionId'' obj;
     x2 \<leftarrow> de_optional de_string ''countryCode'' obj;
     x3 \<leftarrow> de_optional de_string ''countryName'' obj;
     x4 \<leftarrow> de_optional de_string ''cityCode'' obj;
     x5 \<leftarrow> de_optional de_string ''cityName'' obj;
     x6 \<leftarrow> de_field de_string ''nodeId'' obj;
     x7 \<leftarrow> de_field de_string ''host'' obj;
     x8 \<leftarrow> de_field de_word ''port'' obj;
     x9 \<leftarrow> de_field de_DerpTransport ''transport'' obj;
     x10 \<leftarrow> de_field de_word ''priority'' obj;
     x11 \<leftarrow> de_field (de_list de_string) ''tags'' obj;
     Some \<lparr>DerpNodeMeta.cluster_id = x0, region_id = x1, country_code = x2, country_name = x3, city_code = x4,
           city_name = x5, node_id = x6, host = x7, port = x8, transport = x9, priority = x10, tags = x11\<rparr> })"

interpretation DerpNodeMeta_wire: wire_type se_DerpNodeMeta de_DerpNodeMeta "\<lambda>_. True"
  by unfold_locales (simp_all add: se_DerpNodeMeta_def de_DerpNodeMeta_def wire_simps)

declare DerpNodeMeta_wire.wire_laws [wire_simps]

definition se_DerpCluster :: "DerpCluster \<Rightarrow> json" where
  "se_DerpCluster r =
     JObj [(''clusterId'', JStr (DerpCluster.cluster_id r)),
           (''clusterName'', se_option JStr (DerpCluster.cluster_name r)),
           (''regionId'', JStr (DerpCluster.region_id r)), (''regionName'', JStr (DerpCluster.region_name r)),
           (''countryCode'', se_option JStr (DerpCluster.country_code r)),
           (''countryName'', se_option JStr (DerpCluster.country_name r)),
           (''cityCode'', se_option JStr (DerpCluster.city_code r)),
           (''cityName'', se_option JStr (DerpCluster.city_name r)),
           (''recommendedFanout'', se_word (DerpCluster.recommended_fanout r)),
           (''nodes'', se_list se_DerpNodeMeta (DerpCluster.nodes r))]"

definition de_DerpCluster :: "json \<Rightarrow> DerpCluster option" where
  "de_DerpCluster = de_object (\<lambda>obj. do {
     x0 \<leftarrow> de_field de_string ''clusterId'' obj;
     x1 \<leftarrow> de_optional de_string ''clusterName'' obj;
     x2 \<leftarrow> de_field de_string ''regionId'' obj;
     x3 \<leftarrow> de_field de_string ''regionName'' obj;
     x4 \<leftarrow> de_optional de_string ''countryCode'' obj;
     x5 \<leftarrow> de_optional de_string ''countryName'' obj;
     x6 \<leftarrow> de_optional de_string ''cityCode'' obj;
     x7 \<leftarrow> de_optional de_string ''cityName'' obj;
     x8 \<leftarrow> de_field de_word ''recommendedFanout'' obj;
     x9 \<leftarrow> de_field (de_list de_DerpNodeMeta) ''nodes'' obj;
     Some \<lparr>DerpCluster.cluster_id = x0, cluster_name = x1, region_id = x2, region_name = x3, country_code = x4,
           country_name = x5, city_code = x6, city_name = x7, recommended_fanout = x8, nodes = x9\<rparr> })"

interpretation DerpCluster_wire: wire_type se_DerpCluster de_DerpCluster "\<lambda>_. True"
  by unfold_locales (simp_all add: se_DerpCluster_def de_DerpCluster_def wire_simps)

declare DerpCluster_wire.wire_laws [wire_simps]

definition se_DerpMap :: "DerpMap \<Rightarrow> json" where
  "se_DerpMap r =
     JObj [(''probeIntervalSeconds'', se_word (DerpMap.probe_interval_seconds r)),
           (''clusters'', se_list se_DerpCluster (DerpMap.clusters r))]"

definition de_DerpMap :: "json \<Rightarrow> DerpMap option" where
  "de_DerpMap = de_object (\<lambda>obj. do {
     x0 \<leftarrow> de_field de_word ''probeIntervalSeconds'' obj;
     x1 \<leftarrow> de_field (de_list de_DerpCluster) ''clusters'' obj;
     Some \<lparr>DerpMap.probe_interval_seconds = x0, clusters = x1\<rparr> })"

interpretation DerpMap_wire: wire_type se_DerpMap de_DerpMap "\<lambda>_. True"
  by unfold_locales (simp_all add: se_DerpMap_def de_DerpMap_def wire_simps)

declare DerpMap_wire.wire_laws [wire_simps]

definition se_BootstrapConfig :: "BootstrapConfig \<Rightarrow> json" where
  "se_BootstrapConfig r =
     JObj [(''device'', se_Device (BootstrapConfig.device r)),
           (''networks'', se_list se_Network (BootstrapConfig.networks r)),
           (''controlPlane'', se_ControlPlaneConfig (BootstrapConfig.control_plane r)),
           (''stunServers'', se_list JStr (BootstrapConfig.stun_servers r)),
           (''relay'', se_RelayConfig (BootstrapConfig.relay r)),
           (''derpMap'', se_option se_DerpMap (BootstrapConfig.derp_map r)),
           (''networkMap'', se_option se_NetworkMap (BootstrapConfig.network_map r))]"

definition de_BootstrapConfig :: "json \<Rightarrow> BootstrapConfig option" where
  "de_BootstrapConfig = de_object (\<lambda>obj. do {
     x0 \<leftarrow> de_field de_Device ''device'' obj;
     x1 \<leftarrow> de_field (de_list de_Network) ''networks'' obj;
     x2 \<leftarrow> de_field de_ControlPlaneConfig ''controlPlane'' obj;
     x3 \<leftarrow> de_field (de_list de_string) ''stunServers'' obj;
     x4 \<leftarrow> de_field de_RelayConfig ''relay'' obj;
     x5 \<leftarrow> de_optional de_DerpMap ''derpMap'' obj;
     x6 \<leftarrow> de_optional de_NetworkMap ''networkMap'' obj;
     Some \<lparr>BootstrapConfig.device = x0, networks = x1, control_plane = x2, stun_servers = x3, relay = x4,
           derp_map = x5, network_map = x6\<rparr> })"

definition fits_BootstrapConfig :: "BootstrapConfig \<Rightarrow> bool" where
  "fits_BootstrapConfig r \<longleftrightarrow> pred_option fits_NetworkMap (BootstrapConfig.network_map r)"

interpretation BootstrapConfig_wire: wire_type se_BootstrapConfig de_BootstrapConfig "fits_BootstrapConfig"
  by unfold_locales (simp_all add: se_BootstrapConfig_def de_BootstrapConfig_def fits_BootstrapConfig_def wire_simps)

declare BootstrapConfig_wire.wire_laws [wire_simps]

section \<open>Tunnel and views\<close>

definition se_WireGuardKeyPair :: "WireGuardKeyPair \<Rightarrow> json" where
  "se_WireGuardKeyPair r =
     JObj [(''publicKey'', JStr (WireGuardKeyPair.public_key r)),
           (''privateKey'', JStr (WireGuardKeyPair.private_key r))]"

definition de_WireGuardKeyPair :: "json \<Rightarrow> WireGuardKeyPair option" where
  "de_WireGuardKeyPair = de_object (\<lambda>obj. do {
     x0 \<leftarrow> de_field de_string ''publicKey'' obj;
     x1 \<leftarrow> de_field de_string ''privateKey'' obj;
     Some \<lparr>WireGuardKeyPair.public_key = x0, private_key = x1\<rparr> })"

interpretation WireGuardKeyPair_wire: wire_type se_WireGuardKeyPair de_WireGuardKeyPair "\<lambda>_. True"
  by unfold_locales (simp_all add: se_WireGuardKeyPair_def de_WireGuardKeyPair_def wire_simps)

declare WireGuardKeyPair_wire.wire_laws [wire_simps]

definition se_TunnelKeyMaterial :: "TunnelKeyMaterial \<Rightarrow> json" where
  "se_TunnelKeyMaterial r =
     JObj [(''deviceId'', se_option JStr (TunnelKeyMaterial.device_id r)),
           (''nodeId'', se_option JStr (TunnelKeyMaterial.node_id r)),
           (''keyPair'', se_WireGuardKeyPair (TunnelKeyMaterial.key_pair r)),
           (''createdAtMs'', se_word (TunnelKeyMaterial.created_at_ms r))]"

definition de_TunnelKeyMaterial :: "json \<Rightarrow> TunnelKeyMaterial option" where
  "de_TunnelKeyMaterial = de_object (\<lambda>obj. do {
     x0 \<leftarrow> de_optional de_string ''deviceId'' obj;
     x1 \<leftarrow> de_optional de_string ''nodeId'' obj;
     x2 \<leftarrow> de_field de_WireGuardKeyPair ''keyPair'' obj;
     x3 \<leftarrow> de_field de_word ''createdAtMs'' obj;
     Some \<lparr>TunnelKeyMaterial.device_id = x0, node_id = x1, key_pair = x2, created_at_ms = x3\<rparr> })"

interpretation TunnelKeyMaterial_wire: wire_type se_TunnelKeyMaterial de_TunnelKeyMaterial "\<lambda>_. True"
  by unfold_locales (simp_all add: se_TunnelKeyMaterial_def de_TunnelKeyMaterial_def wire_simps)

declare TunnelKeyMaterial_wire.wire_laws [wire_simps]

definition se_AllowedIp :: "AllowedIp \<Rightarrow> json" where
  "se_AllowedIp r =
     JObj [(''cidr'', JStr (AllowedIp.cidr r))]"

definition de_AllowedIp :: "json \<Rightarrow> AllowedIp option" where
  "de_AllowedIp = de_object (\<lambda>obj. do {
     x0 \<leftarrow> de_field de_string ''cidr'' obj;
     Some \<lparr>AllowedIp.cidr = x0\<rparr> })"

interpretation AllowedIp_wire: wire_type se_AllowedIp de_AllowedIp "\<lambda>_. True"
  by unfold_locales (simp_all add: se_AllowedIp_def de_AllowedIp_def wire_simps)

declare AllowedIp_wire.wire_laws [wire_simps]

definition se_WireGuardPeerConfig :: "WireGuardPeerConfig \<Rightarrow> json" where
  "se_WireGuardPeerConfig r =
     JObj [(''peerNodeId'', se_option JStr (WireGuardPeerConfig.peer_node_id r)),
           (''publicKey'', JStr (WireGuardPeerConfig.public_key r)),
           (''presharedKey'', se_option JStr (WireGuardPeerConfig.preshared_key r)),
           (''endpoint'', se_option JStr (WireGuardPeerConfig.endpoint r)),
           (''allowedIps'', se_list se_AllowedIp (WireGuardPeerConfig.allowed_ips r)),
           (''persistentKeepaliveSeconds'', se_option se_word (WireGuardPeerConfig.persistent_keepalive_seconds r))]"

definition de_WireGuardPeerConfig :: "json \<Rightarrow> WireGuardPeerConfig option" where
  "de_WireGuardPeerConfig = de_object (\<lambda>obj. do {
     x0 \<leftarrow> de_optional de_string ''peerNodeId'' obj;
     x1 \<leftarrow> de_field de_string ''publicKey'' obj;
     x2 \<leftarrow> de_optional de_string ''presharedKey'' obj;
     x3 \<leftarrow> de_optional de_string ''endpoint'' obj;
     x4 \<leftarrow> de_field (de_list de_AllowedIp) ''allowedIps'' obj;
     x5 \<leftarrow> de_optional de_word ''persistentKeepaliveSeconds'' obj;
     Some \<lparr>WireGuardPeerConfig.peer_node_id = x0, public_key = x1, preshared_key = x2, endpoint = x3,
           allowed_ips = x4, persistent_keepalive_seconds = x5\<rparr> })"

interpretation WireGuardPeerConfig_wire: wire_type se_WireGuardPeerConfig de_WireGuardPeerConfig "\<lambda>_. True"
  by unfold_locales (simp_all add: se_WireGuardPeerConfig_def de_WireGuardPeerConfig_def wire_simps)

declare WireGuardPeerConfig_wire.wire_laws [wire_simps]

definition se_WireGuardInterfaceConfig :: "WireGuardInterfaceConfig \<Rightarrow> json" where
  "se_WireGuardInterfaceConfig r =
     JObj [(''interfaceName'', se_option JStr (WireGuardInterfaceConfig.interface_name r)),
           (''keyPair'', se_WireGuardKeyPair (WireGuardInterfaceConfig.key_pair r)),
           (''listenPort'', se_option se_word (WireGuardInterfaceConfig.listen_port r)),
           (''mtu'', se_option se_word (WireGuardInterfaceConfig.mtu r)),
           (''addresses'', se_list JStr (WireGuardInterfaceConfig.addresses r)),
           (''dnsServers'', se_list JStr (WireGuardInterfaceConfig.dns_servers r)),
           (''peers'', se_list se_WireGuardPeerConfig (WireGuardInterfaceConfig.peers r))]"

definition de_WireGuardInterfaceConfig :: "json \<Rightarrow> WireGuardInterfaceConfig option" where
  "de_WireGuardInterfaceConfig = de_object (\<lambda>obj. do {
     x0 \<leftarrow> de_optional de_string ''interfaceName'' obj;
     x1 \<leftarrow> de_field de_WireGuardKeyPair ''keyPair'' obj;
     x2 \<leftarrow> de_optional de_word ''listenPort'' obj;
     x3 \<leftarrow> de_optional de_word ''mtu'' obj;
     x4 \<leftarrow> de_field (de_list de_string) ''addresses'' obj;
     x5 \<leftarrow> de_field (de_list de_string) ''dnsServers'' obj;
     x6 \<leftarrow> de_field (de_list de_WireGuardPeerConfig) ''peers'' obj;
     Some \<lparr>WireGuardInterfaceConfig.interface_name = x0, key_pair = x1, listen_port = x2, mtu = x3,
           addresses = x4, dns_servers = x5, peers = x6\<rparr> })"

interpretation WireGuardInterfaceConfig_wire: wire_type se_WireGuardInterfaceConfig de_WireGuardInterfaceConfig "\<lambda>_. True"
  by unfold_locales (simp_all add: se_WireGuardInterfaceConfig_def de_WireGuardInterfaceConfig_def wire_simps)

declare WireGuardInterfaceConfig_wire.wire_laws [wire_simps]

definition se_TunnelRuntimeView :: "TunnelRuntimeView \<Rightarrow> json" where
  "se_TunnelRuntimeView r =
     JObj [(''state'', se_TunnelState (TunnelRuntimeView.state r)),
           (''transport'', se_TunnelTransport (TunnelRuntimeView.transport r)),
           (''peerVirtualIp'', JStr (TunnelRuntimeView.peer_virtual_ip r)),
           (''peerPublicKey'', JStr (TunnelRuntimeView.peer_public_key r)),
           (''selectedEndpoint'', se_option JStr (TunnelRuntimeView.selected_endpoint r)),
           (''interfaceName'', se_option JStr (TunnelRuntimeView.interface_name r))]"

definition de_TunnelRuntimeView :: "json \<Rightarrow> TunnelRuntimeView option" where
  "de_TunnelRuntimeView = de_object (\<lambda>obj. do {
     x0 \<leftarrow> de_field de_TunnelState ''state'' obj;
     x1 \<leftarrow> de_field de_TunnelTransport ''transport'' obj;
     x2 \<leftarrow> de_field de_string ''peerVirtualIp'' obj;
     x3 \<leftarrow> de_field de_string ''peerPublicKey'' obj;
     x4 \<leftarrow> de_optional de_string ''selectedEndpoint'' obj;
     x5 \<leftarrow> de_optional de_string ''interfaceName'' obj;
     Some \<lparr>TunnelRuntimeView.state = x0, transport = x1, peer_virtual_ip = x2, peer_public_key = x3,
           selected_endpoint = x4, interface_name = x5\<rparr> })"

interpretation TunnelRuntimeView_wire: wire_type se_TunnelRuntimeView de_TunnelRuntimeView "\<lambda>_. True"
  by unfold_locales (simp_all add: se_TunnelRuntimeView_def de_TunnelRuntimeView_def wire_simps)

declare TunnelRuntimeView_wire.wire_laws [wire_simps]

definition se_DataPlaneError :: "DataPlaneError \<Rightarrow> json" where
  "se_DataPlaneError r =
     JObj [(''code'', se_DataPlaneErrorCode (DataPlaneError.code r)),
           (''message'', JStr (DataPlaneError.message r))]"

definition de_DataPlaneError :: "json \<Rightarrow> DataPlaneError option" where
  "de_DataPlaneError = de_object (\<lambda>obj. do {
     x0 \<leftarrow> de_field de_DataPlaneErrorCode ''code'' obj;
     x1 \<leftarrow> de_field de_string ''message'' obj;
     Some \<lparr>DataPlaneError.code = x0, message = x1\<rparr> })"

interpretation DataPlaneError_wire: wire_type se_DataPlaneError de_DataPlaneError "\<lambda>_. True"
  by unfold_locales (simp_all add: se_DataPlaneError_def de_DataPlaneError_def wire_simps)

declare DataPlaneError_wire.wire_laws [wire_simps]

definition se_DataPlaneProbe :: "DataPlaneProbe \<Rightarrow> json" where
  "se_DataPlaneProbe r =
     JObj [(''probeId'', JStr (DataPlaneProbe.probe_id r)),
           (''sampledAtMs'', se_word (DataPlaneProbe.sampled_at_ms r)),
           (''activePath'', se_ActivePath (DataPlaneProbe.active_path r)),
           (''bytesSent'', se_usize (DataPlaneProbe.bytes_sent r)),
           (''replyObserved'', JBool (DataPlaneProbe.reply_observed r)),
           (''replyBytesReceived'', se_option se_usize (DataPlaneProbe.reply_bytes_received r)),
           (''replySampledAtMs'', se_option se_word (DataPlaneProbe.reply_sampled_at_ms r)),
           (''replyRttMs'', se_option se_word (DataPlaneProbe.reply_rtt_ms r)),
           (''tunnelPeerVirtualIp'', se_option JStr (DataPlaneProbe.tunnel_peer_virtual_ip r)),
           (''observedRttMs'', se_option se_word (DataPlaneProbe.observed_rtt_ms r)),
           (''packetLossPpm'', se_option se_word (DataPlaneProbe.packet_loss_ppm r)),
           (''pathScore'', se_option se_word (DataPlaneProbe.path_score r)),
           (''derpClusterId'', se_option JStr (DataPlaneProbe.derp_cluster_id r)),
           (''derpNodeId'', se_option JStr (DataPlaneProbe.derp_node_id r))]"

definition de_DataPlaneProbe :: "json \<Rightarrow> DataPlaneProbe option" where
  "de_DataPlaneProbe = de_object (\<lambda>obj. do {
     x0 \<leftarrow> de_field de_string ''probeId'' obj;
     x1 \<leftarrow> de_field de_word ''sampledAtMs'' obj;
     x2 \<leftarrow> de_field de_ActivePath ''activePath'' obj;
     x3 \<leftarrow> de_field de_usize ''bytesSent'' obj;
     x4 \<leftarrow> de_field de_bool ''replyObserved'' obj;
     x5 \<leftarrow> de_optional de_usize ''replyBytesReceived'' obj;
     x6 \<leftarrow> de_optional de_word ''replySampledAtMs'' obj;
     x7 \<leftarrow> de_optional de_word ''replyRttMs'' obj;
     x8 \<leftarrow> de_optional de_string ''tunnelPeerVirtualIp'' obj;
     x9 \<leftarrow> de_optional de_word ''observedRttMs'' obj;
     x10 \<leftarrow> de_optional de_word ''packetLossPpm'' obj;
     x11 \<leftarrow> de_optional de_word ''pathScore'' obj;
     x12 \<leftarrow> de_optional de_string ''derpClusterId'' obj;
     x13 \<leftarrow> de_optional de_string ''derpNodeId'' obj;
     Some \<lparr>DataPlaneProbe.probe_id = x0, sampled_at_ms = x1, active_path = x2, bytes_sent = x3,
           reply_observed = x4, reply_bytes_received = x5, reply_sampled_at_ms = x6, reply_rtt_ms = x7,
           tunnel_peer_virtual_ip = x8, observed_rtt_ms = x9, packet_loss_ppm = x10, path_score = x11,
           derp_cluster_id = x12, derp_node_id = x13\<rparr> })"

definition fits_DataPlaneProbe :: "DataPlaneProbe \<Rightarrow> bool" where
  "fits_DataPlaneProbe r \<longleftrightarrow> fits_usize (DataPlaneProbe.bytes_sent r) \<and> pred_option fits_usize (DataPlaneProbe.reply_bytes_received r)"

interpretation DataPlaneProbe_wire: wire_type se_DataPlaneProbe de_DataPlaneProbe "fits_DataPlaneProbe"
  by unfold_locales (simp_all add: se_DataPlaneProbe_def de_DataPlaneProbe_def fits_DataPlaneProbe_def wire_simps)

declare DataPlaneProbe_wire.wire_laws [wire_simps]

section \<open>Control plane\<close>

interpretation RelayTicket_wire: wire_type se_client_ticket de_client_ticket "\<lambda>_. True"
  by unfold_locales (simp_all add: se_client_ticket_def de_client_ticket_def se_list_def [symmetric] wire_simps)

declare RelayTicket_wire.wire_laws [wire_simps]

definition se_ControlWsPathOption :: "ControlWsPathOption \<Rightarrow> json" where
  "se_ControlWsPathOption r =
     JObj [(''pathType'', JStr (ControlWsPathOption.path_type r)), (''endpoint'', JStr (ControlWsPathOption.endpoint r)),
           (''priority'', JNum (ControlWsPathOption.priority r))]"

definition fits_ControlWsPathOption :: "ControlWsPathOption \<Rightarrow> bool" where
  "fits_ControlWsPathOption r \<longleftrightarrow> fits_i32 (ControlWsPathOption.priority r)"

interpretation ControlWsPathOption_wire: wire_type se_ControlWsPathOption de_path_option fits_ControlWsPathOption
  by unfold_locales (simp_all add: se_ControlWsPathOption_def de_path_option_def fits_ControlWsPathOption_def wire_simps)

declare ControlWsPathOption_wire.wire_laws [wire_simps]

definition se_ControlWsConnectPlan :: "ControlWsConnectPlan \<Rightarrow> json" where
  "se_ControlWsConnectPlan r =
     JObj [(''peerNodeId'', JStr (ControlWsConnectPlan.peer_node_id r)),
           (''preferDirect'', JBool (ControlWsConnectPlan.prefer_direct r)),
           (''paths'', se_list se_ControlWsPathOption (ControlWsConnectPlan.paths r)),
           (''derpClusterId'', JStr (ControlWsConnectPlan.derp_cluster_id r)),
           (''preferredDerpNodeIds'', se_list JStr (ControlWsConnectPlan.preferred_derp_node_ids r)),
           (''relayTicket'', se_option se_client_ticket (ControlWsConnectPlan.relay_ticket r))]"

definition fits_ControlWsConnectPlan :: "ControlWsConnectPlan \<Rightarrow> bool" where
  "fits_ControlWsConnectPlan r \<longleftrightarrow> list_all fits_ControlWsPathOption (ControlWsConnectPlan.paths r)"

interpretation ControlWsConnectPlan_wire: wire_type se_ControlWsConnectPlan de_connect_plan fits_ControlWsConnectPlan
  by unfold_locales
    (simp_all add: se_ControlWsConnectPlan_def de_connect_plan_def fits_ControlWsConnectPlan_def wire_simps)

declare ControlWsConnectPlan_wire.wire_laws [wire_simps]

definition se_ControlPathOptionView :: "ControlPathOptionView \<Rightarrow> json" where
  "se_ControlPathOptionView r =
     JObj [(''pathType'', JStr (ControlPathOptionView.path_type r)), (''endpoint'', JStr (ControlPathOptionView.endpoint r)),
           (''priority'', JNum (ControlPathOptionView.priority r))]"

definition se_ControlConnectPlanView :: "ControlConnectPlanView \<Rightarrow> json" where
  "se_ControlConnectPlanView r =
     JObj [(''peerNodeId'', JStr (ControlConnectPlanView.peer_node_id r)),
           (''preferDirect'', JBool (ControlConnectPlanView.prefer_direct r)),
           (''pathCount'', se_usize (ControlConnectPlanView.path_count r)),
           (''preferredPath'', se_option se_ControlPathOptionView (ControlConnectPlanView.preferred_path r)),
           (''derpClusterId'', se_option JStr (ControlConnectPlanView.derp_cluster_id r)),
           (''preferredDerpNodeIds'', se_list JStr (ControlConnectPlanView.preferred_derp_node_ids r)),
           (''relayTicketId'', se_option JStr (ControlConnectPlanView.relay_ticket_id r))]"

definition se_ControlStatusView :: "ControlStatusView \<Rightarrow> json" where
  "se_ControlStatusView r =
     JObj [(''status'', JStr (ControlStatusView.status r)), (''wsUrl'', se_option JStr (ControlStatusView.ws_url r)),
           (''heartbeatSeconds'', se_option se_word (ControlStatusView.heartbeat_seconds r)),
           (''sessionTokenPresent'', JBool (ControlStatusView.session_token_present r)),
           (''networkMapPresent'', JBool (ControlStatusView.network_map_present r)),
           (''networkId'', se_option JStr (ControlStatusView.network_id r)),
           (''nodeId'', se_option JStr (ControlStatusView.node_id r)),
           (''deviceId'', se_option JStr (ControlStatusView.device_id r)),
           (''peerCount'', se_usize (ControlStatusView.peer_count r)),
           (''connectPlanCount'', se_usize (ControlStatusView.connect_plan_count r)),
           (''connectPlans'', se_list se_ControlConnectPlanView (ControlStatusView.connect_plans r))]"

section \<open>The snapshot\<close>

text \<open>
  A hash map is written in the order in which it enumerates its keys, a parameter \<open>order\<close>, and read by inserting
  its entries one after the other.
\<close>

definition se_HashMap :: "(string fset \<Rightarrow> string list) \<Rightarrow> ('a \<Rightarrow> json) \<Rightarrow> (string, 'a) HashMap \<Rightarrow> json" where
  "se_HashMap order se m = JObj (map (\<lambda>k. (k, se (the (fmlookup m k)))) (order (fmdom m)))"

fun de_entries :: "(json \<Rightarrow> 'a option) \<Rightarrow> (string, 'a) HashMap \<Rightarrow> json_object \<Rightarrow> (string, 'a) HashMap option" where
  "de_entries de m [] = Some m"
| "de_entries de m ((k, v) # obj) = (case de v of None \<Rightarrow> None | Some x \<Rightarrow> de_entries de (fmupd k x m) obj)"

definition de_HashMap :: "(json \<Rightarrow> 'a option) \<Rightarrow> json \<Rightarrow> (string, 'a) HashMap option" where
  "de_HashMap de = de_object (de_entries de fmempty)"

definition enumerates :: "(string fset \<Rightarrow> string list) \<Rightarrow> bool" where
  "enumerates order \<longleftrightarrow> (\<forall>s. distinct (order s) \<and> set (order s) = fset s)"

lemma enumerates_sorted: "enumerates sorted_list_of_fset"
  by (simp add: enumerates_def sorted_list_of_fset.rep_eq)

lemma de_entries_written:
  assumes "\<And>k. k \<in> set ks \<Longrightarrow> de (se (f k)) = Some (f k)"
  shows "de_entries de m (map (\<lambda>k. (k, se (f k))) ks) = Some (fold (\<lambda>k. fmupd k (f k)) ks m)"
  using assms by (induction ks arbitrary: m) simp_all

lemma fold_fmupd_lookup:
  "fmlookup (fold (\<lambda>k. fmupd k (f k)) ks m) k = (if k \<in> set ks then Some (f k) else fmlookup m k)"
  by (induction ks arbitrary: m) auto

lemma de_HashMap_se:
  assumes "enumerates order" "\<And>x. fits x \<Longrightarrow> de (se x) = Some x" "fmpred (\<lambda>_. fits) m"
  shows "de_HashMap de (se_HashMap order se m) = Some m"
proof -
  have dom: "set (order (fmdom m)) = fset (fmdom m)"
    using assms(1) by (simp add: enumerates_def)
  have "de (se (the (fmlookup m k))) = Some (the (fmlookup m k))" if k: "k \<in> set (order (fmdom m))" for k
    using k assms(2,3) unfolding dom by (auto simp: fmlookup_dom_iff fmpred_iff)
  then have "de_HashMap de (se_HashMap order se m) =
      Some (fold (\<lambda>k. fmupd k (the (fmlookup m k))) (order (fmdom m)) fmempty)"
    unfolding de_HashMap_def se_HashMap_def de_object.simps
    by (rule de_entries_written[where f = "\<lambda>k. the (fmlookup m k)"])
  also have "fold (\<lambda>k. fmupd k (the (fmlookup m k))) (order (fmdom m)) fmempty = m"
  proof (rule fmap_ext)
    show "fmlookup (fold (\<lambda>k. fmupd k (the (fmlookup m k))) (order (fmdom m)) fmempty) k = fmlookup m k" for k
      by (cases "fmlookup m k") (simp_all add: fold_fmupd_lookup dom fmlookup_dom_iff)
  qed
  finally show ?thesis .
qed

definition se_AppCoreSnapshot :: "(string fset \<Rightarrow> string list) \<Rightarrow> AppCoreSnapshot \<Rightarrow> json" where
  "se_AppCoreSnapshot order r =
     JObj [(''session'', se_option se_Session (AppCoreSnapshot.session r)),
           (''current_device'', se_option se_Device (AppCoreSnapshot.current_device r)),
           (''current_node'', se_option se_Node (AppCoreSnapshot.current_node r)),
           (''tunnel_key_material'', se_option se_TunnelKeyMaterial (AppCoreSnapshot.tunnel_key_material r)),
           (''current_bootstrap'', se_option se_BootstrapConfig (AppCoreSnapshot.current_bootstrap r)),
           (''current_network_id'', se_option JStr (AppCoreSnapshot.current_network_id r)),
           (''connection_state'', se_option se_ConnectionState (AppCoreSnapshot.connection_state r)),
           (''current_connect_plans'', se_HashMap order se_ControlWsConnectPlan (AppCoreSnapshot.current_connect_plans r)),
           (''active_path'', se_option se_ActivePath (AppCoreSnapshot.active_path r)),
           (''tunnel_peer_virtual_ip'', se_option JStr (AppCoreSnapshot.tunnel_peer_virtual_ip r)),
           (''tunnel_runtime'', se_option se_TunnelRuntimeView (AppCoreSnapshot.tunnel_runtime r)),
           (''last_data_plane_error'', se_option se_DataPlaneError (AppCoreSnapshot.last_data_plane_error r)),
           (''last_probe'', se_option se_DataPlaneProbe (AppCoreSnapshot.last_probe r))]"

definition de_AppCoreSnapshot :: "json \<Rightarrow> AppCoreSnapshot option" where
  "de_AppCoreSnapshot = de_object (\<lambda>obj. do {
     x0 \<leftarrow> de_optional de_Session ''session'' obj;
     x1 \<leftarrow> de_optional de_Device ''current_device'' obj;
     x2 \<leftarrow> de_optional de_Node ''current_node'' obj;
     x3 \<leftarrow> de_optional de_TunnelKeyMaterial ''tunnel_key_material'' obj;
     x4 \<leftarrow> de_optional de_BootstrapConfig ''current_bootstrap'' obj;
     x5 \<leftarrow> de_optional de_string ''current_network_id'' obj;
     x6 \<leftarrow> de_optional de_ConnectionState ''connection_state'' obj;
     x7 \<leftarrow> de_field_default fmempty (de_HashMap de_connect_plan) ''current_connect_plans'' obj;
     x8 \<leftarrow> de_optional de_ActivePath ''active_path'' obj;
     x9 \<leftarrow> de_optional de_string ''tunnel_peer_virtual_ip'' obj;
     x10 \<leftarrow> de_optional de_TunnelRuntimeView ''tunnel_runtime'' obj;
     x11 \<leftarrow> de_optional de_DataPlaneError ''last_data_plane_error'' obj;
     x12 \<leftarrow> de_optional de_DataPlaneProbe ''last_probe'' obj;
     Some \<lparr>AppCoreSnapshot.session = x0, current_device = x1, current_node = x2, tunnel_key_material = x3,
           current_bootstrap = x4, current_network_id = x5, connection_state = x6, current_connect_plans = x7,
           active_path = x8, tunnel_peer_virtual_ip = x9, tunnel_runtime = x10, last_data_plane_error = x11,
           last_probe = x12\<rparr> })"

definition fits_AppCoreSnapshot :: "AppCoreSnapshot \<Rightarrow> bool" where
  "fits_AppCoreSnapshot r \<longleftrightarrow>
     pred_option fits_Session (AppCoreSnapshot.session r) \<and>
     pred_option fits_BootstrapConfig (AppCoreSnapshot.current_bootstrap r) \<and>
     fmpred (\<lambda>_. fits_ControlWsConnectPlan) (AppCoreSnapshot.current_connect_plans r) \<and>
     pred_option fits_DataPlaneProbe (AppCoreSnapshot.last_probe r)"

lemma AppCoreSnapshot_wire_type:
  assumes "enumerates order"
  shows "wire_type (se_AppCoreSnapshot order) de_AppCoreSnapshot fits_AppCoreSnapshot"
proof
  fix s assume "fits_AppCoreSnapshot s"
  moreover from this have "de_HashMap de_connect_plan
      (se_HashMap order se_ControlWsConnectPlan (AppCoreSnapshot.current_connect_plans s)) =
      Some (AppCoreSnapshot.current_connect_plans s)"
    unfolding fits_AppCoreSnapshot_def
    by (intro de_HashMap_se[OF assms ControlWsConnectPlan_wire.read_back]) blast+
  ultimately show "de_AppCoreSnapshot (se_AppCoreSnapshot order s) = Some s"
    by (simp add: de_AppCoreSnapshot_def se_AppCoreSnapshot_def fits_AppCoreSnapshot_def wire_simps)
qed (simp add: se_AppCoreSnapshot_def)

interpretation AppCoreSnapshot_wire: wire_type "se_AppCoreSnapshot sorted_list_of_fset" de_AppCoreSnapshot fits_AppCoreSnapshot
  by (rule AppCoreSnapshot_wire_type) (rule enumerates_sorted)

end
