(* ===== verification/Json_Facade.thy ===== *)
theory Json_Facade
  imports App_Serde Facade_Control
begin

text \<open>
  Crate \<open>ffi-bridge\<close>, \<open>json_facade.rs\<close>, \<open>json_facade_args.rs\<close> and \<open>json_facade_runtime.rs\<close>: the facade behind
  method names and JSON documents.  It is generic in the facade (the trait \<open>AppCoreFacade\<close>, a record of
  operations on a state \<open>'f\<close>).  An outcome is missing when the operation does not return.  The wording
  of a refusal of \<open>serde\<close> is a parameter.
\<close>

section \<open>The trait\<close>

type_synonym ('a, 'e, 'f) outcome = "'f \<Rightarrow> (('a, 'e) result \<times> 'f) option"

record 'f AppCoreFacadeOps =
  app_register :: "string \<Rightarrow> string \<Rightarrow> (Session, fault, 'f) outcome"
  app_login :: "string \<Rightarrow> string \<Rightarrow> (Session, fault, 'f) outcome"
  app_register_device :: "string \<Rightarrow> string \<Rightarrow> string \<Rightarrow> string \<Rightarrow> (Device, fault, 'f) outcome"
  app_register_node :: "string \<Rightarrow> string \<Rightarrow> string \<Rightarrow> string list \<Rightarrow> (Node, fault, 'f) outcome"
  app_list_networks :: "(Network list, fault, 'f) outcome"
  app_create_network :: "string \<Rightarrow> string \<Rightarrow> (Network, fault, 'f) outcome"
  app_join_network :: "string \<Rightarrow> string \<Rightarrow> (unit, fault, 'f) outcome"
  app_activate_network :: "string \<Rightarrow> string \<Rightarrow> (unit, fault, 'f) outcome"
  app_deactivate_network :: "string \<Rightarrow> string \<Rightarrow> (unit, fault, 'f) outcome"
  app_bootstrap :: "string \<Rightarrow> string \<Rightarrow> (BootstrapConfig, fault, 'f) outcome"
  app_control_sync :: "(BootstrapConfig, fault, 'f) outcome"
  app_control_status :: "(ControlStatusView, fault, 'f) outcome"
  app_issue_relay_ticket :: "string \<Rightarrow> string \<Rightarrow> string \<Rightarrow> string \<Rightarrow> (RelayTicket, fault, 'f) outcome"
  app_connect :: "string \<Rightarrow> string \<Rightarrow> (ConnectionState, fault, 'f) outcome"
  app_probe_with_timeout :: "u8 list \<Rightarrow> u64 option \<Rightarrow> (DataPlaneProbe, DataPlaneError, 'f) outcome"
  app_send :: "u8 list \<Rightarrow> (nat, DataPlaneError, 'f) outcome"
  app_disconnect :: "(unit, fault, 'f) outcome"

definition returns :: "('f \<Rightarrow> ('a, string) result \<times> 'f) \<Rightarrow> ('a, fault, 'f) outcome" where
  "returns g f = Some (apfst (map_err Fail) (g f))"

definition default_facade_ops :: "'w Services \<Rightarrow> 'w DefaultAppCoreFacade AppCoreFacadeOps" where
  "default_facade_ops svc =
     \<lparr>app_register = (\<lambda>e p. returns (facade_register svc e p)),
      app_login = (\<lambda>e p. returns (facade_login svc e p)),
      app_register_device = (\<lambda>n p m k. returns (facade_register_device svc n p m k)),
      app_register_node = (\<lambda>d n k cs. returns (facade_register_node svc d n k cs)),
      app_list_networks = returns (facade_list_networks svc),
      app_create_network = (\<lambda>n c. returns (facade_create_network svc n c)),
      app_join_network = (\<lambda>n d. returns (facade_join_network svc n d)),
      app_activate_network = (\<lambda>n d. returns (facade_activate_network svc n d)),
      app_deactivate_network = (\<lambda>n d. returns (facade_deactivate_network svc n d)),
      app_bootstrap = (\<lambda>n net. returns (facade_bootstrap svc n net)),
      app_control_sync = (\<lambda>f. Some (control_sync svc f)),
      app_control_status = returns (\<lambda>f. (control_status f, f)),
      app_issue_relay_ticket = (\<lambda>net s d why. returns (facade_issue_relay_ticket svc net s d why)),
      app_connect = (\<lambda>net p. returns (facade_connect svc net p)),
      app_probe_with_timeout = probe_with_timeout svc,
      app_send = facade_send svc,
      app_disconnect = returns (facade_disconnect svc)\<rparr>"

section \<open>Arguments\<close>

record AuthArgs =
  email :: string
  password :: string

record RegisterDeviceArgs =
  name :: string
  platform :: string
  machine_id :: string
  public_key :: string

record RegisterNodeArgs =
  device_id :: string
  node_id :: string
  node_public_key :: string
  capabilities :: "string list"

record CreateNetworkArgs =
  name :: string
  cidr :: string

record JoinNetworkArgs =
  network_id :: string
  device_id :: string

record BootstrapArgs =
  node_id :: string
  network_id :: string

record RelayTicketArgs =
  network_id :: string
  src_node_id :: string
  dst_node_id :: string
  reason :: string

record ConnectArgs =
  network_id :: string
  peer_node_id :: string

record SendArgs =
  payload :: string
  probe_timeout_ms :: "u64 option"

definition de_AuthArgs :: "json \<Rightarrow> AuthArgs option" where
  "de_AuthArgs = de_object (\<lambda>obj. do {
     e \<leftarrow> de_field de_string ''email'' obj;
     p \<leftarrow> de_field de_string ''password'' obj;
     Some \<lparr>AuthArgs.email = e, password = p\<rparr> })"

definition de_RegisterDeviceArgs :: "json \<Rightarrow> RegisterDeviceArgs option" where
  "de_RegisterDeviceArgs = de_object (\<lambda>obj. do {
     n \<leftarrow> de_field de_string ''name'' obj;
     p \<leftarrow> de_field de_string ''platform'' obj;
     m \<leftarrow> de_field de_string ''machineId'' obj;
     k \<leftarrow> de_field de_string ''publicKey'' obj;
     Some \<lparr>RegisterDeviceArgs.name = n, platform = p, machine_id = m, public_key = k\<rparr> })"

definition de_RegisterNodeArgs :: "json \<Rightarrow> RegisterNodeArgs option" where
  "de_RegisterNodeArgs = de_object (\<lambda>obj. do {
     d \<leftarrow> de_field de_string ''deviceId'' obj;
     n \<leftarrow> de_field de_string ''nodeId'' obj;
     k \<leftarrow> de_field de_string ''nodePublicKey'' obj;
     cs \<leftarrow> de_strings_default ''capabilities'' obj;
     Some \<lparr>RegisterNodeArgs.device_id = d, node_id = n, node_public_key = k, capabilities = cs\<rparr> })"

definition de_CreateNetworkArgs :: "json \<Rightarrow> CreateNetworkArgs option" where
  "de_CreateNetworkArgs = de_object (\<lambda>obj. do {
     n \<leftarrow> de_field de_string ''name'' obj;
     c \<leftarrow> de_field de_string ''cidr'' obj;
     Some \<lparr>CreateNetworkArgs.name = n, cidr = c\<rparr> })"

definition de_JoinNetworkArgs :: "json \<Rightarrow> JoinNetworkArgs option" where
  "de_JoinNetworkArgs = de_object (\<lambda>obj. do {
     n \<leftarrow> de_field de_string ''networkId'' obj;
     d \<leftarrow> de_field de_string ''deviceId'' obj;
     Some \<lparr>JoinNetworkArgs.network_id = n, device_id = d\<rparr> })"

definition de_BootstrapArgs :: "json \<Rightarrow> BootstrapArgs option" where
  "de_BootstrapArgs = de_object (\<lambda>obj. do {
     n \<leftarrow> de_field de_string ''nodeId'' obj;
     i \<leftarrow> de_field de_string ''networkId'' obj;
     Some \<lparr>BootstrapArgs.node_id = n, network_id = i\<rparr> })"

definition de_RelayTicketArgs :: "json \<Rightarrow> RelayTicketArgs option" where
  "de_RelayTicketArgs = de_object (\<lambda>obj. do {
     i \<leftarrow> de_field de_string ''networkId'' obj;
     s \<leftarrow> de_field de_string ''srcNodeId'' obj;
     d \<leftarrow> de_field de_string ''dstNodeId'' obj;
     r \<leftarrow> de_field de_string ''reason'' obj;
     Some \<lparr>RelayTicketArgs.network_id = i, src_node_id = s, dst_node_id = d, reason = r\<rparr> })"

definition de_ConnectArgs :: "json \<Rightarrow> ConnectArgs option" where
  "de_ConnectArgs = de_object (\<lambda>obj. do {
     i \<leftarrow> de_field de_string ''networkId'' obj;
     p \<leftarrow> de_field de_string ''peerNodeId'' obj;
     Some \<lparr>ConnectArgs.network_id = i, peer_node_id = p\<rparr> })"

definition de_SendArgs :: "json \<Rightarrow> SendArgs option" where
  "de_SendArgs = de_object (\<lambda>obj. do {
     p \<leftarrow> de_field de_string ''payload'' obj;
     t \<leftarrow> de_optional de_word ''probeTimeoutMs'' obj;
     Some \<lparr>SendArgs.payload = p, probe_timeout_ms = t\<rparr> })"

section \<open>Values and errors\<close>

text \<open>
  A \<open>serde_json::Value\<close> keeps one entry per key, the last one of the text, and enumerates its keys in order.
\<close>

fun value_of :: "json \<Rightarrow> json" where
  "value_of (JArr vs) = JArr (map value_of vs)"
| "value_of (JObj obj) =
     (let entries = map (\<lambda>(k, v). (k, value_of v)) obj
      in JObj (map (\<lambda>k. (k, the (map_of (rev entries) k))) (sorted_list_of_set (set (map fst obj)))))"
| "value_of v = v"

fun connection_path_name :: "ConnectionPath \<Rightarrow> string" where
  "connection_path_name ConnectionPath.P2P = ''p2p''"
| "connection_path_name ConnectionPath.Relay = ''relay''"
| "connection_path_name ConnectionPath.Derp = ''derp''"

fun connection_state_value :: "ConnectionState \<Rightarrow> json" where
  "connection_state_value ConnectionState.Disconnected = JObj [(''status'', JStr ''disconnected'')]"
| "connection_state_value ConnectionState.Connecting = JObj [(''status'', JStr ''connecting'')]"
| "connection_state_value (ConnectionState.Connected p) =
     JObj [(''status'', JStr ''connected''), (''path'', JStr (connection_path_name p))]"
| "connection_state_value (ConnectionState.Failed why) =
     JObj [(''status'', JStr ''failed''), (''reason'', JStr why)]"

fun send_code :: "DataPlaneErrorCode \<Rightarrow> string" where
  "send_code DataPlaneErrorCode.Timeout = ''send_timeout''"
| "send_code DataPlaneErrorCode.Transport = ''send_transport_error''"
| "send_code DataPlaneErrorCode.RelayAuth = ''send_relay_auth_error''"
| "send_code DataPlaneErrorCode.RelaySession = ''send_relay_session_error''"
| "send_code DataPlaneErrorCode.RelayProtocol = ''send_relay_protocol_error''"
| "send_code DataPlaneErrorCode.UnsupportedPath = ''send_unsupported_path''"
| "send_code DataPlaneErrorCode.Unknown = ''send_failed''"

definition data_plane_error_string :: "string \<Rightarrow> DataPlaneError \<Rightarrow> string" where
  "data_plane_error_string operation e =
     (if operation = ''send'' then send_code (DataPlaneError.code e) else data_plane_code_as_str (DataPlaneError.code e))
       @ '': '' @ DataPlaneError.message e"

section \<open>The dispatch\<close>

definition with_args ::
  "(json \<Rightarrow> string) \<Rightarrow> (json \<Rightarrow> 'a option) \<Rightarrow> json \<Rightarrow> ('a \<Rightarrow> ('b, fault, 'f) outcome) \<Rightarrow> ('b, fault, 'f) outcome" where
  "with_args refuse de doc k f =
     (case de doc of None \<Rightarrow> Some (Err (Fail (refuse doc)), f) | Some a \<Rightarrow> k a f)"

definition answering :: "('a \<Rightarrow> 'b) \<Rightarrow> ('a, fault, 'f) outcome \<Rightarrow> ('b, fault, 'f) outcome" where
  "answering to_value g f = map_option (apfst (map_ok to_value)) (g f)"

definition data_plane :: "string \<Rightarrow> ('a, DataPlaneError, 'f) outcome \<Rightarrow> ('a, fault, 'f) outcome" where
  "data_plane operation g f = map_option (apfst (map_err (\<lambda>e. Fail (data_plane_error_string operation e)))) (g f)"

abbreviation empty_object :: "unit \<Rightarrow> json" where
  "empty_object \<equiv> (\<lambda>_. JObj [])"

definition invoke ::
  "'f AppCoreFacadeOps \<Rightarrow> (string \<Rightarrow> json \<Rightarrow> string) \<Rightarrow> string \<Rightarrow> json \<Rightarrow> (json, fault, 'f) outcome" where
  "invoke ops refuse m doc =
     (if m = ''register'' then with_args (refuse m) de_AuthArgs doc (\<lambda>a.
        answering se_Session (app_register ops (AuthArgs.email a) (AuthArgs.password a)))
      else if m = ''login'' then with_args (refuse m) de_AuthArgs doc (\<lambda>a.
        answering se_Session (app_login ops (AuthArgs.email a) (AuthArgs.password a)))
      else if m = ''registerDevice'' then with_args (refuse m) de_RegisterDeviceArgs doc (\<lambda>a.
        answering se_Device (app_register_device ops (RegisterDeviceArgs.name a) (RegisterDeviceArgs.platform a)
          (RegisterDeviceArgs.machine_id a) (RegisterDeviceArgs.public_key a)))
      else if m = ''registerNode'' then with_args (refuse m) de_RegisterNodeArgs doc (\<lambda>a.
        answering se_Node (app_register_node ops (RegisterNodeArgs.device_id a) (RegisterNodeArgs.node_id a)
          (RegisterNodeArgs.node_public_key a) (RegisterNodeArgs.capabilities a)))
      else if m = ''listNetworks'' then
        answering (\<lambda>items. JObj [(''items'', se_list se_Network items)]) (app_list_networks ops)
      else if m = ''createNetwork'' then with_args (refuse m) de_CreateNetworkArgs doc (\<lambda>a.
        answering se_Network (app_create_network ops (CreateNetworkArgs.name a) (CreateNetworkArgs.cidr a)))
      else if m = ''joinNetwork'' then with_args (refuse m) de_JoinNetworkArgs doc (\<lambda>a.
        answering empty_object (app_join_network ops (JoinNetworkArgs.network_id a) (JoinNetworkArgs.device_id a)))
      else if m = ''activateNetwork'' then with_args (refuse m) de_JoinNetworkArgs doc (\<lambda>a.
        answering empty_object (app_activate_network ops (JoinNetworkArgs.network_id a) (JoinNetworkArgs.device_id a)))
      else if m = ''deactivateNetwork'' then with_args (refuse m) de_JoinNetworkArgs doc (\<lambda>a.
        answering empty_object (app_deactivate_network ops (JoinNetworkArgs.network_id a) (JoinNetworkArgs.device_id a)))
      else if m = ''bootstrap'' then with_args (refuse m) de_BootstrapArgs doc (\<lambda>a.
        answering se_BootstrapConfig (app_bootstrap ops (BootstrapArgs.node_id a) (BootstrapArgs.network_id a)))
      else if m = ''controlStatus'' then answering se_ControlStatusView (app_control_status ops)
      else if m = ''controlSync'' then answering se_BootstrapConfig (app_control_sync ops)
      else if m = ''issueRelayTicket'' then with_args (refuse m) de_RelayTicketArgs doc (\<lambda>a.
        answering se_client_ticket (app_issue_relay_ticket ops (RelayTicketArgs.network_id a)
          (RelayTicketArgs.src_node_id a) (RelayTicketArgs.dst_node_id a) (RelayTicketArgs.reason a)))
      else if m = ''connect'' then with_args (refuse m) de_ConnectArgs doc (\<lambda>a.
        answering connection_state_value (app_connect ops (ConnectArgs.network_id a) (ConnectArgs.peer_node_id a)))
      else if m = ''probe'' then with_args (refuse m) de_SendArgs doc (\<lambda>a.
        answering se_DataPlaneProbe (data_plane ''probe''
          (app_probe_with_timeout ops (as_bytes (SendArgs.payload a)) (SendArgs.probe_timeout_ms a))))
      else if m = ''send'' then with_args (refuse m) de_SendArgs doc (\<lambda>a.
        answering (\<lambda>n. JObj [(''bytesSent'', se_usize n)]) (data_plane ''send'' (app_send ops (as_bytes (SendArgs.payload a)))))
      else if m = ''disconnect'' then answering empty_object (app_disconnect ops)
      else (\<lambda>f. Some (Err (Fail (''unsupported method: '' @ m)), f)))"

end
