(* ===== verification/Helper_Host.thy ===== *)
theory Helper_Host
  imports Json_Facade Facade_Safety
begin

text \<open>
  Crate \<open>app-core-helper\<close>, the \<open>HelperTunnelHost\<close>: a tunnel backend with the configuration that was last
  applied through it.  The facade uses it as its tunnel manager; the user interface also calls it directly,
  with JSON documents.  The backend is the in-memory one, and the service backend on Windows.
\<close>

section \<open>Backends with all operations of the trait\<close>

record 's HelperBackend =
  hb_interface :: "WireGuardInterfaceConfig \<Rightarrow> 's backend_op"
  hb_peer :: "string \<Rightarrow> WireGuardPeerConfig \<Rightarrow> 's backend_op"
  hb_remove :: "string \<Rightarrow> 's backend_op"
  hb_up :: "'s backend_op"
  hb_down :: "'s backend_op"
  hb_stats :: "'s \<Rightarrow> string \<Rightarrow> (WireGuardRuntimeStats option, string) result"
  hb_manager :: "'s TunnelBackend"
  hb_name :: string
  hb_now :: "'s \<Rightarrow> u64"
  hb_later :: "'s \<Rightarrow> u64"

text \<open>
  The state of a backend goes with what lies outside.  The in-memory backend leaves that alone and takes the
  defaults of the trait for everything but peers.  The clock is read in that state; where a call reads it twice,
  the second reading is \<open>hb_later\<close>.
\<close>

definition beside :: "('s \<Rightarrow> 'r \<times> 's) \<Rightarrow> 'x \<times> 's \<Rightarrow> 'r \<times> 'x \<times> 's" where
  "beside g = (\<lambda>(x, s). case g s of (r, s') \<Rightarrow> (r, x, s'))"

definition memory_helper_backend ::
  "('x \<Rightarrow> u64) \<Rightarrow> ('x \<Rightarrow> u64) \<Rightarrow> ('x \<times> InMemoryTunnelBackend) HelperBackend" where
  "memory_helper_backend clk later =
     \<lparr>hb_interface = (\<lambda>_ b. (Ok (), b)), hb_peer = (\<lambda>ip p. beside (memory_apply_peer_config ip p)),
      hb_remove = (\<lambda>ip. beside (memory_remove_peer ip)), hb_up = (\<lambda>b. (Ok (), b)), hb_down = (\<lambda>b. (Ok (), b)),
      hb_stats = (\<lambda>_ _. Ok None),
      hb_manager = \<lparr>establish = (\<lambda>cfg. beside (memory_establish cfg)), close = (\<lambda>ip. beside (memory_remove_peer ip))\<rparr>,
      hb_name = ''in-memory'', hb_now = clk \<circ> fst, hb_later = later \<circ> fst\<rparr>"

definition windows_helper_backend ::
  "('w \<Rightarrow> u64) \<Rightarrow> ('w \<Rightarrow> u64) \<Rightarrow> 'w ProcessEnv \<Rightarrow> 'w windows_state HelperBackend" where
  "windows_helper_backend clk later env =
     \<lparr>hb_interface = windows_apply_interface_config env, hb_peer = windows_apply_peer_config,
      hb_remove = windows_remove_peer, hb_up = windows_bring_up env, hb_down = windows_bring_down env,
      hb_stats = (\<lambda>s. windows_runtime_stats (snd s)), hb_manager = windows_ops env,
      hb_name = ''windows-embeddable'', hb_now = clk \<circ> fst, hb_later = later \<circ> fst\<rparr>"

section \<open>The state of the host\<close>

record HelperTunnelConfiguration =
  transport :: TunnelTransport
  local_virtual_ip :: string
  peer_virtual_ip :: string
  debug_engine_mode :: "string option"
  wireguard_interface :: WireGuardInterfaceConfig
  wireguard_peer :: WireGuardPeerConfig

definition de_HelperTunnelConfiguration :: "json \<Rightarrow> HelperTunnelConfiguration option" where
  "de_HelperTunnelConfiguration = de_object (\<lambda>obj. do {
     t \<leftarrow> de_field de_TunnelTransport ''transport'' obj;
     l \<leftarrow> de_field de_string ''localVirtualIp'' obj;
     p \<leftarrow> de_field de_string ''peerVirtualIp'' obj;
     m \<leftarrow> de_optional de_string ''debugEngineMode'' obj;
     i \<leftarrow> de_field de_WireGuardInterfaceConfig ''wireguardInterface'' obj;
     c \<leftarrow> de_field de_WireGuardPeerConfig ''wireguardPeer'' obj;
     Some \<lparr>HelperTunnelConfiguration.transport = t, local_virtual_ip = l, peer_virtual_ip = p, debug_engine_mode = m,
           wireguard_interface = i, wireguard_peer = c\<rparr> })"

definition into_tunnel_config :: "HelperTunnelConfiguration \<Rightarrow> TunnelConfig" where
  "into_tunnel_config c =
     \<lparr>TunnelConfig.transport = HelperTunnelConfiguration.transport c,
      local_virtual_ip = HelperTunnelConfiguration.local_virtual_ip c,
      peer_virtual_ip = HelperTunnelConfiguration.peer_virtual_ip c,
      wireguard_interface = HelperTunnelConfiguration.wireguard_interface c,
      wireguard_peer = HelperTunnelConfiguration.wireguard_peer c\<rparr>"

definition from_tunnel_config :: "TunnelConfig \<Rightarrow> HelperTunnelConfiguration" where
  "from_tunnel_config c =
     \<lparr>HelperTunnelConfiguration.transport = TunnelConfig.transport c,
      local_virtual_ip = TunnelConfig.local_virtual_ip c,
      peer_virtual_ip = TunnelConfig.peer_virtual_ip c, debug_engine_mode = None,
      wireguard_interface = TunnelConfig.wireguard_interface c,
      wireguard_peer = TunnelConfig.wireguard_peer c\<rparr>"

record HelperTunnelState =
  configuration :: "HelperTunnelConfiguration option"
  last_error :: "string option"
  last_applied_at_ms :: "u64 option"
  last_started_at_ms :: "u64 option"
  is_running :: bool

definition helper_state_default :: HelperTunnelState where
  "helper_state_default =
     \<lparr>configuration = None, last_error = None, last_applied_at_ms = None, last_started_at_ms = None, is_running = False\<rparr>"

record 's HelperTunnelHost =
  host_backend :: 's
  host_state :: "HelperTunnelState mutex"

definition helper_host_new :: "'s \<Rightarrow> 's HelperTunnelHost" where
  "helper_host_new b = \<lparr>host_backend = b, host_state = Healthy helper_state_default\<rparr>"

definition on_backend :: "('s \<Rightarrow> 'r \<times> 's) \<Rightarrow> 's HelperTunnelHost \<Rightarrow> 'r \<times> 's HelperTunnelHost" where
  "on_backend g h = (case g (host_backend h) of (r, b) \<Rightarrow> (r, h\<lparr>host_backend := b\<rparr>))"

section \<open>What the host reports\<close>

definition action_result_json :: "HelperTunnelState \<Rightarrow> string \<Rightarrow> bool \<Rightarrow> string \<Rightarrow> string \<Rightarrow> json" where
  "action_result_json s action accepted phase detail =
     JObj [(''action'', JStr action), (''accepted'', JBool accepted), (''phase'', JStr phase),
           (''source'', JStr ''rust-helper''), (''detail'', JStr detail),
           (''connectionStatus'', JStr (if is_running s then ''connected'' else ''disconnected'')),
           (''hasConfiguration'', JBool (configuration s \<noteq> None)),
           (''configurationPeerVirtualIp'', se_option JStr (map_option HelperTunnelConfiguration.peer_virtual_ip (configuration s))),
           (''runtimeState'', se_option JStr (map_option (\<lambda>_. if is_running s then ''configured'' else ''disconnected'') (configuration s))),
           (''backendState'', se_option JStr
              (if last_error s \<noteq> None then Some ''failed'' else if is_running s then Some ''started''
               else if configuration s \<noteq> None then Some ''idle'' else None)),
           (''runtimeLastError'', se_option JStr (last_error s))]"

definition allowed_cidrs :: "HelperTunnelConfiguration \<Rightarrow> string list" where
  "allowed_cidrs c = map AllowedIp.cidr (WireGuardPeerConfig.allowed_ips (HelperTunnelConfiguration.wireguard_peer c))"

definition runtime_view_json ::
  "string \<Rightarrow> HelperTunnelConfiguration \<Rightarrow> HelperTunnelState \<Rightarrow> WireGuardRuntimeStats option \<Rightarrow> json" where
  "runtime_view_json backend_name c s stats =
     (let p = HelperTunnelConfiguration.wireguard_peer c;
          i = HelperTunnelConfiguration.wireguard_interface c;
          selected = (case Option.bind stats WireGuardRuntimeStats.selected_endpoint of
            Some e \<Rightarrow> Some e | None \<Rightarrow> WireGuardPeerConfig.endpoint p);
          received = (case stats of None \<Rightarrow> 0 | Some st \<Rightarrow> WireGuardRuntimeStats.bytes_received st);
          sent = (case stats of None \<Rightarrow> 0 | Some st \<Rightarrow> WireGuardRuntimeStats.bytes_sent st)
      in JObj
       [(''state'', JStr (if is_running s then ''configured'' else ''disconnected'')),
        (''transport'', se_TunnelTransport (HelperTunnelConfiguration.transport c)),
        (''debugEngineMode'', JStr (case debug_engine_mode c of None \<Rightarrow> ''noop'' | Some m \<Rightarrow> m)),
        (''backendName'', JStr backend_name),
        (''backendState'', JStr (if last_error s \<noteq> None then ''failed'' else if is_running s then ''started'' else ''idle'')),
        (''backendLastError'', se_option JStr (last_error s)),
        (''backendLastStartedAtMs'', se_option se_word (last_started_at_ms s)),
        (''backendPeerVirtualIp'', JStr (HelperTunnelConfiguration.peer_virtual_ip c)),
        (''backendSelectedEndpoint'', se_option JStr selected),
        (''peerVirtualIp'', JStr (HelperTunnelConfiguration.peer_virtual_ip c)),
        (''peerPublicKey'', JStr (WireGuardPeerConfig.public_key p)),
        (''selectedEndpoint'', se_option JStr selected),
        (''interfaceName'', se_option JStr (WireGuardInterfaceConfig.interface_name i)),
        (''dnsServers'', se_list JStr (WireGuardInterfaceConfig.dns_servers i)),
        (''allowedIps'', se_list JStr (allowed_cidrs c)),
        (''localVirtualIp'', JStr (HelperTunnelConfiguration.local_virtual_ip c)),
        (''remoteAddress'', JStr (case WireGuardPeerConfig.endpoint p of None \<Rightarrow> [] | Some e \<Rightarrow> e)),
        (''mtu'', se_option se_word (WireGuardInterfaceConfig.mtu i)),
        (''interfaceAddresses'', se_list JStr (WireGuardInterfaceConfig.addresses i)),
        (''includedRoutes'', se_list JStr (allowed_cidrs c)),
        (''packetRxCount'', JNum (if is_running s \<and> 0 < received then 1 else 0)),
        (''packetRxBytes'', se_word received),
        (''packetTxCount'', JNum (if is_running s \<and> 0 < sent then 1 else 0)),
        (''packetTxBytes'', se_word sent),
        (''lastPacketAtMs'', se_option se_word (last_started_at_ms s)),
        (''lastAppliedAtMs'', se_option se_word (last_applied_at_ms s)),
        (''lastError'', se_option JStr (last_error s))])"

section \<open>Calls of the user interface\<close>

abbreviation helper_poisoned :: string where
  "helper_poisoned \<equiv> ''app_core_tunnel_backend_error: tunnel helper state poisoned''"

definition backend_error :: "string \<Rightarrow> string" where
  "backend_error e = ''app_core_tunnel_backend_error: '' @ e"

text \<open>\<open>Value::get\<close>, then \<open>as_str\<close>, of a key; an empty string counts as missing.\<close>

definition peer_virtual_ip_arg :: "json \<Rightarrow> (string, string) result" where
  "peer_virtual_ip_arg doc =
     (case doc of
        JObj obj \<Rightarrow>
          (case map_of obj ''peerVirtualIp'' of
             Some (JStr ip) \<Rightarrow>
               if ip = [] then Err ''app_core_invalid_tunnel_config: missing or invalid peerVirtualIp'' else Ok ip
           | _ \<Rightarrow> Err ''app_core_invalid_tunnel_config: missing or invalid peerVirtualIp'')
      | _ \<Rightarrow> Err ''app_core_invalid_tunnel_config: missing or invalid peerVirtualIp'')"

type_synonym 's host_call = "'s HelperTunnelHost \<Rightarrow> (json, string) result \<times> 's HelperTunnelHost"

definition apply_configuration :: "'s HelperBackend \<Rightarrow> (json \<Rightarrow> string) \<Rightarrow> json \<Rightarrow> 's host_call" where
  "apply_configuration hb refuse doc h =
     (case de_HelperTunnelConfiguration doc of
        None \<Rightarrow> (Err (''app_core_invalid_tunnel_config: '' @ refuse doc), h)
      | Some c \<Rightarrow>
     (case on_backend (hb_interface hb (HelperTunnelConfiguration.wireguard_interface c)) h of
        (Err e, h1) \<Rightarrow> (Err (backend_error e), h1)
      | (Ok _, h1) \<Rightarrow>
     (case on_backend (hb_peer hb (HelperTunnelConfiguration.peer_virtual_ip c) (HelperTunnelConfiguration.wireguard_peer c)) h1 of
        (Err e, h2) \<Rightarrow> (Err (backend_error e), h2)
      | (Ok _, h2) \<Rightarrow>
     (case lock (host_state h2) of
        None \<Rightarrow> (Err helper_poisoned, h2)
      | Some s \<Rightarrow>
          let s' = s\<lparr>configuration := Some c, last_error := None, last_applied_at_ms := Some (hb_now hb (host_backend h2))\<rparr>
          in (Ok (action_result_json s' ''applyTunnelConfiguration'' True ''configured''
                (''Rust backend accepted tunnel configuration for '' @ HelperTunnelConfiguration.peer_virtual_ip c @ ''.'')),
              h2\<lparr>host_state := Healthy s'\<rparr>)))))"

text \<open>What \<open>remove_peer\<close> and \<open>close\<close> do to the state.\<close>

definition forget_peer :: "string \<Rightarrow> HelperTunnelState \<Rightarrow> HelperTunnelState" where
  "forget_peer ip s =
     (if map_option HelperTunnelConfiguration.peer_virtual_ip (configuration s) = Some ip
      then s\<lparr>configuration := None, is_running := False, last_error := None\<rparr> else s)"

definition helper_remove_peer :: "'s HelperBackend \<Rightarrow> json \<Rightarrow> 's host_call" where
  "helper_remove_peer hb doc h =
     (case peer_virtual_ip_arg doc of
        Err e \<Rightarrow> (Err e, h)
      | Ok ip \<Rightarrow>
     (case on_backend (hb_remove hb ip) h of
        (Err e, h1) \<Rightarrow> (Err (backend_error e), h1)
      | (Ok _, h1) \<Rightarrow>
     (case lock (host_state h1) of
        None \<Rightarrow> (Err helper_poisoned, h1)
      | Some s \<Rightarrow>
          let s' = forget_peer ip s
          in (Ok (action_result_json s' ''removeTunnelPeer'' True
                (if configuration s' \<noteq> None then ''accepted'' else ''verified'')
                (''Rust backend processed peer removal for '' @ ip @ ''.'')),
              h1\<lparr>host_state := Healthy s'\<rparr>))))"

definition helper_bring_up :: "'s HelperBackend \<Rightarrow> 's host_call" where
  "helper_bring_up hb h =
     (case lock (host_state h) of
        None \<Rightarrow> (Err helper_poisoned, h)
      | Some s \<Rightarrow>
          if configuration s = None then (Err ''app_core_tunnel_backend_error: missing tunnel configuration'', h)
          else (case on_backend (hb_up hb) h of
             (Ok _, h1) \<Rightarrow>
               let s' = s\<lparr>is_running := True, last_error := None, last_started_at_ms := Some (hb_now hb (host_backend h1))\<rparr>
               in (Ok (action_result_json s' ''bringTunnelUp'' True ''started''
                     ''Rust backend accepted the bring-up request.''), h1\<lparr>host_state := Healthy s'\<rparr>)
           | (Err e, h1) \<Rightarrow>
               let s' = s\<lparr>last_error := Some e\<rparr>
               in (Ok (action_result_json s' ''bringTunnelUp'' False ''failed''
                     (''Rust backend failed to bring the tunnel up: '' @ e)), h1\<lparr>host_state := Healthy s'\<rparr>)))"

definition helper_bring_down :: "'s HelperBackend \<Rightarrow> 's host_call" where
  "helper_bring_down hb h =
     (case lock (host_state h) of
        None \<Rightarrow> (Err helper_poisoned, h)
      | Some s \<Rightarrow>
          if configuration s = None then
            let s' = s\<lparr>is_running := False\<rparr>
            in (Ok (action_result_json s' ''bringTunnelDown'' True ''verified''
                  ''Rust backend confirmed the tunnel is already down.''), h\<lparr>host_state := Healthy s'\<rparr>)
          else (case on_backend (hb_down hb) h of
             (Err e, h1) \<Rightarrow> (Err (backend_error e), h1)
           | (Ok _, h1) \<Rightarrow>
               let s' = s\<lparr>is_running := False, last_error := None\<rparr>
               in (Ok (action_result_json s' ''bringTunnelDown'' True ''verified''
                     ''Rust backend accepted the bring-down request.''), h1\<lparr>host_state := Healthy s'\<rparr>)))"

definition helper_runtime_view :: "'s HelperBackend \<Rightarrow> json \<Rightarrow> 's HelperTunnelHost \<Rightarrow> (json, string) result" where
  "helper_runtime_view hb doc h =
     (case peer_virtual_ip_arg doc of
        Err e \<Rightarrow> Err e
      | Ok ip \<Rightarrow>
     (case lock (host_state h) of
        None \<Rightarrow> Err helper_poisoned
      | Some s \<Rightarrow>
     (case configuration s of
        None \<Rightarrow> Ok JNull
      | Some c \<Rightarrow>
          if HelperTunnelConfiguration.peer_virtual_ip c \<noteq> ip then Ok JNull
          else (case hb_stats hb (host_backend h) ip of
             Err e \<Rightarrow> Err (backend_error e)
           | Ok stats \<Rightarrow> Ok (runtime_view_json (hb_name hb) c s stats)))))"

definition supports_method :: "string \<Rightarrow> bool" where
  "supports_method m \<longleftrightarrow>
     m \<in> {''applyTunnelConfiguration'', ''removeTunnelPeer'', ''bringTunnelUp'', ''bringTunnelDown'', ''tunnelRuntimeView''}"

definition helper_invoke :: "'s HelperBackend \<Rightarrow> (json \<Rightarrow> string) \<Rightarrow> string \<Rightarrow> json \<Rightarrow> 's host_call" where
  "helper_invoke hb refuse m doc =
     (if m = ''applyTunnelConfiguration'' then apply_configuration hb refuse doc
      else if m = ''removeTunnelPeer'' then helper_remove_peer hb doc
      else if m = ''bringTunnelUp'' then helper_bring_up hb
      else if m = ''bringTunnelDown'' then helper_bring_down hb
      else if m = ''tunnelRuntimeView'' then (\<lambda>h. (helper_runtime_view hb doc h, h))
      else (\<lambda>h. (Err (''unsupported method: '' @ m), h)))"

section \<open>The host as a tunnel manager\<close>

definition helper_establish :: "'s HelperBackend \<Rightarrow> TunnelConfig \<Rightarrow> 's HelperTunnelHost backend_op" where
  "helper_establish hb cfg h =
     (case on_backend (establish (hb_manager hb) cfg) h of
        (Err e, h1) \<Rightarrow> (Err e, h1)
      | (Ok _, h1) \<Rightarrow>
          (case lock (host_state h1) of
             None \<Rightarrow> (Err ''tunnel helper state poisoned'', h1)
           | Some s \<Rightarrow>
               (Ok (), h1\<lparr>host_state := Healthy (s\<lparr>configuration := Some (from_tunnel_config cfg), last_error := None,
                  last_applied_at_ms := Some (hb_now hb (host_backend h1)),
                  last_started_at_ms := Some (hb_later hb (host_backend h1)), is_running := True\<rparr>)\<rparr>)))"

definition helper_close :: "'s HelperBackend \<Rightarrow> string \<Rightarrow> 's HelperTunnelHost backend_op" where
  "helper_close hb ip h =
     (case on_backend (close (hb_manager hb) ip) h of
        (Err e, h1) \<Rightarrow> (Err e, h1)
      | (Ok _, h1) \<Rightarrow>
          (case lock (host_state h1) of
             None \<Rightarrow> (Err ''tunnel helper state poisoned'', h1)
           | Some s \<Rightarrow> (Ok (), h1\<lparr>host_state := Healthy (forget_peer ip s)\<rparr>)))"

definition helper_ops :: "'s HelperBackend \<Rightarrow> 's HelperTunnelHost TunnelBackend" where
  "helper_ops hb = \<lparr>establish = helper_establish hb, close = helper_close hb\<rparr>"

section \<open>What the host keeps\<close>

text \<open>A backend with all operations: beside the contract of a manager, what the single steps do to the table.\<close>

locale helper_backend = tunnel_backend "hb_manager hb" table inv
  for hb :: "'s HelperBackend" and table :: "'s \<Rightarrow> peer_table" and inv :: "'s \<Rightarrow> bool" +
  assumes interface_step: "inv s \<Longrightarrow> hb_interface hb i s = (r, s') \<Longrightarrow> inv s' \<and> table s' = table s"
    and peer_step: "inv s \<Longrightarrow> hb_peer hb ip p s = (r, s') \<Longrightarrow> inv s' \<and>
      table s' = (if is_ok r then (table s)(ip \<mapsto> WireGuardPeerConfig.public_key p) else table s)"
    and remove_step: "inv s \<Longrightarrow> hb_remove hb ip s = (r, s') \<Longrightarrow> inv s' \<and>
      table s' = (if is_ok r then (table s)(ip := None) else table s)"
    and up_step: "inv s \<Longrightarrow> hb_up hb s = (r, s') \<Longrightarrow> inv s' \<and> table s' = table s"
    and down_step: "inv s \<Longrightarrow> hb_down hb s = (r, s') \<Longrightarrow> inv s' \<and> table s' = table s"

text \<open>A host that runs has a configuration.\<close>

definition host_ok :: "'s HelperTunnelHost \<Rightarrow> bool" where
  "host_ok h \<longleftrightarrow> (\<exists>s. host_state h = Healthy s \<and> (is_running s \<longrightarrow> configuration s \<noteq> None))"

lemma host_ok_new [simp]: "host_ok (helper_host_new b)"
  by (simp add: host_ok_def helper_host_new_def helper_state_default_def)

lemma host_backend_new [simp]: "host_backend (helper_host_new b) = b"
  by (simp add: helper_host_new_def)

lemma on_backend_cases:
  assumes "on_backend g h = (r, h')"
  obtains b where "g (host_backend h) = (r, b)" "h' = h\<lparr>host_backend := b\<rparr>"
  using assms by (auto simp: on_backend_def split: prod.splits)

lemma forget_peer_ok:
  "(is_running s \<longrightarrow> configuration s \<noteq> None) \<Longrightarrow> is_running (forget_peer ip s) \<longrightarrow> configuration (forget_peer ip s) \<noteq> None"
  by (simp add: forget_peer_def)

context helper_backend
begin

text \<open>The host as a manager refines the same table of peers.\<close>

lemma managed_host:
  "tunnel_backend (helper_ops hb) (table \<circ> host_backend) (\<lambda>h. inv (host_backend h) \<and> host_ok h)"
proof
  fix h h' :: "'s HelperTunnelHost" and opn r
  assume "inv (host_backend h) \<and> host_ok h" and opn: "apply_op (helper_ops hb) opn h = (r, h')"
  then obtain s where h: "inv (host_backend h)" "host_state h = Healthy s" "is_running s \<longrightarrow> configuration s \<noteq> None"
    by (auto simp: host_ok_def)
  obtain r1 h1 b where 1: "apply_op (hb_manager hb) opn (host_backend h) = (r1, b)" "h1 = h\<lparr>host_backend := b\<rparr>"
    by (cases "apply_op (hb_manager hb) opn (host_backend h)") auto
  have "r = r1 \<and> host_backend h' = b \<and> host_ok h'"
    using opn 1 h forget_peer_ok[OF h(3)]
    by (cases opn)
      (auto simp: helper_ops_def helper_establish_def helper_close_def on_backend_def host_ok_def split: result.splits)
  then show "spec_step opn r ((table \<circ> host_backend) h) ((table \<circ> host_backend) h')"
    and "inv (host_backend h') \<and> host_ok h'"
    using op_spec[OF h(1) 1(1)] op_inv[OF h(1) 1(1)] by simp_all
qed

text \<open>A call of the user interface keeps this, and touches at most the peer it names.\<close>

lemma on_backend_keeps:
  "on_backend g h = (r, h1) \<Longrightarrow> (\<And>b. g (host_backend h) = (r, b) \<Longrightarrow> inv b) \<Longrightarrow>
   inv (host_backend h1) \<and> host_state h1 = host_state h"
  by (auto elim: on_backend_cases)

lemma on_interface:
  "on_backend (hb_interface hb i) h = (r, h1) \<Longrightarrow> inv (host_backend h) \<Longrightarrow>
   inv (host_backend h1) \<and> host_state h1 = host_state h"
  by (erule on_backend_keeps) (blast dest: interface_step)

lemma on_peer:
  "on_backend (hb_peer hb ip p) h = (r, h1) \<Longrightarrow> inv (host_backend h) \<Longrightarrow>
   inv (host_backend h1) \<and> host_state h1 = host_state h"
  by (erule on_backend_keeps) (blast dest: peer_step)

lemma on_remove:
  "on_backend (hb_remove hb ip) h = (r, h1) \<Longrightarrow> inv (host_backend h) \<Longrightarrow>
   inv (host_backend h1) \<and> host_state h1 = host_state h"
  by (erule on_backend_keeps) (blast dest: remove_step)

lemma on_up:
  "on_backend (hb_up hb) h = (r, h1) \<Longrightarrow> inv (host_backend h) \<Longrightarrow>
   inv (host_backend h1) \<and> host_state h1 = host_state h"
  by (erule on_backend_keeps) (blast dest: up_step)

lemma on_down:
  "on_backend (hb_down hb) h = (r, h1) \<Longrightarrow> inv (host_backend h) \<Longrightarrow>
   inv (host_backend h1) \<and> host_state h1 = host_state h"
  by (erule on_backend_keeps) (blast dest: down_step)

lemma apply_configuration_keeps:
  assumes "apply_configuration hb refuse doc h = (r, h')" "inv (host_backend h)" "host_ok h"
  shows "inv (host_backend h') \<and> host_ok h'"
proof (cases "de_HelperTunnelConfiguration doc")
  case None
  with assms show ?thesis by (simp add: apply_configuration_def)
next
  case (Some c)
  obtain r1 h1 where 1: "on_backend (hb_interface hb (HelperTunnelConfiguration.wireguard_interface c)) h = (r1, h1)"
    by fastforce
  obtain r2 h2 where 2: "on_backend (hb_peer hb (HelperTunnelConfiguration.peer_virtual_ip c)
      (HelperTunnelConfiguration.wireguard_peer c)) h1 = (r2, h2)"
    by fastforce
  note k1 = on_interface[OF 1 assms(2)]
  note k2 = on_peer[OF 2 k1[THEN conjunct1]]
  show ?thesis
    using assms(1,3) k1 k2
    by (cases r1; cases r2; auto simp: apply_configuration_def Some 1 2 host_ok_def Let_def)
qed

lemma helper_remove_peer_keeps:
  assumes "helper_remove_peer hb doc h = (r, h')" "inv (host_backend h)" "host_ok h"
  shows "inv (host_backend h') \<and> host_ok h'"
proof (cases "peer_virtual_ip_arg doc")
  case (Err e)
  with assms show ?thesis by (simp add: helper_remove_peer_def)
next
  case (Ok ip)
  obtain r1 h1 where 1: "on_backend (hb_remove hb ip) h = (r1, h1)"
    by fastforce
  show ?thesis
    using assms(1,3) on_remove[OF 1 assms(2)]
    by (cases r1; auto simp: helper_remove_peer_def Ok 1 host_ok_def forget_peer_def Let_def)
qed

lemma helper_bring_up_keeps:
  assumes "helper_bring_up hb h = (r, h')" "inv (host_backend h)" "host_ok h"
  shows "inv (host_backend h') \<and> host_ok h'"
proof -
  obtain r1 h1 where 1: "on_backend (hb_up hb) h = (r1, h1)"
    by fastforce
  show ?thesis
    using assms on_up[OF 1 assms(2)]
    by (cases r1; auto simp: helper_bring_up_def 1 host_ok_def Let_def split: if_splits)
qed

lemma helper_bring_down_keeps:
  assumes "helper_bring_down hb h = (r, h')" "inv (host_backend h)" "host_ok h"
  shows "inv (host_backend h') \<and> host_ok h'"
proof -
  obtain r1 h1 where 1: "on_backend (hb_down hb) h = (r1, h1)"
    by fastforce
  show ?thesis
    using assms on_down[OF 1 assms(2)]
    by (cases r1; auto simp: helper_bring_down_def 1 host_ok_def Let_def split: if_splits)
qed

lemma invoke_keeps:
  assumes "helper_invoke hb refuse m doc h = (r, h')" "inv (host_backend h)" "host_ok h"
  shows "inv (host_backend h') \<and> host_ok h'"
proof -
  consider "apply_configuration hb refuse doc h = (r, h')" | "helper_remove_peer hb doc h = (r, h')"
    | "helper_bring_up hb h = (r, h')" | "helper_bring_down hb h = (r, h')" | "h' = h"
    using assms(1) unfolding helper_invoke_def by (simp split: if_splits)
  then show ?thesis
    using assms(2,3) apply_configuration_keeps helper_remove_peer_keeps helper_bring_up_keeps helper_bring_down_keeps
    by cases simp_all
qed

end

definition memory_table :: "'x \<times> InMemoryTunnelBackend \<Rightarrow> peer_table" where
  "memory_table s = key_table WireGuardPeerConfig.public_key (protected (snd s))"

definition memory_good :: "'x \<times> InMemoryTunnelBackend \<Rightarrow> bool" where
  "memory_good s \<longleftrightarrow> (\<exists>m. snd s = Healthy m)"

interpretation helper_memory: helper_backend "memory_helper_backend clk later" memory_table memory_good for clk later
proof (intro helper_backend.intro helper_backend_axioms.intro)
  show "tunnel_backend (hb_manager (memory_helper_backend clk later)) memory_table memory_good"
  proof
    fix s s' :: "'a \<times> InMemoryTunnelBackend" and opn r
    assume good: "memory_good s" and call: "apply_op (hb_manager (memory_helper_backend clk later)) opn s = (r, s')"
    have "apply_op memory_ops opn (snd s) = (r, snd s')"
      using call by (cases opn) (auto simp: memory_helper_backend_def memory_ops_def beside_def split: prod.splits)
    with memory.op_spec memory.op_inv good
    show "spec_step opn r (memory_table s) (memory_table s')" and "memory_good s'"
      unfolding memory_good_def memory_table_def by fastforce+
  qed
qed (auto simp: memory_helper_backend_def memory_apply_peer_config_def memory_remove_peer_def memory_table_def
      memory_good_def beside_def Let_def)

interpretation helper_windows: helper_backend "windows_helper_backend clk later env" windows_table windows_inv for clk later env
proof (intro helper_backend.intro helper_backend_axioms.intro)
  show "tunnel_backend (hb_manager (windows_helper_backend clk later env)) windows_table windows_inv"
    using windows.tunnel_backend_axioms by (simp add: windows_helper_backend_def)
next
  fix s r s' i
  assume "windows_inv s" "hb_interface (windows_helper_backend clk later env) i s = (r, s')"
  then show "windows_inv s' \<and> windows_table s' = windows_table s"
    using windows_apply_interface_config_frame[of s env i r s'] by (auto simp: windows_helper_backend_def windows_table_def)
next
  fix s r s' ip p
  assume "windows_inv s" "hb_peer (windows_helper_backend clk later env) ip p s = (r, s')"
  then show "windows_inv s' \<and> windows_table s' =
      (if is_ok r then (windows_table s)(ip \<mapsto> WireGuardPeerConfig.public_key p) else windows_table s)"
    using windows_apply_peer_config_step[of s ip p r s'] by (cases r) (auto simp: windows_helper_backend_def)
next
  fix s r s'
  assume "windows_inv s" "hb_up (windows_helper_backend clk later env) s = (r, s')"
  then show "windows_inv s' \<and> windows_table s' = windows_table s"
    using windows_bring_up_frame[of s env r s'] by (auto simp: windows_helper_backend_def)
qed (auto simp: windows_helper_backend_def windows_remove_peer_def windows_bring_down_def windows_inv_def windows_table_def
      Let_def split: prod.splits option.splits)

text \<open>What happens to a host: calls of the user interface and calls of the facade.\<close>

datatype host_event = Asked string json | Managed tunnel_op

fun host_step :: "'s HelperBackend \<Rightarrow> (json \<Rightarrow> string) \<Rightarrow> host_event \<Rightarrow> 's HelperTunnelHost \<Rightarrow> 's HelperTunnelHost" where
  "host_step hb refuse (Asked m doc) h = snd (helper_invoke hb refuse m doc h)"
| "host_step hb refuse (Managed opn) h = snd (apply_op (helper_ops hb) opn h)"

context helper_backend
begin

lemma run_keeps:
  "inv (host_backend h) \<Longrightarrow> host_ok h \<Longrightarrow>
   inv (host_backend (fold (host_step hb refuse) es h)) \<and> host_ok (fold (host_step hb refuse) es h)"
proof (induction es arbitrary: h)
  case (Cons e es)
  have "inv (host_backend (host_step hb refuse e h)) \<and> host_ok (host_step hb refuse e h)"
  proof (cases e)
    case (Asked m doc)
    with invoke_keeps[OF _ Cons.prems] show ?thesis
      by (metis host_step.simps(1) surjective_pairing)
  next
    case (Managed opn)
    with tunnel_backend.op_inv[OF managed_host] Cons.prems show ?thesis
      by (metis (no_types, lifting) host_step.simps(2) surjective_pairing)
  qed
  with Cons.IH show ?case by simp
qed simp

end

text \<open>
  C36: whatever the user interface and the facade ask of the tunnel host, its lock stays healthy and it reports a
  running tunnel only while it has a configuration, on Windows and elsewhere.
\<close>

theorem helper_host_coherent:
  "host_ok (fold (host_step (windows_helper_backend clk later env) refuse) es (helper_host_new (w, windows_new))) \<and>
   host_ok (fold (host_step (memory_helper_backend clk later) refuse) es (helper_host_new (w, Healthy fmempty)))"
proof
  have "windows_inv (w, windows_new)"
    by (simp add: windows_inv_def windows_new_def)
  then show "host_ok (fold (host_step (windows_helper_backend clk later env) refuse) es (helper_host_new (w, windows_new)))"
    using helper_windows.run_keeps[of "helper_host_new (w, windows_new)" clk later env refuse es] by simp
  show "host_ok (fold (host_step (memory_helper_backend clk later) refuse) es (helper_host_new (w, Healthy fmempty)))"
    using helper_memory.run_keeps[of "helper_host_new (w, Healthy fmempty)" clk later refuse es] by (simp add: memory_good_def)
qed

lemma key_table_fmempty: "key_table key fmempty = Map.empty"
  by (simp add: key_table_def fun_eq_iff)

text \<open>
  As the tunnel manager of the facade the host refines the table of peers, on Windows and elsewhere: every
  sequence of calls succeeds and fails in the way the table allows, and changes nothing but the named peers.
\<close>

theorem helper_manager_refines:
  assumes "apply_ops (helper_ops (windows_helper_backend clk later env)) calls (helper_host_new (w, windows_new)) = (rs, h)"
    and "apply_ops (helper_ops (memory_helper_backend clk later)) calls (helper_host_new (w, Healthy fmempty)) = (rs', h')"
  shows "spec_steps (zip calls rs) Map.empty (windows_table (host_backend h)) \<and>
         spec_steps (zip calls rs') Map.empty (memory_table (host_backend h'))"
proof -
  have "windows_inv (w, windows_new)" "windows_table (w, windows_new) = Map.empty"
    by (simp_all add: windows_inv_def windows_new_def windows_table_def key_table_def fun_eq_iff)
  then show ?thesis
    using tunnel_backend.ops_refine[OF helper_windows.managed_host _ assms(1)]
      tunnel_backend.ops_refine[OF helper_memory.managed_host _ assms(2)]
    by (simp add: key_table_fmempty memory_table_def memory_good_def)
qed

definition helper_tunnel :: TunnelConfig where
  "helper_tunnel =
     \<lparr>TunnelConfig.transport = TunnelTransport.P2P, local_virtual_ip = ''10.0.0.1'', peer_virtual_ip = ''10.0.0.2'',
      wireguard_interface = \<lparr>WireGuardInterfaceConfig.interface_name = None,
        key_pair = \<lparr>WireGuardKeyPair.public_key = ''pub'', private_key = ''priv''\<rparr>, listen_port = None, mtu = None,
        addresses = [''10.0.0.1/24''], dns_servers = [], peers = []\<rparr>,
      wireguard_peer = \<lparr>WireGuardPeerConfig.peer_node_id = None, public_key = ''key'', preshared_key = None,
        endpoint = None, allowed_ips = [], persistent_keepalive_seconds = None\<rparr>\<rparr>"

theorem helper_manager_refines_witness:
  "\<exists>rs h rs' h'.
     apply_ops (helper_ops (windows_helper_backend id id demo_processes)) [Establish helper_tunnel, Close ''10.0.0.9'']
       (helper_host_new (0, windows_new)) = (rs, h) \<and>
     apply_ops (helper_ops (memory_helper_backend id id)) [Establish helper_tunnel, Close ''10.0.0.9'']
       (helper_host_new (0 :: u64, Healthy fmempty)) = (rs', h') \<and>
     spec_steps (zip [Establish helper_tunnel, Close ''10.0.0.9''] rs) Map.empty (windows_table (host_backend h)) \<and>
     spec_steps (zip [Establish helper_tunnel, Close ''10.0.0.9''] rs') Map.empty
       (memory_table (host_backend h'))"
proof -
  obtain rs h where w: "apply_ops (helper_ops (windows_helper_backend id id demo_processes))
      [Establish helper_tunnel, Close ''10.0.0.9''] (helper_host_new (0, windows_new)) = (rs, h)"
    by (rule prod.exhaust)
  obtain rs' h' where m: "apply_ops (helper_ops (memory_helper_backend id id))
      [Establish helper_tunnel, Close ''10.0.0.9''] (helper_host_new (0 :: u64, Healthy fmempty)) = (rs', h')"
    by (rule prod.exhaust)
  show ?thesis
    using helper_manager_refines[OF w m] w m by blast
qed

text \<open>
  Applying a configuration through the user interface while the tunnel runs on Windows marks the interface as
  down, but the host goes on reporting a connection.
\<close>

lemma windows_applied_down:
  assumes "windows_apply_interface_config env i s = (Ok u, s')"
  shows "\<exists>rt. WindowsEmbeddableServiceBackend.interface (snd s') = Healthy (Some rt) \<and> \<not> is_up rt"
  using assms
  by (auto simp: windows_apply_interface_config_def split: result.splits list.splits if_splits prod.splits option.splits)

lemma apply_while_running_windows:
  assumes "apply_configuration (windows_helper_backend clk later env) refuse doc h = (Ok v, h')"
    and "host_state h = Healthy s" "is_running s"
  shows "\<exists>rt s'. WindowsEmbeddableServiceBackend.interface (snd (host_backend h')) = Healthy (Some rt) \<and> \<not> is_up rt \<and>
           host_state h' = Healthy s' \<and> is_running s'"
proof -
  obtain c where c: "de_HelperTunnelConfiguration doc = Some c"
    using assms(1) by (auto simp: apply_configuration_def split: option.splits)
  obtain r1 b1 where 1: "windows_apply_interface_config env (HelperTunnelConfiguration.wireguard_interface c) (host_backend h) = (r1, b1)"
    by (metis surj_pair)
  obtain r2 b2 where 2: "windows_apply_peer_config (HelperTunnelConfiguration.peer_virtual_ip c)
      (HelperTunnelConfiguration.wireguard_peer c) b1 = (r2, b2)"
    by (metis surj_pair)
  obtain u1 u2 where ok: "r1 = Ok u1" "r2 = Ok u2"
    using assms(1) by (cases r1; cases r2; simp add: apply_configuration_def c on_backend_def windows_helper_backend_def 1 2)
  have "WindowsEmbeddableServiceBackend.interface (snd b2) = WindowsEmbeddableServiceBackend.interface (snd b1)"
    using 2 by (auto simp: windows_apply_peer_config_def split: result.splits prod.splits option.splits)
  moreover have "\<exists>rt. WindowsEmbeddableServiceBackend.interface (snd b1) = Healthy (Some rt) \<and> \<not> is_up rt"
    using windows_applied_down 1 ok(1) by simp
  ultimately show ?thesis
    using assms 1 ok by (auto simp: apply_configuration_def c on_backend_def windows_helper_backend_def 2 Let_def)
qed

end
