(* ===== verification/Controller_Dto.thy ===== *)
theory Controller_Dto
  imports Facade
begin

text \<open>
  Crate \<open>controller-client\<close>, \<open>dto.rs\<close>: what the derived serialisers of the request types write, and what
  the derived deserialisers of the response types read, each followed by its conversion into a type
  of the application (\<open>From\<close>, \<open>TryFrom\<close>).  All of them rename fields to camel case.
\<close>

section \<open>Requests\<close>

definition se_register_request :: "RegisterRequest \<Rightarrow> json" where
  "se_register_request r =
     JObj [(''email'', JStr (RegisterRequest.email r)), (''password'', JStr (RegisterRequest.password r))]"

definition se_login_request :: "LoginRequest \<Rightarrow> json" where
  "se_login_request r =
     JObj [(''email'', JStr (LoginRequest.email r)), (''password'', JStr (LoginRequest.password r))]"

definition se_register_device_request :: "RegisterDeviceRequest \<Rightarrow> json" where
  "se_register_device_request r =
     JObj [(''name'', JStr (RegisterDeviceRequest.name r)), (''platform'', JStr (RegisterDeviceRequest.platform r)),
           (''machineId'', JStr (machine_id r)), (''publicKey'', JStr (RegisterDeviceRequest.public_key r))]"

definition se_register_node_request :: "RegisterNodeRequest \<Rightarrow> json" where
  "se_register_node_request r =
     JObj [(''deviceId'', JStr (RegisterNodeRequest.device_id r)), (''nodeId'', JStr (RegisterNodeRequest.node_id r)),
           (''nodePublicKey'', JStr (RegisterNodeRequest.node_public_key r)),
           (''capabilities'', JArr (map JStr (RegisterNodeRequest.capabilities r)))]"

definition se_create_network_request :: "CreateNetworkRequest \<Rightarrow> json" where
  "se_create_network_request r =
     JObj [(''name'', JStr (CreateNetworkRequest.name r)), (''cidr'', JStr (CreateNetworkRequest.cidr r))]"

definition se_join_network_request :: "string \<Rightarrow> json" where
  "se_join_network_request dev = JObj [(''deviceId'', JStr dev)]"

definition se_bootstrap_request :: "string \<Rightarrow> string \<Rightarrow> json" where
  "se_bootstrap_request n net = JObj [(''nodeId'', JStr n), (''networkId'', JStr net)]"

definition se_relay_ticket_request :: "RelayTicketRequest \<Rightarrow> json" where
  "se_relay_ticket_request r =
     JObj [(''networkId'', JStr (RelayTicketRequest.network_id r)), (''srcNodeId'', JStr (RelayTicketRequest.src_node_id r)),
           (''dstNodeId'', JStr (RelayTicketRequest.dst_node_id r)),
           (''derpClusterId'', se_option JStr (RelayTicketRequest.derp_cluster_id r)),
           (''preferredDerpNodeIds'', JArr (map JStr (RelayTicketRequest.preferred_derp_node_ids r))),
           (''reason'', JStr (RelayTicketRequest.reason r))]"

section \<open>Identities\<close>

definition de_auth_response :: "json \<Rightarrow> Session option" where
  "de_auth_response = de_object (\<lambda>obj. do {
     u \<leftarrow> de_field de_string ''userId'' obj;
     a \<leftarrow> de_field de_string ''accessToken'' obj;
     r \<leftarrow> de_optional de_string ''refreshToken'' obj;
     e \<leftarrow> de_field_default 0 de_i64 ''expiresIn'' obj;
     d \<leftarrow> de_optional de_string ''deviceId'' obj;
     Some \<lparr>Session.user_id = u, access_token = a, refresh_token = r, expires_in = e, device_id = d\<rparr> })"

text \<open>\<open>TryFrom<AuthResponseDto> for Session\<close>.\<close>

definition session_try_from :: "Session \<Rightarrow> (Session, string) result" where
  "session_try_from s =
     (if blank (Session.user_id s) \<or> blank (Session.access_token s) then Err ''invalid auth response'' else Ok s)"

definition de_device_dto :: "json \<Rightarrow> Device option" where
  "de_device_dto = de_object (\<lambda>obj. do {
     d \<leftarrow> de_field de_string ''deviceId'' obj;
     n \<leftarrow> de_field de_string ''name'' obj;
     p \<leftarrow> de_field de_string ''platform'' obj;
     s \<leftarrow> de_field_default [] de_string ''status'' obj;
     v \<leftarrow> de_optional de_string ''virtualIp'' obj;
     k \<leftarrow> de_optional de_string ''publicKey'' obj;
     Some \<lparr>Device.device_id = d, name = n, platform = p, status = s, virtual_ip = v, public_key = k\<rparr> })"

definition de_node_dto :: "json \<Rightarrow> Node option" where
  "de_node_dto = de_object (\<lambda>obj. do {
     n \<leftarrow> de_field de_string ''nodeId'' obj;
     d \<leftarrow> de_field de_string ''deviceId'' obj;
     k \<leftarrow> de_field de_string ''nodePublicKey'' obj;
     ids \<leftarrow> de_strings_default ''networkIds'' obj;
     cs \<leftarrow> de_strings_default ''capabilities'' obj;
     Some \<lparr>Node.node_id = n, device_id = d, node_public_key = k, network_ids = ids, capabilities = cs\<rparr> })"

section \<open>Networks\<close>

record SubnetDto =
  cidr :: string
  is_default :: bool

definition de_subnet_dto :: "json \<Rightarrow> SubnetDto option" where
  "de_subnet_dto = de_object (\<lambda>obj. do {
     c \<leftarrow> de_field de_string ''cidr'' obj;
     d \<leftarrow> de_field_default False de_bool ''isDefault'' obj;
     Some \<lparr>SubnetDto.cidr = c, is_default = d\<rparr> })"

definition de_network_member_dto :: "json \<Rightarrow> NetworkMember option" where
  "de_network_member_dto = de_object (\<lambda>obj. do {
     d \<leftarrow> de_field de_string ''deviceId'' obj;
     r \<leftarrow> de_field_default [] de_string ''role'' obj;
     v \<leftarrow> de_optional de_string ''virtualIp'' obj;
     Some \<lparr>NetworkMember.device_id = d, role = r, virtual_ip = v\<rparr> })"

text \<open>The address range of a network: its own, or a default one, or one of its subnets.\<close>

definition network_cidr :: "string \<Rightarrow> string option \<Rightarrow> SubnetDto list \<Rightarrow> string" where
  "network_cidr own default_cidr subnets =
     (if own \<noteq> [] then own
      else case default_cidr of
        Some c \<Rightarrow> c
      | None \<Rightarrow>
          (case find is_default subnets of
             Some s \<Rightarrow> SubnetDto.cidr s
           | None \<Rightarrow> (case first subnets of Some s \<Rightarrow> SubnetDto.cidr s | None \<Rightarrow> [])))"

definition de_network_dto :: "json \<Rightarrow> Network option" where
  "de_network_dto = de_object (\<lambda>obj. do {
     i \<leftarrow> de_field de_string ''networkId'' obj;
     n \<leftarrow> de_field de_string ''name'' obj;
     c \<leftarrow> de_field_default [] de_string ''cidr'' obj;
     dc \<leftarrow> de_optional de_string ''defaultSubnetCidr'' obj;
     ss \<leftarrow> de_field_default [] (de_list de_subnet_dto) ''subnets'' obj;
     ms \<leftarrow> de_field_default [] (de_list de_network_member_dto) ''members'' obj;
     Some \<lparr>Network.network_id = i, name = n, cidr = network_cidr c dc ss, members = ms\<rparr> })"

definition de_list_networks_response :: "json \<Rightarrow> Network list option" where
  "de_list_networks_response = de_object (\<lambda>obj. de_field (de_list de_network_dto) ''items'' obj)"

definition de_network_join_result :: "json \<Rightarrow> (string \<times> string) option" where
  "de_network_join_result = de_object (\<lambda>obj. do {
     i \<leftarrow> de_field de_string ''networkId'' obj;
     d \<leftarrow> de_field de_string ''deviceId'' obj;
     Some (i, d) })"

section \<open>Relays\<close>

definition de_relay_node_dto :: "json \<Rightarrow> RelayNode option" where
  "de_relay_node_dto = de_object (\<lambda>obj. do {
     n \<leftarrow> de_field de_string ''nodeId'' obj;
     t \<leftarrow> de_field de_string ''transport'' obj;
     a \<leftarrow> de_field de_string ''address'' obj;
     p \<leftarrow> de_field_default 0 de_word ''priority'' obj;
     ts \<leftarrow> de_strings_default ''tags'' obj;
     Some \<lparr>RelayNode.node_id = n, transport = t, address = a, priority = p, tags = ts\<rparr> })"

definition de_relay_cluster_dto :: "json \<Rightarrow> RelayCluster option" where
  "de_relay_cluster_dto = de_object (\<lambda>obj. do {
     i \<leftarrow> de_field de_string ''clusterId'' obj;
     n \<leftarrow> de_field de_string ''clusterName'' obj;
     ns \<leftarrow> de_field_default [] (de_list de_relay_node_dto) ''nodes'' obj;
     Some \<lparr>RelayCluster.cluster_id = i, cluster_name = n, nodes = ns\<rparr> })"

definition de_relay_city_dto :: "json \<Rightarrow> RelayCity option" where
  "de_relay_city_dto = de_object (\<lambda>obj. do {
     i \<leftarrow> de_field de_string ''cityCode'' obj;
     n \<leftarrow> de_field de_string ''cityName'' obj;
     cs \<leftarrow> de_field_default [] (de_list de_relay_cluster_dto) ''clusters'' obj;
     Some \<lparr>RelayCity.city_code = i, city_name = n, clusters = cs\<rparr> })"

definition de_relay_country_dto :: "json \<Rightarrow> RelayCountry option" where
  "de_relay_country_dto = de_object (\<lambda>obj. do {
     i \<leftarrow> de_field de_string ''countryCode'' obj;
     n \<leftarrow> de_field de_string ''countryName'' obj;
     cs \<leftarrow> de_field_default [] (de_list de_relay_city_dto) ''cities'' obj;
     Some \<lparr>RelayCountry.country_code = i, country_name = n, cities = cs\<rparr> })"

definition de_relay_config_dto :: "json \<Rightarrow> RelayConfig option" where
  "de_relay_config_dto = de_object (\<lambda>obj. do {
     i \<leftarrow> de_field de_string ''defaultClusterId'' obj;
     cs \<leftarrow> de_field_default [] (de_list de_relay_country_dto) ''countries'' obj;
     Some \<lparr>RelayConfig.default_cluster_id = i, countries = cs\<rparr> })"

definition de_relay_endpoint_dto :: "json \<Rightarrow> RelayEndpoint option" where
  "de_relay_endpoint_dto = de_object (\<lambda>obj. do {
     i \<leftarrow> de_field de_string ''endpointId'' obj;
     t \<leftarrow> de_field de_string ''transport'' obj;
     a \<leftarrow> de_field de_string ''address'' obj;
     Some \<lparr>RelayEndpoint.endpoint_id = i, transport = t, address = a\<rparr> })"

definition de_relay_region_dto :: "json \<Rightarrow> RelayRegion option" where
  "de_relay_region_dto = de_object (\<lambda>obj. do {
     i \<leftarrow> de_field de_string ''regionId'' obj;
     n \<leftarrow> de_field de_string ''regionName'' obj;
     cc \<leftarrow> de_optional de_string ''countryCode'' obj;
     cn \<leftarrow> de_optional de_string ''countryName'' obj;
     tc \<leftarrow> de_optional de_string ''cityCode'' obj;
     tn \<leftarrow> de_optional de_string ''cityName'' obj;
     ki \<leftarrow> de_optional de_string ''clusterId'' obj;
     kn \<leftarrow> de_optional de_string ''clusterName'' obj;
     eps \<leftarrow> de_field_default [] (de_list de_relay_endpoint_dto) ''endpoints'' obj;
     Some \<lparr>RelayRegion.region_id = i, region_name = n, country_code = cc, country_name = cn, city_code = tc,
           city_name = tn, cluster_id = ki, cluster_name = kn, endpoints = eps\<rparr> })"

section \<open>The network map\<close>

definition default_heartbeat_seconds :: u32 where
  "default_heartbeat_seconds = 15"

definition de_endpoint_dto :: "json \<Rightarrow> Endpoint option" where
  "de_endpoint_dto = de_object (\<lambda>obj. do {
     t \<leftarrow> de_field de_string ''endpointType'' obj;
     a \<leftarrow> de_field de_string ''address'' obj;
     u \<leftarrow> de_field_default 0 de_i64 ''updatedAt'' obj;
     Some \<lparr>Endpoint.endpoint_type = t, address = a, updated_at = u\<rparr> })"

definition de_peer_dto :: "json \<Rightarrow> Peer option" where
  "de_peer_dto = de_object (\<lambda>obj. do {
     n \<leftarrow> de_field de_string ''nodeId'' obj;
     d \<leftarrow> de_field de_string ''deviceId'' obj;
     k \<leftarrow> de_field de_string ''publicKey'' obj;
     s \<leftarrow> de_field_default [] de_string ''status'' obj;
     r \<leftarrow> de_field_default False de_bool ''relayAllowed'' obj;
     ips \<leftarrow> de_strings_default ''virtualIps'' obj;
     eps \<leftarrow> de_field_default [] (de_list de_endpoint_dto) ''endpoints'' obj;
     rs \<leftarrow> de_strings_default ''allowedRoutes'' obj;
     Some \<lparr>Peer.node_id = n, device_id = d, public_key = k, status = s, relay_allowed = r, virtual_ips = ips,
           endpoints = eps, allowed_routes = rs\<rparr> })"

definition de_route_dto :: "json \<Rightarrow> Route option" where
  "de_route_dto = de_object (\<lambda>obj. do {
     c \<leftarrow> de_field de_string ''cidr'' obj;
     v \<leftarrow> de_field de_string ''viaNodeId'' obj;
     m \<leftarrow> de_optional de_string ''metric'' obj;
     Some \<lparr>Route.cidr = c, via_node_id = v, metric = m\<rparr> })"

definition de_dns_config_dto :: "json \<Rightarrow> DnsConfig option" where
  "de_dns_config_dto = de_object (\<lambda>obj. do {
     s \<leftarrow> de_strings_default ''servers'' obj;
     d \<leftarrow> de_strings_default ''searchDomains'' obj;
     Some \<lparr>DnsConfig.servers = s, search_domains = d\<rparr> })"

definition de_network_map_dto :: "json \<Rightarrow> NetworkMap option" where
  "de_network_map_dto = de_object (\<lambda>obj. do {
     u \<leftarrow> de_field de_string ''selfUserId'' obj;
     d \<leftarrow> de_field de_string ''selfDeviceId'' obj;
     n \<leftarrow> de_field de_string ''selfNodeId'' obj;
     i \<leftarrow> de_field de_string ''networkId'' obj;
     r \<leftarrow> de_field de_word ''revision'' obj;
     h \<leftarrow> de_field_default default_heartbeat_seconds de_word ''heartbeatSeconds'' obj;
     stun \<leftarrow> de_strings_default ''stunServers'' obj;
     ps \<leftarrow> de_field_default [] (de_list de_peer_dto) ''peers'' obj;
     rs \<leftarrow> de_field_default [] (de_list de_route_dto) ''routes'' obj;
     regions \<leftarrow> de_field_default [] (de_list de_relay_region_dto) ''relayRegions'' obj;
     names \<leftarrow> de_field de_dns_config_dto ''dns'' obj;
     m \<leftarrow> de_optional de_word ''mtu'' obj;
     Some \<lparr>NetworkMap.self_user_id = u, self_device_id = d, self_node_id = n, network_id = i, revision = r,
           heartbeat_seconds = h, stun_servers = stun, peers = ps, routes = rs, relay_regions = regions,
           dns = names, mtu = m\<rparr> })"

section \<open>DERP\<close>

definition parse_derp_transport :: "string \<Rightarrow> DerpTransport" where
  "parse_derp_transport raw =
     (if raw = ''tcp'' then DerpTransport.Tcp else if raw = ''quic'' then DerpTransport.Quic else DerpTransport.Udp)"

definition default_probe_interval_seconds :: u32 where
  "default_probe_interval_seconds = 5"

definition default_recommended_fanout :: u8 where
  "default_recommended_fanout = 2"

record DerpNodeDto =
  node_id :: string
  host :: string
  port :: u16
  transport :: string
  priority :: u32
  tags :: "string list"

definition de_derp_node_dto :: "json \<Rightarrow> DerpNodeDto option" where
  "de_derp_node_dto = de_object (\<lambda>obj. do {
     n \<leftarrow> de_field de_string ''nodeId'' obj;
     h \<leftarrow> de_field de_string ''host'' obj;
     p \<leftarrow> de_field de_word ''port'' obj;
     t \<leftarrow> de_field de_string ''transport'' obj;
     pr \<leftarrow> de_field_default 0 de_word ''priority'' obj;
     ts \<leftarrow> de_strings_default ''tags'' obj;
     Some \<lparr>DerpNodeDto.node_id = n, host = h, port = p, transport = t, priority = pr, tags = ts\<rparr> })"

definition into_meta ::
  "DerpNodeDto \<Rightarrow> string \<Rightarrow> string \<Rightarrow> string option \<Rightarrow> string option \<Rightarrow> string option \<Rightarrow> string option \<Rightarrow> DerpNodeMeta" where
  "into_meta n cluster region cc cn tc tn =
     \<lparr>DerpNodeMeta.cluster_id = cluster, region_id = region, country_code = cc, country_name = cn, city_code = tc,
      city_name = tn, node_id = DerpNodeDto.node_id n, host = DerpNodeDto.host n, port = DerpNodeDto.port n,
      transport = parse_derp_transport (DerpNodeDto.transport n), priority = DerpNodeDto.priority n,
      tags = DerpNodeDto.tags n\<rparr>"

definition de_derp_cluster_dto :: "json \<Rightarrow> DerpCluster option" where
  "de_derp_cluster_dto = de_object (\<lambda>obj. do {
     i \<leftarrow> de_field de_string ''clusterId'' obj;
     kn \<leftarrow> de_optional de_string ''clusterName'' obj;
     r \<leftarrow> de_field de_string ''regionId'' obj;
     rn \<leftarrow> de_field de_string ''regionName'' obj;
     cc \<leftarrow> de_optional de_string ''countryCode'' obj;
     cn \<leftarrow> de_optional de_string ''countryName'' obj;
     tc \<leftarrow> de_optional de_string ''cityCode'' obj;
     tn \<leftarrow> de_optional de_string ''cityName'' obj;
     f \<leftarrow> de_field_default default_recommended_fanout de_word ''recommendedFanout'' obj;
     ns \<leftarrow> de_field_default [] (de_list de_derp_node_dto) ''nodes'' obj;
     Some \<lparr>DerpCluster.cluster_id = i, cluster_name = kn, region_id = r, region_name = rn, country_code = cc,
           country_name = cn, city_code = tc, city_name = tn, recommended_fanout = f,
           nodes = map (\<lambda>n. into_meta n i r cc cn tc tn) ns\<rparr> })"

definition de_derp_map_dto :: "json \<Rightarrow> DerpMap option" where
  "de_derp_map_dto = de_object (\<lambda>obj. do {
     p \<leftarrow> de_field_default default_probe_interval_seconds de_word ''probeIntervalSeconds'' obj;
     cs \<leftarrow> de_field_default [] (de_list de_derp_cluster_dto) ''clusters'' obj;
     Some \<lparr>DerpMap.probe_interval_seconds = p, clusters = cs\<rparr> })"

section \<open>Bootstrap and tickets\<close>

definition de_control_plane_dto :: "json \<Rightarrow> ControlPlaneConfig option" where
  "de_control_plane_dto = de_object (\<lambda>obj. do {
     u \<leftarrow> de_field de_string ''wsUrl'' obj;
     t \<leftarrow> de_optional de_string ''sessionToken'' obj;
     h \<leftarrow> de_field_default default_heartbeat_seconds de_word ''heartbeatSeconds'' obj;
     Some \<lparr>ControlPlaneConfig.ws_url = u, session_token = t, heartbeat_seconds = h\<rparr> })"

definition de_bootstrap_device_dto :: "json \<Rightarrow> Device option" where
  "de_bootstrap_device_dto = de_object (\<lambda>obj. de_field de_device_dto ''device'' obj)"

definition de_bootstrap_response :: "json \<Rightarrow> BootstrapConfig option" where
  "de_bootstrap_response = de_object (\<lambda>obj. do {
     d \<leftarrow> de_field de_bootstrap_device_dto ''device'' obj;
     ns \<leftarrow> de_field_default [] (de_list de_network_dto) ''networks'' obj;
     cp \<leftarrow> de_field de_control_plane_dto ''controlPlane'' obj;
     stun \<leftarrow> de_strings_default ''stunServers'' obj;
     r \<leftarrow> de_field de_relay_config_dto ''relay'' obj;
     dm \<leftarrow> de_optional de_derp_map_dto ''derpMap'' obj;
     nm \<leftarrow> de_optional de_network_map_dto ''networkMap'' obj;
     Some \<lparr>BootstrapConfig.device = d, networks = ns, control_plane = cp, stun_servers = stun, relay = r,
           derp_map = dm, network_map = nm\<rparr> })"

definition de_relay_ticket_dto :: "json \<Rightarrow> RelayTicket option" where
  "de_relay_ticket_dto = de_object (\<lambda>obj. do {
     t \<leftarrow> de_field de_string ''ticketId'' obj;
     n \<leftarrow> de_field de_string ''networkId'' obj;
     s \<leftarrow> de_field de_string ''sessionId'' obj;
     src \<leftarrow> de_field de_string ''srcNodeId'' obj;
     dst \<leftarrow> de_field de_string ''dstNodeId'' obj;
     k \<leftarrow> de_optional de_string ''derpClusterId'' obj;
     cc \<leftarrow> de_optional de_string ''countryCode'' obj;
     tc \<leftarrow> de_optional de_string ''cityCode'' obj;
     ids \<leftarrow> de_strings_default ''allowedDerpNodeIds'' obj;
     u \<leftarrow> de_field de_string ''relayUrl'' obj;
     e \<leftarrow> de_field de_string ''expiresAt'' obj;
     sk \<leftarrow> de_optional de_string ''sessionKey'' obj;
     sig \<leftarrow> de_field de_string ''signature'' obj;
     Some \<lparr>RelayTicket.ticket_id = t, network_id = n, session_id = s, src_node_id = src, dst_node_id = dst,
           derp_cluster_id = k, country_code = cc, city_code = tc, allowed_derp_node_ids = ids,
           relay_url = u, expires_at = e, session_key = sk, signature = sig\<rparr> })"

end
