(* ===== verification/Http_Transport.thy ===== *)
theory Http_Transport
  imports Controller_Dto Rust_Text
begin

text \<open>
  Crate \<open>controller-client\<close>, \<open>transport.rs\<close> and \<open>http_runtime.rs\<close>: one HTTP/1.1 exchange per request over
  a fresh TCP stream, and JSON requests on top of it.  The resolver, the stream and the JSON text are
  calls into the environment; the text of a request and the reading of an answer are the code's own.
\<close>

section \<open>Requests and answers\<close>

datatype HttpMethod = Get | Post

record HttpRequest =
  http_method :: HttpMethod
  path :: string
  bearer_token :: "string option"
  body_json :: "u8 list option"

record HttpResponse =
  status :: u16
  body_json :: "u8 list"

text \<open>The trait \<open>JsonHttpTransport\<close>.\<close>

type_synonym 'x json_transport = "HttpRequest \<Rightarrow> (HttpResponse, 'x) call"

section \<open>Locations\<close>

record ParsedHttpUrl =
  host :: string
  host_header :: string
  port :: u16
  path_and_query :: string

definition parse_host_port :: "string \<Rightarrow> string \<Rightarrow> (string \<times> u16, string) result" where
  "parse_host_port raw host_port =
     (case split_once '':'' host_port of
        None \<Rightarrow> Ok (host_port, 80)
      | Some (h, p) \<Rightarrow>
          (case parse_u16 p of
             Err e \<Rightarrow> Err (''invalid port in url '' @ raw @ '': '' @ display_int_error e)
           | Ok n \<Rightarrow> Ok (h, word_of_int n)))"

definition parse_http_url :: "string \<Rightarrow> (ParsedHttpUrl, string) result" where
  "parse_http_url url =
     (let raw = trim url
      in case strip_prefix raw ''http://'' of
           None \<Rightarrow> Err (''unsupported url scheme: '' @ raw)
         | Some rest \<Rightarrow>
             (case (case split_once ''/'' rest of Some (hp, p) \<Rightarrow> (hp, ''/'' @ p) | None \<Rightarrow> (rest, ''/'')) of
                (host_port, pq) \<Rightarrow>
                  (case parse_host_port raw host_port of
                     Err e \<Rightarrow> Err e
                   | Ok (h, n) \<Rightarrow>
                       if h = [] then Err (''missing host in url: '' @ raw)
                       else Ok \<lparr>ParsedHttpUrl.host = h, host_header = (if n = 80 then h else h @ '':'' @ show_word n),
                                port = n, path_and_query = pq\<rparr>)))"

section \<open>The text of a request\<close>

definition crlf :: string where
  "crlf = [CHR 0x0D, CHR 0x0A]"

fun method_name :: "HttpMethod \<Rightarrow> string" where
  "method_name Get = ''GET''"
| "method_name Post = ''POST''"

definition request_head :: "HttpMethod \<Rightarrow> ParsedHttpUrl \<Rightarrow> string option \<Rightarrow> u8 list \<Rightarrow> string" where
  "request_head m target token body =
     method_name m @ '' '' @ path_and_query target @ '' HTTP/1.1'' @ crlf @
     ''Host: '' @ host_header target @ crlf @
     ''Accept: application/json'' @ crlf @
     ''Connection: close'' @ crlf @
     (case token of None \<Rightarrow> [] | Some t \<Rightarrow> ''Authorization: Bearer '' @ t @ crlf) @
     (if body = [] then []
      else ''Content-Type: application/json'' @ crlf @ ''Content-Length: '' @ show_nat (length body) @ crlf) @
     crlf"

section \<open>Reading an answer\<close>

text \<open>\<open>raw.windows(n).position\<close>: the first place where a sequence occurs.\<close>

fun window_position :: "'a list \<Rightarrow> 'a list \<Rightarrow> nat option" where
  "window_position sep [] = (if sep = [] then Some 0 else None)"
| "window_position sep (x # xs) =
     (if take (length sep) (x # xs) = sep then Some 0 else map_option Suc (window_position sep xs))"

definition header_separator :: "u8 list" where
  "header_separator = as_bytes (crlf @ crlf)"

definition parse_status_line :: "string \<Rightarrow> (u16, string) result" where
  "parse_status_line line =
     (case first (drop 1 (split_whitespace line)) of
        None \<Rightarrow> Err (''invalid http status line: '' @ line)
      | Some t \<Rightarrow>
          (case parse_u16 t of
             Err e \<Rightarrow> Err (display_int_error e)
           | Ok n \<Rightarrow> Ok (word_of_int n)))"

definition parse_http_response :: "u8 list \<Rightarrow> (HttpResponse, string) result" where
  "parse_http_response raw =
     (case window_position header_separator raw of
        None \<Rightarrow> Err ''invalid http response: missing header separator''
      | Some header_end \<Rightarrow>
          (case from_utf8 (take header_end raw) of
             Err e \<Rightarrow> Err e
           | Ok header_text \<Rightarrow>
               (case first (text_lines header_text) of
                  None \<Rightarrow> Err ''invalid http response: missing status line''
                | Some line \<Rightarrow>
                    (case parse_status_line line of
                       Err e \<Rightarrow> Err e
                     | Ok n \<Rightarrow>
                         Ok \<lparr>HttpResponse.status = n,
                             body_json = drop (header_end + length header_separator) raw\<rparr>))))"

section \<open>One exchange\<close>

record 'x HttpEnv =
  resolve_all :: "string \<Rightarrow> (SocketAddr list, 'x) call"
  connect_timeout :: "SocketAddr \<Rightarrow> u64 \<Rightarrow> (nat, 'x) call"
  stream_read_timeout :: "nat \<Rightarrow> u64 \<Rightarrow> (unit, 'x) call"
  stream_write_timeout :: "nat \<Rightarrow> u64 \<Rightarrow> (unit, 'x) call"
  stream_write_all :: "nat \<Rightarrow> u8 list \<Rightarrow> (unit, 'x) call"
  stream_shutdown_write :: "nat \<Rightarrow> (unit, 'x) call"
  stream_read_to_end :: "nat \<Rightarrow> (u8 list, 'x) call"
  json_of_bytes :: "u8 list \<Rightarrow> (json, string) result"
  bytes_of_json :: "json \<Rightarrow> (u8 list, string) result"
  refusal :: "u8 list \<Rightarrow> string"

fun then_call :: "('a, 'x) call \<Rightarrow> ('a \<Rightarrow> ('b, 'x) call) \<Rightarrow> ('b, 'x) call" where
  "then_call c k x = (case c x of (Err e, x') \<Rightarrow> (Err e, x') | (Ok a, x') \<Rightarrow> k a x')"

definition return_call :: "('a, string) result \<Rightarrow> ('a, 'x) call" where
  "return_call r x = (r, x)"

definition exchange :: "'x HttpEnv \<Rightarrow> nat \<Rightarrow> u8 list \<Rightarrow> u8 list \<Rightarrow> (HttpResponse, 'x) call" where
  "exchange env s wire body =
     then_call (stream_write_all env s wire) (\<lambda>_.
     then_call (if body = [] then return_call (Ok ()) else stream_write_all env s body) (\<lambda>_ x.
       then_call (stream_read_to_end env s) (\<lambda>raw. return_call (parse_http_response raw))
         (snd (stream_shutdown_write env s x))))"

text \<open>\<open>TcpJsonHttpTransport::send\<close> with a timeout in milliseconds.\<close>

definition tcp_send :: "'x HttpEnv \<Rightarrow> u64 \<Rightarrow> 'x json_transport" where
  "tcp_send env timeout req =
     then_call (return_call (parse_http_url (HttpRequest.path req))) (\<lambda>target.
     then_call (resolve_all env (ParsedHttpUrl.host target @ '':'' @ show_word (ParsedHttpUrl.port target))) (\<lambda>addrs.
     then_call (return_call (ok_or (first addrs) (''unable to resolve host: '' @ ParsedHttpUrl.host target))) (\<lambda>addr.
     then_call (connect_timeout env addr timeout) (\<lambda>s.
     then_call (stream_read_timeout env s timeout) (\<lambda>_.
     then_call (stream_write_timeout env s timeout) (\<lambda>_.
       let body = (case HttpRequest.body_json req of None \<Rightarrow> [] | Some b \<Rightarrow> b)
       in exchange env s
            (as_bytes (request_head (HttpRequest.http_method req) target (bearer_token req) body)) body))))))"

definition default_http_timeout :: u64 where
  "default_http_timeout = 5000"

section \<open>JSON requests\<close>

definition trim_end_matches :: "char \<Rightarrow> string \<Rightarrow> string" where
  "trim_end_matches c s = rev (dropWhile (\<lambda>d. d = c) (rev s))"

definition join_path :: "string \<Rightarrow> string \<Rightarrow> string" where
  "join_path base p = trim_end_matches (CHR ''/'') base @ p"

definition parse_success_response :: "'x HttpEnv \<Rightarrow> (json \<Rightarrow> 'a option) \<Rightarrow> HttpResponse \<Rightarrow> ('a, string) result" where
  "parse_success_response env de r =
     (if \<not> (200 \<le> HttpResponse.status r \<and> HttpResponse.status r < 300)
      then Err (''unexpected http status: '' @ show_word (HttpResponse.status r))
      else case json_of_bytes env (HttpResponse.body_json r) of
             Err e \<Rightarrow> Err e
           | Ok v \<Rightarrow> ok_or (de v) (refusal env (HttpResponse.body_json r)))"

definition post_json ::
  "'x HttpEnv \<Rightarrow> 'x json_transport \<Rightarrow> (json \<Rightarrow> 'a option) \<Rightarrow> string \<Rightarrow> string \<Rightarrow> string option \<Rightarrow> json \<Rightarrow> ('a, 'x) call" where
  "post_json env send de base p token body =
     then_call (return_call (bytes_of_json env body)) (\<lambda>bytes.
     then_call (send \<lparr>HttpRequest.http_method = Post, path = join_path base p, bearer_token = token,
                      body_json = Some bytes\<rparr>) (\<lambda>r.
     return_call (parse_success_response env de r)))"

definition get_json ::
  "'x HttpEnv \<Rightarrow> 'x json_transport \<Rightarrow> (json \<Rightarrow> 'a option) \<Rightarrow> string \<Rightarrow> string \<Rightarrow> string option \<Rightarrow> ('a, 'x) call" where
  "get_json env send de base p token =
     then_call (send \<lparr>HttpRequest.http_method = Get, path = join_path base p, bearer_token = token,
                      body_json = None\<rparr>) (\<lambda>r.
     return_call (parse_success_response env de r))"

end
