(* ===== verification/Controller_Http.thy ===== *)
theory Controller_Http
  imports Http_Transport
begin

text \<open>
  Crate \<open>controller-client\<close>, \<open>client.rs\<close>: the controller over a JSON transport, every operation with its
  path, its token and its document.
\<close>

section \<open>The client\<close>

record 'x HttpControllerClient =
  http_env :: "'x HttpEnv"
  base_url :: string
  transport :: "'x json_transport"

text \<open>What all operations but one share: a document posted, an answer read and converted.\<close>

definition post_op ::
  "'x HttpControllerClient \<Rightarrow> (json \<Rightarrow> 'a option) \<Rightarrow> ('a \<Rightarrow> ('b, string) result) \<Rightarrow>
   string \<Rightarrow> string option \<Rightarrow> json \<Rightarrow> ('b, 'x) call" where
  "post_op c de conv p token body =
     then_call (post_json (http_env c) (HttpControllerClient.transport c) de (base_url c) p token body)
       (\<lambda>dto. return_call (conv dto))"

definition http_register :: "'x HttpControllerClient \<Rightarrow> RegisterRequest \<Rightarrow> (Session, 'x) call" where
  "http_register c req =
     post_op c de_auth_response session_try_from ''/auth/register'' None (se_register_request req)"

definition http_login :: "'x HttpControllerClient \<Rightarrow> LoginRequest \<Rightarrow> (Session, 'x) call" where
  "http_login c req =
     post_op c de_auth_response session_try_from ''/auth/login'' None (se_login_request req)"

definition http_register_device :: "'x HttpControllerClient \<Rightarrow> string \<Rightarrow> RegisterDeviceRequest \<Rightarrow> (Device, 'x) call" where
  "http_register_device c token req =
     post_op c de_device_dto Ok ''/devices/register'' (Some token) (se_register_device_request req)"

definition http_register_node :: "'x HttpControllerClient \<Rightarrow> string \<Rightarrow> RegisterNodeRequest \<Rightarrow> (Node, 'x) call" where
  "http_register_node c token req =
     post_op c de_node_dto Ok ''/nodes/register'' (Some token) (se_register_node_request req)"

definition http_list_networks :: "'x HttpControllerClient \<Rightarrow> string \<Rightarrow> (Network list, 'x) call" where
  "http_list_networks c token =
     get_json (http_env c) (HttpControllerClient.transport c) de_list_networks_response (base_url c) ''/networks'' (Some token)"

definition http_create_network :: "'x HttpControllerClient \<Rightarrow> string \<Rightarrow> CreateNetworkRequest \<Rightarrow> (Network, 'x) call" where
  "http_create_network c token req =
     post_op c de_network_dto Ok ''/networks'' (Some token) (se_create_network_request req)"

definition http_join_network :: "'x HttpControllerClient \<Rightarrow> string \<Rightarrow> JoinNetworkRequest \<Rightarrow> (unit, 'x) call" where
  "http_join_network c token req =
     post_op c de_network_join_result (\<lambda>_. Ok ())
       (''/networks/'' @ JoinNetworkRequest.network_id req @ ''/join'') (Some token)
       (se_join_network_request (JoinNetworkRequest.device_id req))"

definition http_activate_network :: "'x HttpControllerClient \<Rightarrow> string \<Rightarrow> JoinNetworkRequest \<Rightarrow> (unit, 'x) call" where
  "http_activate_network c token req =
     post_op c de_network_join_result (\<lambda>_. Ok ())
       (''/networks/'' @ JoinNetworkRequest.network_id req @ ''/activate'') (Some token)
       (se_join_network_request (JoinNetworkRequest.device_id req))"

definition http_deactivate_network :: "'x HttpControllerClient \<Rightarrow> string \<Rightarrow> DeactivateNetworkRequest \<Rightarrow> (unit, 'x) call" where
  "http_deactivate_network c token req =
     post_op c Some (\<lambda>_. Ok ())
       (''/networks/'' @ DeactivateNetworkRequest.network_id req @ ''/deactivate'') (Some token)
       (se_join_network_request (DeactivateNetworkRequest.device_id req))"

definition http_bootstrap :: "'x HttpControllerClient \<Rightarrow> string \<Rightarrow> string \<Rightarrow> string \<Rightarrow> (BootstrapConfig, 'x) call" where
  "http_bootstrap c token n net =
     post_op c de_bootstrap_response Ok ''/bootstrap'' (Some token) (se_bootstrap_request n net)"

definition http_issue_relay_ticket :: "'x HttpControllerClient \<Rightarrow> string \<Rightarrow> RelayTicketRequest \<Rightarrow> (RelayTicket, 'x) call" where
  "http_issue_relay_ticket c token req =
     post_op c de_relay_ticket_dto Ok ''/relay/tickets'' (Some token) (se_relay_ticket_request req)"

definition http_controller_client :: "'x HttpControllerClient \<Rightarrow> 'x ControllerClient" where
  "http_controller_client c =
     \<lparr>register_op = http_register c, login_op = http_login c, register_device_op = http_register_device c,
      register_node_op = http_register_node c, list_networks_op = http_list_networks c,
      create_network_op = http_create_network c, join_network_op = http_join_network c,
      activate_network_op = http_activate_network c, deactivate_network_op = http_deactivate_network c,
      bootstrap_op = http_bootstrap c, issue_relay_ticket_op = http_issue_relay_ticket c\<rparr>"

end
