(* ===== verification/Helper_Rpc.thy ===== *)
theory Helper_Rpc
  imports Helper_Host Controller_Http
begin

text \<open>
  Crate \<open>app-core-helper\<close>: requests and answers as lines of JSON, the classification of errors, the loops over
  standard input and over TCP clients, and the client that the helper puts together.  The texts of JSON,
  the environment variables, the lines that arrive and the writers are parameters.
\<close>

section \<open>Requests and answers\<close>

record RpcRequest =
  rpc_method :: string
  call_args :: json

definition de_RpcRequest :: "json \<Rightarrow> RpcRequest option" where
  "de_RpcRequest = de_object (\<lambda>obj. do {
     m \<leftarrow> de_field de_string ''method'' obj;
     a \<leftarrow> de_field_default JNull (\<lambda>v. Some (value_of v)) ''args'' obj;
     Some \<lparr>RpcRequest.rpc_method = m, call_args = a\<rparr> })"

record RpcResponse =
  rpc_ok :: bool
  rpc_result :: "json option"
  rpc_error :: "string option"
  error_code :: "string option"
  error_message :: "string option"

definition se_RpcResponse :: "RpcResponse \<Rightarrow> json" where
  "se_RpcResponse r =
     JObj ([(''ok'', JBool (rpc_ok r))]
       @ se_present ''result'' id (rpc_result r)
       @ se_present ''error'' JStr (rpc_error r)
       @ se_present ''errorCode'' JStr (error_code r)
       @ se_present ''errorMessage'' JStr (error_message r))"

definition classify_structured_error :: "string \<Rightarrow> (string \<times> string) option" where
  "classify_structured_error e =
     (case split_once '': '' e of
        None \<Rightarrow> None
      | Some (c, m) \<Rightarrow>
          if starts_with c ''probe_'' \<or> starts_with c ''send_'' \<or> starts_with c ''app_core_'' then Some (c, m) else None)"

definition classify_helper_error :: "string \<Rightarrow> string \<Rightarrow> string \<times> string" where
  "classify_helper_error m e =
     (case classify_structured_error e of
        Some cm \<Rightarrow> cm
      | None \<Rightarrow>
          if m = ''send'' then (''send_failed'', e)
          else if m = ''probe'' then (''probe_failed'', e)
          else (''app_core_helper_error'', e))"

definition build_rpc_response :: "string \<Rightarrow> (json, string) result \<Rightarrow> RpcResponse" where
  "build_rpc_response m r =
     (case r of
        Ok v \<Rightarrow> \<lparr>rpc_ok = True, rpc_result = Some v, rpc_error = None, error_code = None, error_message = None\<rparr>
      | Err e \<Rightarrow>
          (case classify_helper_error m e of (c, t) \<Rightarrow>
             \<lparr>rpc_ok = False, rpc_result = None, rpc_error = Some e, error_code = Some c, error_message = Some t\<rparr>))"

section \<open>The surroundings of the helper\<close>

record HelperEnv =
  rpc_json :: "string \<Rightarrow> (json, string) result"
  rpc_refused :: "string \<Rightarrow> string"
  rpc_text :: "json \<Rightarrow> string"
  args_refused :: "string \<Rightarrow> json \<Rightarrow> string"
  helper_var :: "string \<Rightarrow> string option"

definition test_override :: "HelperEnv \<Rightarrow> string \<Rightarrow> string \<Rightarrow> (json, string) result option" where
  "test_override he result_key error_key =
     (case helper_var he result_key of
        Some t \<Rightarrow>
          Some (map_ok value_of (map_err (\<lambda>e. ''invalid helper test result json in '' @ result_key @ '': '' @ e) (rpc_json he t)))
      | None \<Rightarrow> map_option Err (helper_var he error_key))"

definition maybe_test_override_result :: "HelperEnv \<Rightarrow> string \<Rightarrow> (json, string) result option" where
  "maybe_test_override_result he m =
     (if m = ''send'' then
        test_override he ''SLAN_APP_CORE_HELPER_TEST_SEND_RESULT'' ''SLAN_APP_CORE_HELPER_TEST_SEND_ERROR''
      else if m = ''probe'' then
        test_override he ''SLAN_APP_CORE_HELPER_TEST_PROBE_RESULT'' ''SLAN_APP_CORE_HELPER_TEST_PROBE_ERROR''
      else None)"

section \<open>The client of the helper\<close>

text \<open>The host lives beside what lies outside; the facade and the user interface share it.\<close>

type_synonym 'b helper_tunnels = "'b \<times> HelperTunnelState mutex"

type_synonym ('x, 'b) helper_facade = "('x, 'b helper_tunnels) ClientWorldOf DefaultAppCoreFacade"

definition via_host ::
  "(('x \<times> 'b) HelperTunnelHost \<Rightarrow> 'r \<times> ('x \<times> 'b) HelperTunnelHost) \<Rightarrow>
   'x \<times> 'b helper_tunnels \<Rightarrow> 'r \<times> 'x \<times> 'b helper_tunnels" where
  "via_host g = (\<lambda>(x, b, st).
     case g \<lparr>host_backend = (x, b), host_state = st\<rparr> of
       (r, h) \<Rightarrow> (r, fst (host_backend h), snd (host_backend h), host_state h))"

definition host_manager :: "('x \<times> 'b) HelperBackend \<Rightarrow> ('x \<times> 'b helper_tunnels) TunnelBackend" where
  "host_manager hb =
     \<lparr>establish = (\<lambda>cfg. via_host (establish (helper_ops hb) cfg)), close = (\<lambda>ip. via_host (close (helper_ops hb) ip))\<rparr>"

definition helper_keys :: "'x ClientEnv \<Rightarrow> HelperEnv \<Rightarrow> 'x key_provider" where
  "helper_keys env he =
     (case helper_var he ''SLAN_APP_CORE_TUNNEL_KEY_FILE'' of
        Some p \<Rightarrow> file_generate (files env) p
      | None \<Rightarrow> in_memory_generate)"

definition helper_services ::
  "'x ClientEnv \<Rightarrow> 'x HttpEnv \<Rightarrow> HelperEnv \<Rightarrow> ('x \<times> 'b) HelperBackend \<Rightarrow> string \<Rightarrow> ('x, 'b helper_tunnels) ClientWorldOf Services" where
  "helper_services env http he hb base =
     client_services
       (env\<lparr>http_controller := http_controller_client
          \<lparr>http_env = http, base_url = base, transport = tcp_send http default_http_timeout\<rparr>\<rparr>)
       (helper_keys env he) (host_manager hb)"

definition helper_facade_new :: "'x \<Rightarrow> 'b \<Rightarrow> ('x, 'b) helper_facade" where
  "helper_facade_new x b =
     facade_new \<lparr>outside = x, path_mgr = path_manager_new pool_new relay_client_default p2p_default,
       tunnels = (b, Healthy helper_state_default)\<rparr>"

section \<open>One request\<close>

type_synonym ('x, 'b) helper = "('x, 'b helper_tunnels) ClientWorldOf Services \<times> ('x \<times> 'b) HelperBackend \<times> HelperEnv"

definition invoke_helper :: "('x, 'b) helper \<Rightarrow> string \<Rightarrow> json \<Rightarrow> (json, fault, ('x, 'b) helper_facade) outcome" where
  "invoke_helper hp m doc f =
     (case hp of (svc, hb, he) \<Rightarrow>
        if supports_method m then
          returns (on_world (via_tunnels (via_host (helper_invoke hb (args_refused he m) m doc)))) f
        else invoke (default_facade_ops svc) (args_refused he) m doc f)"

text \<open>A panic ends the program instead of being answered.\<close>

fun rpc_answer :: "string \<Rightarrow> (json, fault) result \<Rightarrow> (RpcResponse, fault) result" where
  "rpc_answer m (Ok v) = Ok (build_rpc_response m (Ok v))"
| "rpc_answer m (Err (Fail e)) = Ok (build_rpc_response m (Err e))"
| "rpc_answer m (Err (Panic e)) = Err (Panic e)"

definition handle_rpc_request ::
  "('x, 'b) helper \<Rightarrow> RpcRequest \<Rightarrow> (RpcResponse, fault, ('x, 'b) helper_facade) outcome" where
  "handle_rpc_request hp req f =
     (let m = RpcRequest.rpc_method req
      in case maybe_test_override_result (snd (snd hp)) m of
           Some r \<Rightarrow> Some (Ok (build_rpc_response m r), f)
         | None \<Rightarrow>
             map_option (apfst (rpc_answer m)) (invoke_helper hp m (call_args req) f))"

definition read_request :: "HelperEnv \<Rightarrow> string \<Rightarrow> (RpcRequest, string) result" where
  "read_request he line =
     (case rpc_json he line of
        Err e \<Rightarrow> Err e
      | Ok v \<Rightarrow> ok_or (de_RpcRequest v) (rpc_refused he line))"

definition handle_rpc_line ::
  "('x, 'b) helper \<Rightarrow> string \<Rightarrow> (RpcResponse, fault, ('x, 'b) helper_facade) outcome" where
  "handle_rpc_line hp line f =
     (case read_request (snd (snd hp)) line of
        Err e \<Rightarrow> Some (Err (Fail e), f)
      | Ok req \<Rightarrow> handle_rpc_request hp req f)"

section \<open>The loops\<close>

record 'o RpcWriter =
  put_text :: "string \<Rightarrow> (unit, 'o) call"
  flush_out :: "(unit, 'o) call"

definition write_response :: "HelperEnv \<Rightarrow> 'o RpcWriter \<Rightarrow> RpcResponse \<Rightarrow> (unit, 'o) call" where
  "write_response he wr r =
     then_call (put_text wr (rpc_text he (se_RpcResponse r))) (\<lambda>_.
     then_call (put_text wr [CHR 0x0A]) (\<lambda>_. flush_out wr))"

text \<open>
  Lines until the input ends; a line that is not a request, an error of the input or of the output, and a
  panic end the loop.  \<open>context\<close> is put before errors of the input.
\<close>

fun rpc_loop ::
  "('x, 'b) helper \<Rightarrow> 'o RpcWriter \<Rightarrow> string \<Rightarrow> (string, string) result list \<Rightarrow>
   ('x, 'b) helper_facade \<Rightarrow> 'o \<Rightarrow> ((unit, fault) result \<times> ('x, 'b) helper_facade \<times> 'o) option" where
  "rpc_loop hp wr ctxt [] f out = Some (Ok (), f, out)"
| "rpc_loop hp wr ctxt (Err e # rest) f out = Some (Err (Fail (ctxt @ e)), f, out)"
| "rpc_loop hp wr ctxt (Ok line # rest) f out =
     (if blank line then rpc_loop hp wr ctxt rest f out
      else case handle_rpc_line hp line f of
          None \<Rightarrow> None
        | Some (Err e, f1) \<Rightarrow> Some (Err e, f1, out)
        | Some (Ok r, f1) \<Rightarrow>
            (case write_response (snd (snd hp)) wr r out of
               (Err e, out1) \<Rightarrow> Some (Err (Fail e), f1, out1)
             | (Ok _, out1) \<Rightarrow> rpc_loop hp wr ctxt rest f1 out1))"

record 'o TcpClient =
  accepted :: "(unit, string) result"
  cloned :: "(unit, string) result"
  received :: "(string, string) result list"
  client_out :: 'o

definition handle_tcp_client ::
  "('x, 'b) helper \<Rightarrow> 'o RpcWriter \<Rightarrow> 'o TcpClient \<Rightarrow> ('x, 'b) helper_facade \<Rightarrow>
   ((unit, fault) result \<times> ('x, 'b) helper_facade \<times> 'o) option" where
  "handle_tcp_client hp wr c f =
     (case cloned c of
        Err e \<Rightarrow> Some (Err (Fail (''failed to clone tcp host stream: '' @ e)), f, client_out c)
      | Ok _ \<Rightarrow> rpc_loop hp wr ''tcp host read failed: '' (received c) f (client_out c))"

fun serve_tcp_clients ::
  "('x, 'b) helper \<Rightarrow> 'o RpcWriter \<Rightarrow> 'o TcpClient list \<Rightarrow> ('x, 'b) helper_facade \<Rightarrow>
   ((unit, fault) result \<times> ('x, 'b) helper_facade \<times> 'o list) option" where
  "serve_tcp_clients hp wr [] f = Some (Ok (), f, [])"
| "serve_tcp_clients hp wr (c # cs) f =
     (case accepted c of
        Err e \<Rightarrow> Some (Err (Fail (''tcp host accept failed: '' @ e)), f, [])
      | Ok _ \<Rightarrow>
          (case handle_tcp_client hp wr c f of
             None \<Rightarrow> None
           | Some (Err e, f1, out) \<Rightarrow> Some (Err e, f1, [out])
           | Some (Ok _, f1, out) \<Rightarrow>
               map_option (\<lambda>(r, f2, outs). (r, f2, out # outs)) (serve_tcp_clients hp wr cs f1)))"

definition run_tcp_host ::
  "('x, 'b) helper \<Rightarrow> 'o RpcWriter \<Rightarrow> (string \<Rightarrow> ('o TcpClient list, string) result) \<Rightarrow> string \<Rightarrow> ('x, 'b) helper_facade \<Rightarrow>
   ((unit, fault) result \<times> ('x, 'b) helper_facade \<times> 'o list) option" where
  "run_tcp_host hp wr listen addr f =
     (case listen addr of
        Err e \<Rightarrow> Some (Err (Fail (''failed to bind app-core-helper tcp host on '' @ addr @ '': '' @ e)), f, [])
      | Ok clients \<Rightarrow> serve_tcp_clients hp wr clients f)"

section \<open>The program\<close>

fun tcp_host_arg :: "string list \<Rightarrow> (string option, string) result" where
  "tcp_host_arg [] = Ok None"
| "tcp_host_arg (a # rest) =
     (if a = ''--tcp-host'' then
        (case rest of
           [] \<Rightarrow> Err ''missing listen address after --tcp-host''
         | addr # _ \<Rightarrow> Ok (Some addr))
      else Err (''unsupported app-core-helper argument '' @ [CHR 0x27] @ a @ [CHR 0x27] @ ''; expected --tcp-host <host:port>''))"

definition helper_run ::
  "'x ClientEnv \<Rightarrow> 'x HttpEnv \<Rightarrow> HelperEnv \<Rightarrow> ('x \<times> 'b) HelperBackend \<Rightarrow> 'o RpcWriter \<Rightarrow>
   (string \<Rightarrow> ('o TcpClient list, string) result) \<Rightarrow> string list \<Rightarrow> (string, string) result list \<Rightarrow> 'o \<Rightarrow> 'x \<Rightarrow> 'b \<Rightarrow>
   ((unit, fault) result \<times> ('x, 'b) helper_facade \<times> 'o list) option" where
  "helper_run env http he hb wr listen argv input out x b =
     (let f0 = helper_facade_new x b
      in case tcp_host_arg argv of
           Err e \<Rightarrow> Some (Err (Fail e), f0, [])
         | Ok tcp_host \<Rightarrow>
             (case helper_var he ''SLAN_CONTROL_BASE_URL'' of
                None \<Rightarrow> Some (Err (Fail ''missing SLAN_CONTROL_BASE_URL for app-core-helper''), f0, [])
              | Some base \<Rightarrow>
                  (let hp = (helper_services env http he hb base, hb, he)
                   in case tcp_host of
                        Some addr \<Rightarrow> run_tcp_host hp wr listen addr f0
                      | None \<Rightarrow> map_option (\<lambda>(r, f, out'). (r, f, [out'])) (rpc_loop hp wr [] input f0 out))))"

end
