(* ===== verification/Controller_Rules.thy ===== *)
theory Controller_Rules
  imports Controller_Http Client_App
begin

text \<open>
  What the HTTP client of the controller keeps: requests and answers are framed as HTTP/1.1 messages,
  what is read back is what was sent, an answer outside \<open>200..300\<close> is an error of every operation, and
  what reaches the application is well formed.
\<close>

section \<open>Framing\<close>

text \<open>A line of a message head: not empty, ASCII, without line breaks.\<close>

definition head_line :: "string \<Rightarrow> bool" where
  "head_line l \<longleftrightarrow> l \<noteq> [] \<and> (\<forall>c \<in> set l. of_char c < (128 :: nat) \<and> c \<noteq> CHR 0x0D \<and> c \<noteq> CHR 0x0A)"

text \<open>A message as RFC 9112 frames it: the lines of the head, an empty line, the body.\<close>

definition http_message :: "string list \<Rightarrow> u8 list \<Rightarrow> u8 list" where
  "http_message ls body = as_bytes (join crlf ls @ crlf @ crlf) @ body"

lemma as_bytes_append [simp]: "as_bytes (a @ b) = as_bytes a @ as_bytes b"
  by (simp add: as_bytes_def)

lemma length_as_bytes [simp]: "length (as_bytes s) = length s"
  by (simp add: as_bytes_def)

lemma byte_inject: "(of_nat (of_char c) :: u8) = of_nat (of_char d) \<longleftrightarrow> c = d"
proof
  assume "(of_nat (of_char c) :: u8) = of_nat (of_char d)"
  then have "unat (of_nat (of_char c) :: u8) = unat (of_nat (of_char d) :: u8)"
    by simp
  moreover have "(of_char c :: nat) < 256" "(of_char d :: nat) < 256"
    by simp_all
  ultimately show "c = d"
    by (simp add: unat_of_nat)
qed simp

lemma as_bytes_inject [simp]: "as_bytes s = as_bytes t \<longleftrightarrow> s = t"
  unfolding as_bytes_def
  by (rule inj_map_eq_map) (simp add: inj_on_def byte_inject)

lemma take_as_bytes: "take n (as_bytes s) = as_bytes (take n s)"
  by (simp add: as_bytes_def take_map)

lemma text_of_bytes [simp]: "map (\<lambda>b. char_of (unat b)) (as_bytes s) = s"
proof -
  have "char_of (unat (of_nat (of_char c) :: u8)) = c" for c
  proof -
    have "(of_char c :: nat) < 256" by simp
    then show ?thesis by (simp add: unat_of_nat)
  qed
  then show ?thesis
    by (simp add: as_bytes_def comp_def map_idI)
qed

lemma from_utf8_as_bytes:
  assumes "\<forall>c \<in> set s. of_char c < (128 :: nat)"
  shows "from_utf8 (as_bytes s) = Ok s"
proof -
  have "(of_nat (of_char c) :: u8) < 0x80" if c: "of_char c < (128 :: nat)" for c
    using c by (simp add: word_less_nat_alt unat_of_nat)
  with assms have "\<forall>b \<in> set (as_bytes s). b < 0x80"
    by (auto simp: as_bytes_def)
  then show ?thesis
    by (simp add: from_utf8_def utf8_fault_ascii)
qed

text \<open>The first separator of a message is the empty line.\<close>

lemma header_separator_bytes: "header_separator = [13, 10, 13, 10]"
  by (simp add: header_separator_def crlf_def as_bytes_def)

lemma window_position_skip:
  "13 \<notin> set a \<Longrightarrow>
   window_position header_separator (a @ b) = map_option (\<lambda>i. length a + i) (window_position header_separator b)"
proof (induction a)
  case Nil
  then show ?case by (simp add: option.map_ident)
next
  case (Cons x a)
  then have "take (length header_separator) (x # a @ b) \<noteq> header_separator"
    by (simp add: header_separator_bytes)
  with Cons show ?case
    by (simp add: option.map_comp comp_def)
qed

lemma window_position_line_break:
  assumes "x \<noteq> 13"
  shows "window_position header_separator (13 # 10 # x # b) =
           map_option (\<lambda>i. i + 2) (window_position header_separator (x # b))"
  using assms by (simp add: header_separator_bytes option.map_comp comp_def)

lemma head_line_bytes: "head_line l \<Longrightarrow> 13 \<notin> set (as_bytes l)"
proof
  assume l: "head_line l" and "13 \<in> set (as_bytes l)"
  then obtain c where c: "c \<in> set l" "(of_nat (of_char c) :: u8) = of_nat (of_char (CHR 0x0D))"
    by (auto simp: as_bytes_def)
  then have "c = CHR 0x0D"
    by (simp only: byte_inject)
  with l c(1) show False
    by (auto simp: head_line_def)
qed

lemma crlf_bytes: "as_bytes crlf = [13, 10]"
  by (simp add: crlf_def as_bytes_def)

lemma head_line_first:
  assumes "head_line l"
  obtains x b where "as_bytes l = x # b" "x \<noteq> 13"
proof (cases l)
  case Nil
  with assms show ?thesis by (simp add: head_line_def)
next
  case (Cons c cs)
  then have "as_bytes l = of_nat (of_char c) # as_bytes cs"
    by (simp add: as_bytes_def)
  with head_line_bytes[OF assms] show ?thesis
    by (metis list.set_intros(1) that)
qed

lemma window_position_message:
  "ls \<noteq> [] \<Longrightarrow> list_all head_line ls \<Longrightarrow>
   window_position header_separator (http_message ls body) = Some (length (join crlf ls))"
proof (induction ls)
  case (Cons l ls)
  show ?case
  proof (cases "ls = []")
    case True
    have "window_position header_separator ([13, 10, 13, 10] @ body) = Some 0"
      by (simp add: header_separator_bytes)
    with True Cons(3) show ?thesis
      by (simp add: http_message_def crlf_bytes window_position_skip head_line_bytes)
  next
    case False
    then obtain l' ls' where ls: "ls = l' # ls'"
      by (cases ls) auto
    with Cons(3) obtain x b where x: "as_bytes l' = x # b" "x \<noteq> 13"
      by (auto elim: head_line_first)
    obtain b' where rest: "http_message ls body = x # b'"
      using x(1) by (cases "ls' = []") (auto simp: ls http_message_def join_Cons)
    have "http_message (l # ls) body = as_bytes l @ 13 # 10 # http_message ls body"
      by (simp add: http_message_def join_Cons[OF False] crlf_bytes)
    then have "window_position header_separator (http_message (l # ls) body) =
        map_option (\<lambda>i. length l + 2 + i) (window_position header_separator (http_message ls body))"
      using Cons(3) x(2)
      by (simp add: rest window_position_skip head_line_bytes window_position_line_break option.map_comp comp_def
          del: window_position.simps)
    with Cons(1)[OF False] Cons(3) show ?thesis
      by (simp add: join_Cons[OF False] crlf_def)
  qed
qed simp

text \<open>The lines of the head are read back.\<close>

lemma split_inclusive_line:
  "CHR 0x0A \<notin> set l \<Longrightarrow>
   split_inclusive (CHR 0x0A) (l @ CHR 0x0A # s) = (l @ [CHR 0x0A]) # split_inclusive (CHR 0x0A) s"
  by (induction l) auto

lemma split_inclusive_last:
  "CHR 0x0A \<notin> set l \<Longrightarrow> split_inclusive (CHR 0x0A) l = (if l = [] then [] else [l])"
  by (induction l) auto

lemma strip_suffix_snoc [simp]: "strip_suffix (s @ [c]) [d] = (if c = d then Some s else None)"
  by (simp add: strip_suffix_def strip_prefix_def starts_with_def)

lemma text_lines_join:
  "list_all head_line ls \<Longrightarrow> text_lines (join crlf ls) = ls"
proof (induction ls)
  case (Cons l ls)
  then have l: "CHR 0x0A \<notin> set l" "l \<noteq> []"
    by (auto simp: head_line_def)
  show ?case
  proof (cases "ls = []")
    case True
    obtain c cs where "l = cs @ [c]" "c \<noteq> CHR 0x0A"
      using l by (cases l rule: rev_cases) auto
    then show ?thesis
      using True split_inclusive_last[OF l(1)] by (simp add: text_lines_def)
  next
    case False
    have "split_inclusive (CHR 0x0A) (join crlf (l # ls)) =
        ((l @ [CHR 0x0D]) @ [CHR 0x0A]) # split_inclusive (CHR 0x0A) (join crlf ls)"
      using split_inclusive_line[of "l @ [CHR 0x0D]" "join crlf ls"] l(1)
      by (simp add: join_Cons[OF False] crlf_def)
    then have "text_lines (join crlf (l # ls)) = l # text_lines (join crlf ls)"
      unfolding text_lines_def by (simp only: list.map strip_suffix_snoc) simp
    with Cons show ?thesis
      by simp
  qed
qed (simp add: text_lines_def)

text \<open>The second word of the status line.\<close>

lemma white_space_visible: "w \<in> set white_space \<Longrightarrow> starts_with (c # cs) w \<Longrightarrow> \<not> visible c"
  unfolding white_space_def by (auto simp: starts_with_iff visible_def)

lemma trim_front_visible: "visible c \<Longrightarrow> trim_front white_space (c # cs) = c # cs"
  by (rule trim_front_id) (use white_space_visible in blast)

lemma break_white_space_word:
  "list_all visible a \<Longrightarrow> break_white_space (a @ CHR '' '' # s) = (a, CHR '' '' # s)"
proof (induction a)
  case Nil
  have "[CHR '' ''] \<in> set white_space"
    by (simp add: white_space_def)
  then show ?case
    by (auto simp: starts_with_iff)
next
  case (Cons c a)
  then have "\<not> (\<exists>w \<in> set white_space. starts_with (c # a @ CHR '' '' # s) w)"
    using white_space_visible by fastforce
  with Cons show ?case
    by simp
qed

lemma split_whitespace_space: "split_whitespace (CHR '' '' # s) = split_whitespace s"
proof -
  have "find (\<lambda>w. w \<noteq> [] \<and> starts_with (CHR '' '' # s) w) white_space = Some [CHR '' '']"
    by (simp add: white_space_def starts_with_def)
  then have "trim_front white_space (CHR '' '' # s) = trim_front white_space s"
    by (subst trim_front.simps) simp
  then show ?thesis
    by (simp add: split_whitespace.simps[of "CHR '' '' # s"] split_whitespace.simps[of s])
qed

lemma split_whitespace_word:
  assumes "a \<noteq> []" "list_all visible a"
  shows "split_whitespace (a @ CHR '' '' # s) = a # split_whitespace s"
proof -
  have "trim_front white_space (a @ CHR '' '' # s) = a @ CHR '' '' # s"
    using assms by (cases a) (simp_all add: trim_front_visible)
  then show ?thesis
    using assms
    by (subst split_whitespace.simps) (simp add: break_white_space_word split_whitespace_space)
qed

lemma digits_visible: "list_all visible (show_nat n)"
proof -
  have "visible c" if c: "digit_val c \<noteq> None" for c
    using c by (auto simp: digit_val_def visible_def split: if_splits)
  then show ?thesis
    using show_nat_digits by (auto simp: list_all_iff)
qed

definition status_line :: "string \<Rightarrow> nat \<Rightarrow> string \<Rightarrow> string" where
  "status_line version n phrase = version @ '' '' @ show_nat n @ '' '' @ phrase"

lemma parse_status_line_text:
  assumes "version \<noteq> []" "list_all visible version" "n < 65536"
  shows "parse_status_line (status_line version n phrase) = Ok (of_nat n)"
proof -
  have "parse_u16 (show_nat n) = Ok (int n)"
    using assms(3) by (simp add: parse_u16_def parse_int_show_nat)
  moreover have "split_whitespace (status_line version n phrase) = version # show_nat n # split_whitespace phrase"
    using split_whitespace_word[OF assms(1,2), of "show_nat n @ CHR '' '' # phrase"]
      split_whitespace_word[of "show_nat n" phrase] digits_visible
    by (simp add: status_line_def)
  ultimately show ?thesis
    by (simp add: parse_status_line_def)
qed

lemma http_response_read_back:
  assumes "version \<noteq> []" "list_all visible version" "n < 65536"
    and "list_all head_line (status_line version n phrase # headers)"
  shows "parse_http_response (http_message (status_line version n phrase # headers) body) =
           Ok \<lparr>HttpResponse.status = of_nat n, body_json = body\<rparr>"
proof -
  let ?ls = "status_line version n phrase # headers"
  let ?raw = "http_message ?ls body"
  have pos: "window_position header_separator ?raw = Some (length (join crlf ?ls))"
    using window_position_message[of ?ls] assms(4) by simp
  have head: "take (length (join crlf ?ls)) ?raw = as_bytes (join crlf ?ls)"
    by (simp add: http_message_def)
  have "set (join crlf ?ls) \<subseteq> set crlf \<union> (\<Union>l \<in> set ?ls. set l)"
    by (rule set_join)
  then have "\<forall>c \<in> set (join crlf ?ls). of_char c < (128 :: nat)"
    using assms(4) by (fastforce simp: crlf_def list_all_iff head_line_def)
  then have "from_utf8 (take (length (join crlf ?ls)) ?raw) = Ok (join crlf ?ls)"
    unfolding head by (rule from_utf8_as_bytes)
  moreover have "text_lines (join crlf ?ls) = ?ls"
    using assms(4) by (rule text_lines_join)
  moreover have "drop (length (join crlf ?ls) + length header_separator) ?raw = body"
    by (simp add: http_message_def header_separator_def)
  ultimately show ?thesis
    using parse_status_line_text[OF assms(1-3)] by (simp add: parse_http_response_def pos)
qed

text \<open>The request as a message.\<close>

definition request_lines :: "HttpMethod \<Rightarrow> ParsedHttpUrl \<Rightarrow> string option \<Rightarrow> u8 list \<Rightarrow> string list" where
  "request_lines m target token body =
     [method_name m @ '' '' @ path_and_query target @ '' HTTP/1.1'', ''Host: '' @ host_header target,
      ''Accept: application/json'', ''Connection: close''] @
     (case token of None \<Rightarrow> [] | Some t \<Rightarrow> [''Authorization: Bearer '' @ t]) @
     (if body = [] then []
      else [''Content-Type: application/json'', ''Content-Length: '' @ show_nat (length body)])"

lemma request_message:
  "as_bytes (request_head m target token body) @ body = http_message (request_lines m target token body) body"
  by (simp add: request_head_def http_message_def request_lines_def split: option.splits)

text \<open>
  A controller at the other end of the stream: it answers the bytes it has received.  The resolver and
  the JSON texts stay parameters.
\<close>

definition served :: "(u8 list \<Rightarrow> u8 list) \<Rightarrow> u8 list HttpEnv \<Rightarrow> u8 list HttpEnv" where
  "served serve env =
     env\<lparr>connect_timeout := (\<lambda>_ _ _. (Ok 0, [])),
         stream_read_timeout := (\<lambda>_ _ x. (Ok (), x)), stream_write_timeout := (\<lambda>_ _ x. (Ok (), x)),
         stream_write_all := (\<lambda>_ b x. (Ok (), x @ b)), stream_shutdown_write := (\<lambda>_ x. (Ok (), x)),
         stream_read_to_end := (\<lambda>_ x. (Ok (serve x), x))\<rparr>"

lemma exchange_served:
  "exchange (served serve env) s wire body [] = (parse_http_response (serve (wire @ body)), wire @ body)"
  by (simp add: exchange_def served_def return_call_def)

text \<open>Text that is safe in a line of a head, and where the parts of a location come from.\<close>

definition plain_text :: "string \<Rightarrow> bool" where
  "plain_text t \<longleftrightarrow> (\<forall>c \<in> set t. of_char c < (128 :: nat) \<and> c \<noteq> CHR 0x0D \<and> c \<noteq> CHR 0x0A)"

lemma head_line_plain: "head_line l \<longleftrightarrow> l \<noteq> [] \<and> plain_text l"
  by (simp add: head_line_def plain_text_def)

lemma plain_text_simps [simp]:
  "plain_text []" "plain_text (a @ b) \<longleftrightarrow> plain_text a \<and> plain_text b"
  "plain_text (c # a) \<longleftrightarrow> of_char c < (128 :: nat) \<and> c \<noteq> CHR 0x0D \<and> c \<noteq> CHR 0x0A \<and> plain_text a"
  by (auto simp: plain_text_def)

lemma plain_text_subset: "plain_text s \<Longrightarrow> set t \<subseteq> set s \<Longrightarrow> plain_text t"
  by (auto simp: plain_text_def)

lemma plain_show_nat: "plain_text (show_nat n)"
proof -
  have "of_char c < (128 :: nat) \<and> c \<noteq> CHR 0x0D \<and> c \<noteq> CHR 0x0A" if "digit_val c \<noteq> None" for c
    using that by (auto simp: digit_val_def split: if_splits)
  then show ?thesis
    using show_nat_digits unfolding plain_text_def by blast
qed

lemma set_trim_front: "set (trim_front ws s) \<subseteq> set s"
  by (induction ws s rule: trim_front.induct) (subst trim_front.simps, auto split: option.splits dest: in_set_dropD)

lemma set_trim: "set (trim s) \<subseteq> set s"
  using set_trim_front [of "map rev white_space" "rev (trim_front white_space s)"] set_trim_front [of white_space s]
  by (auto simp: trim_def)

lemma set_split_once: "split_once p s = Some (a, b) \<Longrightarrow> set a \<subseteq> set s \<and> set b \<subseteq> set s"
  by (induction p s arbitrary: a b rule: split_once.induct) (auto split: if_splits dest: in_set_dropD)

lemma plain_location:
  assumes "parse_http_url url = Ok target" and "plain_text url"
  shows "plain_text (path_and_query target) \<and> plain_text (host_header target)"
proof -
  obtain rest where rest: "strip_prefix (trim url) ''http://'' = Some rest"
    using assms(1) by (cases "strip_prefix (trim url) ''http://''") (auto simp: parse_http_url_def Let_def)
  then have "set rest \<subseteq> set url"
    using set_trim [of url] by (auto simp: strip_prefix_def split: if_splits dest: in_set_dropD)
  then have plain: "plain_text rest"
    by (rule plain_text_subset [OF assms(2)])
  then have part: "plain_text a" "plain_text b" if "split_once p rest = Some (a, b)" for p a b
    using set_split_once [OF that] by (blast intro: plain_text_subset)+
  have host: "plain_text h" if "parse_host_port raw hp = Ok (h, n)" "plain_text hp" for raw hp h n
    using that set_split_once [of "'':''" hp]
    by (auto simp: parse_host_port_def split: option.splits result.splits intro: plain_text_subset)
  show ?thesis
    using assms(1) rest plain part host
    by (auto simp: parse_http_url_def show_word_def plain_show_nat Let_def split: option.splits result.splits prod.splits if_splits)
qed

lemma plain_request_lines:
  assumes "parse_http_url (HttpRequest.path req) = Ok target" and "plain_text (HttpRequest.path req)"
    and "\<forall>t. bearer_token req = Some t \<longrightarrow> plain_text t"
  shows "list_all head_line (request_lines m target (bearer_token req) body)"
  using plain_location [OF assms(1,2)] assms(3)
  by (cases m) (auto simp: request_lines_def head_line_plain plain_show_nat split: option.split)

text \<open>
  C31: when the location and the token of a request are plain text (ASCII without line breaks) and the name of the
  controller resolves, the controller receives one well-framed HTTP message: the lines with the method, the location, the
  token and the length of the request, an empty line, the first in the message, and the body.  An answer that is
  framed as HTTP is returned with its status code and its body byte for byte, whatever the body contains.
\<close>

theorem http_exchange:
  assumes "parse_http_url (HttpRequest.path req) = Ok target"
    and "plain_text (HttpRequest.path req)" "\<forall>t. bearer_token req = Some t \<longrightarrow> plain_text t"
    and "resolve_all env (ParsedHttpUrl.host target @ '':'' @ show_word (ParsedHttpUrl.port target)) x = (Ok (addr # addrs), x')"
    and "body = (case HttpRequest.body_json req of None \<Rightarrow> [] | Some b \<Rightarrow> b)"
    and "received = http_message (request_lines (HttpRequest.http_method req) target (bearer_token req) body) body"
    and "serve received = http_message (status_line version n phrase # headers) reply"
    and "version \<noteq> []" "list_all visible version" "n < 65536"
    and "list_all head_line (status_line version n phrase # headers)"
  shows "tcp_send (served serve env) timeout req x = (Ok \<lparr>HttpResponse.status = of_nat n, body_json = reply\<rparr>, received) \<and>
         window_position header_separator received = Some (length received - (4 + length body)) \<and>
         text_lines (join crlf (request_lines (HttpRequest.http_method req) target (bearer_token req) body)) =
           request_lines (HttpRequest.http_method req) target (bearer_token req) body"
proof (intro conjI)
  let ?lines = "request_lines (HttpRequest.http_method req) target (bearer_token req) body"
  have lines: "list_all head_line ?lines"
    using assms(1-3) by (rule plain_request_lines)
  have "tcp_send (served serve env) timeout req x =
      exchange (served serve env) 0
        (as_bytes (request_head (HttpRequest.http_method req) target (bearer_token req) body)) body []"
    using assms(1,4,5) by (simp add: tcp_send_def return_call_def served_def Let_def)
  also have "\<dots> = (parse_http_response (serve received), received)"
    by (simp only: exchange_served request_message assms(6))
  finally show "tcp_send (served serve env) timeout req x =
      (Ok \<lparr>HttpResponse.status = of_nat n, body_json = reply\<rparr>, received)"
    using http_response_read_back[OF assms(8-11)] by (simp add: assms(7))
  have "?lines \<noteq> []"
    by (simp add: request_lines_def)
  with lines show "window_position header_separator received = Some (length received - (4 + length body))"
    using window_position_message by (simp add: assms(6) http_message_def crlf_def)
  show "text_lines (join crlf ?lines) = ?lines"
    using lines by (rule text_lines_join)
qed

text \<open>A line break in a token is not escaped: what follows it is a header of its own.\<close>

lemma header_injected:
  "as_bytes (request_head m target (Some (token @ crlf @ header)) []) =
     http_message (request_lines m target (Some token) [] @ [header]) []"
  by (simp add: request_head_def http_message_def request_lines_def crlf_def)

text \<open>A location of the controller.\<close>

lemma parse_http_url_text:
  assumes "h \<noteq> []" "CHR '':'' \<notin> set h" "CHR ''/'' \<notin> set h" "p < 65536" "list_all visible rest"
  shows "parse_http_url (''http://'' @ h @ '':'' @ show_nat p @ ''/'' @ rest) =
           Ok \<lparr>ParsedHttpUrl.host = h, host_header = (if p = 80 then h else h @ '':'' @ show_nat p),
               port = of_nat p, path_and_query = ''/'' @ rest\<rparr>"
proof -
  let ?url = "''http://'' @ h @ '':'' @ show_nat p @ ''/'' @ rest"
  have "last ?url = (if rest = [] then CHR ''/'' else last rest)"
    by simp
  then have "visible (last ?url)"
    using assms(5) by (auto simp: list_all_iff visible_def)
  moreover have "?url \<noteq> []" "visible (hd ?url)"
    by (simp_all add: visible_def)
  ultimately have t: "trim ?url = ?url"
    by (rule trim_id[rotated 2])
  have slash: "CHR ''/'' \<notin> set (show_nat p)"
    using show_nat_digits[of "CHR ''/''" p] by (auto simp: digit_val_def)
  have 1: "split_once ''/'' (h @ '':'' @ show_nat p @ ''/'' @ rest) = Some (h @ '':'' @ show_nat p, rest)"
    using split_once_char[of "CHR ''/''" "h @ '':'' @ show_nat p" rest] assms(3) slash by simp
  have 2: "split_once '':'' (h @ '':'' @ show_nat p) = Some (h, show_nat p)"
    using split_once_char[of "CHR '':''" h "show_nat p"] assms(2) by simp
  have 3: "parse_u16 (show_nat p) = Ok (int p)"
    using assms(4) by (simp add: parse_u16_def parse_int_show_nat)
  have 4: "(of_nat p :: u16) = 80 \<longleftrightarrow> p = 80"
    using assms(4) by (simp add: word_unat_eq_iff unat_of_nat)
  have 5: "show_word (of_nat p :: u16) = show_nat p"
    using assms(4) by (simp add: show_word_def unat_of_nat)
  have 6: "strip_prefix ?url ''http://'' = Some (h @ '':'' @ show_nat p @ ''/'' @ rest)"
    by (rule strip_prefix_append)
  show ?thesis
    using assms(1)
    by (simp only: parse_http_url_def Let_def t 6 option.case 1 prod.case parse_host_port_def 2 3 result.case
        if_False of_int_of_nat_eq 4 5)
qed

definition demo_http :: "'x HttpEnv" where
  "demo_http =
     \<lparr>resolve_all = (\<lambda>_ x. (Ok [V4 0x7F000001 81], x)), connect_timeout = (\<lambda>_ _ x. (Err ''refused'', x)),
      stream_read_timeout = (\<lambda>_ _ x. (Ok (), x)), stream_write_timeout = (\<lambda>_ _ x. (Ok (), x)),
      stream_write_all = (\<lambda>_ _ x. (Ok (), x)), stream_shutdown_write = (\<lambda>_ x. (Ok (), x)),
      stream_read_to_end = (\<lambda>_ x. (Ok [], x)), json_of_bytes = (\<lambda>_. Ok JNull),
      bytes_of_json = (\<lambda>_. Ok (as_bytes ''null'')), refusal = (\<lambda>_. ''invalid type'')\<rparr>"

definition demo_request :: HttpRequest where
  "demo_request =
     \<lparr>HttpRequest.http_method = Get, path = ''http://c:81/networks'', bearer_token = Some ''tok'', body_json = None\<rparr>"

definition demo_target :: ParsedHttpUrl where
  "demo_target =
     \<lparr>ParsedHttpUrl.host = ''c'', host_header = ''c:81'', port = 81, path_and_query = ''/networks''\<rparr>"

lemma demo_target_parsed: "parse_http_url (HttpRequest.path demo_request) = Ok demo_target"
proof -
  have n: "show_nat 81 = ''81''"
    by code_simp
  show ?thesis
    using parse_http_url_text[of "''c''" 81 "''networks''"]
    by (simp add: demo_request_def demo_target_def n visible_def)
qed

theorem http_exchange_witness:
  "let answer = http_message (status_line ''HTTP/1.1'' 200 ''OK'' # [''Server: x'']) [1, 2, 13, 10, 13, 10];
       sent = http_message (request_lines Get demo_target (Some ''tok'') []) []
   in tcp_send (served (\<lambda>_. answer) demo_http) 5000 demo_request [] =
        (Ok \<lparr>HttpResponse.status = 200, body_json = [1, 2, 13, 10, 13, 10]\<rparr>, sent) \<and>
      window_position header_separator sent = Some (length sent - (4 + 0))"
proof -
  let ?answer = "http_message (status_line ''HTTP/1.1'' 200 ''OK'' # [''Server: x'']) [1, 2, 13, 10, 13, 10]"
  have n: "show_nat 200 = ''200''"
    by code_simp
  have "list_all head_line (status_line ''HTTP/1.1'' 200 ''OK'' # [''Server: x''])"
    by (simp add: head_line_def status_line_def n)
  moreover have "plain_text (HttpRequest.path demo_request)"
    by (simp add: demo_request_def)
  moreover have "list_all visible ''HTTP/1.1''"
    by (simp add: visible_def)
  ultimately show ?thesis
    using http_exchange[OF demo_target_parsed _ _ _ refl refl, of demo_http "[]" "V4 0x7F000001 81" "[]" "[]" "\<lambda>_. ?answer"
        "''HTTP/1.1''" 200 "''OK''" "[''Server: x'']" "[1, 2, 13, 10, 13, 10]" 5000]
    by (simp add: demo_http_def demo_request_def Let_def)
qed

section \<open>What reaches the application\<close>

definition session_usable :: "Session \<Rightarrow> bool" where
  "session_usable s \<longleftrightarrow> \<not> blank (Session.user_id s) \<and> \<not> blank (Session.access_token s)"

definition cluster_consistent :: "DerpCluster \<Rightarrow> bool" where
  "cluster_consistent c \<longleftrightarrow>
     list_all (\<lambda>n. DerpNodeMeta.cluster_id n = DerpCluster.cluster_id c \<and>
       DerpNodeMeta.region_id n = DerpCluster.region_id c) (DerpCluster.nodes c)"

definition derp_consistent :: "BootstrapConfig \<Rightarrow> bool" where
  "derp_consistent b \<longleftrightarrow>
     (case derp_map b of
        None \<Rightarrow> True
      | Some m \<Rightarrow> list_all cluster_consistent (DerpMap.clusters m))"

text \<open>The state of the facade that comes from the controller.\<close>

definition snapshot_trusted :: "'w DefaultAppCoreFacade \<Rightarrow> bool" where
  "snapshot_trusted f \<longleftrightarrow>
     (let s = protected (snap f)
      in (case session s of None \<Rightarrow> True | Some x \<Rightarrow> session_usable x) \<and>
         (case current_bootstrap s of None \<Rightarrow> True | Some b \<Rightarrow> derp_consistent b))"

text \<open>What the facade relies on in a controller.\<close>

locale controller_contract =
  fixes c :: "'w ControllerClient"
  assumes registered: "register_op c rq w = (Ok s, w') \<Longrightarrow> session_usable s"
    and logged_in: "login_op c lq w = (Ok s, w') \<Longrightarrow> session_usable s"
    and bootstrapped: "bootstrap_op c token n net w = (Ok b, w') \<Longrightarrow> derp_consistent b"
begin

lemma snap_on_world: "snap (snd (on_world g f)) = snap f"
  by (simp add: on_world_def split: prod.splits)

lemma snap_authorised: "snap (snd (authorised g f)) = snap f"
  by (simp add: authorised_def snap_on_world split: result.splits)

lemma trusted_remember:
  assumes "snap (snd rf) = snap f" "snapshot_trusted f"
    and "\<And>x s. fst rf = Ok x \<Longrightarrow> snap f = Healthy s \<Longrightarrow> snapshot_trusted (f\<lparr>snap := Healthy (upd x s)\<rparr>)"
  shows "snapshot_trusted (snd (remember upd rf))"
  using assms
  by (cases rf) (auto simp: remember_def snapshot_trusted_def split: result.splits option.splits)

lemma trusted_register:
  assumes "controller svc = c" "snapshot_trusted f"
  shows "snapshot_trusted (snd (facade_register svc mail pw f))"
  unfolding facade_register_def
  using assms by (intro trusted_remember) (auto simp: snap_on_world snapshot_trusted_def Let_def on_world_def
      dest: registered[folded assms(1)] split: prod.splits)

lemma trusted_login:
  assumes "controller svc = c" "snapshot_trusted f"
  shows "snapshot_trusted (snd (facade_login svc mail pw f))"
  unfolding facade_login_def
  using assms by (intro trusted_remember) (auto simp: snap_on_world snapshot_trusted_def Let_def on_world_def
      dest: logged_in[folded assms(1)] split: prod.splits)

lemma trusted_bootstrap:
  assumes "controller svc = c" "snapshot_trusted f"
  shows "snapshot_trusted (snd (facade_bootstrap svc n net f))"
  unfolding facade_bootstrap_def
  using assms by (intro trusted_remember) (auto simp: snap_authorised snapshot_trusted_def Let_def authorised_def on_world_def
      dest: bootstrapped[folded assms(1)] split: prod.splits result.splits)

end

lemma then_call_Ok:
  "then_call g k x = (Ok b, x'') \<longleftrightarrow> (\<exists>a x'. g x = (Ok a, x') \<and> k a x' = (Ok b, x''))"
  by (auto split: prod.splits result.splits)

lemma post_op_Ok:
  assumes "post_op c de conv p token body x = (Ok b, x')"
  shows "\<exists>doc a. de doc = Some a \<and> conv a = Ok b"
  using assms
  by (auto simp: post_op_def post_json_def then_call_Ok return_call_def parse_success_response_def
      simp del: then_call.simps split: if_splits result.splits)

lemma session_try_from_usable: "session_try_from s = Ok s' \<Longrightarrow> session_usable s'"
  by (auto simp: session_try_from_def session_usable_def split: if_splits)

lemma de_derp_cluster_consistent: "de_derp_cluster_dto j = Some c \<Longrightarrow> cluster_consistent c"
  by (cases j) (auto simp: de_derp_cluster_dto_def into_meta_def cluster_consistent_def list_all_iff split: bind_splits)

lemma de_list_all:
  assumes "\<And>v x. de v = Some x \<Longrightarrow> P x"
  shows "de_list de j = Some xs \<Longrightarrow> list_all P xs"
proof -
  have "de_all de vs = Some xs \<Longrightarrow> list_all P xs" for vs xs
    by (induction vs arbitrary: xs) (auto simp: assms split: option.splits)
  then show "de_list de j = Some xs \<Longrightarrow> list_all P xs"
    by (cases j) auto
qed

lemma de_field_default_cases:
  assumes "de_field_default d de k obj = Some x"
  obtains (absent) "x = d" | (present) v where "de v = Some x"
  using assms by (cases "occurrences k obj" rule: remdups_adj.cases) (auto simp: de_field_default_def)

lemma de_optional_cases:
  assumes "de_optional de k obj = Some (Some x)"
  obtains v where "de v = Some x"
proof -
  obtain v where "de_option de v = Some (Some x)"
    using assms unfolding de_optional_def by (rule de_field_default_cases) auto
  then show thesis
    by (cases v) (auto intro: that)
qed

lemma de_derp_map_consistent:
  assumes "de_derp_map_dto j = Some m"
  shows "list_all cluster_consistent (DerpMap.clusters m)"
proof -
  obtain obj where "j = JObj obj"
    using assms by (cases j) (auto simp: de_derp_map_dto_def)
  with assms have "de_field_default [] (de_list de_derp_cluster_dto) ''clusters'' obj = Some (DerpMap.clusters m)"
    by (auto simp: de_derp_map_dto_def split: bind_splits)
  then show ?thesis
    by (cases rule: de_field_default_cases) (simp, rule de_list_all[OF de_derp_cluster_consistent])
qed

lemma de_bootstrap_consistent:
  assumes "de_bootstrap_response j = Some b"
  shows "derp_consistent b"
proof (cases "derp_map b")
  case (Some m)
  obtain obj where "j = JObj obj"
    using assms by (cases j) (auto simp: de_bootstrap_response_def)
  with assms have "de_optional de_derp_map_dto ''derpMap'' obj = Some (derp_map b)"
    by (auto simp: de_bootstrap_response_def split: bind_splits)
  then obtain v where "de_derp_map_dto v = Some m"
    unfolding Some by (rule de_optional_cases)
  then show ?thesis
    using de_derp_map_consistent by (simp add: derp_consistent_def Some)
qed (simp add: derp_consistent_def)

interpretation http: controller_contract "http_controller_client c" for c
  by unfold_locales
    (auto simp: http_controller_client_def http_register_def http_login_def http_bootstrap_def
      dest!: post_op_Ok intro: session_try_from_usable de_bootstrap_consistent)

lemma via_outside_result: "via_outside g w = (r, w') \<Longrightarrow> g (outside w) = (r, outside w')"
  by (auto simp: via_outside_def split: prod.splits)

lemma cli_controller_contract:
  assumes "controller_contract c"
  shows "controller_contract (cli_controller c)"
  by unfold_locales
    (auto simp: cli_controller_def dest!: via_outside_result
      dest: controller_contract.registered[OF assms] controller_contract.logged_in[OF assms]
        controller_contract.bootstrapped[OF assms])

interpretation http_client: controller_contract "cli_controller (http_controller_client c)" for c
  by (rule cli_controller_contract) (rule http.controller_contract_axioms)

text \<open>A document is refused with the first part of it that is.\<close>

lemma bind_None2 [simp]: "Option.bind x (\<lambda>_. None) = None"
  by (cases x) simp_all

lemma de_all_None: "v \<in> set vs \<Longrightarrow> de v = None \<Longrightarrow> de_all de vs = None"
  by (induction vs) (auto split: option.splits)

lemma de_field_default_None:
  "occurrences k obj = [v] \<Longrightarrow> de v = None \<Longrightarrow> de_field_default d de k obj = None"
  by (simp add: de_field_default_def)

lemma de_optional_None:
  "occurrences k obj = [v] \<Longrightarrow> v \<noteq> JNull \<Longrightarrow> de v = None \<Longrightarrow> de_optional de k obj = None"
  by (cases v) (simp_all add: de_optional_def de_field_default_def)

lemma bootstrap_endpoint_needs_type:
  assumes "occurrences ''networkMap'' obj = [JObj nm]" "occurrences ''peers'' nm = [JArr ps]" "JObj po \<in> set ps"
    and "occurrences ''endpoints'' po = [JArr es]" "JObj eo \<in> set es" "''endpointType'' \<notin> fst ` set eo"
  shows "de_bootstrap_response (JObj obj) = None"
proof -
  have "de_endpoint_dto (JObj eo) = None"
    using assms(6) by (simp add: de_endpoint_dto_def de_field_absent)
  then have "de_list de_endpoint_dto (JArr es) = None"
    using assms(5) by (simp add: de_all_None)
  then have "de_field_default [] (de_list de_endpoint_dto) ''endpoints'' po = None"
    by (rule de_field_default_None[OF assms(4)])
  then have "de_peer_dto (JObj po) = None"
    by (simp add: de_peer_dto_def)
  then have "de_list de_peer_dto (JArr ps) = None"
    using assms(3) by (simp add: de_all_None)
  then have "de_field_default [] (de_list de_peer_dto) ''peers'' nm = None"
    by (rule de_field_default_None[OF assms(2)])
  then have "de_network_map_dto (JObj nm) = None"
    by (simp add: de_network_map_dto_def)
  then have "de_optional de_network_map_dto ''networkMap'' obj = None"
    by (intro de_optional_None[OF assms(1)]) simp_all
  then show ?thesis
    by (simp add: de_bootstrap_response_def)
qed

text \<open>
  C33: a bootstrap answer whose network map has a peer with an endpoint that carries no \<open>endpointType\<close> is an
  error of the client.  The controller names this key \<open>type\<close>, so no such answer of it is ever accepted.
\<close>

theorem bootstrap_endpoint_refused:
  assumes "HttpControllerClient.transport c
      \<lparr>HttpRequest.http_method = Post, path = join_path (base_url c) ''/bootstrap'', bearer_token = Some token,
       body_json = Some sent\<rparr> x = (Ok \<lparr>HttpResponse.status = 200, body_json = reply\<rparr>, x')"
    and "bytes_of_json (http_env c) (se_bootstrap_request n net) = Ok sent"
    and "json_of_bytes (http_env c) reply = Ok (JObj obj)"
    and "occurrences ''networkMap'' obj = [JObj nm]" "occurrences ''peers'' nm = [JArr ps]" "JObj po \<in> set ps"
    and "occurrences ''endpoints'' po = [JArr es]" "JObj eo \<in> set es" "''endpointType'' \<notin> fst ` set eo"
  shows "http_bootstrap c token n net x = (Err (refusal (http_env c) reply), x')"
  using assms(1-3) bootstrap_endpoint_needs_type[OF assms(4-9)]
  by (simp add: http_bootstrap_def post_op_def post_json_def return_call_def parse_success_response_def)

definition go_endpoint :: json_object where
  "go_endpoint = [(''type'', JStr ''wan''), (''address'', JStr ''198.51.100.10:41641''), (''updatedAt'', JNum 1)]"

definition go_bootstrap :: json_object where
  "go_bootstrap =
     [(''networkMap'', JObj [(''peers'', JArr [JObj [(''endpoints'', JArr [JObj go_endpoint])]])])]"

definition go_client :: "u8 list HttpControllerClient" where
  "go_client =
     \<lparr>http_env = demo_http\<lparr>json_of_bytes := (\<lambda>_. Ok (JObj go_bootstrap))\<rparr>, base_url = ''http://c'',
      transport = (\<lambda>_ x. (Ok \<lparr>HttpResponse.status = 200, body_json = [1]\<rparr>, x))\<rparr>"

theorem bootstrap_endpoint_refused_witness:
  "http_bootstrap go_client ''tok'' ''n'' ''net'' [] = (Err ''invalid type'', [])"
  using bootstrap_endpoint_refused[of go_client "''tok''" "as_bytes ''null''" "[]" "[1]" "[]" "''n''" "''net''" go_bootstrap
      "[(''peers'', JArr [JObj [(''endpoints'', JArr [JObj go_endpoint])]])]" "[JObj [(''endpoints'', JArr [JObj go_endpoint])]]"
      "[(''endpoints'', JArr [JObj go_endpoint])]" "[JObj go_endpoint]" go_endpoint]
  by (simp add: go_client_def demo_http_def go_bootstrap_def go_endpoint_def)

text \<open>
  C32: the client over HTTP never works with a session without user or token, nor with a DERP node that claims
  another cluster or region than the one it is listed under: registering, logging in and bootstrapping keep this
  whatever the controller answers.
\<close>

theorem client_keeps_trusted:
  assumes "snapshot_trusted f" and "http_controller env = http_controller_client c"
  shows "snapshot_trusted (snd (facade_register (cli_services env key_file) mail pw f)) \<and>
         snapshot_trusted (snd (facade_login (cli_services env key_file) mail pw f)) \<and>
         snapshot_trusted (snd (facade_bootstrap (cli_services env key_file) n net f))"
proof -
  have "controller (cli_services env key_file) = cli_controller (http_controller_client c)"
    by (simp add: cli_services_def client_services_def assms(2))
  then show ?thesis
    using assms(1) http_client.trusted_register http_client.trusted_login http_client.trusted_bootstrap by blast
qed

definition demo_http_client :: "u64 HttpControllerClient" where
  "demo_http_client =
     \<lparr>http_env = demo_http\<lparr>json_of_bytes := (\<lambda>_. Ok (JObj [(''userId'', JStr ''u''), (''accessToken'', JStr ''tok'')]))\<rparr>,
      base_url = ''http://c/'', transport = (\<lambda>_ x. (Ok \<lparr>HttpResponse.status = 200, body_json = [1]\<rparr>, x))\<rparr>"

theorem client_keeps_trusted_witness:
  "let svc = cli_services (demo_client_env\<lparr>http_controller := http_controller_client demo_http_client\<rparr>) ''keys''
   in snapshot_trusted (snd (facade_register svc ''a@b'' ''pw'' demo_facade)) \<and>
      snapshot_trusted (snd (facade_login svc ''a@b'' ''pw'' demo_facade)) \<and>
      snapshot_trusted (snd (facade_bootstrap svc ''n'' ''net'' demo_facade))"
proof -
  have "snapshot_trusted demo_facade"
    by (simp add: snapshot_trusted_def demo_facade_def facade_new_def new_with_probe_reply_timeout_def snapshot_default_def)
  then show ?thesis
    using client_keeps_trusted[of demo_facade "demo_client_env\<lparr>http_controller := http_controller_client demo_http_client\<rparr>"
        demo_http_client]
    by (simp add: Let_def)
qed

end
