(* ===== verification/Facade_Calls.thy ===== *)
theory Facade_Calls
  imports Json_Facade Facade_Safety
begin

text \<open>
  What clients of the facade do with its operations: an operation whose result is only rewritten is a call of the
  facade or changes nothing, and so is every invocation through the JSON facade.
\<close>

lemma answering_cases:
  assumes "answering t g f = Some (r, f')"
  obtains r0 where "g f = Some (r0, f')" "r = map_ok t r0"
  using assms by (auto simp: answering_def)

lemma data_plane_cases:
  assumes "data_plane opn g f = Some (r, f')"
  obtains r0 where "g f = Some (r0, f')" "r = map_err (\<lambda>e. Fail (data_plane_error_string opn e)) r0"
  using assms by (auto simp: data_plane_def)

lemma returns_cases:
  assumes "returns g f = Some (r, f')"
  obtains r0 where "g f = (r0, f')" "r = map_err Fail r0"
  using assms by (cases "g f") (auto simp: returns_def)

definition stays_or_calls :: "'w Services \<Rightarrow> ('r, fault, 'w DefaultAppCoreFacade) outcome \<Rightarrow> bool" where
  "stays_or_calls svc g \<longleftrightarrow>
     (\<forall>f r f'. g f = Some (r, f') \<longrightarrow> f' = f \<or> (\<exists>c ok. facade_apply svc c f = Some (ok, f')))"

lemma with_args_calls:
  "(\<And>a. stays_or_calls svc (k a)) \<Longrightarrow> stays_or_calls svc (with_args refuse de doc k)"
  by (auto simp: stays_or_calls_def with_args_def split: option.splits)

lemma returns_calls:
  assumes "\<And>f. facade_apply svc c f = Some (apfst is_ok (g f))"
  shows "stays_or_calls svc (answering t (returns g))"
  unfolding stays_or_calls_def
  by (metis (no_types, lifting) answering_cases returns_cases assms apfst_conv)

lemma default_ops_simps:
  "app_register (default_facade_ops svc) e p = returns (facade_register svc e p)"
  "app_login (default_facade_ops svc) e p = returns (facade_login svc e p)"
  "app_register_device (default_facade_ops svc) n pf m k = returns (facade_register_device svc n pf m k)"
  "app_register_node (default_facade_ops svc) d nd k cs = returns (facade_register_node svc d nd k cs)"
  "app_list_networks (default_facade_ops svc) = returns (facade_list_networks svc)"
  "app_create_network (default_facade_ops svc) n c = returns (facade_create_network svc n c)"
  "app_join_network (default_facade_ops svc) n d = returns (facade_join_network svc n d)"
  "app_activate_network (default_facade_ops svc) n d = returns (facade_activate_network svc n d)"
  "app_deactivate_network (default_facade_ops svc) n d = returns (facade_deactivate_network svc n d)"
  "app_bootstrap (default_facade_ops svc) nd net = returns (facade_bootstrap svc nd net)"
  "app_issue_relay_ticket (default_facade_ops svc) net s d why = returns (facade_issue_relay_ticket svc net s d why)"
  "app_connect (default_facade_ops svc) net p = returns (facade_connect svc net p)"
  "app_disconnect (default_facade_ops svc) = returns (facade_disconnect svc)"
  "app_control_status (default_facade_ops svc) = returns (\<lambda>f. (control_status f, f))"
  "app_control_sync (default_facade_ops svc) = (\<lambda>f. Some (control_sync svc f))"
  "app_probe_with_timeout (default_facade_ops svc) = probe_with_timeout svc"
  "app_send (default_facade_ops svc) = facade_send svc"
  by (simp_all add: default_facade_ops_def)

lemma status_calls: "stays_or_calls svc (answering t (returns (\<lambda>f. (control_status f, f))))"
  unfolding stays_or_calls_def by (auto elim!: answering_cases returns_cases)

lemma sync_calls: "stays_or_calls svc (answering t (\<lambda>f. Some (control_sync svc f)))"
  unfolding stays_or_calls_def
proof (intro allI impI disjI2)
  fix f r f'
  assume "answering t (\<lambda>f. Some (control_sync svc f)) f = Some (r, f')"
  then obtain r0 where "control_sync svc f = (r0, f')"
    by (auto elim: answering_cases)
  then have "facade_apply svc CallControlSync f = Some (is_ok r0, f')"
    by simp
  then show "\<exists>c ok. facade_apply svc c f = Some (ok, f')"
    by blast
qed

lemma probe_calls: "stays_or_calls svc (answering t (data_plane opn (probe_with_timeout svc b tm)))"
  unfolding stays_or_calls_def
proof (intro allI impI disjI2)
  fix f r f'
  assume "answering t (data_plane opn (probe_with_timeout svc b tm)) f = Some (r, f')"
  then obtain r0 where "probe_with_timeout svc b tm f = Some (r0, f')"
    by (auto elim!: answering_cases data_plane_cases)
  then have "facade_apply svc (CallProbe b tm) f = Some (is_ok r0, f')"
    by simp
  then show "\<exists>c ok. facade_apply svc c f = Some (ok, f')"
    by blast
qed

lemma send_calls: "stays_or_calls svc (answering t (data_plane opn (facade_send svc b)))"
  unfolding stays_or_calls_def
proof (intro allI impI disjI2)
  fix f r f'
  assume "answering t (data_plane opn (facade_send svc b)) f = Some (r, f')"
  then obtain r0 where "probe_with_timeout svc b None f = Some (r0, f')"
    by (auto simp: facade_send_def facade_probe_def elim!: answering_cases data_plane_cases)
  then have "facade_apply svc (CallProbe b None) f = Some (is_ok r0, f')"
    by simp
  then show "\<exists>c ok. facade_apply svc c f = Some (ok, f')"
    by blast
qed

lemma unsupported_calls: "stays_or_calls svc (\<lambda>f. Some (Err e, f))"
  by (simp add: stays_or_calls_def)

lemmas facade_calls =
  returns_calls[OF facade_apply.simps(1)] returns_calls[OF facade_apply.simps(2)] returns_calls[OF facade_apply.simps(3)]
  returns_calls[OF facade_apply.simps(4)] returns_calls[OF facade_apply.simps(5)] returns_calls[OF facade_apply.simps(6)]
  returns_calls[OF facade_apply.simps(7)] returns_calls[OF facade_apply.simps(8)] returns_calls[OF facade_apply.simps(9)]
  returns_calls[OF facade_apply.simps(10)] returns_calls[OF facade_apply.simps(11)] returns_calls[OF facade_apply.simps(12)]
  returns_calls[OF facade_apply.simps(15)] status_calls sync_calls probe_calls send_calls unsupported_calls

lemma invoke_calls: "stays_or_calls svc (invoke (default_facade_ops svc) refuse m doc)"
  unfolding invoke_def default_ops_simps
  by (auto intro!: with_args_calls facade_calls)

end
