(* ===== verification/Helper_Rules.thy ===== *)
theory Helper_Rules
  imports Helper_Rpc Controller_Rules Facade_Calls
begin

text \<open>
  What holds of the helper: the invariants of the facade hold whatever lines arrive, errors keep their codes on the way
  out, and requests are answered up to the first line that is not one.
\<close>

section \<open>The helper keeps the invariants of the facade\<close>

text \<open>A backend whose table is its own, whatever lies outside; the host around it is such a manager too.\<close>

definition host_table :: "('x \<times> 'b \<Rightarrow> peer_table) \<Rightarrow> 'x \<times> 'b helper_tunnels \<Rightarrow> peer_table" where
  "host_table table s = table (fst s, fst (snd s))"

definition host_good :: "('x \<times> 'b \<Rightarrow> bool) \<Rightarrow> 'x \<times> 'b helper_tunnels \<Rightarrow> bool" where
  "host_good good s \<longleftrightarrow> good (fst s, fst (snd s)) \<and> host_ok \<lparr>host_backend = (fst s, fst (snd s)), host_state = snd (snd s)\<rparr>"

locale helper_client = helper_backend hb table inv
  for hb :: "('x \<times> 'b) HelperBackend" and table :: "'x \<times> 'b \<Rightarrow> peer_table" and inv :: "'x \<times> 'b \<Rightarrow> bool" +
  assumes table_outside: "table (x, b) = table (y, b)"
    and inv_outside: "inv (x, b) = inv (y, b)"
begin

lemma host_manager_op:
  "apply_op (host_manager hb) opn s = via_host (apply_op (helper_ops hb) opn) s"
  by (cases opn) (simp_all add: host_manager_def via_host_def split: prod.splits)

lemma hosted_host: "hosted_tunnels (host_manager hb) (host_table table) (host_good inv)"
proof (intro hosted_tunnels.intro hosted_tunnels_axioms.intro)
  show "tunnel_backend (host_manager hb) (host_table table) (host_good inv)"
  proof
    fix s s' :: "'x \<times> 'b helper_tunnels" and opn r
    assume good: "host_good inv s" and call: "apply_op (host_manager hb) opn s = (r, s')"
    let ?h = "\<lparr>host_backend = (fst s, fst (snd s)), host_state = snd (snd s)\<rparr>"
    obtain h where h: "apply_op (helper_ops hb) opn ?h = (r, h)"
        "s' = (fst (host_backend h), snd (host_backend h), host_state h)"
      using call by (auto simp: host_manager_op via_host_def split: prod.splits)
    have g: "inv (host_backend ?h) \<and> host_ok ?h"
      using good by (simp add: host_good_def)
    have ok: "host_ok h = host_ok \<lparr>host_backend = (fst s', fst (snd s')), host_state = snd (snd s')\<rparr>"
      by (simp add: host_ok_def h(2))
    show "spec_step opn r (host_table table s) (host_table table s')"
      using tunnel_backend.op_spec[OF managed_host g h(1)] by (simp add: host_table_def h(2))
    show "host_good inv s'"
      using tunnel_backend.op_inv[OF managed_host g h(1)] ok by (simp add: host_good_def h(2))
  qed
next
  fix x y :: 'x and m :: "'b helper_tunnels"
  show "host_table table (x, m) = host_table table (y, m)"
    using table_outside[of x "fst m" y] by (simp add: host_table_def)
  show "host_good inv (x, m) = host_good inv (y, m)"
    using inv_outside[of x "fst m" y] by (simp add: host_good_def host_ok_def)
qed

lemma helper_facade_services:
  "facade_services (helper_services env http he hb base) (hosted (host_table table)) (hosted (host_good inv))"
  unfolding helper_services_def by (rule hosted_tunnels.services[OF hosted_host])

lemma invoke_helper_snap:
  assumes "invoke_helper (helper_services env http he hb base, hb, he') m doc f = Some (r, f')" "snap_ok f"
  shows "snap_ok f'"
proof (cases "supports_method m")
  case True
  with assms show ?thesis
    by (auto simp: invoke_helper_def on_world_def snap_ok_def elim!: returns_cases split: prod.splits)
next
  case False
  with assms(1) have "invoke (default_facade_ops (helper_services env http he hb base)) (args_refused he') m doc f = Some (r, f')"
    by (simp add: invoke_helper_def)
  then consider "f' = f" | c ok where "facade_apply (helper_services env http he hb base) c f = Some (ok, f')"
    using invoke_calls unfolding stays_or_calls_def by blast
  then show ?thesis
  proof cases
    case 2
    with facade_services.apply_step[OF helper_facade_services] assms(2) show ?thesis
      by blast
  qed (simp add: assms(2))
qed

lemma handle_rpc_line_snap:
  assumes "handle_rpc_line (helper_services env http he hb base, hb, he') line f = Some (r, f')" "snap_ok f"
  shows "snap_ok f'"
proof -
  consider "f' = f" | m doc r0 where "invoke_helper (helper_services env http he hb base, hb, he') m doc f = Some (r0, f')"
    using assms(1)
    by (auto simp: handle_rpc_line_def handle_rpc_request_def Let_def split: result.splits option.splits)
  then show ?thesis
    using assms(2) invoke_helper_snap by cases blast+
qed

lemma rpc_loop_snap:
  assumes "rpc_loop (helper_services env http he hb base, hb, he') wr ctxt lines f out = Some (r, f', out')" "snap_ok f"
  shows "snap_ok f'"
  using assms
proof (induction lines arbitrary: f out)
  case (Cons l lines)
  show ?case
  proof (cases l)
    case (Ok line)
    with Cons show ?thesis
      by (auto split: if_splits option.splits result.splits prod.splits dest: handle_rpc_line_snap)
  next
    case (Err e)
    with Cons.prems show ?thesis by simp
  qed
qed simp

lemma serve_tcp_clients_snap:
  assumes "serve_tcp_clients (helper_services env http he hb base, hb, he') wr cs f = Some (r, f', outs)" "snap_ok f"
  shows "snap_ok f'"
  using assms
proof (induction cs arbitrary: f outs)
  case (Cons c cs)
  then show ?case
    by (auto simp: handle_tcp_client_def split: if_splits option.splits result.splits prod.splits dest: rpc_loop_snap)
qed simp

lemma helper_run_snap:
  assumes "helper_run env http he hb wr listen argv input out x b = Some (r, f, outs)"
  shows "snap_ok f"
proof -
  have "snap_ok (helper_facade_new x b)"
    by (simp add: helper_facade_new_def facade_new_def new_with_probe_reply_timeout_def snap_ok_def snapshot_wf_def
        snapshot_default_def)
  with assms show ?thesis
    by (auto simp: helper_run_def run_tcp_host_def Let_def split: result.splits option.splits
        dest: rpc_loop_snap serve_tcp_clients_snap)
qed

end

interpretation memory_client: helper_client "memory_helper_backend clk later" memory_table memory_good for clk later
  by unfold_locales (simp_all add: memory_table_def memory_good_def)

interpretation windows_client: helper_client "windows_helper_backend clk later env" windows_table windows_inv for clk later env
  by unfold_locales (simp_all add: windows_table_def windows_inv_def)

text \<open>
  C34: whatever lines the helper receives on its standard input or from TCP clients, whichever backend it has and
  however it ends, the lock of the snapshot is healthy and the snapshot is consistent: the tunnel it shows has the
  address it shows, and a connection it shows has the kind of the path it shows.
\<close>

theorem helper_snapshot_consistent:
  "(helper_run env http he (windows_helper_backend clk later (processes env)) wr listen argv input out x windows_new
      = Some (r, f, outs) \<longrightarrow> snap_ok f) \<and>
   (helper_run env http he (memory_helper_backend clk later) wr listen argv input out x (Healthy fmempty)
      = Some (r', f', outs') \<longrightarrow> snap_ok f')"
  by (intro conjI impI) (erule windows_client.helper_run_snap, erule memory_client.helper_run_snap)

section \<open>Errors on the way out\<close>

lemma split_once_code:
  "CHR '':'' \<notin> set c \<Longrightarrow> split_once '': '' (c @ CHR '':'' # CHR '' '' # m) = Some (c, m)"
  by (induction c) (auto simp: starts_with_def)

lemma as_str_code:
  "CHR '':'' \<notin> set (data_plane_code_as_str c)" "starts_with (data_plane_code_as_str c) ''probe_''"
  by (cases c; simp add: starts_with_def)+

lemma send_code_code:
  "CHR '':'' \<notin> set (send_code c)" "starts_with (send_code c) ''send_''"
  by (cases c; simp add: starts_with_def)+

text \<open>
  An error of the data plane reaches the user interface with its code and its message unchanged, and different
  codes stay different.
\<close>

theorem data_plane_errors_reported:
  "error_code (build_rpc_response m (Err (data_plane_error_string m e))) =
     Some ((if m = ''send'' then send_code else data_plane_code_as_str) (DataPlaneError.code e)) \<and>
   error_message (build_rpc_response m (Err (data_plane_error_string m e))) = Some (DataPlaneError.message e) \<and>
   inj send_code \<and> inj data_plane_code_as_str"
proof -
  have "classify_structured_error (data_plane_error_string m e) =
      Some ((if m = ''send'' then send_code else data_plane_code_as_str) (DataPlaneError.code e), DataPlaneError.message e)"
    using as_str_code[of "DataPlaneError.code e"] send_code_code[of "DataPlaneError.code e"]
    by (simp add: classify_structured_error_def data_plane_error_string_def split_once_code)
  moreover have "inj send_code" "inj data_plane_code_as_str"
    by (rule injI, erule contrapos_pp, case_tac x; case_tac y; simp)+
  ultimately show ?thesis
    by (simp add: build_rpc_response_def classify_helper_error_def)
qed

section \<open>Answers\<close>

text \<open>A writer that records the texts it is given.\<close>

definition recorder :: "string list RpcWriter" where
  "recorder = \<lparr>put_text = (\<lambda>t out. (Ok (), out @ [t])), flush_out = (\<lambda>out. (Ok (), out))\<rparr>"

lemma write_response_recorder:
  "write_response he recorder r out = (Ok (), out @ [rpc_text he (se_RpcResponse r), [CHR 0x0A]])"
  by (simp add: write_response_def recorder_def)

text \<open>
  The methods other than the three that poll until a reply comes or the clock has moved on.  What these do is one
  sequence of calls of the controller, of sockets, of programs and of files; they return when those calls do, as
  calls of the environment always do here.
\<close>

definition prompt_method :: "string \<Rightarrow> bool" where
  "prompt_method m \<longleftrightarrow> m \<notin> {''probe'', ''send'', ''controlSync''}"

definition answered :: "(json, fault, 'f) outcome \<Rightarrow> bool" where
  "answered g \<longleftrightarrow> (\<forall>f. \<exists>r f'. g f = Some (r, f') \<and> (\<forall>e. r \<noteq> Err (Panic e)))"

lemma answered_returns: "answered (answering t (returns g))" "answered (returns h)"
proof -
  have "map_ok t (map_err Fail r) \<noteq> Err (Panic e)" "map_err Fail r' \<noteq> Err (Panic e)" for r r' e
    by (cases r; simp) auto
  then show "answered (answering t (returns g))" "answered (returns h)"
    by (auto simp: answered_def answering_def returns_def apfst_def map_prod_def split: prod.splits)
qed

lemma answered_with_args: "(\<And>a. answered (k a)) \<Longrightarrow> answered (with_args refuse de doc k)"
  unfolding answered_def with_args_def by (auto split: option.splits)

lemma answered_prompt:
  "prompt_method m \<Longrightarrow> answered (invoke (default_facade_ops svc) refuse m doc)"
  unfolding invoke_def default_ops_simps prompt_method_def
  by (auto intro!: answered_with_args answered_returns) (simp add: answered_def)

lemma answered_invoke_helper:
  "prompt_method m \<Longrightarrow> answered (invoke_helper (svc, hb, he) m doc)"
  using answered_prompt[of m svc "args_refused he" doc]
    answered_returns(2)[of "on_world (via_tunnels (via_host (helper_invoke hb (args_refused he m) m doc)))"]
  by (simp add: answered_def invoke_helper_def)

lemma prompt_request_answered:
  assumes "prompt_method (RpcRequest.rpc_method req)"
  shows "\<exists>r f'. handle_rpc_request (svc, hb, he) req f = Some (Ok r, f')"
proof -
  obtain r f' where 1: "invoke_helper (svc, hb, he) (RpcRequest.rpc_method req) (call_args req) f = Some (r, f')"
      "\<forall>e. r \<noteq> Err (Panic e)"
    using answered_invoke_helper[OF assms] unfolding answered_def by blast
  have "\<exists>x. rpc_answer (RpcRequest.rpc_method req) r = Ok x"
    using 1(2) by (cases "(RpcRequest.rpc_method req, r)" rule: rpc_answer.cases) auto
  then show ?thesis
    by (auto simp: handle_rpc_request_def Let_def 1(1) split: option.splits)
qed

lemma rpc_loop_answers:
  assumes "list_all2 (\<lambda>line req. read_request he line = Ok req \<and> prompt_method (RpcRequest.rpc_method req))
      (filter (\<lambda>line. \<not> blank line) lines) reqs"
  shows "\<exists>f' answers. (\<forall>rest. rpc_loop (svc, hb, he) recorder ctxt (map Ok lines @ rest) f out =
           rpc_loop (svc, hb, he) recorder ctxt rest f'
             (out @ concat (map (\<lambda>a. [rpc_text he (se_RpcResponse a), [CHR 0x0A]]) answers))) \<and>
         list_all2 (\<lambda>req a. \<exists>g g'. handle_rpc_request (svc, hb, he) req g = Some (Ok a, g')) reqs answers"
  using assms
proof (induction lines arbitrary: f out reqs)
  case (Cons line lines)
  show ?case
  proof (cases "blank line")
    case True
    with Cons show ?thesis by simp
  next
    case False
    with Cons.prems obtain req reqs' where req: "read_request he line = Ok req" "prompt_method (RpcRequest.rpc_method req)"
        "reqs = req # reqs'" and more: "list_all2 (\<lambda>line req. read_request he line = Ok req \<and> prompt_method (RpcRequest.rpc_method req))
          (filter (\<lambda>line. \<not> blank line) lines) reqs'"
      by (auto simp: list_all2_Cons1)
    obtain r f1 where r: "handle_rpc_request (svc, hb, he) req f = Some (Ok r, f1)"
      using prompt_request_answered[OF req(2)] by fastforce
    then have line: "handle_rpc_line (svc, hb, he) line f = Some (Ok r, f1)"
      using req(1) by (simp add: handle_rpc_line_def)
    obtain f' answers where "\<And>rest. rpc_loop (svc, hb, he) recorder ctxt (map Ok lines @ rest) f1
          (out @ [rpc_text he (se_RpcResponse r), [CHR 0x0A]]) = rpc_loop (svc, hb, he) recorder ctxt rest f'
          ((out @ [rpc_text he (se_RpcResponse r), [CHR 0x0A]]) @ concat (map (\<lambda>a. [rpc_text he (se_RpcResponse a), [CHR 0x0A]]) answers))"
        "list_all2 (\<lambda>req a. \<exists>g g'. handle_rpc_request (svc, hb, he) req g = Some (Ok a, g')) reqs' answers"
      using Cons.IH [OF more] by blast
    with False line r req(3) show ?thesis
      by (intro exI[of _ f'] exI[of _ "r # answers"]) (auto simp: write_response_recorder)
  qed
qed auto

text \<open>
  C35: the helper reads lines up to the first that is not a request.  As long as they are requests of methods that do
  not poll, and the answers can be written, it writes exactly one answer for each request, in their order and each ended
  by a line feed, and goes on with the next line; blank lines are skipped.  At the end of the input it ends without
  an error, and at a line that is not a request it ends with the error of that line, the answers written so far kept.
\<close>

theorem helper_answers:
  assumes "list_all2 (\<lambda>line req. read_request he line = Ok req \<and> prompt_method (RpcRequest.rpc_method req))
      (filter (\<lambda>line. \<not> blank line) lines) reqs"
  shows "\<exists>f' answers written. written = out @ concat (map (\<lambda>a. [rpc_text he (se_RpcResponse a), [CHR 0x0A]]) answers) \<and>
     list_all2 (\<lambda>req a. \<exists>g g'. handle_rpc_request (svc, hb, he) req g = Some (Ok a, g')) reqs answers \<and>
     (\<forall>rest. rpc_loop (svc, hb, he) recorder ctxt (map Ok lines @ rest) f out =
        rpc_loop (svc, hb, he) recorder ctxt rest f' written) \<and>
     rpc_loop (svc, hb, he) recorder ctxt (map Ok lines) f out = Some (Ok (), f', written) \<and>
     (\<forall>bad e more. \<not> blank bad \<longrightarrow> read_request he bad = Err e \<longrightarrow>
        rpc_loop (svc, hb, he) recorder ctxt (map Ok lines @ Ok bad # more) f out = Some (Err (Fail e), f', written))"
proof -
  obtain f' answers where run: "\<And>rest. rpc_loop (svc, hb, he) recorder ctxt (map Ok lines @ rest) f out =
        rpc_loop (svc, hb, he) recorder ctxt rest f'
          (out @ concat (map (\<lambda>a. [rpc_text he (se_RpcResponse a), [CHR 0x0A]]) answers))"
      and answers: "list_all2 (\<lambda>req a. \<exists>g g'. handle_rpc_request (svc, hb, he) req g = Some (Ok a, g')) reqs answers"
    using rpc_loop_answers [OF assms, of svc hb ctxt f out] by blast
  have "rpc_loop (svc, hb, he) recorder ctxt (map Ok lines) f out =
      Some (Ok (), f', out @ concat (map (\<lambda>a. [rpc_text he (se_RpcResponse a), [CHR 0x0A]]) answers))"
    using run [of "[]"] by simp
  with run answers show ?thesis
    by (intro exI[of _ f'] exI[of _ answers] exI conjI refl) (auto simp: handle_rpc_line_def)
qed

text \<open>
  One line that is not a request ends the helper: nothing after it is read, and as a TCP host the helper drops
  every other client too.
\<close>

theorem malformed_line_ends_helper:
  assumes "\<not> blank line" "read_request (snd (snd hp)) line = Err e"
    and "accepted c = Ok ()" "cloned c = Ok ()" "received c = Ok line # unread"
  shows "rpc_loop hp wr [] (Ok line # rest) f out = Some (Err (Fail e), f, out) \<and>
         serve_tcp_clients hp wr (c # others) f = Some (Err (Fail e), f, [client_out c])"
  using assms by (simp add: handle_rpc_line_def handle_tcp_client_def)

section \<open>Examples\<close>

text \<open>An environment in which \<open>view\<close> is the text of a request and every other text is not JSON.\<close>

definition demo_helper_env :: HelperEnv where
  "demo_helper_env =
     \<lparr>rpc_json = (\<lambda>t. if t = ''view'' then Ok (JObj [(''method'', JStr ''tunnelRuntimeView'')]) else Err ''expected value''),
      rpc_refused = (\<lambda>_. ''missing field''), rpc_text = (\<lambda>_. ''{}''), args_refused = (\<lambda>_ _. ''invalid type''),
      helper_var = (\<lambda>k. if k = ''SLAN_CONTROL_BASE_URL'' then Some ''http://c'' else None)\<rparr>"

lemma demo_request_read:
  "read_request demo_helper_env ''view'' = Ok \<lparr>RpcRequest.rpc_method = ''tunnelRuntimeView'', call_args = JNull\<rparr>"
  by (simp add: read_request_def demo_helper_env_def de_RpcRequest_def field_laws)

lemma demo_line_visible: "\<not> blank ''view''" "\<not> blank ''x''"
  by (simp_all add: not_blank visible_def)

abbreviation demo_hosted :: "(u64, InMemoryTunnelBackend) helper" where
  "demo_hosted \<equiv>
     (helper_services demo_client_env demo_http demo_helper_env (memory_helper_backend id id) ''http://c'',
      memory_helper_backend id id, demo_helper_env)"

abbreviation demo_helper_facade :: "(u64, InMemoryTunnelBackend) helper_facade" where
  "demo_helper_facade \<equiv> helper_facade_new 0 (Healthy fmempty)"

theorem helper_answers_witness:
  "\<exists>f' answers. length answers = 2 \<and>
     rpc_loop demo_hosted recorder [] (map Ok [''view'', [], ''view''] @ Ok ''x'' # [Ok ''view'']) demo_helper_facade [] =
     Some (Err (Fail ''expected value''), f', concat (map (\<lambda>a. [rpc_text demo_helper_env (se_RpcResponse a), [CHR 0x0A]]) answers))"
proof -
  let ?req = "\<lparr>RpcRequest.rpc_method = ''tunnelRuntimeView'', call_args = JNull\<rparr>"
  have reqs: "list_all2 (\<lambda>line req. read_request demo_helper_env line = Ok req \<and> prompt_method (RpcRequest.rpc_method req))
      (filter (\<lambda>line. \<not> blank line) [''view'', [], ''view'']) [?req, ?req]"
    using demo_line_visible by (simp add: demo_request_read prompt_method_def)
  have bad: "read_request demo_helper_env ''x'' = Err ''expected value''"
    by (simp add: read_request_def demo_helper_env_def)
  from helper_answers[OF reqs, of "[]" "fst demo_hosted" "memory_helper_backend id id" "[]" demo_helper_facade]
  obtain f' answers written where "written = [] @ concat (map (\<lambda>a. [rpc_text demo_helper_env (se_RpcResponse a), [CHR 0x0A]]) answers)"
      "list_all2 (\<lambda>req a. \<exists>g g'. handle_rpc_request demo_hosted req g = Some (Ok a, g')) [?req, ?req] answers"
      and stop: "\<And>bad e more. \<not> blank bad \<Longrightarrow> read_request demo_helper_env bad = Err e \<Longrightarrow>
        rpc_loop demo_hosted recorder [] (map Ok [''view'', [], ''view''] @ Ok bad # more) demo_helper_facade [] =
        Some (Err (Fail e), f', written)"
    by (simp only: fst_conv) blast
  then show ?thesis
    using stop [OF demo_line_visible(2) bad, of "[Ok ''view'']"]
    by (intro exI[of _ f'] exI[of _ answers]) (auto dest: list_all2_lengthD simp del: rpc_loop.simps)
qed

abbreviation demo_tcp_client :: "string list TcpClient" where
  "demo_tcp_client \<equiv> \<lparr>accepted = Ok (), cloned = Ok (), received = [Ok ''x''], client_out = []\<rparr>"

theorem malformed_line_ends_helper_witness:
  "rpc_loop demo_hosted recorder [] [Ok ''x'', Ok ''view''] demo_helper_facade [] =
     Some (Err (Fail ''expected value''), demo_helper_facade, []) \<and>
   serve_tcp_clients demo_hosted recorder [demo_tcp_client, demo_tcp_client] demo_helper_facade =
     Some (Err (Fail ''expected value''), demo_helper_facade, [[]])"
proof -
  have "read_request (snd (snd demo_hosted)) ''x'' = Err ''expected value''"
    by (simp add: read_request_def demo_helper_env_def)
  from malformed_line_ends_helper[OF demo_line_visible(2) this, of demo_tcp_client "[]"] show ?thesis
    by simp
qed

theorem helper_snapshot_consistent_witness:
  "\<exists>r f outs. helper_run demo_client_env demo_http demo_helper_env (memory_helper_backend id id) recorder
     (\<lambda>_. Err ''in use'') [] [Ok ''x''] [] 0 (Healthy fmempty) = Some (r, f, outs) \<and> snap_ok f"
proof -
  have run: "helper_run demo_client_env demo_http demo_helper_env (memory_helper_backend id id) recorder
     (\<lambda>_. Err ''in use'') [] [Ok ''x''] [] 0 (Healthy fmempty) = Some (Err (Fail ''expected value''), demo_helper_facade, [[]])"
    using demo_line_visible
    by (simp add: helper_run_def handle_rpc_line_def read_request_def demo_helper_env_def)
  show ?thesis
    using helper_snapshot_consistent[THEN conjunct2, THEN mp, OF run] run by (intro exI conjI)
qed

end
