(* ===== verification/Cli_Reports.thy ===== *)
theory Cli_Reports
  imports Json_Facade Client_App
begin

text \<open>
  Crate \<open>app-core-cli\<close>, the reports: what the commands print of the snapshot, of a probe, of the tunnel driver
  and of the platform, as text and as JSON.  The keys of an object are listed as the source writes them.  The
  order in which a hash map enumerates its keys is the parameter \<open>order\<close>.  Paths are those of Unix.
\<close>

abbreviation line_feed :: string where
  "line_feed \<equiv> [CHR 0x0A]"

definition or_none :: "string option \<Rightarrow> string" where
  "or_none v = (case v of None \<Rightarrow> ''none'' | Some s \<Rightarrow> s)"

abbreviation status_none :: json where
  "status_none \<equiv> JObj [(''status'', JStr ''none'')]"

section \<open>Connections\<close>

fun connection_state_json :: "ConnectionState \<Rightarrow> json" where
  "connection_state_json ConnectionState.Disconnected = JObj [(''status'', JStr ''disconnected'')]"
| "connection_state_json ConnectionState.Connecting = JObj [(''status'', JStr ''connecting'')]"
| "connection_state_json (ConnectionState.Connected p) =
     JObj [(''status'', JStr ''connected''), (''path'', JStr (connection_path_name p))]"
| "connection_state_json (ConnectionState.Failed why) = JObj [(''status'', JStr ''failed''), (''reason'', JStr why)]"

fun describe_connection_state :: "ConnectionState \<Rightarrow> string" where
  "describe_connection_state ConnectionState.Disconnected = ''disconnected''"
| "describe_connection_state ConnectionState.Connecting = ''connecting''"
| "describe_connection_state (ConnectionState.Connected ConnectionPath.P2P) = ''p2p''"
| "describe_connection_state (ConnectionState.Connected ConnectionPath.Relay) = ''relay''"
| "describe_connection_state (ConnectionState.Connected ConnectionPath.Derp) = ''derp''"
| "describe_connection_state (ConnectionState.Failed why) = ''failed ('' @ why @ '')''"

definition format_network_list :: "Network list \<Rightarrow> string" where
  "format_network_list ns =
     (if ns = [] then ''no networks''
      else join line_feed
        (map (\<lambda>n. Network.network_id n @ '' '' @ Network.name n @ '' '' @ Network.cidr n) ns))"

definition connection_status_snapshot_json :: "AppCoreSnapshot \<Rightarrow> json" where
  "connection_status_snapshot_json s =
     (case connection_state s of Some st \<Rightarrow> connection_state_json st | None \<Rightarrow> status_none)"

fun active_path_json :: "ActivePath \<Rightarrow> json" where
  "active_path_json NoPath = JObj [(''path'', JStr ''none'')]"
| "active_path_json (ActivePath.P2P p) = JObj [(''path'', JStr ''p2p''), (''peerNodeId'', JStr p)]"
| "active_path_json (ActivePath.Relay p) = JObj [(''path'', JStr ''relay''), (''peerNodeId'', JStr p)]"
| "active_path_json (ActivePath.Derp c n) =
     JObj [(''path'', JStr ''derp''), (''clusterId'', JStr c), (''nodeId'', JStr n)]"

fun describe_active_path :: "ActivePath \<Rightarrow> string" where
  "describe_active_path NoPath = ''none''"
| "describe_active_path (ActivePath.P2P p) = ''p2p peer '' @ p"
| "describe_active_path (ActivePath.Relay p) = ''relay peer '' @ p"
| "describe_active_path (ActivePath.Derp c n) = ''derp cluster '' @ c @ '' node '' @ n"

definition connection_path_snapshot_json :: "AppCoreSnapshot \<Rightarrow> json" where
  "connection_path_snapshot_json s =
     (case AppCoreSnapshot.active_path s of
        Some p \<Rightarrow> active_path_json p
      | None \<Rightarrow> JObj [(''path'', JStr ''none'')])"

definition format_connection_status :: "AppCoreSnapshot \<Rightarrow> string" where
  "format_connection_status s =
     (case connection_state s of
        Some st \<Rightarrow> ''connection '' @ describe_connection_state st
      | None \<Rightarrow> ''connection none'')"

definition format_connection_path :: "AppCoreSnapshot \<Rightarrow> string" where
  "format_connection_path s =
     (case AppCoreSnapshot.active_path s of
        Some p \<Rightarrow> ''connection path '' @ describe_active_path p
      | None \<Rightarrow> ''connection path none'')"

section \<open>The tunnel\<close>

fun transport_name :: "TunnelTransport \<Rightarrow> string" where
  "transport_name TunnelTransport.P2P = ''p2p''"
| "transport_name TunnelTransport.Relay = ''relay''"
| "transport_name TunnelTransport.Derp = ''derp''"

text \<open>The names that \<open>derive(Debug)\<close> prints.\<close>

fun debug_transport :: "TunnelTransport \<Rightarrow> string" where
  "debug_transport TunnelTransport.P2P = ''P2P''"
| "debug_transport TunnelTransport.Relay = ''Relay''"
| "debug_transport TunnelTransport.Derp = ''Derp''"

fun debug_tunnel_state :: "TunnelState \<Rightarrow> string" where
  "debug_tunnel_state TunnelState.Disconnected = ''Disconnected''"
| "debug_tunnel_state TunnelState.Configured = ''Configured''"

definition tunnel_status_snapshot_json :: "AppCoreSnapshot \<Rightarrow> json" where
  "tunnel_status_snapshot_json s =
     (case tunnel_runtime s of Some rt \<Rightarrow> se_TunnelRuntimeView rt | None \<Rightarrow> status_none)"

definition format_tunnel_status :: "AppCoreSnapshot \<Rightarrow> string" where
  "format_tunnel_status s =
     (case tunnel_runtime s of
        Some rt \<Rightarrow>
          ''tunnel '' @ debug_tunnel_state (TunnelRuntimeView.state rt) @ '' via ''
            @ debug_transport (TunnelRuntimeView.transport rt) @ '' peer '' @ TunnelRuntimeView.peer_virtual_ip rt
            @ '' endpoint '' @ or_none (TunnelRuntimeView.selected_endpoint rt)
      | None \<Rightarrow> ''tunnel none'')"

definition tunnel_keys_snapshot_json :: "AppCoreSnapshot \<Rightarrow> json" where
  "tunnel_keys_snapshot_json s =
     (case tunnel_key_material s of
        Some m \<Rightarrow>
          JObj [(''status'', JStr ''present''),
                (''deviceId'', se_option JStr (TunnelKeyMaterial.device_id m)),
                (''nodeId'', se_option JStr (TunnelKeyMaterial.node_id m)),
                (''publicKey'', JStr (WireGuardKeyPair.public_key (TunnelKeyMaterial.key_pair m))),
                (''createdAtMs'', se_word (created_at_ms m))]
      | None \<Rightarrow> status_none)"

definition format_tunnel_keys :: "AppCoreSnapshot \<Rightarrow> string" where
  "format_tunnel_keys s =
     (case tunnel_key_material s of
        Some m \<Rightarrow>
          ''tunnel keys public '' @ WireGuardKeyPair.public_key (TunnelKeyMaterial.key_pair m)
            @ '' device '' @ or_none (TunnelKeyMaterial.device_id m)
            @ '' node '' @ or_none (TunnelKeyMaterial.node_id m) @ '' created '' @ show_word (created_at_ms m)
      | None \<Rightarrow> ''tunnel keys none'')"

section \<open>Probes and errors\<close>

fun active_path_kind :: "ActivePath \<Rightarrow> string" where
  "active_path_kind NoPath = ''none''"
| "active_path_kind (ActivePath.P2P _) = ''p2p''"
| "active_path_kind (ActivePath.Relay _) = ''relay''"
| "active_path_kind (ActivePath.Derp _ _) = ''derp''"

definition probe_reply_text :: "DataPlaneProbe \<Rightarrow> string" where
  "probe_reply_text p =
     (if \<not> reply_observed p then ''; no reply observed''
      else case (reply_bytes_received p, reply_rtt_ms p) of
        (Some n, Some rtt) \<Rightarrow> ''; reply observed '' @ show_nat n @ '' bytes after '' @ show_word rtt @ '' ms''
      | (Some n, None) \<Rightarrow> ''; reply observed '' @ show_nat n @ '' bytes''
      | (None, Some rtt) \<Rightarrow> ''; reply observed after '' @ show_word rtt @ '' ms''
      | (None, None) \<Rightarrow> ''; reply observed'')"

definition probe_observation_text :: "DataPlaneProbe \<Rightarrow> string" where
  "probe_observation_text p =
     (case (observed_rtt_ms p, packet_loss_ppm p, path_score p) of
        (Some rtt, Some loss, Some sc) \<Rightarrow>
          ''; observed rtt '' @ show_word rtt @ '' ms loss '' @ show_word loss @ '' ppm score '' @ show_word sc
            @ (case DataPlaneProbe.derp_node_id p of None \<Rightarrow> [] | Some n \<Rightarrow> '' node '' @ n)
      | _ \<Rightarrow> [])"

definition format_probe :: "string \<Rightarrow> string \<Rightarrow> DataPlaneProbe \<Rightarrow> string" where
  "format_probe peer_node network p =
     ''probed '' @ peer_node @ '' on '' @ network @ '' via '' @ active_path_kind (DataPlaneProbe.active_path p)
       @ ''; sent '' @ show_nat (bytes_sent p) @ '' bytes; tunnel '' @ or_none (DataPlaneProbe.tunnel_peer_virtual_ip p)
       @ probe_reply_text p @ probe_observation_text p"

definition probe_last_snapshot_json :: "AppCoreSnapshot \<Rightarrow> json" where
  "probe_last_snapshot_json s = (case last_probe s of Some p \<Rightarrow> se_DataPlaneProbe p | None \<Rightarrow> status_none)"

definition format_last_probe :: "AppCoreSnapshot \<Rightarrow> string" where
  "format_last_probe s =
     (case last_probe s of
        Some p \<Rightarrow>
          ''last probe '' @ probe_id p @ '' via '' @ active_path_kind (DataPlaneProbe.active_path p)
            @ '' sent '' @ show_nat (bytes_sent p) @ '' bytes tunnel '' @ or_none (DataPlaneProbe.tunnel_peer_virtual_ip p)
      | None \<Rightarrow> ''probe none'')"

fun data_plane_error_hint :: "DataPlaneErrorCode \<Rightarrow> string" where
  "data_plane_error_hint DataPlaneErrorCode.Timeout = ''probe reply did not arrive before deadline''"
| "data_plane_error_hint DataPlaneErrorCode.Transport = ''socket or transport path failed''"
| "data_plane_error_hint DataPlaneErrorCode.RelayAuth =
     ''relay ticket was rejected; refresh bootstrap/relay ticket and retry''"
| "data_plane_error_hint DataPlaneErrorCode.RelaySession =
     ''relay session state is stale or mismatched; reconnect before retrying''"
| "data_plane_error_hint DataPlaneErrorCode.RelayProtocol =
     ''relay daemon protocol state is inconsistent; inspect relay logs''"
| "data_plane_error_hint DataPlaneErrorCode.UnsupportedPath = ''current active path does not support this operation''"
| "data_plane_error_hint DataPlaneErrorCode.Unknown = ''unclassified data plane failure''"

definition format_data_plane_error_hint :: "DataPlaneErrorCode \<Rightarrow> string" where
  "format_data_plane_error_hint c = ''; '' @ data_plane_error_hint c"

definition last_error_snapshot_json :: "AppCoreSnapshot \<Rightarrow> json" where
  "last_error_snapshot_json s =
     (case last_data_plane_error s of
        Some e \<Rightarrow>
          JObj [(''code'', se_DataPlaneErrorCode (DataPlaneError.code e)), (''message'', JStr (DataPlaneError.message e)),
                (''hint'', JStr (data_plane_error_hint (DataPlaneError.code e)))]
      | None \<Rightarrow> status_none)"

definition format_last_error :: "AppCoreSnapshot \<Rightarrow> string" where
  "format_last_error s =
     (case last_data_plane_error s of
        Some e \<Rightarrow>
          ''last data plane error '' @ data_plane_code_as_str (DataPlaneError.code e) @ '' '' @ DataPlaneError.message e
            @ format_data_plane_error_hint (DataPlaneError.code e)
      | None \<Rightarrow> ''last data plane error none'')"

section \<open>The control plane\<close>

type_synonym key_order = "string fset \<Rightarrow> string list"

definition plan_entries :: "key_order \<Rightarrow> AppCoreSnapshot \<Rightarrow> (string \<times> ControlWsConnectPlan) list" where
  "plan_entries order s =
     map (\<lambda>k. (k, the (fmlookup (current_connect_plans s) k))) (order (fmdom (current_connect_plans s)))"

definition preferred_path_text :: "ControlWsConnectPlan \<Rightarrow> string" where
  "preferred_path_text plan =
     (case first (ControlWsConnectPlan.paths plan) of
        Some p \<Rightarrow> ControlWsPathOption.path_type p @ '' '' @ ControlWsPathOption.endpoint p
      | None \<Rightarrow> ''none'')"

definition plan_relay_text :: "ControlWsConnectPlan \<Rightarrow> string" where
  "plan_relay_text plan =
     (case ControlWsConnectPlan.relay_ticket plan of
        Some t \<Rightarrow> ''ticket '' @ RelayTicket.ticket_id t @ '' cluster '' @ or_none (RelayTicket.derp_cluster_id t)
      | None \<Rightarrow>
          if \<not> blank (ControlWsConnectPlan.derp_cluster_id plan)
          then ''cluster '' @ ControlWsConnectPlan.derp_cluster_id plan @ '' nodes ''
            @ show_nat (length (ControlWsConnectPlan.preferred_derp_node_ids plan))
          else ''none'')"

definition format_state :: "key_order \<Rightarrow> AppCoreSnapshot \<Rightarrow> string" where
  "format_state order s =
     join line_feed
       ([''session: '' @ or_none (map_option Session.user_id (session s)),
         ''device: '' @ or_none (map_option Device.device_id (current_device s)),
         ''node: '' @ or_none (map_option Node.node_id (current_node s)),
         ''network: '' @ or_none (current_network_id s),
         ''connection: '' @ or_none (map_option describe_connection_state (connection_state s)),
         ''connect plans: '' @ show_nat (fcard (fmdom (current_connect_plans s))),
         (case tunnel_runtime s of
            Some rt \<Rightarrow>
              ''tunnel: configured via '' @ transport_name (TunnelRuntimeView.transport rt)
                @ '' peer '' @ TunnelRuntimeView.peer_virtual_ip rt
                @ '' endpoint '' @ or_none (TunnelRuntimeView.selected_endpoint rt)
          | None \<Rightarrow> ''tunnel: none'')]
        @ (case last_data_plane_error s of
             Some e \<Rightarrow> [''last data plane error: '' @ data_plane_code_as_str (DataPlaneError.code e) @ '' ''
                         @ DataPlaneError.message e @ format_data_plane_error_hint (DataPlaneError.code e)]
           | None \<Rightarrow> [])
        @ (case last_probe s of
             Some p \<Rightarrow> [''last probe: '' @ probe_id p @ '' '' @ show_nat (bytes_sent p) @ '' bytes via ''
                         @ active_path_kind (DataPlaneProbe.active_path p) @ '' at '' @ show_word (sampled_at_ms p)]
           | None \<Rightarrow> [])
        @ sort (map (\<lambda>(peer_node, plan).
              ''connect-plan '' @ peer_node @ '' direct '' @ preferred_path_text plan @ '' relay '' @ plan_relay_text plan)
            (plan_entries order s)))"

definition connect_plan_json :: "string \<times> ControlWsConnectPlan \<Rightarrow> json" where
  "connect_plan_json = (\<lambda>(peer_node, plan).
     JObj [(''peerNodeId'', JStr peer_node),
           (''preferDirect'', JBool (ControlWsConnectPlan.prefer_direct plan)),
           (''pathCount'', se_usize (length (ControlWsConnectPlan.paths plan))),
           (''preferredPath'', se_option (\<lambda>p.
              JObj [(''pathType'', JStr (ControlWsPathOption.path_type p)), (''endpoint'', JStr (ControlWsPathOption.endpoint p)),
                    (''priority'', JNum (ControlWsPathOption.priority p))]) (first (ControlWsConnectPlan.paths plan))),
           (''derpClusterId'', if blank (ControlWsConnectPlan.derp_cluster_id plan) then JNull
                              else JStr (ControlWsConnectPlan.derp_cluster_id plan)),
           (''preferredDerpNodeIds'', se_list JStr (ControlWsConnectPlan.preferred_derp_node_ids plan)),
           (''relayTicketId'', se_option JStr (map_option RelayTicket.ticket_id (ControlWsConnectPlan.relay_ticket plan)))])"

definition or_else :: "'a option \<Rightarrow> 'a option \<Rightarrow> 'a option" where
  "or_else a b = (case a of None \<Rightarrow> b | Some x \<Rightarrow> Some x)"

definition control_status_snapshot_json :: "key_order \<Rightarrow> AppCoreSnapshot \<Rightarrow> json" where
  "control_status_snapshot_json order s =
     (case current_bootstrap s of
        None \<Rightarrow> status_none
      | Some boot \<Rightarrow>
          (let nm = BootstrapConfig.network_map boot; cp = control_plane boot
           in JObj [(''status'', JStr ''configured''),
                (''wsUrl'', JStr (ControlPlaneConfig.ws_url cp)),
                (''heartbeatSeconds'', se_word (ControlPlaneConfig.heartbeat_seconds cp)),
                (''sessionTokenPresent'', JBool (ControlPlaneConfig.session_token cp \<noteq> None)),
                (''networkMapPresent'', JBool (nm \<noteq> None)),
                (''networkId'', se_option JStr (or_else (current_network_id s) (map_option NetworkMap.network_id nm))),
                (''nodeId'', se_option JStr
                  (or_else (map_option Node.node_id (current_node s)) (map_option self_node_id nm))),
                (''deviceId'', se_option JStr
                  (or_else (map_option Device.device_id (current_device s)) (map_option self_device_id nm))),
                (''peerCount'', se_usize (case nm of None \<Rightarrow> 0 | Some m \<Rightarrow> length (NetworkMap.peers m))),
                (''connectPlanCount'', se_usize (fcard (fmdom (current_connect_plans s)))),
                (''connectPlans'', JArr (map connect_plan_json (plan_entries order s)))]))"

definition presence :: "'a option \<Rightarrow> string" where
  "presence v = (if v \<noteq> None then ''present'' else ''missing'')"

definition format_control_status :: "key_order \<Rightarrow> AppCoreSnapshot \<Rightarrow> string" where
  "format_control_status order s =
     (case current_bootstrap s of
        None \<Rightarrow> ''control none''
      | Some boot \<Rightarrow>
          (let nm = BootstrapConfig.network_map boot; cp = control_plane boot
           in ''control ws '' @ ControlPlaneConfig.ws_url cp @ '' heartbeat ''
                @ show_word (ControlPlaneConfig.heartbeat_seconds cp)
                @ '' token '' @ presence (ControlPlaneConfig.session_token cp) @ '' network-map '' @ presence nm
                @ '' peers '' @ show_nat (case nm of None \<Rightarrow> 0 | Some m \<Rightarrow> length (NetworkMap.peers m))
                @ (if current_connect_plans s = fmempty then []
                   else ''; connect-plans '' @ show_nat (fcard (fmdom (current_connect_plans s))) @ '' [''
                     @ join '', '' (sort (map (\<lambda>(peer_node, plan). peer_node @ ''=>'' @ preferred_path_text plan)
                         (plan_entries order s))) @ '']'')))"

definition control_sync_json :: "ControlSessionBootstrap \<Rightarrow> json" where
  "control_sync_json b =
     JObj [(''status'', JStr ''synced''),
           (''controlSessionId'', JStr (control_session_id (ack b))),
           (''heartbeatSeconds'', se_word (NodeHelloAck.heartbeat_seconds (ack b))),
           (''networkRevision'', se_word (network_revision (ack b))),
           (''networkId'', JStr (NetworkMap.network_id (ControlSessionBootstrap.network_map b))),
           (''peerCount'', se_usize (length (NetworkMap.peers (ControlSessionBootstrap.network_map b))))]"

definition format_control_sync :: "ControlSessionBootstrap \<Rightarrow> string" where
  "format_control_sync b =
     ''control synced session '' @ control_session_id (ack b)
       @ '' heartbeat '' @ show_word (NodeHelloAck.heartbeat_seconds (ack b))
       @ '' revision '' @ show_word (network_revision (ack b))
       @ '' peers '' @ show_nat (length (NetworkMap.peers (ControlSessionBootstrap.network_map b)))"

definition bootstrap_status_snapshot_json :: "AppCoreSnapshot \<Rightarrow> json" where
  "bootstrap_status_snapshot_json s =
     (case current_bootstrap s of Some boot \<Rightarrow> se_BootstrapConfig boot | None \<Rightarrow> status_none)"

definition format_bootstrap_status :: "AppCoreSnapshot \<Rightarrow> string" where
  "format_bootstrap_status s =
     (case current_bootstrap s of
        Some boot \<Rightarrow>
          ''bootstrap node '' @ or_none (map_option self_node_id (BootstrapConfig.network_map boot))
            @ '' network '' @ or_none (current_network_id s)
            @ '' relay '' @ default_cluster_id (BootstrapConfig.relay boot)
            @ '' peers '' @ show_nat (case BootstrapConfig.network_map boot of
                  None \<Rightarrow> 0 | Some m \<Rightarrow> length (NetworkMap.peers m))
            @ '' control-session '' @ presence (ControlPlaneConfig.session_token (control_plane boot))
      | None \<Rightarrow> ''bootstrap none'')"

section \<open>The tunnel driver\<close>

fun driver_name :: "TunnelDriverKind \<Rightarrow> string" where
  "driver_name Auto = ''auto''"
| "driver_name InMemory = ''in-memory''"
| "driver_name LinuxKernel = ''linux-kernel''"
| "driver_name WindowsEmbeddable = ''windows-embeddable''"

definition tunnel_driver_report_json :: "TunnelDriverSelection \<Rightarrow> json" where
  "tunnel_driver_report_json r =
     JObj [(''requested'', JStr (driver_name (requested r))), (''selected'', JStr (driver_name (selected r))),
           (''executionMode'', JStr (execution_mode r)), (''executionBackend'', JStr (execution_backend r)),
           (''platform'', JStr (TunnelDriverSelection.platform r))]"

definition format_tunnel_driver_report :: "TunnelDriverSelection \<Rightarrow> string" where
  "format_tunnel_driver_report r =
     ''tunnel driver selected '' @ driver_name (selected r) @ '' (requested '' @ driver_name (requested r)
       @ '', mode '' @ execution_mode r @ '', backend '' @ execution_backend r
       @ '', platform '' @ TunnelDriverSelection.platform r @ '')''"

end
