(* ===== verification/Cli_Platform.thy ===== *)
theory Cli_Platform
  imports Cli_Reports Http_Transport
begin

text \<open>
  Crate \<open>app-core-cli\<close>: what surrounds the tool, paths, the report on the platform, the installation plan and the
  doctor.  Paths are texts and follow the rules of Unix.
\<close>

section \<open>Surroundings\<close>

datatype file_removal = Removed | NothingToRemove | RemoveFailed string

record 'x CliEnv =
  app_env :: "'x ClientEnv"
  app_http :: "'x HttpEnv"
  var_os :: "string \<Rightarrow> string option"
  os_name :: string
  read_text :: "string \<Rightarrow> 'x \<Rightarrow> (string, string) result"
  path_exists :: "string \<Rightarrow> 'x \<Rightarrow> bool"
  remove_file :: "string \<Rightarrow> 'x \<Rightarrow> file_removal \<times> 'x"
  print_line :: "string \<Rightarrow> (unit, 'x) call"
  hash_order :: key_order
  parse_document :: "u8 list \<Rightarrow> (json, string) result"
  document_refused :: "u8 list \<Rightarrow> string"
  pretty :: "json \<Rightarrow> (string, string) result"

abbreviation slash :: char where
  "slash \<equiv> CHR ''/''"

text \<open>\<open>PathBuf::push\<close> and \<open>Path::join\<close>: an absolute path replaces what it is put after.\<close>

definition path_push :: "string \<Rightarrow> string \<Rightarrow> string" where
  "path_push p q =
     (if starts_with q [slash] then q
      else if p = [] \<or> last p = slash then p @ q
      else p @ [slash] @ q)"

text \<open>
  The last component of a path, both reversed, with what stands before it.  Trailing separators and trailing
  components \<open>.\<close> are skipped; a path that ends in \<open>..\<close> or has no component names no file.
\<close>

function last_component :: "string \<Rightarrow> (string \<times> string) option" where
  "last_component r =
     (let c = takeWhile (\<lambda>ch. ch \<noteq> slash) r; before = dropWhile (\<lambda>ch. ch \<noteq> slash) r
      in if c \<in> {[], ''.''} \<and> before \<noteq> [] then last_component (tl before)
         else if c \<in> {[], ''.'', ''..''} then None
         else Some (c, before))"
  by pat_completeness auto
termination
proof (relation "measure length")
  fix r c before :: string
  assume "before = dropWhile (\<lambda>ch. ch \<noteq> slash) r" and "c \<in> {[], ''.''} \<and> before \<noteq> []"
  then have "before \<noteq> []" "length before \<le> length r"
    by (simp_all add: length_dropWhile_le)
  then show "(tl before, r) \<in> measure length"
    by (cases before) simp_all
qed simp

declare last_component.simps [simp del]

text \<open>The name of a file without its last extension; a leading dot starts no extension.\<close>

definition file_stem :: "string \<Rightarrow> string" where
  "file_stem fname =
     (let before = dropWhile (\<lambda>ch. ch \<noteq> CHR ''.'') (rev fname)
      in if length before \<le> 1 then fname else rev (tl before))"

definition with_extension :: "string \<Rightarrow> string \<Rightarrow> string" where
  "with_extension p ext =
     (case last_component (rev p) of
        None \<Rightarrow> p
      | Some (c, before) \<Rightarrow> rev before @ file_stem (rev c) @ ''.'' @ ext)"

fun split_paths :: "string \<Rightarrow> string list" where
  "split_paths [] = [[]]"
| "split_paths (ch # s) =
     (if ch = CHR '':'' then [] # split_paths s
      else case split_paths s of [] \<Rightarrow> [[ch]] | d # ds \<Rightarrow> (ch # d) # ds)"

section \<open>The platform\<close>

datatype LinuxDistroFamily = Debian | Rhel | Arch | Unknown

record PlatformReport =
  os :: string
  distro_id :: "string option"
  version_id :: "string option"
  id_like :: "string list"
  family :: "LinuxDistroFamily option"
  kernel_release :: "string option"
  package_manager :: "string option"

record PlatformInstallPlan =
  report :: PlatformReport
  packages :: "string list"
  supported_driver_modes :: "string list"
  warnings :: "string list"

record DoctorCheck =
  name :: string
  status :: string
  detail :: string

record DoctorReport =
  platform :: PlatformReport
  tunnel_driver :: TunnelDriverSelection
  checks :: "DoctorCheck list"

definition os_release_entry :: "string \<Rightarrow> (string \<times> string) option" where
  "os_release_entry raw =
     (let line = trim raw
      in if line = [] \<or> starts_with line ''#'' then None
         else case split_once ''='' line of
           None \<Rightarrow> None
         | Some (k, v) \<Rightarrow> Some (trim k, trim_matches (\<lambda>ch. ch = CHR 0x22) v))"

text \<open>A later entry of the same key replaces an earlier one.\<close>

definition parse_os_release :: "string \<Rightarrow> (string, string) fmap" where
  "parse_os_release contents = fmap_of_list (rev (List.map_filter os_release_entry (text_lines contents)))"

definition linux_family :: "string option \<Rightarrow> string list \<Rightarrow> LinuxDistroFamily" where
  "linux_family i likes =
     (let vs = likes @ (case i of None \<Rightarrow> [] | Some v \<Rightarrow> [v])
      in if list_ex (\<lambda>v. v \<in> {''ubuntu'', ''debian''}) vs then Debian
         else if list_ex (\<lambda>v. v \<in> {''rhel'', ''centos'', ''fedora'', ''rocky'', ''almalinux''}) vs then Rhel
         else if list_ex (\<lambda>v. v = ''arch'') vs then Arch
         else LinuxDistroFamily.Unknown)"

fun package_manager_of :: "LinuxDistroFamily \<Rightarrow> string option" where
  "package_manager_of Debian = Some ''apt-get''"
| "package_manager_of Rhel = Some ''dnf''"
| "package_manager_of Arch = Some ''pacman''"
| "package_manager_of LinuxDistroFamily.Unknown = None"

definition read_kernel_release :: "'x CliEnv \<Rightarrow> 'x \<Rightarrow> string option" where
  "read_kernel_release env x =
     (case read_text env ''/proc/sys/kernel/osrelease'' x of
        Err _ \<Rightarrow> None
      | Ok v \<Rightarrow> if trim v = [] then None else Some (trim v))"

definition detect_platform_report :: "'x CliEnv \<Rightarrow> 'x \<Rightarrow> (PlatformReport, string) result" where
  "detect_platform_report env x =
     (let kernel = read_kernel_release env x
      in if os_name env \<noteq> ''linux'' then
           Ok \<lparr>os = os_name env, distro_id = None, version_id = None, id_like = [], family = None,
               kernel_release = kernel, package_manager = None\<rparr>
         else case read_text env ''/etc/os-release'' x of
           Err e \<Rightarrow> Err (''failed to read /etc/os-release: '' @ e)
         | Ok contents \<Rightarrow>
             (let parsed = parse_os_release contents;
                  likes = (case fmlookup parsed ''ID_LIKE'' of None \<Rightarrow> [] | Some v \<Rightarrow> split_whitespace v);
                  fam = linux_family (fmlookup parsed ''ID'') likes
              in Ok \<lparr>os = os_name env, distro_id = fmlookup parsed ''ID'', version_id = fmlookup parsed ''VERSION_ID'',
                     id_like = likes, family = Some fam, kernel_release = kernel,
                     package_manager = package_manager_of fam\<rparr>))"

fun install_packages :: "LinuxDistroFamily option \<Rightarrow> string list \<times> string list" where
  "install_packages (Some Debian) = ([''wireguard-tools'', ''iproute2''], [])"
| "install_packages (Some Rhel) =
     ([''wireguard-tools'', ''iproute''],
      [''wireguard kernel packages may require extra repositories on some RHEL-family systems''])"
| "install_packages (Some Arch) = ([''wireguard-tools'', ''iproute2''], [])"
| "install_packages _ =
     ([], [''unsupported or unknown linux distribution; package plan may need manual adjustments''])"

definition build_platform_install_plan :: "'x CliEnv \<Rightarrow> 'x \<Rightarrow> (PlatformInstallPlan, string) result" where
  "build_platform_install_plan env x =
     (case detect_platform_report env x of
        Err e \<Rightarrow> Err e
      | Ok r \<Rightarrow>
          Ok \<lparr>report = r, packages = fst (install_packages (family r)),
              supported_driver_modes =
                (if os r = ''linux'' then [''in-memory'', ''linux-kernel-shell'', ''linux-kernel-native'']
                 else [''in-memory'']),
              warnings = snd (install_packages (family r))\<rparr>)"

section \<open>The doctor\<close>

definition command_on_path :: "'x CliEnv \<Rightarrow> 'x \<Rightarrow> string \<Rightarrow> bool" where
  "command_on_path env x c =
     (case var_os env ''PATH'' of
        None \<Rightarrow> False
      | Some ps \<Rightarrow> list_ex (\<lambda>d. path_exists env (path_push d c) x) (split_paths ps))"

definition doctor_check :: "string \<Rightarrow> bool \<Rightarrow> string \<Rightarrow> string \<Rightarrow> string \<Rightarrow> DoctorCheck" where
  "doctor_check n good otherwise yes no =
     \<lparr>name = n, status = (if good then ''ok'' else otherwise), detail = (if good then yes else no)\<rparr>"

definition doctor_report :: "'x CliEnv \<Rightarrow> string \<Rightarrow> 'x \<Rightarrow> (DoctorReport, string) result" where
  "doctor_report env state_path x =
     (case detect_platform_report env x of
        Err e \<Rightarrow> Err e
      | Ok pf \<Rightarrow>
          (case detect_tunnel_driver (processes (app_env env)) of
             Err e \<Rightarrow> Err e
           | Ok drv \<Rightarrow>
               Ok \<lparr>platform = pf, tunnel_driver = drv,
                   checks =
                     [\<lparr>name = ''state_file'', status = ''ok'', detail = state_path\<rparr>,
                      doctor_check ''ip_command'' (command_on_path env x ''ip'') ''fail''
                        ''ip command available'' ''ip command missing from PATH'',
                      doctor_check ''wg_command'' (command_on_path env x ''wg'') ''warn''
                        ''wg command available'' ''wg command missing from PATH'',
                      doctor_check ''tun_device'' (path_exists env ''/dev/net/tun'' x) ''warn''
                        ''/dev/net/tun present'' ''/dev/net/tun missing'',
                      \<lparr>name = ''tunnel_driver'', status = ''ok'', detail = format_tunnel_driver_report drv\<rparr>]\<rparr>))"

section \<open>Their reports\<close>

fun family_name :: "LinuxDistroFamily \<Rightarrow> string" where
  "family_name Debian = ''debian''"
| "family_name Rhel = ''rhel''"
| "family_name Arch = ''arch''"
| "family_name LinuxDistroFamily.Unknown = ''unknown''"

definition platform_report_json :: "PlatformReport \<Rightarrow> json" where
  "platform_report_json r =
     JObj [(''os'', JStr (os r)),
           (''distroId'', se_option JStr (distro_id r)),
           (''versionId'', se_option JStr (version_id r)),
           (''idLike'', se_list JStr (id_like r)),
           (''family'', se_option JStr (map_option family_name (family r))),
           (''kernelRelease'', se_option JStr (kernel_release r)),
           (''packageManager'', se_option JStr (package_manager r))]"

definition platform_install_plan_json :: "PlatformInstallPlan \<Rightarrow> json" where
  "platform_install_plan_json plan =
     JObj [(''platform'', platform_report_json (report plan)),
           (''packages'', se_list JStr (packages plan)),
           (''supportedDriverModes'', se_list JStr (supported_driver_modes plan)),
           (''warnings'', se_list JStr (warnings plan))]"

definition doctor_report_json :: "DoctorReport \<Rightarrow> json" where
  "doctor_report_json r =
     JObj [(''platform'', platform_report_json (DoctorReport.platform r)),
           (''tunnelDriver'', tunnel_driver_report_json (tunnel_driver r)),
           (''checks'', se_list (\<lambda>c.
              JObj [(''name'', JStr (DoctorCheck.name c)), (''status'', JStr (DoctorCheck.status c)), (''detail'', JStr (detail c))]) (checks r))]"

definition or_na :: "string option \<Rightarrow> string" where
  "or_na v = (case v of None \<Rightarrow> ''n/a'' | Some s \<Rightarrow> s)"

definition format_platform_report :: "PlatformReport \<Rightarrow> string" where
  "format_platform_report r =
     ''platform '' @ os r @ '' distro '' @ or_na (distro_id r) @ '' version '' @ or_na (version_id r)
       @ '' family '' @ or_na (map_option family_name (family r)) @ '' kernel '' @ or_na (kernel_release r)
       @ '' package-manager '' @ or_na (package_manager r)"

definition format_platform_install_plan :: "PlatformInstallPlan \<Rightarrow> string" where
  "format_platform_install_plan plan =
     join line_feed
       ([format_platform_report (report plan),
         ''packages: '' @ (if packages plan = [] then ''none'' else join '', '' (packages plan)),
         ''supported drivers: '' @ join '', '' (supported_driver_modes plan)]
        @ (if warnings plan = [] then [] else [''warnings: '' @ join ''; '' (warnings plan)]))"

definition format_doctor_report :: "DoctorReport \<Rightarrow> string" where
  "format_doctor_report r =
     join line_feed
       ([format_platform_report (DoctorReport.platform r), format_tunnel_driver_report (tunnel_driver r)]
        @ map (\<lambda>c. DoctorCheck.name c @ '' ['' @ DoctorCheck.status c @ ''] '' @ detail c) (checks r))"

end
