(* ===== verification/Cli_Run.thy ===== *)
theory Cli_Run
  imports Cli_Platform Controller_Http
begin

text \<open>
  Crate \<open>app-core-cli\<close>: the commands, the state file and \<open>run\<close>.  Parsing the command line is the library \<open>clap\<close>'s;
  the model starts from the parsed command line.  An outcome is missing when the command does not return.
\<close>

section \<open>The command line\<close>

record AuthArgs =
  email :: string
  password :: string

record RegisterDeviceArgs =
  name :: string
  platform :: string
  machine_id :: string
  public_key :: string

record RegisterNodeArgs =
  device_id :: "string option"
  node_id :: string
  node_public_key :: string
  capabilities :: "string list"

record CreateNetworkArgs =
  name :: string
  cidr :: string

record BootstrapArgs =
  node_id :: "string option"
  network_id :: string

record RelayTicketArgs =
  network_id :: string
  src_node_id :: "string option"
  dst_node_id :: string
  ticket_reason :: string

record ConnectArgs =
  network_id :: "string option"
  peer_node_id :: string

record SendArgs =
  network_id :: "string option"
  peer_node_id :: string
  payload :: string

record ProbeArgs =
  network_id :: "string option"
  peer_node_id :: string
  payload :: string
  probe_timeout_ms :: "u64 option"

datatype AuthCommand = Register AuthArgs | Login AuthArgs

datatype DeviceCommand = Register RegisterDeviceArgs

datatype NodeCommand = Register RegisterNodeArgs

datatype NetworkCommand = List | Create CreateNetworkArgs

datatype ConnectionCommand = Status | Path

datatype TunnelCommand = Status | Keys | Driver

datatype ControlCommand = Status | Sync

datatype PlatformCommand = Detect | Plan

datatype StateCommand = Show | Path | Clear

datatype Command =
    Auth AuthCommand
  | Device DeviceCommand
  | Node NodeCommand
  | Network NetworkCommand
  | Bootstrap BootstrapArgs
  | RelayTicket RelayTicketArgs
  | Connect ConnectArgs
  | Send SendArgs
  | Probe ProbeArgs
  | BootstrapStatus
  | ProbeLast
  | ErrorLast
  | Platform PlatformCommand
  | Doctor
  | Disconnect
  | Connection ConnectionCommand
  | Tunnel TunnelCommand
  | Control ControlCommand
  | Status
  | State StateCommand

record Cli =
  control_base_url :: "string option"
  state_file :: "string option"
  json_output :: bool
  command :: Command

section \<open>The state file\<close>

definition default_state_file :: "'x CliEnv \<Rightarrow> string" where
  "default_state_file env =
     (case or_else (var_os env ''HOME'') (var_os env ''USERPROFILE'') of
        Some home \<Rightarrow> path_push (path_push home ''.slan'') ''app-core-cli-state.json''
      | None \<Rightarrow> ''.slan-app-core-cli-state.json'')"

definition tunnel_key_file_path :: "string \<Rightarrow> string" where
  "tunnel_key_file_path state_path = with_extension state_path ''wg-keys.json''"

definition load_snapshot :: "'x CliEnv \<Rightarrow> string \<Rightarrow> 'x \<Rightarrow> (AppCoreSnapshot, string) result" where
  "load_snapshot env p x =
     (case read_file (files (app_env env)) p x of
        Contents bytes \<Rightarrow>
          (case parse_document env bytes of
             Err e \<Rightarrow> Err e
           | Ok doc \<Rightarrow> ok_or (de_AppCoreSnapshot doc) (document_refused env bytes))
      | NotFound \<Rightarrow> Ok snapshot_default
      | ReadFailed e \<Rightarrow> Err e)"

definition save_snapshot :: "'x CliEnv \<Rightarrow> string \<Rightarrow> AppCoreSnapshot \<Rightarrow> (unit, 'x) call" where
  "save_snapshot env p s =
     then_call
       (case parent_dir (files (app_env env)) p of
          None \<Rightarrow> (\<lambda>x. (Ok (), x))
        | Some parent \<Rightarrow> create_dir_all (files (app_env env)) parent)
       (\<lambda>_ x. case pretty env (se_AppCoreSnapshot (hash_order env) s) of
          Err e \<Rightarrow> (Err e, x)
        | Ok t \<Rightarrow> write_file (files (app_env env)) p (as_bytes t) x)"

definition clear_state_file :: "'x CliEnv \<Rightarrow> string \<Rightarrow> (unit, 'x) call" where
  "clear_state_file env p x =
     (case remove_file env p x of
        (Removed, x1) \<Rightarrow> (Ok (), x1)
      | (NothingToRemove, x1) \<Rightarrow> (Ok (), x1)
      | (RemoveFailed e, x1) \<Rightarrow> (Err e, x1))"

text \<open>\<open>println!\<close> panics when the output is closed.\<close>

definition println :: "'x CliEnv \<Rightarrow> string \<Rightarrow> 'x \<Rightarrow> (unit, fault) result \<times> 'x" where
  "println env t x = apfst (map_err (\<lambda>e. Panic (''failed printing to stdout: '' @ e))) (print_line env t x)"

definition print_output :: "'x CliEnv \<Rightarrow> bool \<Rightarrow> json \<Rightarrow> string \<Rightarrow> 'x \<Rightarrow> (unit, fault) result \<times> 'x" where
  "print_output env as_json v t x =
     (if as_json then
        (case pretty env (value_of v) of
           Err e \<Rightarrow> (Err (Fail e), x)
         | Ok out \<Rightarrow> println env out x)
      else println env t x)"

section \<open>Commands that only read the state\<close>

definition requires_backend :: "Command \<Rightarrow> bool" where
  "requires_backend c =
     (case c of
        State StateCommand.Show \<Rightarrow> False | State StateCommand.Path \<Rightarrow> False
      | Connection ConnectionCommand.Status \<Rightarrow> False | Connection ConnectionCommand.Path \<Rightarrow> False
      | Tunnel TunnelCommand.Status \<Rightarrow> False | Tunnel TunnelCommand.Keys \<Rightarrow> False | Tunnel TunnelCommand.Driver \<Rightarrow> False
      | Platform PlatformCommand.Detect \<Rightarrow> False | Platform PlatformCommand.Plan \<Rightarrow> False
      | Doctor \<Rightarrow> False | BootstrapStatus \<Rightarrow> False | ProbeLast \<Rightarrow> False | ErrorLast \<Rightarrow> False
      | Control _ \<Rightarrow> False
      | _ \<Rightarrow> True)"

definition reporting ::
  "('a, string) result \<Rightarrow> ('a \<Rightarrow> 'x \<Rightarrow> (unit, fault) result \<times> 'x) \<Rightarrow> 'x \<Rightarrow> (unit, fault) result \<times> 'x" where
  "reporting r k x = (case r of Err e \<Rightarrow> (Err (Fail e), x) | Ok a \<Rightarrow> k a x)"

definition run_local_state_command ::
  "'x CliEnv \<Rightarrow> bool \<Rightarrow> Command \<Rightarrow> string \<Rightarrow> AppCoreSnapshot \<Rightarrow> 'x \<Rightarrow> (unit, fault) result \<times> 'x" where
  "run_local_state_command env as_json c state_path s x =
     (let out = print_output env as_json; order = hash_order env
      in case c of
        State StateCommand.Show \<Rightarrow> out (se_AppCoreSnapshot order s) (format_state order s) x
      | State StateCommand.Path \<Rightarrow> out (JObj [(''stateFile'', JStr state_path)]) state_path x
      | State StateCommand.Clear \<Rightarrow> (Err (Panic ''internal error: entered unreachable code''), x)
      | Connection ConnectionCommand.Status \<Rightarrow>
          out (connection_status_snapshot_json s) (format_connection_status s) x
      | Connection ConnectionCommand.Path \<Rightarrow> out (connection_path_snapshot_json s) (format_connection_path s) x
      | Tunnel TunnelCommand.Status \<Rightarrow> out (tunnel_status_snapshot_json s) (format_tunnel_status s) x
      | Tunnel TunnelCommand.Keys \<Rightarrow> out (tunnel_keys_snapshot_json s) (format_tunnel_keys s) x
      | Tunnel TunnelCommand.Driver \<Rightarrow>
          reporting (detect_tunnel_driver (processes (app_env env)))
            (\<lambda>r. out (tunnel_driver_report_json r) (format_tunnel_driver_report r)) x
      | Platform PlatformCommand.Detect \<Rightarrow>
          reporting (detect_platform_report env x)
            (\<lambda>r. out (platform_report_json r) (format_platform_report r)) x
      | Platform PlatformCommand.Plan \<Rightarrow>
          reporting (build_platform_install_plan env x)
            (\<lambda>r. out (platform_install_plan_json r) (format_platform_install_plan r)) x
      | Doctor \<Rightarrow>
          reporting (doctor_report env state_path x) (\<lambda>r. out (doctor_report_json r) (format_doctor_report r)) x
      | BootstrapStatus \<Rightarrow> out (bootstrap_status_snapshot_json s) (format_bootstrap_status s) x
      | ProbeLast \<Rightarrow> out (probe_last_snapshot_json s) (format_last_probe s) x
      | ErrorLast \<Rightarrow> out (last_error_snapshot_json s) (format_last_error s) x
      | Control ControlCommand.Status \<Rightarrow> out (control_status_snapshot_json order s) (format_control_status order s) x
      | Control ControlCommand.Sync \<Rightarrow> (Err (Fail ''control sync requires mutable local state''), x)
      | _ \<Rightarrow> (Err (Fail ''unsupported local-only command''), x))"

section \<open>The control channel\<close>

definition control_ws_config_from_snapshot :: "AppCoreSnapshot \<Rightarrow> (ControlWsConfig, string) result" where
  "control_ws_config_from_snapshot s =
     (case current_bootstrap s of
        None \<Rightarrow> Err ''missing bootstrap; run bootstrap first''
      | Some boot \<Rightarrow> (case BootstrapConfig.network_map boot of
          None \<Rightarrow> Err ''missing bootstrap network map; bootstrap must include network map''
        | Some nm \<Rightarrow> (case ControlPlaneConfig.session_token (control_plane boot) of
            None \<Rightarrow> Err ''missing control session token in bootstrap config''
          | Some token \<Rightarrow> (case current_node s of
              None \<Rightarrow> Err ''missing current node; register a node first''
            | Some n \<Rightarrow> (case session s of
                None \<Rightarrow> Err ''missing session access token''
              | Some ses \<Rightarrow>
                  Ok \<lparr>ControlWsConfig.ws_url = ControlPlaneConfig.ws_url (control_plane boot),
                      access_token = Session.access_token ses, session_token = token,
                      user_id = Session.user_id ses,
                      device_id = (case current_device s of None \<Rightarrow> self_device_id nm | Some d \<Rightarrow> Device.device_id d),
                      node_id = Node.node_id n, node_public_key = Node.node_public_key n,
                      network_id = (case current_network_id s of None \<Rightarrow> NetworkMap.network_id nm | Some i \<Rightarrow> i),
                      capabilities = Node.capabilities n\<rparr>)))))"

definition run_control_command ::
  "WsEnv \<Rightarrow> key_order \<Rightarrow> ControlCommand \<Rightarrow> AppCoreSnapshot \<Rightarrow> (json \<times> string, fault) result \<times> AppCoreSnapshot" where
  "run_control_command ws order c s =
     (case c of
        ControlCommand.Status \<Rightarrow> (Ok (control_status_snapshot_json order s, format_control_status order s), s)
      | ControlCommand.Sync \<Rightarrow>
          (case control_ws_config_from_snapshot s of
             Err e \<Rightarrow> (Err (Fail e), s)
           | Ok cfg \<Rightarrow> (case ws_connect ws cfg of
               Err e \<Rightarrow> (Err (Fail e), s)
             | Ok chan \<Rightarrow> (case bootstrap_session ws cfg chan of
                 (Err e, _) \<Rightarrow> (Err e, s)
               | (Ok b, _) \<Rightarrow>
                   (Ok (control_sync_json b, format_control_sync b),
                    s\<lparr>current_bootstrap := map_option (\<lambda>boot.
                         boot\<lparr>BootstrapConfig.network_map := Some (ControlSessionBootstrap.network_map b)\<rparr>)
                        (current_bootstrap s),
                      current_network_id := Some (NetworkMap.network_id (ControlSessionBootstrap.network_map b))\<rparr>)))))"

section \<open>Commands of the facade\<close>

definition resolve_node_id :: "string option \<Rightarrow> AppCoreSnapshot \<Rightarrow> (string, string) result" where
  "resolve_node_id explicit s =
     ok_or (or_else explicit (map_option Node.node_id (current_node s)))
       ''missing node id; pass --node-id or register a node first''"

definition resolve_network_id :: "string option \<Rightarrow> AppCoreSnapshot \<Rightarrow> (string, string) result" where
  "resolve_network_id explicit s =
     ok_or (or_else explicit (current_network_id s)) ''missing network id; pass --network-id or run bootstrap first''"

text \<open>The \<open>?\<close> operator on a value and on an operation, and \<open>map_err(|error| error.message)\<close>.\<close>

definition given :: "('a, string) result \<Rightarrow> ('a \<Rightarrow> ('b, fault, 'f) outcome) \<Rightarrow> ('b, fault, 'f) outcome" where
  "given r k f = (case r of Err e \<Rightarrow> Some (Err (Fail e), f) | Ok a \<Rightarrow> k a f)"

definition and_then ::
  "('a, fault, 'f) outcome \<Rightarrow> ('a \<Rightarrow> ('b, fault, 'f) outcome) \<Rightarrow> ('b, fault, 'f) outcome" where
  "and_then g k f =
     (case g f of
        None \<Rightarrow> None
      | Some (Err e, f1) \<Rightarrow> Some (Err e, f1)
      | Some (Ok a, f1) \<Rightarrow> k a f1)"

definition message_only :: "('a, DataPlaneError, 'f) outcome \<Rightarrow> ('a, fault, 'f) outcome" where
  "message_only g f = map_option (apfst (map_err (\<lambda>e. Fail (DataPlaneError.message e)))) (g f)"

definition execute_send :: "'f AppCoreFacadeOps \<Rightarrow> SendArgs \<Rightarrow> AppCoreSnapshot \<Rightarrow> (json \<times> string, fault, 'f) outcome" where
  "execute_send app a s =
     given (resolve_network_id (SendArgs.network_id a) s) (\<lambda>net.
       and_then (app_connect app net (SendArgs.peer_node_id a)) (\<lambda>st.
         answering (\<lambda>n.
             (JObj [(''status'', JStr ''sent''), (''bytesSent'', se_usize n),
                    (''path'', JStr (describe_connection_state st))],
              ''sent '' @ show_nat n @ '' bytes to '' @ SendArgs.peer_node_id a @ '' via ''
                @ describe_connection_state st @ '' on '' @ net))
           (message_only (app_send app (as_bytes (SendArgs.payload a))))))"

definition execute_probe :: "'f AppCoreFacadeOps \<Rightarrow> ProbeArgs \<Rightarrow> AppCoreSnapshot \<Rightarrow> (json \<times> string, fault, 'f) outcome" where
  "execute_probe app a s =
     given (resolve_network_id (ProbeArgs.network_id a) s) (\<lambda>net.
       and_then (app_connect app net (ProbeArgs.peer_node_id a)) (\<lambda>_.
         answering (\<lambda>p. (se_DataPlaneProbe p, format_probe (ProbeArgs.peer_node_id a) net p))
           (message_only (app_probe_with_timeout app (as_bytes (ProbeArgs.payload a)) (ProbeArgs.probe_timeout_ms a)))))"

text \<open>The commands that read the snapshot, as the facade would run them.\<close>

definition snapshot_command ::
  "'x ProcessEnv \<Rightarrow> key_order \<Rightarrow> Command \<Rightarrow> AppCoreSnapshot \<Rightarrow> (json \<times> string, string) result" where
  "snapshot_command procs order c s =
     (case c of
        Connection ConnectionCommand.Status \<Rightarrow> Ok (connection_status_snapshot_json s, format_connection_status s)
      | Connection ConnectionCommand.Path \<Rightarrow> Ok (connection_path_snapshot_json s, format_connection_path s)
      | Tunnel TunnelCommand.Status \<Rightarrow> Ok (tunnel_status_snapshot_json s, format_tunnel_status s)
      | Tunnel TunnelCommand.Keys \<Rightarrow> Ok (tunnel_keys_snapshot_json s, format_tunnel_keys s)
      | Tunnel TunnelCommand.Driver \<Rightarrow>
          map_ok (\<lambda>r. (tunnel_driver_report_json r, format_tunnel_driver_report r)) (detect_tunnel_driver procs)
      | Platform _ \<Rightarrow> Err ''unsupported backend platform command''
      | Doctor \<Rightarrow> Err ''unsupported backend doctor command''
      | BootstrapStatus \<Rightarrow> Ok (bootstrap_status_snapshot_json s, format_bootstrap_status s)
      | ProbeLast \<Rightarrow> Ok (probe_last_snapshot_json s, format_last_probe s)
      | ErrorLast \<Rightarrow> Ok (last_error_snapshot_json s, format_last_error s)
      | Control ControlCommand.Status \<Rightarrow> Ok (control_status_snapshot_json order s, format_control_status order s)
      | Control ControlCommand.Sync \<Rightarrow> Err ''control sync is handled before backend facade initialization''
      | Command.Status \<Rightarrow> Ok (se_AppCoreSnapshot order s, format_state order s)
      | _ \<Rightarrow> Err ''unsupported backend state command'')"

definition execute_command ::
  "'x ProcessEnv \<Rightarrow> key_order \<Rightarrow> 'f AppCoreFacadeOps \<Rightarrow> Command \<Rightarrow> AppCoreSnapshot \<Rightarrow> (json \<times> string, fault, 'f) outcome" where
  "execute_command procs order app c s =
     (case c of
        Auth (AuthCommand.Register a) \<Rightarrow>
          answering (\<lambda>ses. (se_Session ses, ''registered session for '' @ Session.user_id ses @ '' with access token ''
              @ Session.access_token ses))
            (app_register app (AuthArgs.email a) (AuthArgs.password a))
      | Auth (AuthCommand.Login a) \<Rightarrow>
          answering (\<lambda>ses. (se_Session ses, ''logged in as '' @ Session.user_id ses @ '' with access token ''
              @ Session.access_token ses))
            (app_login app (AuthArgs.email a) (AuthArgs.password a))
      | Device (DeviceCommand.Register a) \<Rightarrow>
          answering (\<lambda>d. (se_Device d, ''registered device '' @ Device.device_id d @ '' ('' @ Device.name d @ '') on ''
              @ Device.platform d))
            (app_register_device app (RegisterDeviceArgs.name a) (RegisterDeviceArgs.platform a)
              (RegisterDeviceArgs.machine_id a) (RegisterDeviceArgs.public_key a))
      | Node (NodeCommand.Register a) \<Rightarrow>
          given (ok_or (or_else (RegisterNodeArgs.device_id a) (map_option Device.device_id (current_device s)))
              ''missing device id; pass --device-id or register a device first'') (\<lambda>dev.
            answering (\<lambda>n. (se_Node n, ''registered node '' @ Node.node_id n @ '' for device '' @ Node.device_id n))
              (app_register_node app dev (RegisterNodeArgs.node_id a) (RegisterNodeArgs.node_public_key a)
                (RegisterNodeArgs.capabilities a)))
      | Network NetworkCommand.List \<Rightarrow>
          answering (\<lambda>ns. (JObj [(''items'', se_list se_Network ns)], format_network_list ns)) (app_list_networks app)
      | Network (NetworkCommand.Create a) \<Rightarrow>
          answering (\<lambda>n. (se_Network n, ''created network '' @ Network.network_id n @ '' ('' @ Network.name n @ '') ''
              @ Network.cidr n))
            (app_create_network app (CreateNetworkArgs.name a) (CreateNetworkArgs.cidr a))
      | Bootstrap a \<Rightarrow>
          given (resolve_node_id (BootstrapArgs.node_id a) s) (\<lambda>n.
            answering (\<lambda>boot. (se_BootstrapConfig boot, ''loaded bootstrap for node '' @ n @ '' on network ''
                @ BootstrapArgs.network_id a @ ''; relay cluster '' @ default_cluster_id (BootstrapConfig.relay boot)))
              (app_bootstrap app n (BootstrapArgs.network_id a)))
      | RelayTicket a \<Rightarrow>
          given (resolve_node_id (RelayTicketArgs.src_node_id a) s) (\<lambda>src.
            answering (\<lambda>t. (se_client_ticket t, ''issued relay ticket '' @ RelayTicket.ticket_id t @ '' for '' @ src
                @ '' -> '' @ RelayTicketArgs.dst_node_id a @ '' on '' @ RelayTicketArgs.network_id a))
              (app_issue_relay_ticket app (RelayTicketArgs.network_id a) src (RelayTicketArgs.dst_node_id a)
                (ticket_reason a)))
      | Connect a \<Rightarrow>
          given (resolve_network_id (ConnectArgs.network_id a) s) (\<lambda>net.
            answering (\<lambda>st. (connection_state_json st, ''connect '' @ ConnectArgs.peer_node_id a @ '' via ''
                @ describe_connection_state st @ '' on '' @ net))
              (app_connect app net (ConnectArgs.peer_node_id a)))
      | Send a \<Rightarrow> execute_send app a s
      | Probe a \<Rightarrow> execute_probe app a s
      | Disconnect \<Rightarrow>
          answering (\<lambda>_. (JObj [(''status'', JStr ''disconnected'')], ''disconnected'')) (app_disconnect app)
      | _ \<Rightarrow> given (snapshot_command procs order c s) (\<lambda>out f. Some (Ok out, f)))"

section \<open>The program\<close>

definition cli_client :: "'x CliEnv \<Rightarrow> string \<Rightarrow> 'x ClientEnv" where
  "cli_client env base =
     (app_env env)\<lparr>http_controller := http_controller_client
        \<lparr>http_env = app_http env, base_url = base, transport = tcp_send (app_http env) default_http_timeout\<rparr>\<rparr>"

definition cli_ops :: "'x CliEnv \<Rightarrow> string \<Rightarrow> string \<Rightarrow> 'x ClientWorld DefaultAppCoreFacade AppCoreFacadeOps" where
  "cli_ops env base state_path =
     default_facade_ops (cli_services (cli_client env base) (tunnel_key_file_path state_path))"

definition save_and_print ::
  "'x CliEnv \<Rightarrow> Cli \<Rightarrow> string \<Rightarrow> AppCoreSnapshot \<Rightarrow> json \<times> string \<Rightarrow> 'x \<Rightarrow> (unit, fault) result \<times> 'x" where
  "save_and_print env cli state_path s out x =
     (case save_snapshot env state_path s x of
        (Err e, x1) \<Rightarrow> (Err (Fail e), x1)
      | (Ok _, x1) \<Rightarrow> print_output env (json_output cli) (fst out) (snd out) x1)"

definition run_clear :: "'x CliEnv \<Rightarrow> Cli \<Rightarrow> string \<Rightarrow> 'x \<Rightarrow> (unit, fault) result \<times> 'x" where
  "run_clear env cli state_path x =
     (case clear_state_file env state_path x of
        (Err e, x1) \<Rightarrow> (Err (Fail e), x1)
      | (Ok _, x1) \<Rightarrow>
          print_output env (json_output cli)
            (JObj [(''status'', JStr ''cleared''), (''stateFile'', JStr state_path)])
            (''cleared state file '' @ state_path) x1)"

definition run_control ::
  "'x CliEnv \<Rightarrow> Cli \<Rightarrow> string \<Rightarrow> AppCoreSnapshot \<Rightarrow> ControlCommand \<Rightarrow> 'x \<Rightarrow> (unit, fault) result \<times> 'x" where
  "run_control env cli state_path s c x =
     (case run_control_command (web_socket (app_env env) x) (hash_order env) c s of
        (Err e, _) \<Rightarrow> (Err e, x)
      | (Ok out, s1) \<Rightarrow> save_and_print env cli state_path s1 out x)"

definition run_backend ::
  "'x CliEnv \<Rightarrow> Cli \<Rightarrow> string \<Rightarrow> AppCoreSnapshot \<Rightarrow> 'x \<Rightarrow> ((unit, fault) result \<times> 'x) option" where
  "run_backend env cli state_path s x =
     (case or_else (control_base_url cli) (env_var (processes (app_env env)) ''SLAN_CONTROL_BASE_URL'') of
        None \<Rightarrow> Some (Err (Fail ''missing control base URL; pass --control-base-url or set SLAN_CONTROL_BASE_URL''), x)
      | Some base \<Rightarrow>
          (case build_facade (cli_client env base) x of
             Err e \<Rightarrow> Some (Err (Fail e), x)
           | Ok f \<Rightarrow>
               (case restore_snapshot s f of
                  (Err e, f1) \<Rightarrow> Some (Err (Fail e), outside (world f1))
                | (Ok _, f1) \<Rightarrow>
                    (case execute_command (processes (app_env env)) (hash_order env) (cli_ops env base state_path)
                         (command cli) s f1 of
                       None \<Rightarrow> None
                     | Some (Err e, f2) \<Rightarrow> Some (Err e, outside (world f2))
                     | Some (Ok out, f2) \<Rightarrow>
                         (case take_snapshot f2 of
                            Err e \<Rightarrow> Some (Err (Fail e), outside (world f2))
                          | Ok s1 \<Rightarrow> Some (save_and_print env cli state_path s1 out (outside (world f2))))))))"

definition run_cli :: "'x CliEnv \<Rightarrow> Cli \<Rightarrow> 'x \<Rightarrow> ((unit, fault) result \<times> 'x) option" where
  "run_cli env cli x =
     (let state_path = (case state_file cli of Some p \<Rightarrow> p | None \<Rightarrow> default_state_file env)
      in if command cli = State StateCommand.Clear then Some (run_clear env cli state_path x)
         else case load_snapshot env state_path x of
           Err e \<Rightarrow> Some (Err (Fail e), x)
         | Ok s \<Rightarrow>
             (case command cli of
                Control c \<Rightarrow> Some (run_control env cli state_path s c x)
              | c \<Rightarrow>
                  if \<not> requires_backend c then Some (run_local_state_command env (json_output cli) c state_path s x)
                  else run_backend env cli state_path s x))"

end
