(* ===== verification/Cli_Rules.thy ===== *)
theory Cli_Rules
  imports Cli_Run Facade_Calls "HOL-Library.Multiset"
begin

text \<open>
  What holds of the command-line tool: what one command saves the next one loads, the snapshot stays consistent from
  command to command, reports keep secrets and do not depend on the order of hash maps, and a tunnel that one command
  opened on Linux cannot be closed by a later one.
\<close>

section \<open>The state file\<close>

text \<open>
  C39: a snapshot that a command saved is the snapshot the next command starts from, as far as the file system returns
  what was written and \<open>serde_json\<close> reads what it printed.
\<close>

theorem state_file_round_trip:
  assumes "enumerates (hash_order env)" and "fits_AppCoreSnapshot s"
    and "\<And>t. pretty env (se_AppCoreSnapshot (hash_order env) s) = Ok t \<Longrightarrow>
           parse_document env (as_bytes t) = Ok (se_AppCoreSnapshot (hash_order env) s)"
    and "\<And>bytes y y'. write_file (files (app_env env)) p bytes y = (Ok (), y') \<Longrightarrow>
           read_file (files (app_env env)) p y' = Contents bytes"
    and "save_snapshot env p s x = (Ok (), x')"
  shows "load_snapshot env p x' = Ok s"
proof -
  obtain t y where t: "pretty env (se_AppCoreSnapshot (hash_order env) s) = Ok t"
      "write_file (files (app_env env)) p (as_bytes t) y = (Ok (), x')"
    using assms(5) by (auto simp: save_snapshot_def split: option.splits prod.splits result.splits)
  have "de_AppCoreSnapshot (se_AppCoreSnapshot (hash_order env) s) = Some s"
    using wire_type.read_back[OF AppCoreSnapshot_wire_type[OF assms(1)] assms(2)] .
  then show ?thesis
    using assms(3)[OF t(1)] assms(4)[OF t(2)] by (simp add: load_snapshot_def)
qed

lemma last_component_split:
  "last_component r = Some (c, b) \<Longrightarrow>
     \<exists>skip. r = skip @ c @ b \<and> slash \<notin> set c \<and> (skip = [] \<or> slash \<in> set skip)"
proof (induction r rule: last_component.induct)
  case (1 r)
  let ?c = "takeWhile (\<lambda>ch. ch \<noteq> slash) r" and ?b = "dropWhile (\<lambda>ch. ch \<noteq> slash) r"
  have slash_free: "slash \<notin> set ?c"
    by (auto dest: set_takeWhileD)
  show ?case
  proof (cases "?c \<in> {[], ''.''} \<and> ?b \<noteq> []")
    case True
    with 1(2) have "last_component (tl ?b) = Some (c, b)"
      by (subst (asm) last_component.simps) (simp add: Let_def)
    with 1(1)[OF refl refl True] obtain skip where skip: "tl ?b = skip @ c @ b" "slash \<notin> set c"
      by blast
    have "?b = slash # tl ?b"
      using True hd_dropWhile[of "\<lambda>ch. ch \<noteq> slash" r] by (cases ?b) auto
    then have "r = (?c @ [slash] @ skip) @ c @ b"
      using takeWhile_dropWhile_id[of "\<lambda>ch. ch \<noteq> slash" r] skip(1) by (metis append.assoc append_Cons append_Nil)
    then show ?thesis
      using skip(2) by (intro exI[of _ "?c @ [slash] @ skip"]) simp
  next
    case False
    with 1(2) have "c = ?c" "b = ?b"
      by (subst (asm) last_component.simps, auto simp: Let_def split: if_splits)+
    then show ?thesis
      using slash_free by (intro exI[of _ "[]"]) simp
  qed
qed

lemma file_stem_cases:
  obtains ext where "n = file_stem n @ CHR ''.'' # ext" "CHR ''.'' \<notin> set ext" | "file_stem n = n"
proof (cases "length (dropWhile (\<lambda>ch. ch \<noteq> CHR ''.'') (rev n)) \<le> 1")
  case False
  let ?b = "dropWhile (\<lambda>ch. ch \<noteq> CHR ''.'') (rev n)" and ?e = "takeWhile (\<lambda>ch. ch \<noteq> CHR ''.'') (rev n)"
  have "?b \<noteq> []"
    using False by (metis le0 list.size(3))
  then have "?b = CHR ''.'' # tl ?b"
    using hd_dropWhile[of "\<lambda>ch. ch \<noteq> CHR ''.''" "rev n"] by (cases ?b) auto
  then have "rev n = ?e @ CHR ''.'' # tl ?b"
    using takeWhile_dropWhile_id[of "\<lambda>ch. ch \<noteq> CHR ''.''" "rev n"] by metis
  then have "n = rev (tl ?b) @ CHR ''.'' # rev ?e"
    by (metis rev_rev_ident rev_append rev.simps(2) append.assoc append_Cons append_Nil)
  moreover have "CHR ''.'' \<notin> set (rev ?e)"
    by (auto dest: set_takeWhileD)
  ultimately show thesis
    using False that(1) by (simp add: file_stem_def Let_def)
qed (simp add: file_stem_def that(2))

text \<open>
  The key store of the tunnel is never the state file itself, whatever path the state file has, unless that path
  names no file at all.
\<close>

theorem key_file_is_not_state_file:
  assumes "last_component (rev p) = Some cb"
  shows "tunnel_key_file_path p \<noteq> p"
proof
  obtain c b where cb: "cb = (c, b)"
    by (cases cb)
  assume "tunnel_key_file_path p = p"
  then have p: "p = rev b @ file_stem (rev c) @ ''.wg-keys.json''"
    using assms by (simp add: tunnel_key_file_path_def with_extension_def cb)
  obtain skip where skip: "rev p = skip @ c @ b" "slash \<notin> set c" "skip = [] \<or> slash \<in> set skip"
    using last_component_split assms cb by blast
  then have "p = rev b @ rev c @ rev skip"
    by (metis rev_append rev_rev_ident append.assoc)
  with p have eq: "file_stem (rev c) @ ''.wg-keys.json'' = rev c @ rev skip"
    by simp
  show False
  proof (rule file_stem_cases[of "rev c"])
    fix ext
    assume stem: "rev c = file_stem (rev c) @ CHR ''.'' # ext" and "CHR ''.'' \<notin> set ext"
    have "file_stem (rev c) @ ''.wg-keys.json'' = (file_stem (rev c) @ CHR ''.'' # ext) @ rev skip"
      unfolding stem[symmetric] by (rule eq)
    then have "ext @ rev skip = ''wg-keys.json''"
      by simp
    then have "set skip \<subseteq> set ''wg-keys.json''"
      by (metis set_append set_rev Un_upper2)
    then have "slash \<notin> set skip"
      by (rule contra_subsetD) simp
    with skip(3) \<open>ext @ rev skip = _\<close> \<open>CHR ''.'' \<notin> set ext\<close> show False
      by simp
  next
    assume "file_stem (rev c) = rev c"
    with eq have "rev skip = ''.wg-keys.json''"
      by simp
    then have "set skip = set ''.wg-keys.json''"
      by (metis set_rev)
    then show False
      using skip(3) by auto
  qed
qed

section \<open>The snapshot from command to command\<close>

text \<open>What every call of the facade preserves, every command preserves, which is made of such calls.\<close>

definition preserves :: "('f \<Rightarrow> bool) \<Rightarrow> ('r, 'e, 'f) outcome \<Rightarrow> bool" where
  "preserves Q g \<longleftrightarrow> (\<forall>f r f'. g f = Some (r, f') \<longrightarrow> Q f \<longrightarrow> Q f')"

definition calls_preserve :: "'w Services \<Rightarrow> ('w DefaultAppCoreFacade \<Rightarrow> bool) \<Rightarrow> bool" where
  "calls_preserve svc Q \<longleftrightarrow> (\<forall>c f ok f'. facade_apply svc c f = Some (ok, f') \<longrightarrow> Q f \<longrightarrow> Q f')"

named_theorems preserving

lemma preserves_constant [preserving]: "preserves Q (\<lambda>f. Some (r, f))"
  by (simp add: preserves_def)

lemma preserves_given [preserving]: "(\<And>a. preserves Q (k a)) \<Longrightarrow> preserves Q (given r k)"
  by (auto simp: preserves_def given_def split: result.splits)

lemma preserves_answering [preserving]: "preserves Q g \<Longrightarrow> preserves Q (answering t g)"
  by (auto simp: preserves_def answering_def)

lemma preserves_message_only [preserving]: "preserves Q g \<Longrightarrow> preserves Q (message_only g)"
  by (auto simp: preserves_def message_only_def)

lemma preserves_and_then [preserving]:
  assumes "preserves Q g" and "\<And>a. preserves Q (k a)"
  shows "preserves Q (and_then g k)"
  unfolding preserves_def
proof (intro allI impI)
  fix f r f'
  assume "and_then g k f = Some (r, f')" and ok: "Q f"
  then obtain r1 f1 where g: "g f = Some (r1, f1)"
      and k: "f' = f1 \<or> (\<exists>a. k a f1 = Some (r, f'))"
    by (auto simp: and_then_def split: option.splits result.splits prod.splits)
  have "Q f1"
    using assms(1) g ok by (simp add: preserves_def)
  with k assms(2) show "Q f'"
    by (auto simp: preserves_def)
qed

lemma preserves_call:
  assumes "calls_preserve svc Q" and "\<And>f r f'. g f = Some (r, f') \<Longrightarrow> \<exists>ok. facade_apply svc c f = Some (ok, f')"
  shows "preserves Q g"
  using assms unfolding preserves_def calls_preserve_def by blast

lemma preserves_returns:
  assumes "calls_preserve svc Q" and "\<And>f. facade_apply svc c f = Some (apfst is_ok (g f))"
  shows "preserves Q (returns g)"
  by (rule preserves_call [OF assms(1), where c = c]) (auto simp: assms(2) elim: returns_cases)

lemma preserves_probe [preserving]: "calls_preserve svc Q \<Longrightarrow> preserves Q (probe_with_timeout svc b tm)"
  by (erule preserves_call [where c = "CallProbe b tm"]) simp

lemma preserves_send [preserving]: "calls_preserve svc Q \<Longrightarrow> preserves Q (facade_send svc b)"
  by (erule preserves_call [where c = "CallProbe b None"]) (auto simp: facade_send_def facade_probe_def)

lemmas preserves_facade_ops [preserving] =
  preserves_returns [OF _ facade_apply.simps(1)] preserves_returns [OF _ facade_apply.simps(2)]
  preserves_returns [OF _ facade_apply.simps(3)] preserves_returns [OF _ facade_apply.simps(4)]
  preserves_returns [OF _ facade_apply.simps(5)] preserves_returns [OF _ facade_apply.simps(6)]
  preserves_returns [OF _ facade_apply.simps(10)] preserves_returns [OF _ facade_apply.simps(11)]
  preserves_returns [OF _ facade_apply.simps(12)] preserves_returns [OF _ facade_apply.simps(15)]

lemma execute_command_preserves:
  "calls_preserve svc Q \<Longrightarrow> preserves Q (execute_command procs order (default_facade_ops svc) c s)"
  unfolding execute_command_def execute_send_def execute_probe_def default_ops_simps
  by (auto intro!: preserving split: Command.split AuthCommand.split DeviceCommand.split NodeCommand.split NetworkCommand.split)

lemma cli_calls_preserve_snapshot: "calls_preserve (cli_services env kf) snap_ok"
  unfolding calls_preserve_def using client.apply_step by blast

lemma execute_command_snap:
  "execute_command procs order (cli_ops env base p) c s f = Some (r, f') \<Longrightarrow> snap_ok f \<Longrightarrow> snap_ok f'"
  using execute_command_preserves [OF cli_calls_preserve_snapshot] unfolding preserves_def cli_ops_def by blast

lemma restored_facade:
  assumes "build_facade env x = Ok f"
  shows "restore_snapshot s f =
    (Ok (), f\<lparr>control_ws := Healthy None, current_tunnel_peer_virtual_ip := Healthy (AppCoreSnapshot.tunnel_peer_virtual_ip s),
       snap := Healthy s\<rparr>)"
  using assms
  by (auto simp: build_facade_def facade_new_def new_with_probe_reply_timeout_def restore_snapshot_def Let_def
      split: result.splits)

lemma run_control_wf: "snapshot_wf s \<Longrightarrow> snapshot_wf (snd (run_control_command ws order cc s))"
  by (auto simp: run_control_command_def split: ControlCommand.split result.split prod.split)

text \<open>
  A command that fails in the facade saves nothing, not even the error of the data plane that the facade remembered
  for \<open>error-last\<close>.
\<close>

lemma failed_command_saves_nothing:
  assumes "state_file cli = Some p" and "control_base_url cli = Some base" and "requires_backend (command cli)"
    and "command cli \<noteq> State StateCommand.Clear" and "load_snapshot env p x = Ok s"
    and "build_facade (cli_client env base) x = Ok f"
    and "execute_command (processes (app_env env)) (hash_order env) (cli_ops env base p) (command cli) s
           (snd (restore_snapshot s f)) = Some (Err e, f')"
  shows "run_cli env cli x = Some (Err e, outside (world f'))"
proof -
  have "\<not> requires_backend (Control c)" for c
    by (simp add: requires_backend_def)
  then show ?thesis
    using assms by (cases "command cli") (simp_all add: run_cli_def run_backend_def or_else_def restored_facade)
qed

section \<open>A tunnel of an earlier command\<close>

lemma disconnect_refused:
  assumes "AppCoreSnapshot.tunnel_peer_virtual_ip s = Some ip"
    and "detect_tunnel_driver (processes (app_env env)) = Ok sel" and "selected sel = LinuxKernel"
  obtains f f' where "build_facade (cli_client env base) x = Ok f"
    and "execute_command procs order (cli_ops env base p) Disconnect s (snd (restore_snapshot s f)) =
      Some (Err (Fail ''linux adapter interface runtime unavailable''), f')"
    and "outside (world f') = x"
proof -
  obtain f where f: "build_facade (cli_client env base) x = Ok f" "outside (world f) = x"
      "tunnels (world f) = LinuxManager \<lparr>backend = adapter_default (processes (app_env env))\<rparr>"
    using assms(2,3)
    by (auto simp: build_facade_def build_tunnel_manager_def build_platform_tunnel_manager_def cli_client_def
        facade_new_def new_with_probe_reply_timeout_def)
  let ?f1 = "snd (restore_snapshot s f)" and ?svc = "cli_services (cli_client env base) (tunnel_key_file_path p)"
  have "\<exists>f'. facade_disconnect ?svc ?f1 = (Err ''linux adapter interface runtime unavailable'', f') \<and> outside (world f') = x"
    using assms(1) f(2,3)
    by (simp add: restored_facade[OF f(1)] facade_disconnect_def on_world_def cli_services_def client_services_def
        via_tunnels_def platform_ops_def platform_close_def adapter_remove_peer_def interface_runtime_def
        adapter_default_def adapter_new_with_executor_def Let_def)
  then obtain f' where f': "facade_disconnect ?svc ?f1 = (Err ''linux adapter interface runtime unavailable'', f')"
      "outside (world f') = x"
    by blast
  then have "execute_command procs order (cli_ops env base p) Disconnect s ?f1 =
      Some (Err (Fail ''linux adapter interface runtime unavailable''), f')"
    by (simp add: execute_command_def cli_ops_def default_ops_simps answering_def returns_def)
  with f(1) f'(2) show thesis
    by (intro that)
qed

text \<open>
  C37: on Linux a command of its own cannot close the tunnel that an earlier command opened.  The snapshot remembers the
  tunnel, but the adapter of the new process knows no interface and refuses; the command fails, runs no program and
  leaves the state file as it is, so that every later disconnect fails in the same way.
\<close>

theorem disconnect_stuck_on_linux:
  assumes "command cli = Disconnect" and "state_file cli = Some p" and "control_base_url cli = Some base"
    and "load_snapshot env p x = Ok s" and "AppCoreSnapshot.tunnel_peer_virtual_ip s = Some ip"
    and "detect_tunnel_driver (processes (app_env env)) = Ok sel" and "selected sel = LinuxKernel"
  shows "run_cli env cli x = Some (Err (Fail ''linux adapter interface runtime unavailable''), x)"
proof (rule disconnect_refused [OF assms(5-7)])
  fix f f'
  assume "build_facade (cli_client env base) x = Ok f"
    and "execute_command (processes (app_env env)) (hash_order env) (cli_ops env base p) Disconnect s
      (snd (restore_snapshot s f)) = Some (Err (Fail ''linux adapter interface runtime unavailable''), f')"
    and "outside (world f') = x"
  then show ?thesis
    using failed_command_saves_nothing [OF assms(2,3) _ _ assms(4)] assms(1) by (simp add: requires_backend_def)
qed

section \<open>Reports\<close>

text \<open>What a report must not show: tokens, the private key, and what authenticates a relay ticket.\<close>

definition with_secrets :: "(string \<Rightarrow> string) \<Rightarrow> AppCoreSnapshot \<Rightarrow> AppCoreSnapshot" where
  "with_secrets h s =
     s\<lparr>session := map_option (\<lambda>a. a\<lparr>Session.access_token := h (Session.access_token a),
         Session.refresh_token := map_option h (Session.refresh_token a)\<rparr>) (session s),
       tunnel_key_material := map_option (\<lambda>m. m\<lparr>TunnelKeyMaterial.key_pair := (TunnelKeyMaterial.key_pair m)
         \<lparr>WireGuardKeyPair.private_key := h (WireGuardKeyPair.private_key (TunnelKeyMaterial.key_pair m))\<rparr>\<rparr>) (tunnel_key_material s),
       current_bootstrap := map_option (\<lambda>b. b\<lparr>control_plane := (control_plane b)
         \<lparr>ControlPlaneConfig.session_token := map_option h (ControlPlaneConfig.session_token (control_plane b))\<rparr>\<rparr>)
         (current_bootstrap s),
       current_connect_plans := fmmap (\<lambda>plan. plan\<lparr>ControlWsConnectPlan.relay_ticket := map_option (\<lambda>t.
           t\<lparr>RelayTicket.signature := h (RelayTicket.signature t),
             RelayTicket.session_key := map_option h (RelayTicket.session_key t)\<rparr>)
           (ControlWsConnectPlan.relay_ticket plan)\<rparr>) (current_connect_plans s)\<rparr>"

abbreviation ticket_with_secrets :: "(string \<Rightarrow> string) \<Rightarrow> ControlWsConnectPlan \<Rightarrow> ControlWsConnectPlan" where
  "ticket_with_secrets h plan \<equiv> plan\<lparr>ControlWsConnectPlan.relay_ticket := map_option (\<lambda>t.
     t\<lparr>RelayTicket.signature := h (RelayTicket.signature t), RelayTicket.session_key := map_option h (RelayTicket.session_key t)\<rparr>)
     (ControlWsConnectPlan.relay_ticket plan)\<rparr>"

lemma fmap_empty_dom: "m = fmempty \<longleftrightarrow> fmdom m = {||}"
  by (metis fmap_ext fmdom_notD fmempty_lookup fmdom_empty fempty_iff)

lemma with_secrets_frame:
  "map_option Session.user_id (session (with_secrets h s)) = map_option Session.user_id (session s)"
  "current_device (with_secrets h s) = current_device s"
  "current_node (with_secrets h s) = current_node s"
  "current_network_id (with_secrets h s) = current_network_id s"
  "connection_state (with_secrets h s) = connection_state s"
  "AppCoreSnapshot.active_path (with_secrets h s) = AppCoreSnapshot.active_path s"
  "tunnel_runtime (with_secrets h s) = tunnel_runtime s"
  "last_data_plane_error (with_secrets h s) = last_data_plane_error s"
  "last_probe (with_secrets h s) = last_probe s"
  "fmdom (current_connect_plans (with_secrets h s)) = fmdom (current_connect_plans s)"
  "current_connect_plans (with_secrets h s) = fmempty \<longleftrightarrow> current_connect_plans s = fmempty"
  by (simp_all add: with_secrets_def option.map_comp o_def fmap_empty_dom)

lemma plan_texts_secret:
  "preferred_path_text (ticket_with_secrets h plan) = preferred_path_text plan"
  "plan_relay_text (ticket_with_secrets h plan) = plan_relay_text plan"
  "connect_plan_json (k, ticket_with_secrets h plan) = connect_plan_json (k, plan)"
  by (simp_all add: preferred_path_text_def plan_relay_text_def connect_plan_json_def option.map_comp o_def
      split: option.split)

lemma plan_entries_secret:
  assumes "enumerates order" and "\<And>k plan. g (k, ticket_with_secrets h plan) = g (k, plan)"
  shows "map g (plan_entries order (with_secrets h s)) = map g (plan_entries order s)"
proof -
  have "set (order (fmdom (current_connect_plans s))) = fset (fmdom (current_connect_plans s))"
    using assms(1) by (simp add: enumerates_def)
  then show ?thesis
    using assms(2) by (auto simp: plan_entries_def with_secrets_def fmlookup_dom_iff)
qed

lemma format_state_secret:
  assumes "enumerates order"
  shows "format_state order (with_secrets h s) = format_state order s"
proof -
  have "map (\<lambda>(n, plan). ''connect-plan '' @ n @ '' direct '' @ preferred_path_text plan @ '' relay '' @ plan_relay_text plan)
      (plan_entries order (with_secrets h s)) =
    map (\<lambda>(n, plan). ''connect-plan '' @ n @ '' direct '' @ preferred_path_text plan @ '' relay '' @ plan_relay_text plan)
      (plan_entries order s)"
    by (rule plan_entries_secret[OF assms]) (simp add: plan_texts_secret)
  then show ?thesis
    by (simp only: format_state_def with_secrets_frame)
qed

lemma bootstrap_with_secrets:
  "current_bootstrap (with_secrets h s) = map_option (\<lambda>b. b\<lparr>control_plane := (control_plane b)
     \<lparr>ControlPlaneConfig.session_token := map_option h (ControlPlaneConfig.session_token (control_plane b))\<rparr>\<rparr>)
     (current_bootstrap s)"
  by (simp add: with_secrets_def)

lemma control_status_secret:
  assumes "enumerates order"
  shows "format_control_status order (with_secrets h s) = format_control_status order s \<and>
         control_status_snapshot_json order (with_secrets h s) = control_status_snapshot_json order s"
proof -
  have "map (\<lambda>(n, plan). n @ ''=>'' @ preferred_path_text plan) (plan_entries order (with_secrets h s)) =
      map (\<lambda>(n, plan). n @ ''=>'' @ preferred_path_text plan) (plan_entries order s)"
    by (rule plan_entries_secret[OF assms]) (simp add: plan_texts_secret)
  moreover have "map connect_plan_json (plan_entries order (with_secrets h s)) = map connect_plan_json (plan_entries order s)"
    by (rule plan_entries_secret[OF assms]) (rule plan_texts_secret)
  ultimately show ?thesis
    by (cases "current_bootstrap s")
      (simp_all add: format_control_status_def control_status_snapshot_json_def bootstrap_with_secrets with_secrets_frame presence_def Let_def)
qed

lemma bootstrap_status_secret: "format_bootstrap_status (with_secrets h s) = format_bootstrap_status s"
  by (cases "current_bootstrap s")
    (simp_all add: format_bootstrap_status_def bootstrap_with_secrets with_secrets_frame presence_def)

lemma tunnel_keys_secret:
  "tunnel_keys_snapshot_json (with_secrets h s) = tunnel_keys_snapshot_json s"
  "format_tunnel_keys (with_secrets h s) = format_tunnel_keys s"
  by (auto simp: tunnel_keys_snapshot_json_def format_tunnel_keys_def with_secrets_def split: option.split)

lemmas secret_reports =
  bootstrap_status_secret tunnel_keys_secret with_secrets_frame
  connection_status_snapshot_json_def format_connection_status_def connection_path_snapshot_json_def
  format_connection_path_def tunnel_status_snapshot_json_def format_tunnel_status_def probe_last_snapshot_json_def
  format_last_probe_def last_error_snapshot_json_def format_last_error_def

lemma local_report_secret:
  assumes "enumerates (hash_order env)" and "as_json \<longrightarrow> c \<noteq> State StateCommand.Show \<and> c \<noteq> BootstrapStatus"
  shows "run_local_state_command env as_json c p (with_secrets h s) x = run_local_state_command env as_json c p s x"
proof -
  have "print_output env as_json (f (with_secrets h s)) = print_output env as_json (f s)"
    if "c = State StateCommand.Show \<or> c = BootstrapStatus" for f
    using assms(2) that by (auto simp: print_output_def fun_eq_iff)
  then show ?thesis
    using format_state_secret[OF assms(1)] control_status_secret[OF assms(1)]
    by (cases c) (auto simp: run_local_state_command_def Let_def secret_reports split: StateCommand.split ConnectionCommand.split
        TunnelCommand.split PlatformCommand.split ControlCommand.split)
qed

lemma snapshot_report_secret:
  assumes "enumerates order" and "as_json \<longrightarrow> c \<noteq> Command.Status \<and> c \<noteq> BootstrapStatus"
  shows "map_ok (\<lambda>out. print_output env as_json (fst out) (snd out) x) (snapshot_command procs order c (with_secrets h s)) =
    map_ok (\<lambda>out. print_output env as_json (fst out) (snd out) x) (snapshot_command procs order c s)"
proof -
  have "print_output env as_json (f (with_secrets h s)) = print_output env as_json (f s)"
    if "c = Command.Status \<or> c = BootstrapStatus" for f
    using assms(2) that by (auto simp: print_output_def fun_eq_iff)
  then show ?thesis
    using format_state_secret[OF assms(1)] control_status_secret[OF assms(1)]
    by (cases c) (auto simp: snapshot_command_def secret_reports split: ConnectionCommand.split TunnelCommand.split ControlCommand.split)
qed

text \<open>
  C40: the reports on the saved state, those made without the facade and those \<open>execute_command\<close> makes from the snapshot,
  \<open>status\<close> among them, print nothing that depends on access, refresh and session tokens, the private key, or the key and the
  signature of a relay ticket.  The exceptions are \<open>state show\<close>, \<open>status\<close> and \<open>bootstrap-status\<close> when JSON is asked
  for: they print the saved documents as they are.
\<close>

theorem reports_hide_secrets:
  assumes "enumerates (hash_order env)"
    and "as_json \<longrightarrow> c \<notin> {State StateCommand.Show, Command.Status, BootstrapStatus}"
  shows "run_local_state_command env as_json c p (with_secrets h s) x = run_local_state_command env as_json c p s x \<and>
    map_ok (\<lambda>out. print_output env as_json (fst out) (snd out) x)
      (snapshot_command (processes (app_env env)) (hash_order env) c (with_secrets h s)) =
    map_ok (\<lambda>out. print_output env as_json (fst out) (snd out) x)
      (snapshot_command (processes (app_env env)) (hash_order env) c s)"
proof
  show "run_local_state_command env as_json c p (with_secrets h s) x = run_local_state_command env as_json c p s x"
    using assms by (intro local_report_secret) auto
  show "map_ok (\<lambda>out. print_output env as_json (fst out) (snd out) x)
      (snapshot_command (processes (app_env env)) (hash_order env) c (with_secrets h s)) =
    map_ok (\<lambda>out. print_output env as_json (fst out) (snd out) x)
      (snapshot_command (processes (app_env env)) (hash_order env) c s)"
    using assms by (intro snapshot_report_secret) auto
qed

text \<open>The exceptions are real: the document of a snapshot tells its secrets apart.\<close>

lemma saved_document_shows_secrets:
  assumes "enumerates order" and "fits_AppCoreSnapshot s" "fits_AppCoreSnapshot (with_secrets h s)" and "with_secrets h s \<noteq> s"
  shows "se_AppCoreSnapshot order (with_secrets h s) \<noteq> se_AppCoreSnapshot order s"
proof
  assume "se_AppCoreSnapshot order (with_secrets h s) = se_AppCoreSnapshot order s"
  then have "Some (with_secrets h s) = Some s"
    using wire_type.read_back [OF AppCoreSnapshot_wire_type [OF assms(1)] assms(2)]
      wire_type.read_back [OF AppCoreSnapshot_wire_type [OF assms(1)] assms(3)] by simp
  with assms(4) show False by simp
qed

lemma sort_plan_entries:
  assumes "enumerates order" and "enumerates order'"
  shows "sort (map g (plan_entries order s)) = sort (map g (plan_entries order' s))"
proof -
  let ?d = "fmdom (current_connect_plans s)"
  have "mset (order ?d) = mset (order' ?d)"
    using assms by (simp add: enumerates_def set_eq_iff_mset_eq_distinct[symmetric])
  then have "mset (map g (plan_entries order s)) = mset (map g (plan_entries order' s))"
    by (simp add: plan_entries_def mset_map)
  then show ?thesis
    by (intro properties_for_sort) simp_all
qed

text \<open>The texts of \<open>state show\<close> and \<open>control status\<close> do not depend on the order in which the plans are enumerated.\<close>

theorem reports_ignore_hash_order:
  assumes "enumerates order" and "enumerates order'"
  shows "format_state order s = format_state order' s \<and> format_control_status order s = format_control_status order' s"
  unfolding format_state_def format_control_status_def by (simp add: sort_plan_entries[OF assms] split: option.split)

section \<open>Examples\<close>

text \<open>A disk that holds one document, and a saved state with an open tunnel.\<close>

definition demo_saved :: AppCoreSnapshot where
  "demo_saved =
     snapshot_default
       \<lparr>connection_state := Some (ConnectionState.Connected ConnectionPath.P2P),
        AppCoreSnapshot.active_path := Some (ActivePath.P2P ''peer''),
        AppCoreSnapshot.tunnel_peer_virtual_ip := Some ''10.0.0.2'',
        tunnel_runtime := Some \<lparr>TunnelRuntimeView.state = TunnelState.Configured, transport = TunnelTransport.P2P,
          peer_virtual_ip = ''10.0.0.2'', peer_public_key = ''key'', selected_endpoint = Some ''peer:1'',
          interface_name = None\<rparr>\<rparr>"

definition demo_document :: json where
  "demo_document = se_AppCoreSnapshot sorted_list_of_fset demo_saved"

definition demo_disk :: "u64 FileEnv" where
  "demo_disk = demo_files
     \<lparr>read_file := (\<lambda>_ x. if x = 1 then Contents (as_bytes ''doc'') else NotFound),
      write_file := (\<lambda>_ bytes x. if bytes = as_bytes ''doc'' then (Ok (), 1) else (Err ''disk full'', x))\<rparr>"

definition demo_http :: "u64 HttpEnv" where
  "demo_http =
     \<lparr>resolve_all = (\<lambda>_ x. (Err ''offline'', x)), connect_timeout = (\<lambda>_ _ x. (Err ''offline'', x)),
      stream_read_timeout = (\<lambda>_ _ x. (Ok (), x)), stream_write_timeout = (\<lambda>_ _ x. (Ok (), x)),
      stream_write_all = (\<lambda>_ _ x. (Ok (), x)), stream_shutdown_write = (\<lambda>_ x. (Ok (), x)),
      stream_read_to_end = (\<lambda>_ x. (Ok [], x)), json_of_bytes = (\<lambda>_. Err ''expected value''),
      bytes_of_json = (\<lambda>_. Ok []), refusal = (\<lambda>_. [])\<rparr>"

definition demo_cli_env :: "string \<Rightarrow> u64 CliEnv" where
  "demo_cli_env driver =
     \<lparr>app_env = demo_client_env\<lparr>files := demo_disk, processes := demo_processes
        \<lparr>env_var := (\<lambda>k. if k = ''SLAN_TUNNEL_DRIVER'' then Some driver else None)\<rparr>\<rparr>,
      app_http = demo_http, var_os = (\<lambda>_. None), os_name = ''linux'', read_text = (\<lambda>_ _. Err ''not found''),
      path_exists = (\<lambda>_ _. False), remove_file = (\<lambda>_ x. (NothingToRemove, x)), print_line = (\<lambda>_ x. (Ok (), x)),
      hash_order = sorted_list_of_fset, parse_document = (\<lambda>_. Ok demo_document), document_refused = (\<lambda>_. []),
      pretty = (\<lambda>doc. if doc = demo_document then Ok ''doc'' else Ok ''other'')\<rparr>"

lemmas demo_cli_simps = demo_cli_env_def demo_disk_def demo_files_def demo_client_env_def

lemma demo_saved_fits: "fits_AppCoreSnapshot demo_saved"
  by (simp add: fits_AppCoreSnapshot_def demo_saved_def snapshot_default_def)

lemma demo_load: "load_snapshot (demo_cli_env driver) ''s.json'' 1 = Ok demo_saved"
  using AppCoreSnapshot_wire.read_back[OF demo_saved_fits]
  by (simp add: load_snapshot_def demo_cli_simps demo_document_def)

theorem state_file_round_trip_witness: "load_snapshot (demo_cli_env ''memory'') ''s.json'' 1 = Ok demo_saved"
proof (rule state_file_round_trip)
  show "enumerates (hash_order (demo_cli_env ''memory''))"
    by (simp add: demo_cli_env_def enumerates_sorted)
  show "fits_AppCoreSnapshot demo_saved"
    by (rule demo_saved_fits)
  show "save_snapshot (demo_cli_env ''memory'') ''s.json'' demo_saved 0 = (Ok (), 1)"
    by (simp add: save_snapshot_def demo_cli_simps demo_document_def)
qed (simp_all add: demo_cli_simps demo_document_def split: if_splits)

theorem disconnect_stuck_on_linux_witness:
  "run_cli (demo_cli_env ''linux-kernel'')
     \<lparr>control_base_url = Some ''http://c'', state_file = Some ''s.json'', json_output = False, command = Disconnect\<rparr> 1 =
   Some (Err (Fail ''linux adapter interface runtime unavailable''), 1)"
proof -
  obtain sel where "detect_tunnel_driver (processes (app_env (demo_cli_env ''linux-kernel''))) = Ok sel" "selected sel = LinuxKernel"
    by (simp add: detect_tunnel_driver_def detect_platform_tunnel_driver_def demo_cli_env_def demo_client_env_def
        demo_processes_def driver_parse_def trim_id visible_def Let_def)
  then show ?thesis
    by (intro disconnect_stuck_on_linux[where s = demo_saved and ip = "''10.0.0.2''" and sel = sel, OF _ _ _ demo_load])
      (simp_all add: demo_saved_def)
qed

theorem reports_hide_secrets_witness:
  "map_ok (\<lambda>out. print_output (demo_cli_env ''memory'') False (fst out) (snd out) 0)
     (snapshot_command (processes (app_env (demo_cli_env ''memory''))) (hash_order (demo_cli_env ''memory'')) Command.Status
       (with_secrets (\<lambda>_. ''x'') demo_saved)) =
   map_ok (\<lambda>out. print_output (demo_cli_env ''memory'') False (fst out) (snd out) 0)
     (snapshot_command (processes (app_env (demo_cli_env ''memory''))) (hash_order (demo_cli_env ''memory'')) Command.Status demo_saved)"
proof -
  have "enumerates (hash_order (demo_cli_env ''memory''))"
    by (simp add: demo_cli_env_def enumerates_sorted)
  from reports_hide_secrets [OF this, of False Command.Status] show ?thesis
    by blast
qed

end
