(* ===== verification/Outside_Kept.thy ===== *)
theory Outside_Kept
  imports Facade_Safety Controller_Http
begin

text \<open>
  What the client leaves alone outside: a property that processes, streams, sleeping and writes of files keep is kept
  by the tunnel manager of the platform, by the HTTP client of the controller, by the key store, and so by every call
  of the facade.
\<close>

named_theorems outside_kept

lemma keeps_outsideI: "(\<And>x. kept x \<Longrightarrow> kept (snd (g x))) \<Longrightarrow> keeps_outside kept g"
  by (simp add: keeps_outside_def)

lemma keeps_outsideD: "keeps_outside kept g \<Longrightarrow> kept x \<Longrightarrow> g x = (r, x') \<Longrightarrow> kept x'"
  unfolding keeps_outside_def by (metis snd_conv)

section \<open>Tunnels\<close>

definition processes_keep :: "('x \<Rightarrow> bool) \<Rightarrow> 'x ProcessEnv \<Rightarrow> bool" where
  "processes_keep kept env \<longleftrightarrow> (\<forall>prog argv input. keeps_outside kept (run_process env prog argv input))"

lemma run_process_keeps:
  "processes_keep kept env \<Longrightarrow> run_process env prog argv input x = (r, x') \<Longrightarrow> kept x \<Longrightarrow> kept x'"
  unfolding processes_keep_def by (blast dest: keeps_outsideD)

text \<open>An adapter goes on with the executor it has, and keeps what this executor keeps.\<close>

definition runs_on :: "'x executor \<Rightarrow> ('x \<Rightarrow> bool) \<Rightarrow> 'x linux_state \<Rightarrow> bool" where
  "runs_on ex kept s \<longleftrightarrow> kept (fst s) \<and> executor (snd s) = ex \<and> (\<forall>c. keeps_outside kept (ex c))"

lemma executor_run_keeps:
  "\<forall>c. keeps_outside kept (ex c) \<Longrightarrow> ex c x = (r, x') \<Longrightarrow> kept x \<Longrightarrow> kept x'"
  by (blast dest: keeps_outsideD)

lemma run_commands_keeps:
  "\<forall>c. keeps_outside kept (ex c) \<Longrightarrow> run_commands ex cs x = (r, x') \<Longrightarrow> kept x \<Longrightarrow> kept x'"
  by (induction cs arbitrary: x) (auto split: prod.splits result.splits dest: executor_run_keeps)

lemma run_all_keeps: "run_all cs s = (r, s') \<Longrightarrow> runs_on ex kept s \<Longrightarrow> runs_on ex kept s'"
  by (auto simp: run_all_def runs_on_def Let_def split: prod.splits option.splits dest: run_commands_keeps)

lemma runs_on_frame: "executor a' = executor a \<Longrightarrow> runs_on ex kept (x, a) \<Longrightarrow> runs_on ex kept (x, a')"
  by (simp add: runs_on_def)

lemma apply_interface_keeps: "apply_interface i rt s = (r, s') \<Longrightarrow> runs_on ex kept s \<Longrightarrow> runs_on ex kept s'"
  by (auto simp: apply_interface_def split: prod.splits result.splits option.splits
      dest!: run_all_keeps elim: runs_on_frame [rotated])

lemma apply_peer_keeps: "apply_peer ip p s = (r, s') \<Longrightarrow> runs_on ex kept s \<Longrightarrow> runs_on ex kept s'"
  by (auto simp: apply_peer_def split: prod.splits result.splits option.splits
      dest!: run_all_keeps elim: runs_on_frame [rotated])

lemma bring_up_keeps: "adapter_bring_up s = (r, s') \<Longrightarrow> runs_on ex kept s \<Longrightarrow> runs_on ex kept s'"
  by (auto simp: adapter_bring_up_def runs_on_def Let_def split: prod.splits result.splits option.splits
      dest: executor_run_keeps)

lemma linux_establish_keeps:
  assumes "linux_establish cfg s = (r, s')" and "runs_on ex kept s"
  shows "runs_on ex kept s'"
  using assms
  by (auto simp: linux_establish_def linux_apply_interface_config_def linux_apply_peer_config_def Let_def
      split: prod.splits result.splits dest: apply_interface_keeps apply_peer_keeps bring_up_keeps)

lemma linux_close_keeps:
  assumes "adapter_remove_peer ip s = (r, s')" and "runs_on ex kept s"
  shows "runs_on ex kept s'"
  using assms
  by (auto simp: adapter_remove_peer_def split: prod.splits option.splits
      dest!: run_all_keeps intro: runs_on_frame)

lemma windows_programs_keep:
  assumes "processes_keep kept env"
  shows "command_stdout env prog argv x = (r1, x') \<Longrightarrow> kept x \<Longrightarrow> kept x'"
    and "run_netsh_elevated env nargs x = (r2, x') \<Longrightarrow> kept x \<Longrightarrow> kept x'"
    and "run_powershell_script_elevated env script x = (r3, x') \<Longrightarrow> kept x \<Longrightarrow> kept x'"
  by (auto simp: command_stdout_def run_netsh_elevated_def run_powershell_script_elevated_def Let_def
      split: prod.splits option.splits if_splits dest: run_process_keeps [OF assms])

lemma windows_scripts_keep:
  assumes "processes_keep kept env"
  shows "run_netsh env nargs x = (r1, x') \<Longrightarrow> kept x \<Longrightarrow> kept x'"
    and "run_powershell_script env script elevated x = (r2, x') \<Longrightarrow> kept x \<Longrightarrow> kept x'"
  by (auto simp: run_netsh_def run_powershell_script_def Let_def split: prod.splits option.splits if_splits
      dest!: run_process_keeps [OF assms] windows_programs_keep [OF assms])

lemma windows_system_keep:
  assumes "processes_keep kept env"
  shows "apply_system_interface env rt x = (r1, x') \<Longrightarrow> kept x \<Longrightarrow> kept x'"
    and "resolve_dedicated env x = (r2, x') \<Longrightarrow> kept x \<Longrightarrow> kept x'"
  by (auto simp: apply_system_interface_def resolve_dedicated_def Let_def
      split: prod.splits option.splits result.splits if_splits
      dest!: windows_scripts_keep [OF assms] windows_programs_keep [OF assms])

lemma windows_target_keep:
  assumes "processes_keep kept env"
  shows "resolve_interface_target env req x = (r, x') \<Longrightarrow> kept x \<Longrightarrow> kept x'"
  by (auto simp: resolve_interface_target_def split: prod.splits option.splits if_splits
      dest: windows_system_keep [OF assms])

lemma windows_steps_keep:
  assumes "processes_keep kept env"
  shows "windows_apply_interface_config env i s = (r1, s') \<Longrightarrow> kept (fst s) \<Longrightarrow> kept (fst s')"
    and "windows_apply_peer_config ip p s = (r2, s') \<Longrightarrow> kept (fst s) \<Longrightarrow> kept (fst s')"
    and "windows_bring_up env s = (r3, s') \<Longrightarrow> kept (fst s) \<Longrightarrow> kept (fst s')"
    and "windows_remove_peer ip s = (r4, s') \<Longrightarrow> kept (fst s) \<Longrightarrow> kept (fst s')"
  by (auto simp: windows_apply_interface_config_def windows_apply_peer_config_def windows_bring_up_def windows_remove_peer_def
      Let_def split: prod.splits option.splits result.splits list.splits if_splits
      dest: windows_target_keep [OF assms] windows_system_keep [OF assms])

lemma windows_establish_keeps:
  assumes "processes_keep kept env" and "windows_establish env cfg s = (r, s')" and "kept (fst s)"
  shows "kept (fst s')"
  using assms(2,3)
  by (auto simp: windows_establish_def split: prod.splits result.splits dest: windows_steps_keep [OF assms(1)])

text \<open>A manager that keeps the property: on Linux this is up to its executor.\<close>

definition manager_keeps :: "('x \<Rightarrow> bool) \<Rightarrow> 'x platform_manager \<Rightarrow> bool" where
  "manager_keeps kept m \<longleftrightarrow>
     (case m of LinuxManager mgr \<Rightarrow> \<forall>c. keeps_outside kept (executor (backend mgr) c) | _ \<Rightarrow> True)"

lemma platform_linux_op:
  assumes "apply_op (platform_ops env) opn (x, LinuxManager mgr) = (r, x', m')" and "runs_on ex kept (x, backend mgr)"
  shows "\<exists>a. m' = LinuxManager \<lparr>backend = a\<rparr> \<and> runs_on ex kept (x', a)"
  using assms
  by (cases opn) (auto simp: platform_ops_def platform_establish_def platform_close_def Let_def split: prod.splits
      dest: linux_establish_keeps linux_close_keeps)

lemma platform_op_keeps:
  assumes "processes_keep kept env" and "apply_op (platform_ops env) opn (x, m) = (r, x', m')"
    and "kept x" and "manager_keeps kept m"
  shows "kept x'"
proof (cases m)
  case (LinuxManager mgr)
  with assms platform_linux_op [where ex = "executor (backend mgr)" and kept = kept] show ?thesis
    by (fastforce simp: runs_on_def manager_keeps_def)
next
  case (WindowsManager mgr)
  with assms(2,3) show ?thesis
    by (cases opn) (auto simp: platform_ops_def platform_establish_def platform_close_def Let_def
        split: prod.splits dest: windows_establish_keeps [OF assms(1)] windows_steps_keep [OF assms(1)])
next
  case (MemoryManager mgr)
  with assms(2,3) show ?thesis
    by (cases opn) (auto simp: platform_ops_def platform_establish_def platform_close_def Let_def split: prod.splits)
qed

lemma platform_op_manager:
  assumes "apply_op (platform_ops env) opn (x, m) = (r, x', m')" and "manager_keeps kept m"
  shows "manager_keeps kept m'"
proof (cases m)
  case (LinuxManager mgr)
  with assms platform_linux_op [where ex = "executor (backend mgr)" and kept = "\<lambda>_. True"] show ?thesis
    by (fastforce simp: runs_on_def manager_keeps_def keeps_outside_def)
qed (use assms in \<open>cases opn; auto simp: platform_ops_def platform_establish_def platform_close_def manager_keeps_def Let_def
    split: prod.splits\<close>)+

lemma adapter_default_keeps:
  assumes "processes_keep kept env"
  shows "keeps_outside kept (executor (adapter_default env) c)"
proof -
  have "keeps_outside kept (system_run env c)" "keeps_outside kept (native_run c)" "keeps_outside kept (noop_run c)"
    by (auto intro!: keeps_outsideI simp: system_run_def native_run_def noop_run_def Let_def
        split: prod.splits ProcessOutcome.splits dest: run_process_keeps [OF assms])
  then show ?thesis
    by (simp add: adapter_default_def adapter_new_with_executor_def Let_def)
qed

lemma built_manager_keeps:
  assumes "processes_keep kept env" and "build_platform_tunnel_manager env sel = Ok m"
  shows "manager_keeps kept m"
  using assms(2) adapter_default_keeps [OF assms(1)]
  by (auto simp: build_platform_tunnel_manager_def manager_keeps_def split: TunnelDriverKind.splits)

section \<open>The controller over HTTP\<close>

definition streams_keep :: "('x \<Rightarrow> bool) \<Rightarrow> 'x HttpEnv \<Rightarrow> bool" where
  "streams_keep kept env \<longleftrightarrow>
     (\<forall>h. keeps_outside kept (resolve_all env h)) \<and> (\<forall>a t. keeps_outside kept (connect_timeout env a t)) \<and>
     (\<forall>s t. keeps_outside kept (stream_read_timeout env s t)) \<and> (\<forall>s t. keeps_outside kept (stream_write_timeout env s t)) \<and>
     (\<forall>s b. keeps_outside kept (stream_write_all env s b)) \<and> (\<forall>s. keeps_outside kept (stream_shutdown_write env s)) \<and>
     (\<forall>s. keeps_outside kept (stream_read_to_end env s))"

lemma then_call_keeps [outside_kept]:
  "keeps_outside kept c \<Longrightarrow> (\<And>a. keeps_outside kept (k a)) \<Longrightarrow> keeps_outside kept (then_call c k)"
  unfolding keeps_outside_def by (auto split: prod.splits result.splits)

lemma return_call_keeps [outside_kept]: "keeps_outside kept (return_call r)"
  by (simp add: keeps_outside_def return_call_def)

lemma keeps_after [outside_kept]:
  "keeps_outside kept h \<Longrightarrow> keeps_outside kept g \<Longrightarrow> keeps_outside kept (\<lambda>x. g (snd (h x)))"
  by (simp add: keeps_outside_def)

lemma stream_ops_keep:
  assumes "streams_keep kept env"
  shows "keeps_outside kept (resolve_all env h)" "keeps_outside kept (connect_timeout env a t)"
    "keeps_outside kept (stream_read_timeout env s t)" "keeps_outside kept (stream_write_timeout env s t)"
    "keeps_outside kept (stream_write_all env s b)" "keeps_outside kept (stream_shutdown_write env s)"
    "keeps_outside kept (stream_read_to_end env s)"
  using assms by (simp_all add: streams_keep_def)

lemma exchange_keeps:
  assumes "streams_keep kept env"
  shows "keeps_outside kept (exchange env s wire body)"
proof -
  have "keeps_outside kept (if body = [] then return_call (Ok ()) else stream_write_all env s body)"
    by (simp add: outside_kept stream_ops_keep [OF assms])
  then show ?thesis
    unfolding exchange_def by (intro outside_kept stream_ops_keep [OF assms])
qed

lemma tcp_send_keeps: "streams_keep kept env \<Longrightarrow> keeps_outside kept (tcp_send env timeout req)"
  unfolding tcp_send_def Let_def by (intro outside_kept stream_ops_keep exchange_keeps)

definition transport_keeps :: "('x \<Rightarrow> bool) \<Rightarrow> 'x json_transport \<Rightarrow> bool" where
  "transport_keeps kept send \<longleftrightarrow> (\<forall>req. keeps_outside kept (send req))"

lemma json_requests_keep:
  assumes "transport_keeps kept (HttpControllerClient.transport c)"
  shows "keeps_outside kept (post_op c de conv p token body)"
    and "keeps_outside kept (get_json env (HttpControllerClient.transport c) de' base p token)"
  using assms unfolding transport_keeps_def post_op_def post_json_def get_json_def by (intro outside_kept; blast)+

lemma http_controller_keeps:
  assumes "transport_keeps kept (HttpControllerClient.transport c)"
  shows "controller_keeps kept (http_controller_client c)"
  by (simp add: controller_keeps_def http_controller_client_def json_requests_keep [OF assms] http_register_def http_login_def
      http_register_device_def http_register_node_def http_list_networks_def http_create_network_def http_join_network_def
      http_activate_network_def http_deactivate_network_def http_bootstrap_def http_issue_relay_ticket_def)

section \<open>The key store\<close>

lemma save_store_keeps:
  assumes "\<And>d. keeps_outside kept (create_dir_all env d)" and "\<And>bytes. keeps_outside kept (write_file env p bytes)"
  shows "save_store env p entries x = (r, x') \<Longrightarrow> kept x \<Longrightarrow> kept x'"
  by (auto simp: save_store_def apfst_eq split: result.splits option.splits prod.splits
      dest: keeps_outsideD [OF assms(1)] keeps_outsideD [OF assms(2)])

lemma file_generate_keeps:
  assumes "\<And>d. keeps_outside kept (create_dir_all env d)" and "\<And>bytes. keeps_outside kept (write_file env p bytes)"
  shows "keeps_outside kept (file_generate env p dev n peer_id created)"
  by (rule keeps_outsideI) (auto simp: file_generate_def in_memory_generate_def Let_def
      split: result.splits option.splits prod.splits dest: save_store_keeps [OF assms])

section \<open>The client\<close>

definition platform_legal :: "('x \<Rightarrow> bool) \<Rightarrow> 'x \<times> 'x platform_manager \<Rightarrow> bool" where
  "platform_legal kept s \<longleftrightarrow> platform_inv s \<and> manager_keeps kept (snd s)"

text \<open>
  What the outside of the client has to keep for the client to keep it.  The last two conditions are about the
  directory and the file of the key store.
\<close>

definition outside_keeps :: "('x \<Rightarrow> bool) \<Rightarrow> 'x ClientEnv \<Rightarrow> string \<Rightarrow> bool" where
  "outside_keeps kept env key_file \<longleftrightarrow>
     processes_keep kept (processes env) \<and> controller_keeps kept (http_controller env) \<and>
     (\<forall>x. kept x \<longrightarrow> kept (pass_by env x)) \<and> (\<forall>d x. kept x \<longrightarrow> kept (sleeping env d x)) \<and>
     (\<forall>d. keeps_outside kept (create_dir_all (files env) d)) \<and>
     (\<forall>bytes. keeps_outside kept (write_file (files env) key_file bytes))"

lemma platform_legal_hosted: "hosted_tunnels (platform_ops procs) platform_table (platform_legal kept)"
proof (intro hosted_tunnels.intro hosted_tunnels_axioms.intro)
  show "tunnel_backend (platform_ops procs) platform_table (platform_legal kept)"
  proof
    fix s s' :: "'a \<times> 'a platform_manager" and opn r
    assume s: "platform_legal kept s" "apply_op (platform_ops procs) opn s = (r, s')"
    then show "spec_step opn r (platform_table s) (platform_table s')"
      using platform.op_spec [of s procs opn r s'] by (simp add: platform_legal_def)
    have "manager_keeps kept (snd s')"
      using s platform_op_manager [of procs opn "fst s" "snd s" r "fst s'" "snd s'" kept] by (simp add: platform_legal_def)
    then show "platform_legal kept s'"
      using s platform.op_inv [of s procs opn r s'] by (simp add: platform_legal_def)
  qed
next
  fix x y :: 'a and m :: "'a platform_manager"
  show "platform_table (x, m) = platform_table (y, m)"
    by (rule platform_table_outside)
  show "platform_legal kept (x, m) = platform_legal kept (y, m)"
    using platform_inv_outside [of x m y] by (simp add: platform_legal_def)
qed

lemma client_keeps_services:
  assumes "outside_keeps kept env kf"
  shows "facade_services (cli_services env kf) (hosted platform_table) (hosted_good (platform_legal kept) kept)"
  unfolding cli_services_def
proof (rule hosted_tunnels.services_keep [OF platform_legal_hosted])
  show "kept x'" if "platform_legal kept (x, t)" "kept x" "apply_op (platform_ops (processes env)) opn (x, t) = (r, x', t')"
    for x t opn r x' t'
    using that platform_op_keeps assms by (auto simp: outside_keeps_def platform_legal_def)
qed (use assms in \<open>simp_all add: outside_keeps_def file_generate_keeps\<close>)

lemma built_facade_good:
  assumes "outside_keeps kept env kf" and "build_facade env x = Ok f" and "kept x"
  shows "hosted_good (platform_legal kept) kept (world f)"
proof -
  obtain sel m where m: "build_platform_tunnel_manager (processes env) sel = Ok m"
      and f: "outside (world f) = x" "tunnels (world f) = m"
    using assms(2) by (auto simp: build_facade_def build_tunnel_manager_def facade_new_def new_with_probe_reply_timeout_def
        split: result.splits)
  have "processes_keep kept (processes env)"
    using assms(1) by (simp add: outside_keeps_def)
  with m f assms(3) show ?thesis
    using built_manager_keeps built_manager_new [OF m, of x]
    by (auto simp: hosted_good_def hosted_def platform_legal_def)
qed

text \<open>Whatever a client calls on its facade, the outside keeps the property.\<close>

lemma client_call_keeps:
  assumes "outside_keeps kept env kf" and "facade_apply (cli_services env kf) c f = Some (ok, f')"
    and "hosted_good (platform_legal kept) kept (world f)"
  shows "hosted_good (platform_legal kept) kept (world f')"
  using facade_services.apply_step [OF client_keeps_services [OF assms(1)] assms(2)] assms(3) by blast

end
