(* ===== verification/Cli_Session.thy ===== *)
theory Cli_Session
  imports Cli_Rules Outside_Kept
begin

text \<open>
  A session with the command-line tool: commands one after the other, each in a process of its own, that share the
  state file and nothing else.
\<close>

fun run_session :: "'x CliEnv \<Rightarrow> Cli list \<Rightarrow> 'x \<Rightarrow> 'x option" where
  "run_session env [] x = Some x"
| "run_session env (cli # clis) x =
     (case run_cli env cli x of
        None \<Rightarrow> None
      | Some (_, x') \<Rightarrow> run_session env clis x')"

section \<open>The state file among other files\<close>

abbreviation content :: "'x CliEnv \<Rightarrow> string \<Rightarrow> 'x \<Rightarrow> file_read" where
  "content env p x \<equiv> read_file (files (app_env env)) p x"

definition leaves_file :: "'x CliEnv \<Rightarrow> string \<Rightarrow> ('x \<Rightarrow> 'r \<times> 'x) \<Rightarrow> bool" where
  "leaves_file env p g \<longleftrightarrow> (\<forall>x. content env p (snd (g x)) = content env p x)"

text \<open>Programs, connections, the clock, the output and other files have nothing to do with the state file.\<close>

definition state_file_apart :: "'x CliEnv \<Rightarrow> string \<Rightarrow> bool" where
  "state_file_apart env p \<longleftrightarrow>
     (\<forall>prog argv input. leaves_file env p (run_process (processes (app_env env)) prog argv input)) \<and>
     (\<forall>h. leaves_file env p (resolve_all (app_http env) h)) \<and>
     (\<forall>a t. leaves_file env p (connect_timeout (app_http env) a t)) \<and>
     (\<forall>s t. leaves_file env p (stream_read_timeout (app_http env) s t)) \<and>
     (\<forall>s t. leaves_file env p (stream_write_timeout (app_http env) s t)) \<and>
     (\<forall>s b. leaves_file env p (stream_write_all (app_http env) s b)) \<and>
     (\<forall>s. leaves_file env p (stream_shutdown_write (app_http env) s)) \<and>
     (\<forall>s. leaves_file env p (stream_read_to_end (app_http env) s)) \<and>
     (\<forall>x. content env p (pass_by (app_env env) x) = content env p x) \<and>
     (\<forall>d x. content env p (sleeping (app_env env) d x) = content env p x) \<and>
     (\<forall>d. leaves_file env p (create_dir_all (files (app_env env)) d)) \<and>
     (\<forall>q bytes. q \<noteq> p \<longrightarrow> leaves_file env p (write_file (files (app_env env)) q bytes)) \<and>
     (\<forall>t. leaves_file env p (print_line env t))"

text \<open>
  A write that fails may leave the old contents, the new ones, or something that is not JSON; removing the file
  removes it or leaves it.  What is printed as JSON is read as nothing else.
\<close>

definition state_file_laws :: "'x CliEnv \<Rightarrow> string \<Rightarrow> bool" where
  "state_file_laws env p \<longleftrightarrow>
     (\<forall>bytes x r x'. write_file (files (app_env env)) p bytes x = (r, x') \<longrightarrow>
        content env p x' = Contents bytes \<or>
        \<not> is_ok r \<and> (content env p x' = content env p x \<or>
          (\<exists>torn e. content env p x' = Contents torn \<and> parse_document env torn = Err e))) \<and>
     (\<forall>x r x'. remove_file env p x = (r, x') \<longrightarrow> content env p x' = NotFound \<or> content env p x' = content env p x) \<and>
     (\<forall>doc t doc'. pretty env doc = Ok t \<longrightarrow> parse_document env (as_bytes t) = Ok doc' \<longrightarrow> doc' = doc)"

definition consistent_content :: "'x CliEnv \<Rightarrow> file_read \<Rightarrow> bool" where
  "consistent_content env c \<longleftrightarrow>
     (case c of
        Contents bytes \<Rightarrow> (\<forall>doc s. parse_document env bytes = Ok doc \<longrightarrow> de_AppCoreSnapshot doc = Some s \<longrightarrow> snapshot_wf s)
      | _ \<Rightarrow> True)"

abbreviation consistent_file :: "'x CliEnv \<Rightarrow> string \<Rightarrow> 'x \<Rightarrow> bool" where
  "consistent_file env p x \<equiv> consistent_content env (content env p x)"

lemma default_snapshot_wf: "snapshot_wf snapshot_default"
  by (simp add: snapshot_wf_def snapshot_default_def)

lemma consistent_load:
  "load_snapshot env p x = Ok s \<Longrightarrow> consistent_file env p x \<Longrightarrow> snapshot_wf s"
  by (auto simp: load_snapshot_def consistent_content_def default_snapshot_wf split: file_read.splits result.splits
      elim: ok_or.elims)

lemma snapshot_wf_read_back:
  assumes "de_AppCoreSnapshot (se_AppCoreSnapshot order s) = Some s'" and "snapshot_wf s"
  shows "snapshot_wf s'"
proof -
  have "connection_state s' = connection_state s \<and> AppCoreSnapshot.active_path s' = AppCoreSnapshot.active_path s \<and>
      AppCoreSnapshot.tunnel_peer_virtual_ip s' = AppCoreSnapshot.tunnel_peer_virtual_ip s \<and> tunnel_runtime s' = tunnel_runtime s"
    using assms(1) by (auto simp: de_AppCoreSnapshot_def se_AppCoreSnapshot_def wire_simps split: Option.bind_splits)
  with assms(2) show ?thesis
    by (simp add: snapshot_wf_def)
qed

section \<open>One command\<close>

lemma leaves_file_keeps: "leaves_file env p g \<Longrightarrow> keeps_outside (consistent_file env p) g"
  by (simp add: leaves_file_def keeps_outside_def)

lemma apart_keeps:
  assumes "state_file_apart env p" and "last_component (rev p) = Some cb"
  shows "outside_keeps (consistent_file env p) (cli_client env base) (tunnel_key_file_path p)"
proof -
  have "streams_keep (consistent_file env p) (app_http env)"
    using assms(1) by (simp add: streams_keep_def state_file_apart_def leaves_file_keeps)
  then have "controller_keeps (consistent_file env p) (http_controller (cli_client env base))"
    unfolding cli_client_def by (simp add: http_controller_keeps transport_keeps_def tcp_send_keeps)
  then show ?thesis
    using assms(1) key_file_is_not_state_file [OF assms(2)]
    by (simp add: outside_keeps_def processes_keep_def state_file_apart_def leaves_file_keeps cli_client_def)
qed

lemma save_consistent:
  assumes "state_file_apart env p" and "state_file_laws env p" and "snapshot_wf s"
  shows "keeps_outside (consistent_file env p) (save_snapshot env p s)"
proof -
  have dir: "keeps_outside (consistent_file env p) (create_dir_all (files (app_env env)) d)" for d
    using assms(1) by (simp add: state_file_apart_def leaves_file_keeps)
  have "keeps_outside (consistent_file env p) (\<lambda>x. write_file (files (app_env env)) p (as_bytes t) x)"
    if t: "pretty env (se_AppCoreSnapshot (hash_order env) s) = Ok t" for t
  proof (rule keeps_outsideI)
    fix x
    assume x: "consistent_file env p x"
    obtain r x' where w: "write_file (files (app_env env)) p (as_bytes t) x = (r, x')"
      by (rule prod.exhaust)
    have "doc = se_AppCoreSnapshot (hash_order env) s" if "parse_document env (as_bytes t) = Ok doc" for doc
      using assms(2) t that unfolding state_file_laws_def by blast
    then have new: "consistent_content env (Contents (as_bytes t))"
      using snapshot_wf_read_back [OF _ assms(3)] by (auto simp: consistent_content_def)
    consider "content env p x' = Contents (as_bytes t)" | "content env p x' = content env p x"
      | torn e where "content env p x' = Contents torn" "parse_document env torn = Err e"
      using assms(2) w unfolding state_file_laws_def by blast
    then show "consistent_file env p (snd (write_file (files (app_env env)) p (as_bytes t) x))"
      using x new by cases (simp_all add: w consistent_content_def)
  qed
  moreover have "keeps_outside (consistent_file env p) (\<lambda>x. (r, x))" for r :: "(unit, string) result"
    by (simp add: keeps_outside_def)
  ultimately show ?thesis
    unfolding save_snapshot_def
    by (cases "pretty env (se_AppCoreSnapshot (hash_order env) s)") (auto intro!: then_call_keeps dir split: option.split)
qed

lemma print_keeps:
  assumes "state_file_apart env p"
  shows "print_output env as_json v t x = (r, x') \<Longrightarrow> consistent_file env p x \<Longrightarrow> consistent_file env p x'"
proof -
  have "content env p (snd (print_line env out x)) = content env p x" for out
    using assms by (simp add: state_file_apart_def leaves_file_def)
  then show "print_output env as_json v t x = (r, x') \<Longrightarrow> consistent_file env p x \<Longrightarrow> consistent_file env p x'"
    by (auto simp: print_output_def println_def apfst_eq split: result.splits if_splits) (metis snd_conv)+
qed

lemma save_and_print_keeps:
  assumes "state_file_apart env p" and "state_file_laws env p" and "snapshot_wf s"
    and "save_and_print env cli p s out x = (r, x')" and "consistent_file env p x"
  shows "consistent_file env p x'"
proof -
  obtain r1 x1 where 1: "save_snapshot env p s x = (r1, x1)"
    by (rule prod.exhaust)
  then have "consistent_file env p x1"
    by (rule keeps_outsideD [OF save_consistent [OF assms(1-3)] assms(5)])
  with 1 assms(4) show ?thesis
    by (auto simp: save_and_print_def split: result.splits dest: print_keeps [OF assms(1)])
qed

lemma local_command_keeps:
  assumes "state_file_apart env p" and "run_local_state_command env as_json c q s x = (r, x')" and "consistent_file env p x"
  shows "consistent_file env p x'"
  using assms(2,3)
  by (cases c) (auto simp: run_local_state_command_def reporting_def Let_def
      split: StateCommand.splits ConnectionCommand.splits TunnelCommand.splits PlatformCommand.splits
        ControlCommand.splits result.splits dest: print_keeps [OF assms(1)])

lemma clear_keeps:
  assumes "state_file_apart env p" and "state_file_laws env p"
    and "run_clear env cli p x = (r, x')" and x: "consistent_file env p x"
  shows "consistent_file env p x'"
proof -
  obtain q y where y: "remove_file env p x = (q, y)"
    by (rule prod.exhaust)
  then have "content env p y = NotFound \<or> content env p y = content env p x"
    using assms(2) unfolding state_file_laws_def by blast
  with x have "consistent_file env p y"
    by (auto simp: consistent_content_def)
  with assms(3) y show ?thesis
    by (auto simp: run_clear_def clear_state_file_def split: file_removal.splits dest: print_keeps [OF assms(1)])
qed

lemma control_keeps:
  assumes "state_file_apart env p" and "state_file_laws env p" and "snapshot_wf s"
    and "run_control env cli p s c x = (r, x')" and "consistent_file env p x"
  shows "consistent_file env p x'"
proof -
  obtain r1 s1 where 1: "run_control_command (web_socket (app_env env) x) (hash_order env) c s = (r1, s1)"
    by (rule prod.exhaust)
  then have "snapshot_wf s1"
    using run_control_wf [OF assms(3), of "web_socket (app_env env) x" "hash_order env" c] by simp
  with 1 assms show ?thesis
    by (auto simp: run_control_def split: result.splits dest: save_and_print_keeps)
qed

lemma cli_calls_preserve_outside:
  assumes "outside_keeps kept env kf"
  shows "calls_preserve (cli_services env kf) (\<lambda>f. hosted_good (platform_legal kept) kept (world f))"
  using client_call_keeps [OF assms] unfolding calls_preserve_def by blast

lemma backend_keeps:
  assumes "state_file_apart env p" and "state_file_laws env p" and "last_component (rev p) = Some cb"
    and "snapshot_wf s" and "run_backend env cli p s x = Some (r, x')" and "consistent_file env p x"
  shows "consistent_file env p x'"
proof (cases "or_else (control_base_url cli) (env_var (processes (app_env env)) ''SLAN_CONTROL_BASE_URL'')")
  case (Some base)
  show ?thesis
  proof (cases "build_facade (cli_client env base) x")
    case (Ok f)
    let ?kept = "consistent_file env p" and ?f1 = "snd (restore_snapshot s f)"
    note kept = apart_keeps [OF assms(1,3), of base]
    obtain r1 f2 where 2: "execute_command (processes (app_env env)) (hash_order env) (cli_ops env base p) (command cli) s ?f1
        = Some (r1, f2)"
      using assms(5) Some Ok by (auto simp: run_backend_def restored_facade [OF Ok] split: option.splits)
    have "hosted_good (platform_legal ?kept) ?kept (world ?f1)"
      using built_facade_good [OF kept Ok assms(6)] by (simp add: restored_facade [OF Ok])
    then have out: "?kept (outside (world f2))"
      using execute_command_preserves [OF cli_calls_preserve_outside [OF kept]] 2
      unfolding preserves_def cli_ops_def hosted_good_def by blast
    have "snap_ok ?f1"
      using assms(4) by (simp add: restored_facade [OF Ok] snap_ok_def)
    then have "snap_ok f2"
      by (rule execute_command_snap [OF 2])
    then obtain s2 where s2: "take_snapshot f2 = Ok s2" "snapshot_wf s2"
      by (auto simp: snap_ok_def take_snapshot_def)
    show ?thesis
    proof (cases r1)
      case (Err e)
      with assms(5) Some Ok 2 out show ?thesis
        by (simp add: run_backend_def restored_facade [OF Ok])
    next
      case o: (Ok reply)
      with assms(5) Some Ok 2 s2(1) have "save_and_print env cli p s2 reply (outside (world f2)) = (r, x')"
        by (simp add: run_backend_def restored_facade [OF Ok])
      then show ?thesis
        by (rule save_and_print_keeps [OF assms(1,2) s2(2) _ out])
    qed
  qed (use assms(5,6) Some in \<open>simp add: run_backend_def\<close>)
qed (use assms(5,6) in \<open>simp add: run_backend_def\<close>)

lemma run_cli_keeps:
  assumes "state_file_apart env p" and "state_file_laws env p" and "last_component (rev p) = Some cb"
    and "state_file cli = Some p" and "run_cli env cli x = Some (r, x')" and "consistent_file env p x"
  shows "consistent_file env p x'"
proof (cases "command cli = State StateCommand.Clear")
  case True
  with assms show ?thesis
    by (auto simp: run_cli_def intro: clear_keeps)
next
  case False
  show ?thesis
  proof (cases "load_snapshot env p x")
    case (Err e)
    with False assms(4-6) show ?thesis
      by (simp add: run_cli_def)
  next
    case (Ok s)
    then have wf: "snapshot_wf s"
      using assms(6) by (rule consistent_load)
    consider c where "run_control env cli p s c x = (r, x')"
      | "run_local_state_command env (json_output cli) (command cli) p s x = (r, x')"
      | "run_backend env cli p s x = Some (r, x')"
      using False Ok assms(4,5) by (cases "command cli") (auto simp: run_cli_def split: if_splits)
    then show ?thesis
    proof cases
      case 1
      then show ?thesis
        by (rule control_keeps [OF assms(1,2) wf _ assms(6)])
    next
      case 2
      then show ?thesis
        by (rule local_command_keeps [OF assms(1) _ assms(6)])
    next
      case 3
      then show ?thesis
        by (rule backend_keeps [OF assms(1-3) wf _ assms(6)])
    qed
  qed
qed

section \<open>Sessions\<close>

text \<open>
  C38: whatever commands are run one after the other on a state file, whichever of them fail, and whatever controllers,
  peers and programs answer, the file holds no inconsistent snapshot: one that a command loads shows a tunnel with the
  address it shows, and a connection of the kind of the path it shows.
\<close>

theorem session_state_consistent:
  assumes "state_file_apart env p" and "state_file_laws env p" and "last_component (rev p) \<noteq> None"
    and "\<forall>cli \<in> set clis. state_file cli = Some p"
    and "run_session env clis x = Some x'" and "\<forall>s0. load_snapshot env p x = Ok s0 \<longrightarrow> snapshot_wf s0"
    and "load_snapshot env p x' = Ok s"
  shows "snapshot_wf s"
proof -
  obtain cb where cb: "last_component (rev p) = Some cb"
    using assms(3) by blast
  have "consistent_file env p x'"
    if "run_session env clis x = Some x'" "consistent_file env p x" "\<forall>cli \<in> set clis. state_file cli = Some p" for x
    using that
  proof (induction clis arbitrary: x)
    case (Cons cli clis)
    then obtain r y where "run_cli env cli x = Some (r, y)" "run_session env clis y = Some x'"
      by (auto split: option.splits)
    with Cons show ?case
      using run_cli_keeps [OF assms(1,2) cb] by fastforce
  qed simp
  moreover have "consistent_file env p x"
    using assms(6) by (auto simp: load_snapshot_def consistent_content_def split: file_read.splits)
  ultimately have "consistent_file env p x'"
    using assms(4,5) by blast
  with assms(7) show ?thesis
    by (rule consistent_load)
qed

section \<open>An example\<close>

definition demo_session_env :: "u64 CliEnv" where
  "demo_session_env = (demo_cli_env ''linux-kernel'')
     \<lparr>app_env := (app_env (demo_cli_env ''linux-kernel''))\<lparr>sleeping := (\<lambda>_ x. x),
        files := demo_files
          \<lparr>read_file := (\<lambda>q x. if q = ''s.json'' \<and> x = 1 then Contents (as_bytes ''doc'') else NotFound),
           write_file := (\<lambda>q bytes x.
             if q = ''s.json'' \<and> bytes = as_bytes ''doc'' then (Ok (), 1) else (Err ''disk full'', x))\<rparr>\<rparr>,
      remove_file := (\<lambda>q x. if q = ''s.json'' then (Removed, 0) else (NothingToRemove, x)),
      pretty := (\<lambda>doc. if doc = demo_document then Ok ''doc'' else Err ''unprintable'')\<rparr>"

definition demo_command :: "Command \<Rightarrow> Cli" where
  "demo_command c = \<lparr>control_base_url = Some ''http://c'', state_file = Some ''s.json'', json_output = False, command = c\<rparr>"

lemmas demo_session_simps = demo_session_env_def demo_cli_env_def demo_client_env_def demo_files_def demo_http_def demo_processes_def

lemma demo_session_apart: "state_file_apart demo_session_env ''s.json''"
  by (simp add: state_file_apart_def leaves_file_def demo_session_simps)

lemma demo_session_laws: "state_file_laws demo_session_env ''s.json''"
  by (simp add: state_file_laws_def demo_session_simps split: if_splits)

lemma demo_session_load: "load_snapshot demo_session_env ''s.json'' 1 = Ok demo_saved"
  using AppCoreSnapshot_wire.read_back [OF demo_saved_fits]
  by (simp add: load_snapshot_def demo_session_simps demo_document_def)

lemma demo_disconnect:
  "run_cli demo_session_env (demo_command Disconnect) 1 = Some (Err (Fail ''linux adapter interface runtime unavailable''), 1)"
proof -
  let ?cli = "demo_command Disconnect"
  obtain sel where sel: "detect_tunnel_driver (processes (app_env demo_session_env)) = Ok sel" "selected sel = LinuxKernel"
    by (simp add: detect_tunnel_driver_def detect_platform_tunnel_driver_def demo_session_simps
        driver_parse_def trim_id visible_def Let_def)
  have "AppCoreSnapshot.tunnel_peer_virtual_ip demo_saved = Some ''10.0.0.2''"
    by (simp add: demo_saved_def)
  from disconnect_refused [OF this sel] obtain f f' where f: "build_facade (cli_client demo_session_env ''http://c'') 1 = Ok f"
    "execute_command (processes (app_env demo_session_env)) (hash_order demo_session_env)
       (cli_ops demo_session_env ''http://c'' ''s.json'') Disconnect demo_saved (snd (restore_snapshot demo_saved f)) =
     Some (Err (Fail ''linux adapter interface runtime unavailable''), f')"
    "outside (world f') = 1"
    by blast
  then show ?thesis
    using failed_command_saves_nothing [of ?cli, OF _ _ _ _ demo_session_load f(1)]
    by (simp add: demo_command_def requires_backend_def)
qed

lemma demo_session_run:
  "run_session demo_session_env [demo_command (Connection ConnectionCommand.Status), demo_command Disconnect] 1 = Some 1"
proof -
  have "run_cli demo_session_env (demo_command (Connection ConnectionCommand.Status)) 1 = Some (Ok (), 1)"
    using demo_session_load
    by (simp add: run_cli_def demo_command_def requires_backend_def run_local_state_command_def print_output_def println_def
        demo_session_env_def demo_cli_env_def)
  then show ?thesis
    by (simp add: demo_disconnect)
qed

theorem session_state_consistent_witness: "snapshot_wf demo_saved"
proof (rule session_state_consistent [OF demo_session_apart demo_session_laws _ _ demo_session_run _ demo_session_load])
  show "last_component (rev ''s.json'') \<noteq> None"
    by (simp add: last_component.simps)
  show "\<forall>cli \<in> set [demo_command (Connection ConnectionCommand.Status), demo_command Disconnect]. state_file cli = Some ''s.json''"
    by (simp add: demo_command_def)
  show "\<forall>s0. load_snapshot demo_session_env ''s.json'' 1 = Ok s0 \<longrightarrow> snapshot_wf s0"
    by (simp add: demo_session_load snapshot_wf_def demo_saved_def snapshot_default_def connection_state_from_active_path_def)
qed

end
