(* ===== verification/Spec2Isabelle.thy ===== *)
theory Spec2Isabelle
  imports Protocol_Match Tunnel_Keys Control_Ws_Order Facade_Safety Facade_Rules Helper_Rules Cli_Session
begin

text \<open>
  The slan virtual network: the relay server and the core of the client, both in Rust.

  \<^bold>\<open>The program.\<close>  A device joins networks that a controller manages.  The client
  (\<open>src/client/app_core/crates\<close>) registers with the controller over HTTP, learns the peers of a network from a
  bootstrap document and from a control channel over a web socket, connects to a peer directly, over a
  DERP cluster or over a relay, and keeps a WireGuard tunnel to it.  The relay
  (\<open>src/server/server-relay/crates\<close>) forwards datagrams between two participants that hold a signed
  ticket for the same session.

  \<^bold>\<open>Theories and sources, server.\<close>

  \<^item> \<open>Relay_Core\<close>: crate \<open>relay-core\<close>, errors, \<open>RelaySession\<close>, \<open>RelayTicket::signing_payload\<close>, timestamps
    (\<open>parse_timestamp\<close>, \<open>parse_rfc3339\<close>, \<open>days_from_civil\<close>).
  \<^item> \<open>Relay_Session\<close>: crate \<open>session\<close>; the trait \<open>SessionStore\<close> is the locale \<open>session_store\<close>, interpreted on
    the in-memory store.
  \<^item> \<open>Relay_Auth\<close>: crate \<open>auth\<close>, \<open>validate_ticket\<close>.  \<open>Udp_Relay\<close>: crate \<open>udp-relay\<close>, locale \<open>udp_relay\<close>.
  \<^item> \<open>Relay_Protocol\<close>, \<open>Relay_Daemon\<close>, \<open>Daemon_Safety\<close>: crate \<open>relay-daemon\<close>, wire types, the handlers
    \<open>handle_attach\<close>, \<open>handle_forward\<close>, \<open>handle_detach\<close> over a \<open>RelayRuntime\<close>, the loop \<open>serve\<close>, configuration;
    and what the daemon guarantees in every reachable state.

  \<^bold>\<open>Theories and sources, client.\<close>

  \<^item> \<open>App_Core\<close>: crate \<open>app-core\<close>, the domain types.
  \<^item> \<open>Sockets\<close>, \<open>Derp_Client\<close>, \<open>Derp_Pool\<close>, \<open>Derp_Pool_Inv\<close>, \<open>Relay_Client\<close>, \<open>Path_Manager\<close>: crate
    \<open>relay-client\<close>; the client trait of the pool is the locale \<open>derp_client\<close>.  \<open>P2p\<close>: crate \<open>p2p\<close>.
  \<^item> \<open>Protocol_Match\<close>: the messages of the relay client against those of the relay daemon, and the way of a packet from
    client to client through the daemon.
  \<^item> \<open>Tunnel\<close>, \<open>Tunnel_Linux\<close>, \<open>Tunnel_Linux_Safety\<close>, \<open>Tunnel_Windows\<close>, \<open>Tunnel_Platform\<close>, \<open>Tunnel_Keys\<close>:
    crate \<open>tunnel\<close>; the trait \<open>TunnelBackend\<close> is the locale \<open>tunnel_backend\<close> over an abstract table of peers,
    interpreted on every backend and on the manager of the platform; that a backend keeps its keys is the
    locale \<open>key_blind\<close>, interpreted on the in-memory, the Linux, the Windows backend and the manager.
  \<^item> \<open>Ws_Frame\<close>, \<open>Control_Messages\<close>, \<open>Control_Ws\<close>, \<open>Control_Ws_Order\<close>: crate \<open>control-ws-client\<close>, frames,
    messages, the client, and the order of its events.
  \<^item> \<open>Facade_State\<close>, \<open>Facade\<close>, \<open>Facade_Control\<close>, \<open>Facade_Safety\<close>, \<open>Facade_Rules\<close>: crate \<open>ffi-bridge\<close>, the
    snapshot, \<open>DefaultAppCoreFacade\<close> over a record of services, \<open>control_sync\<close> and probes, and their
    properties; what the facade relies on is the locale \<open>facade_services\<close>.
  \<^item> \<open>Client_App\<close>: \<open>build_facade\<close> of crate \<open>app-core-cli\<close>, which puts the parts above together; it is the
    interpretation of \<open>facade_services\<close>.

  \<^item> \<open>Controller_Dto\<close>, \<open>Http_Transport\<close>, \<open>Controller_Http\<close>, \<open>Controller_Rules\<close>: crate \<open>controller-client\<close>, the wire
    types with their conversions, HTTP/1.1 over a TCP stream, \<open>HttpControllerClient\<close>, and their properties.
  \<^item> \<open>App_Serde\<close>, \<open>Json_Facade\<close>: the serde derives of \<open>AppCoreSnapshot\<close> and all it holds (locale \<open>wire_type\<close>,
    interpreted once per type) and \<open>JsonAppCoreFacade\<close>, which calls the facade by method name with JSON.
  \<^item> \<open>Facade_Calls\<close>: what programs on top of the facade do with its operations.
  \<^item> \<open>Helper_Host\<close>, \<open>Helper_Rpc\<close>, \<open>Helper_Rules\<close>: crate \<open>app-core-helper\<close>, the tunnel host (locale
    \<open>helper_backend\<close>), the line-based RPC server over the JSON facade, and their properties (locale
    \<open>helper_client\<close>, interpreted on both backends).
  \<^item> \<open>Cli_Reports\<close>, \<open>Cli_Platform\<close>, \<open>Cli_Run\<close>, \<open>Cli_Rules\<close>: crate \<open>app-core-cli\<close>, the printed reports, the platform
    report and the doctor, the commands with the state file and \<open>run\<close>, and their properties.
  \<^item> \<open>Outside_Kept\<close>, \<open>Cli_Session\<close>: what every part of the client keeps of the world outside it (processes, streams,
    files), lifted through the facade by \<open>hosted_tunnels\<close>; and commands run one after the other on one state file.

  \<open>Slan_Prelude\<close>, \<open>Serde_Tree\<close> and \<open>Rust_Text\<close> hold what the components share of Rust: results, locks that
  can be poisoned, words of the width of the source, strings as bytes, text functions, JSON trees.

  \<^bold>\<open>How code becomes definitions.\<close>  A struct is a record, an enum a datatype, a \<open>HashMap\<close> a finite map, a
  mutex a value that is healthy or poisoned.  An operation takes the state and gives its result with
  the new state; \<open>?\<close> is a \<open>case\<close> on the result, so that every early return keeps exactly the changes made
  before it.  A panic that can happen is a value.  Loops are recursive functions with a termination
  proof; the polling loop of a probe, which waits for the clock, is a partial function, and
  \<open>Facade_Rules\<close> proves that it returns when the clock moves on.  No fuel is used.

  \<^bold>\<open>Parameters.\<close>  Sockets, processes, files, environment variables and clocks are fields of environment
  records; so are \<open>hmac\<close>, \<open>sha2\<close>, \<open>base64\<close> and the text of JSON.  A hypothesis about them is an assumption
  of the theorem that needs it, and its witness instantiates it.

  \<^bold>\<open>What is shown.\<close>  The daemon binds an address only for a valid ticket, delivers to the other
  participant of the session and to nobody else, refuses without side effects, keeps sessions
  apart, and answers every datagram until one does not decode.  Tickets are accepted exactly
  under the documented conditions, and no signed field of one without separators can be changed; timestamps
  are those of the Gregorian calendar.  A packet relayed between two attached clients arrives byte for byte.  The DERP
  pool has a consistent active node after any calls, chooses a best link and switches only to it.
  Every tunnel backend refines a table of peers; keys reach programs on their standard input only.  Frames are read
  back however they are segmented, and events keep their order.  The client has at most one tunnel
  while its calls succeed, its snapshot is consistent in every reachable state, control events
  refine updates of a map of peers, relaying needs the consent of the peer, probes end, keys are
  stable.  Requests to the controller of plain text are well framed and its answers read back; the session and the
  DERP map taken from them are checked.  The snapshot survives its JSON form.  The helper answers request after
  request, passes errors on unchanged, keeps a consistent snapshot, and ends at a malformed line.  What
  a command of the tool saves the next one loads; whatever commands are run, and whichever of them fail,
  the state file holds no inconsistent snapshot, provided that nothing else writes it; the reports show no
  secrets, except three when asked for JSON; but on Linux a command cannot close a tunnel that an earlier command opened.

  \<^bold>\<open>Not modelled.\<close>  Parsing command lines of \<open>app-core-cli\<close>, which the library \<open>clap\<close> does; the model starts
  from the parsed command.  \<open>nat\<close> declares traits without an implementation.  Types of the source that only
  lock and delegate to a modelled one have no definition of their own.  Paths are those of Unix.  The
  controller \<open>server-biz\<close> (Go), \<open>server-ui\<close>, the Flutter application and its
  plugins are other programs in other languages.
\<close>

end
